(* ===== verification/Prelude.thy ===== *)
theory Prelude
  imports Main "HOL-Library.Word"
begin

text \<open>
  The vocabulary every other theory of the library shares.

  \<^item> Rust's machine integers are words of their width (\<open>u8\<close> .. \<open>u64\<close>), \<open>usize\<close> lengths and
    byte indices are natural numbers.
  \<^item> A Rust \<open>str\<close> is the list of its UTF-8 bytes, which is what \<open>len\<close>, \<open>as_bytes\<close>, slicing and
    \<open>Ord\<close> see; Isabelle's 8-bit \<open>char\<close> is that byte. The code points behind the bytes
    are in theory \<open>Utf8\<close>.
  \<^item> \<open>Result<T, E>\<close> is the sum \<open>'e + 'a\<close> with the error on the left. \<open>bind_res\<close> is the
    \<open>?\<close> operator, \<open>map_res\<close> and \<open>map_err\<close> are the methods of the same names.

  The named collections \<open>res_simps\<close> (results), \<open>str_simps\<close> (splitting of
  strings) and \<open>num_simps\<close> (decimal numbers) are extended by the theories that follow.
\<close>

named_theorems res_simps
named_theorems str_simps
named_theorems num_simps

type_synonym u8 = "8 word"
type_synonym u16 = "16 word"
type_synonym u32 = "32 word"
type_synonym u64 = "64 word"

text \<open>\<open>std::time::Duration\<close> in nanoseconds; its bound (\<open>u64\<close> seconds) is stated where the code
  relies on it.\<close>

type_synonym duration = nat

definition from_secs :: "u64 \<Rightarrow> duration" where
  "from_secs s = unat s * 1000000000"

definition as_secs :: "duration \<Rightarrow> nat" where
  "as_secs d = d div 1000000000"

lemma as_secs_from_secs [simp]: "as_secs (from_secs s) = unat s"
  by (simp add: as_secs_def from_secs_def)

abbreviation byte_val :: "char \<Rightarrow> nat" where
  "byte_val b \<equiv> of_char b"

abbreviation byte_u8 :: "char \<Rightarrow> u8" where
  "byte_u8 b \<equiv> of_char b"

section \<open>Results\<close>

fun bind_res :: "'e + 'a \<Rightarrow> ('a \<Rightarrow> 'e + 'b) \<Rightarrow> 'e + 'b" where
  "bind_res (Inl e) f = Inl e"
| "bind_res (Inr x) f = f x"

fun map_res :: "('a \<Rightarrow> 'b) \<Rightarrow> 'e + 'a \<Rightarrow> 'e + 'b" where
  "map_res f (Inl e) = Inl e"
| "map_res f (Inr x) = Inr (f x)"

fun map_err :: "('e \<Rightarrow> 'd) \<Rightarrow> 'e + 'a \<Rightarrow> 'd + 'a" where
  "map_err f (Inl e) = Inl (f e)"
| "map_err f (Inr x) = Inr x"

fun ok_or :: "'e \<Rightarrow> 'a option \<Rightarrow> 'e + 'a" where
  "ok_or e None = Inl e"
| "ok_or e (Some x) = Inr x"

fun ok_opt :: "'e + 'a \<Rightarrow> 'a option" where
  "ok_opt (Inl e) = None"
| "ok_opt (Inr x) = Some x"

fun is_ok :: "'e + 'a \<Rightarrow> bool" where
  "is_ok (Inl e) = False"
| "is_ok (Inr x) = True"

lemma bind_res_eq_Inr [res_simps]: "bind_res m f = Inr y \<longleftrightarrow> (\<exists>x. m = Inr x \<and> f x = Inr y)"
  by (cases m) auto

lemma bind_res_eq_Inl [res_simps]:
  "bind_res m f = Inl e \<longleftrightarrow> m = Inl e \<or> (\<exists>x. m = Inr x \<and> f x = Inl e)"
  by (cases m) auto

lemma map_res_eq_Inr [res_simps]: "map_res f m = Inr y \<longleftrightarrow> (\<exists>x. m = Inr x \<and> y = f x)"
  by (cases m) auto

lemma map_res_eq_Inl [res_simps]: "map_res f m = Inl e \<longleftrightarrow> m = Inl e"
  by (cases m) auto

lemma map_err_eq_Inr [res_simps]: "map_err f m = Inr y \<longleftrightarrow> m = Inr y"
  by (cases m) auto

lemma map_err_eq_Inl [res_simps]: "map_err f m = Inl e \<longleftrightarrow> (\<exists>d. m = Inl d \<and> e = f d)"
  by (cases m) auto

lemma ok_or_eq_Inr [res_simps]: "ok_or e m = Inr y \<longleftrightarrow> m = Some y"
  by (cases m) auto

lemma ok_or_eq_Inl [res_simps]: "ok_or e m = Inl d \<longleftrightarrow> m = None \<and> d = e"
  by (cases m) auto

lemma ok_opt_eq_Some [res_simps]: "ok_opt m = Some y \<longleftrightarrow> m = Inr y"
  by (cases m) auto

lemma ok_opt_eq_None [res_simps]: "ok_opt m = None \<longleftrightarrow> (\<exists>e. m = Inl e)"
  by (cases m) auto

lemma is_ok_iff [res_simps]: "is_ok m \<longleftrightarrow> (\<exists>x. m = Inr x)"
  by (cases m) auto

lemma is_ok_map [simp]: "is_ok (map_res f m) = is_ok m" "is_ok (map_err g m) = is_ok m"
  by (cases m; simp)+

text \<open>Where a function of the source can also panic (slicing a \<open>str\<close>, \<open>expect\<close>), the error
  side says which of the two happened.\<close>

datatype 'e failure = Panic | Err 'e

section \<open>ASCII classes\<close>

definition is_ascii_digit :: "char \<Rightarrow> bool" where
  "is_ascii_digit b \<longleftrightarrow> 48 \<le> byte_val b \<and> byte_val b \<le> 57"

definition is_ascii_uppercase :: "char \<Rightarrow> bool" where
  "is_ascii_uppercase b \<longleftrightarrow> 65 \<le> byte_val b \<and> byte_val b \<le> 90"

definition is_ascii_hexdigit :: "char \<Rightarrow> bool" where
  "is_ascii_hexdigit b \<longleftrightarrow>
     is_ascii_digit b \<or> (65 \<le> byte_val b \<and> byte_val b \<le> 70) \<or> (97 \<le> byte_val b \<and> byte_val b \<le> 102)"

definition is_ascii :: "char \<Rightarrow> bool" where
  "is_ascii b \<longleftrightarrow> byte_val b < 128"

lemma byte_val_less: "byte_val b < 256"
  using nat_of_char_less_256 [of b] by simp

lemma unat_byte_u8: "unat (byte_u8 b) = byte_val b"
  by (simp add: of_nat_of_char [symmetric, where 'a = u8] unsigned_of_nat take_bit_nat_eq_self
      nat_of_char_less_256 del: of_nat_of_char)

lemma byte_nibbles: "byte_val b div 16 < 16" "byte_val b mod 16 < 16"
  using less_mult_imp_div_less [of "byte_val b" 16 16] byte_val_less [of b] by simp_all

lemma byte_of_nibbles: "char_of (16 * (byte_val b div 16) + byte_val b mod 16) = b"
  by simp

lemma nat16_cases: "n < 16 \<Longrightarrow> n \<in> {0, 1, 2, 3, 4, 5, 6, 7, 8, 9, 10, 11, 12, 13, 14, 15}" for n :: nat
  unfolding insert_iff empty_iff by arith

lemma is_ascii_digit_ascii [simp]: "is_ascii_digit b \<Longrightarrow> is_ascii b"
  by (simp add: is_ascii_digit_def is_ascii_def)

lemma is_ascii_uppercase_ascii [simp]: "is_ascii_uppercase b \<Longrightarrow> is_ascii b"
  by (simp add: is_ascii_uppercase_def is_ascii_def)

lemma is_ascii_hexdigit_ascii [simp]: "is_ascii_hexdigit b \<Longrightarrow> is_ascii b"
  by (auto simp: is_ascii_hexdigit_def is_ascii_digit_def is_ascii_def)

section \<open>Lower-case hexadecimal digits\<close>

definition lower_hex :: "nat \<Rightarrow> char" where
  "lower_hex n = (if n < 10 then char_of (48 + n) else char_of (87 + n))"

definition lower_hex_val :: "char \<Rightarrow> nat" where
  "lower_hex_val b = (if is_ascii_digit b then byte_val b - 48 else byte_val b - 87)"

definition is_lower_hex :: "char \<Rightarrow> bool" where
  "is_lower_hex b \<longleftrightarrow> is_ascii_digit b \<or> (97 \<le> byte_val b \<and> byte_val b \<le> 102)"

lemma lower_hex_facts:
  assumes "n < 16"
  shows "is_lower_hex (lower_hex n)" and "lower_hex_val (lower_hex n) = n"
  using nat16_cases [OF assms]
  by (auto simp: lower_hex_def lower_hex_val_def is_lower_hex_def is_ascii_digit_def)

section \<open>Splitting strings\<close>

text \<open>\<open>str::starts_with\<close>, \<open>str::contains\<close>, \<open>str::split_once\<close> (first match) and
  \<open>str::split\<close> on an ASCII character, which yields one empty segment for an empty string.\<close>

definition starts_with :: "string \<Rightarrow> string \<Rightarrow> bool" where
  "starts_with p s \<longleftrightarrow> take (length p) s = p"

fun str_contains :: "string \<Rightarrow> string \<Rightarrow> bool" where
  "str_contains p [] \<longleftrightarrow> p = []"
| "str_contains p (b # s) \<longleftrightarrow> starts_with p (b # s) \<or> str_contains p s"

fun split_once :: "string \<Rightarrow> string \<Rightarrow> (string \<times> string) option" where
  "split_once p [] = (if p = [] then Some ([], []) else None)"
| "split_once p (b # s) =
     (if starts_with p (b # s) then Some ([], drop (length p) (b # s))
      else map_option (\<lambda>(l, r). (b # l, r)) (split_once p s))"

fun split_on :: "char \<Rightarrow> string \<Rightarrow> string list" where
  "split_on c [] = [[]]"
| "split_on c (b # s) =
     (if b = c then [] # split_on c s
      else case split_on c s of [] \<Rightarrow> [[b]] | g # gs \<Rightarrow> (b # g) # gs)"

fun join_on :: "char \<Rightarrow> string list \<Rightarrow> string" where
  "join_on c [] = []"
| "join_on c [g] = g"
| "join_on c (g # h # gs) = g @ c # join_on c (h # gs)"

lemma starts_with_append [str_simps]: "starts_with p (p @ s)"
  by (simp add: starts_with_def)

lemma starts_with_iff [str_simps]: "starts_with p s \<longleftrightarrow> (\<exists>r. s = p @ r)"
  by (metis append_take_drop_id append_eq_conv_conj starts_with_def)

lemma str_contains_iff [str_simps]: "str_contains p s \<longleftrightarrow> (\<exists>l r. s = l @ p @ r)"
proof (induction s)
  case Nil
  show ?case by auto
next
  case (Cons b s)
  show ?case
    by (simp add: Cons starts_with_iff) (metis append_Cons append_Nil neq_Nil_conv list.inject)
qed

lemma split_once_Some: "split_once p s = Some (l, r) \<Longrightarrow> s = l @ p @ r"
  by (induction s arbitrary: l) (auto simp: starts_with_iff split: if_splits)

lemma split_once_first:
  assumes "p \<noteq> []" and "hd p \<notin> set l"
  shows "split_once p (l @ p @ r) = Some (l, r)"
  using assms(2)
proof (induction l)
  case Nil
  then show ?case using assms(1) by (cases p) (auto simp: starts_with_def)
next
  case (Cons b l)
  then have "\<not> starts_with p (b # l @ p @ r)" using assms(1) by (cases p) (auto simp: starts_with_def)
  with Cons show ?case by simp
qed

lemma split_once_None: "split_once p s = None \<longleftrightarrow> \<not> str_contains p s"
  by (induction s) auto

lemma split_on_nonempty [simp]: "split_on c s \<noteq> []"
  by (induction s) (auto split: list.splits)

lemma join_split [str_simps]: "join_on c (split_on c s) = s"
proof (induction s)
  case Nil
  show ?case by simp
next
  case (Cons b s)
  then show ?case
    by (cases "split_on c s"; cases "tl (split_on c s)") (auto split: list.splits)
qed

lemma split_on_no_sep [str_simps]: "c \<notin> set g \<Longrightarrow> split_on c g = [g]"
  by (induction g) auto

lemma split_on_append_sep [str_simps]:
  "c \<notin> set g \<Longrightarrow> split_on c (g @ c # s) = g # split_on c s"
  by (induction g) auto

lemma split_join [str_simps]:
  "gs \<noteq> [] \<Longrightarrow> (\<forall>g \<in> set gs. c \<notin> set g) \<Longrightarrow> split_on c (join_on c gs) = gs"
  by (induction c gs rule: join_on.induct) (auto simp: str_simps)

lemma split_on_segments: "g \<in> set (split_on c s) \<Longrightarrow> c \<notin> set g"
  by (induction s arbitrary: g) (auto split: list.splits if_splits)

lemma set_join_on: "set (join_on c gs) \<subseteq> insert c (\<Union> (set ` set gs))"
  by (induction c gs rule: join_on.induct) auto

section \<open>Decimal numbers\<close>

text \<open>\<open>str::parse\<close> for the unsigned integers: one optional leading plus sign, then at least one
  digit, then the range check. \<open>show_nat\<close> is their \<open>Display\<close>.\<close>

fun dec_val :: "nat \<Rightarrow> string \<Rightarrow> nat option" where
  "dec_val acc [] = Some acc"
| "dec_val acc (b # s) =
     (if is_ascii_digit b then dec_val (acc * 10 + (byte_val b - 48)) s else None)"

definition parse_nat :: "string \<Rightarrow> nat option" where
  "parse_nat s =
     (let t = (case s of [] \<Rightarrow> [] | b # r \<Rightarrow> if b = CHR ''+'' then r else s)
      in if t = [] then None else dec_val 0 t)"

definition parse_uint :: "'a::len itself \<Rightarrow> string \<Rightarrow> 'a word option" where
  "parse_uint w s =
     (case parse_nat s of None \<Rightarrow> None
      | Some n \<Rightarrow> if n < 2 ^ LENGTH('a) then Some (of_nat n) else None)"

abbreviation parse_u8 :: "string \<Rightarrow> u8 option" where "parse_u8 \<equiv> parse_uint TYPE(8)"
abbreviation parse_u16 :: "string \<Rightarrow> u16 option" where "parse_u16 \<equiv> parse_uint TYPE(16)"
abbreviation parse_u32 :: "string \<Rightarrow> u32 option" where "parse_u32 \<equiv> parse_uint TYPE(32)"
abbreviation parse_u64 :: "string \<Rightarrow> u64 option" where "parse_u64 \<equiv> parse_uint TYPE(64)"

definition digit_char :: "nat \<Rightarrow> char" where
  "digit_char d = char_of (48 + d)"

fun show_nat :: "nat \<Rightarrow> string" where
  "show_nat n = (if n < 10 then [digit_char n] else show_nat (n div 10) @ [digit_char (n mod 10)])"

declare show_nat.simps [simp del]

lemma digit_char_val [num_simps]: "d < 10 \<Longrightarrow> byte_val (digit_char d) = 48 + d"
  by (simp add: digit_char_def)

lemma digit_char_digit [num_simps]: "d < 10 \<Longrightarrow> is_ascii_digit (digit_char d)"
  by (simp add: is_ascii_digit_def digit_char_val)

lemma dec_val_append: "dec_val acc (s @ t) = Option.bind (dec_val acc s) (\<lambda>a. dec_val a t)"
  by (induction s arbitrary: acc) auto

lemma show_nat_digits: "b \<in> set (show_nat n) \<Longrightarrow> is_ascii_digit b"
proof (induction n rule: show_nat.induct)
  case (1 n)
  then show ?case
    by (subst (asm) (2) show_nat.simps) (auto simp: num_simps split: if_splits)
qed

lemma show_nat_nonempty [simp]: "show_nat n \<noteq> []"
  by (subst show_nat.simps) simp

lemma dec_val_show: "dec_val 0 (show_nat n) = Some n"
proof (induction n rule: show_nat.induct)
  case (1 n)
  show ?case
  proof (cases "n < 10")
    case True
    then show ?thesis by (simp add: show_nat.simps [of n] num_simps)
  next
    case False
    with 1 have "dec_val 0 (show_nat (n div 10)) = Some (n div 10)" by simp
    with False show ?thesis
      by (simp add: show_nat.simps [of n] dec_val_append num_simps)
  qed
qed

lemma parse_nat_digits:
  "s \<noteq> [] \<Longrightarrow> (\<forall>b \<in> set s. is_ascii_digit b) \<Longrightarrow> parse_nat s = dec_val 0 s"
  by (cases s) (auto simp: parse_nat_def is_ascii_digit_def)

lemma parse_nat_show [num_simps]: "parse_nat (show_nat n) = Some n"
  by (subst parse_nat_digits) (auto simp: dec_val_show show_nat_digits)

lemma parse_uint_show [num_simps]:
  "parse_uint TYPE('a::len) (show_nat n) = (if n < 2 ^ LENGTH('a) then Some (of_nat n) else None)"
  by (simp add: parse_uint_def num_simps)

lemma dec_val_total: "(\<forall>b \<in> set s. is_ascii_digit b) \<Longrightarrow> \<exists>n. dec_val acc s = Some n"
  by (induction s arbitrary: acc) auto

lemma dec_val_bound:
  "dec_val acc s = Some n \<Longrightarrow> n < (acc + 1) * 10 ^ length s"
proof (induction s arbitrary: acc)
  case Nil
  then show ?case by simp
next
  case (Cons b s)
  then have d: "is_ascii_digit b" and v: "dec_val (acc * 10 + (byte_val b - 48)) s = Some n"
    by (auto split: if_splits)
  from d have "acc * 10 + (byte_val b - 48) + 1 \<le> (acc + 1) * 10"
    by (auto simp: is_ascii_digit_def)
  then have "(acc * 10 + (byte_val b - 48) + 1) * 10 ^ length s \<le> (acc + 1) * 10 * 10 ^ length s"
    by (rule mult_right_mono) simp
  with Cons.IH [OF v] show ?case by (simp add: algebra_simps)
qed

section \<open>Checked arithmetic\<close>

definition checked_mul :: "'a::len word \<Rightarrow> 'a word \<Rightarrow> 'a word option" where
  "checked_mul a b = (if unat a * unat b < 2 ^ LENGTH('a) then Some (a * b) else None)"

definition checked_add :: "'a::len word \<Rightarrow> 'a word \<Rightarrow> 'a word option" where
  "checked_add a b = (if unat a + unat b < 2 ^ LENGTH('a) then Some (a + b) else None)"

lemma checked_mul_Some [num_simps]:
  "checked_mul a b = Some c \<longleftrightarrow> unat a * unat b < 2 ^ LENGTH('a) \<and> c = a * b" for a b c :: "'a::len word"
  by (auto simp: checked_mul_def)

lemma checked_add_Some [num_simps]:
  "checked_add a b = Some c \<longleftrightarrow> unat a + unat b < 2 ^ LENGTH('a) \<and> c = a + b" for a b c :: "'a::len word"
  by (auto simp: checked_add_def)

lemma unat_mult_exact: "unat a * unat b < 2 ^ LENGTH('a) \<Longrightarrow> unat (a * b) = unat a * unat b"
  for a b :: "'a::len word"
  by (simp add: unat_word_ariths)

lemma unat_add_exact: "unat a + unat b < 2 ^ LENGTH('a) \<Longrightarrow> unat (a + b) = unat a + unat b"
  for a b :: "'a::len word"
  by (simp add: unat_word_ariths)

end
