(* ===== verification/Utf8.thy ===== *)
theory Utf8
  imports Prelude
begin

text \<open>
  UTF-8 as Rust's \<open>str\<close> uses it: \<open>utf8_decode\<close> is \<open>str::from_utf8\<close> (\<open>None\<close> is
  \<open>Utf8Error\<close>: stray or missing continuation bytes, overlong forms, surrogates and values past
  U+10FFFF), \<open>chars\<close> is \<open>str::chars\<close>, and \<open>is_control\<close>, \<open>is_whitespace\<close> and
  \<open>trim\<close> are the \<open>char\<close> and \<open>str\<close> methods of those names. The theory shows that decoding
  and encoding are inverse, that an ASCII byte of a valid string is always a code point of its
  own, and that an ASCII byte is always followed by a character boundary.
\<close>

definition is_cont :: "char \<Rightarrow> bool" where
  "is_cont b \<longleftrightarrow> 128 \<le> byte_val b \<and> byte_val b \<le> 191"

definition cont :: "char \<Rightarrow> nat" where
  "cont b = byte_val b - 128"

fun utf8_decode :: "string \<Rightarrow> nat list option" where
  "utf8_decode [] = Some []"
| "utf8_decode (b # r) =
     (if byte_val b < 128 then map_option ((#) (byte_val b)) (utf8_decode r)
      else if 194 \<le> byte_val b \<and> byte_val b \<le> 223 then
        (case r of
           c1 # r1 \<Rightarrow>
             if is_cont c1
             then map_option ((#) ((byte_val b - 192) * 64 + cont c1)) (utf8_decode r1)
             else None
         | _ \<Rightarrow> None)
      else if 224 \<le> byte_val b \<and> byte_val b \<le> 239 then
        (case r of
           c1 # c2 # r2 \<Rightarrow>
             if is_cont c1 \<and> is_cont c2 \<and> (byte_val b = 224 \<longrightarrow> 160 \<le> byte_val c1)
                \<and> (byte_val b = 237 \<longrightarrow> byte_val c1 \<le> 159)
             then map_option ((#) ((byte_val b - 224) * 4096 + cont c1 * 64 + cont c2))
                    (utf8_decode r2)
             else None
         | _ \<Rightarrow> None)
      else if 240 \<le> byte_val b \<and> byte_val b \<le> 244 then
        (case r of
           c1 # c2 # c3 # r3 \<Rightarrow>
             if is_cont c1 \<and> is_cont c2 \<and> is_cont c3 \<and> (byte_val b = 240 \<longrightarrow> 144 \<le> byte_val c1)
                \<and> (byte_val b = 244 \<longrightarrow> byte_val c1 \<le> 143)
             then map_option
                    ((#) ((byte_val b - 240) * 262144 + cont c1 * 4096 + cont c2 * 64 + cont c3))
                    (utf8_decode r3)
             else None
         | _ \<Rightarrow> None)
      else None)"

definition utf8_encode_char :: "nat \<Rightarrow> string" where
  "utf8_encode_char c =
     (if c < 128 then [char_of c]
      else if c < 2048 then [char_of (192 + c div 64), char_of (128 + c mod 64)]
      else if c < 65536 then
        [char_of (224 + c div 4096), char_of (128 + c div 64 mod 64), char_of (128 + c mod 64)]
      else
        [char_of (240 + c div 262144), char_of (128 + c div 4096 mod 64),
         char_of (128 + c div 64 mod 64), char_of (128 + c mod 64)])"

definition utf8_encode :: "nat list \<Rightarrow> string" where
  "utf8_encode cs = concat (map utf8_encode_char cs)"

definition is_scalar :: "nat \<Rightarrow> bool" where
  "is_scalar c \<longleftrightarrow> c < 55296 \<or> (57344 \<le> c \<and> c < 1114112)"

definition str_ok :: "string \<Rightarrow> bool" where
  "str_ok s \<longleftrightarrow> utf8_decode s \<noteq> None"

definition chars :: "string \<Rightarrow> nat list" where
  "chars s = (case utf8_decode s of None \<Rightarrow> [] | Some cs \<Rightarrow> cs)"

definition is_char_boundary :: "string \<Rightarrow> nat \<Rightarrow> bool" where
  "is_char_boundary s i \<longleftrightarrow> i = 0 \<or> i = length s \<or> (i < length s \<and> \<not> is_cont (s ! i))"

definition is_control :: "nat \<Rightarrow> bool" where
  "is_control c \<longleftrightarrow> c < 32 \<or> (127 \<le> c \<and> c < 160)"

definition has_control :: "string \<Rightarrow> bool" where
  "has_control s \<longleftrightarrow> list_ex is_control (chars s)"

definition is_whitespace :: "nat \<Rightarrow> bool" where
  "is_whitespace c \<longleftrightarrow>
     (9 \<le> c \<and> c \<le> 13) \<or> c = 32 \<or> c = 133 \<or> c = 160 \<or> c = 5760 \<or> (8192 \<le> c \<and> c \<le> 8202)
     \<or> c = 8232 \<or> c = 8233 \<or> c = 8239 \<or> c = 8287 \<or> c = 12288"

definition trim :: "string \<Rightarrow> string" where
  "trim s = utf8_encode (rev (dropWhile is_whitespace (rev (dropWhile is_whitespace (chars s)))))"

section \<open>Decoding and encoding are inverse\<close>

lemma is_cont_char_of: "a < 64 \<Longrightarrow> is_cont (char_of (128 + a))" for a :: nat
  by (simp add: is_cont_def)

lemma cont_char_of: "a < 64 \<Longrightarrow> cont (char_of (128 + a)) = a" for a :: nat
  by (simp add: cont_def)

lemma byte_val_char_of: "n < 256 \<Longrightarrow> byte_val (char_of n) = n" for n :: nat
  by simp

lemmas cont_simps = is_cont_char_of cont_char_of byte_val_char_of

lemma utf8_decode_encode_char:
  assumes "is_scalar c"
  shows "utf8_decode (utf8_encode_char c @ r) = map_option ((#) c) (utf8_decode r)"
proof -
  define a1 a2 a3 where "a1 = c div 64 mod 64" and "a2 = c div 4096 mod 64" and "a3 = c mod 64"
  define h2 h3 h4 where "h2 = c div 64" and "h3 = c div 4096" and "h4 = c div 262144"
  note defs = a1_def a2_def a3_def h2_def h3_def h4_def
  have d2: "c div 64 div 64 = c div 4096" and d3: "c div 4096 div 64 = c div 262144"
    by (simp_all add: div_mult2_eq [symmetric])
  have e1: "c = h2 * 64 + a3" and e2: "h2 = h3 * 64 + a1" and e3: "h3 = h4 * 64 + a2"
    using div_mult_mod_eq [of c 64] div_mult_mod_eq [of "c div 64" 64]
      div_mult_mod_eq [of "c div 4096" 64] d2 d3 by (simp_all add: defs)
  have bounds: "a1 < 64" "a2 < 64" "a3 < 64" by (simp_all add: defs)
  consider "c < 128" | "128 \<le> c" "c < 2048" | "2048 \<le> c" "c < 65536" | "65536 \<le> c" "c < 1114112"
    using assms by (fastforce simp: is_scalar_def)
  then show ?thesis
  proof cases
    case 1
    then show ?thesis by (simp add: utf8_encode_char_def)
  next
    case 2
    note c = e1
    with 2 bounds have h: "2 \<le> h2" "h2 < 32" by linarith+
    have "utf8_encode_char c = [char_of (192 + h2), char_of (128 + a3)]"
      using 2 by (simp add: utf8_encode_char_def defs)
    with h bounds show ?thesis by (simp add: cont_simps c del: of_char_of)
  next
    case 3
    have c: "c = h3 * 4096 + a1 * 64 + a3" using e1 e2 by linarith
    with 3 bounds have h: "h3 < 16" and z: "h3 = 0 \<Longrightarrow> 32 \<le> a1" by linarith+
    have y: "h3 = 13 \<Longrightarrow> a1 \<le> 31"
      using 3 assms c bounds by (auto simp: is_scalar_def)
    have "utf8_encode_char c = [char_of (224 + h3), char_of (128 + a1), char_of (128 + a3)]"
      using 3 by (simp add: utf8_encode_char_def defs)
    with h z y bounds show ?thesis by (auto simp: cont_simps c simp del: of_char_of)
  next
    case 4
    have c: "c = h4 * 262144 + a2 * 4096 + a1 * 64 + a3" using e1 e2 e3 by linarith
    with 4 bounds have h: "h4 \<le> 4" and z: "h4 = 0 \<Longrightarrow> 16 \<le> a2" and y: "h4 = 4 \<Longrightarrow> a2 \<le> 15"
      by linarith+
    have "utf8_encode_char c =
        [char_of (240 + h4), char_of (128 + a2), char_of (128 + a1), char_of (128 + a3)]"
      using 4 by (simp add: utf8_encode_char_def defs)
    with h z y bounds show ?thesis by (auto simp: cont_simps c simp del: of_char_of)
  qed
qed

lemma utf8_decode_encode: "(\<forall>c \<in> set cs. is_scalar c) \<Longrightarrow> utf8_decode (utf8_encode cs) = Some cs"
  by (induction cs) (auto simp: utf8_encode_def utf8_decode_encode_char)

section \<open>Induction over the code points of a valid string\<close>

text \<open>A valid string is empty or an ASCII byte, or a lead byte with its continuation bytes, before
  a valid string. The rule hides the four shapes: \<open>u\<close> is the encoded code point.\<close>

lemma is_cont_cont: "is_cont b \<Longrightarrow> byte_val b = 128 + cont b \<and> cont b < 64"
  by (auto simp: is_cont_def cont_def)

lemma char_of_byte: "byte_val b = n \<Longrightarrow> char_of n = b"
  by auto

lemma utf8_encode2:
  assumes "194 \<le> byte_val b" "byte_val b \<le> 223" "is_cont c1"
  defines "c \<equiv> (byte_val b - 192) * 64 + cont c1"
  shows "utf8_encode_char c = [b, c1]" and "is_scalar c" and "128 \<le> c"
proof -
  define h x where "h = byte_val b - 192" and "x = cont c1"
  have h: "byte_val b = 192 + h" "2 \<le> h" "h < 32" using assms(1,2) unfolding h_def by linarith+
  have x: "byte_val c1 = 128 + x" "cont c1 = x" "x < 64"
    using is_cont_cont [OF assms(3)] by (simp_all add: x_def)
  have c: "c = h * 64 + x" using h x by (simp add: c_def)
  show "utf8_encode_char c = [b, c1]" "is_scalar c" "128 \<le> c"
    using h x unfolding c by (auto simp: utf8_encode_char_def is_scalar_def intro!: char_of_byte)
qed

lemma divmod64: "y < 64 \<Longrightarrow> (a * 64 + y) div 64 = a \<and> (a * 64 + y) mod 64 = y" for a y :: nat
  by simp

lemma utf8_encode3:
  assumes "224 \<le> byte_val b" "byte_val b \<le> 239" "is_cont c1" "is_cont c2"
    and "byte_val b = 224 \<longrightarrow> 160 \<le> byte_val c1" "byte_val b = 237 \<longrightarrow> byte_val c1 \<le> 159"
  defines "c \<equiv> (byte_val b - 224) * 4096 + cont c1 * 64 + cont c2"
  shows "utf8_encode_char c = [b, c1, c2]" and "is_scalar c" and "128 \<le> c"
proof -
  define h x y where "h = byte_val b - 224" and "x = cont c1" and "y = cont c2"
  have h: "byte_val b = 224 + h" "h < 16" using assms(1,2) unfolding h_def by linarith+
  have x: "byte_val c1 = 128 + x" "cont c1 = x" "x < 64"
    using is_cont_cont [OF assms(3)] by (simp_all add: x_def)
  have y: "byte_val c2 = 128 + y" "cont c2 = y" "y < 64"
    using is_cont_cont [OF assms(4)] by (simp_all add: y_def)
  have c: "c = h * 4096 + x * 64 + y" using h x y by (simp add: c_def)
  have r: "h = 0 \<Longrightarrow> 32 \<le> x" "h = 13 \<Longrightarrow> x \<le> 31" using assms(5,6) h x by auto
  consider "h < 13" | "h = 13" | "14 \<le> h" by linarith
  then have s: "c < 55296 \<or> 57344 \<le> c"
    using r(2) x y unfolding c by cases auto
  have b: "2048 \<le> c" "c < 65536"
    using r(1) h x y unfolding c by linarith+
  have c': "c = (h * 64 + x) * 64 + y" using c by simp
  have q: "c div 64 = h * 64 + x" "c mod 64 = y" using divmod64 [OF y(3), of "h * 64 + x"] c' by auto
  have e: "c div 4096 = c div 64 div 64" by (simp add: div_mult2_eq [symmetric])
  have d: "c div 4096 = h" "c div 64 mod 64 = x" "c mod 64 = y"
    using q divmod64 [OF x(3), of h] e by auto
  show "utf8_encode_char c = [b, c1, c2]"
    using b d h x y by (auto simp: utf8_encode_char_def intro!: char_of_byte)
  show "is_scalar c" "128 \<le> c" using b s by (auto simp: is_scalar_def)
qed

lemma utf8_encode4:
  assumes "240 \<le> byte_val b" "byte_val b \<le> 244" "is_cont c1" "is_cont c2" "is_cont c3"
    and "byte_val b = 240 \<longrightarrow> 144 \<le> byte_val c1" "byte_val b = 244 \<longrightarrow> byte_val c1 \<le> 143"
  defines "c \<equiv> (byte_val b - 240) * 262144 + cont c1 * 4096 + cont c2 * 64 + cont c3"
  shows "utf8_encode_char c = [b, c1, c2, c3]" and "is_scalar c" and "128 \<le> c"
proof -
  define h x y z where "h = byte_val b - 240" and "x = cont c1" and "y = cont c2" and "z = cont c3"
  have h: "byte_val b = 240 + h" "h \<le> 4" using assms(1,2) unfolding h_def by linarith+
  have x: "byte_val c1 = 128 + x" "cont c1 = x" "x < 64"
    using is_cont_cont [OF assms(3)] by (simp_all add: x_def)
  have y: "byte_val c2 = 128 + y" "cont c2 = y" "y < 64"
    using is_cont_cont [OF assms(4)] by (simp_all add: y_def)
  have z: "byte_val c3 = 128 + z" "cont c3 = z" "z < 64"
    using is_cont_cont [OF assms(5)] by (simp_all add: z_def)
  have c: "c = h * 262144 + x * 4096 + y * 64 + z" using h x y z by (simp add: c_def)
  have r: "h = 0 \<Longrightarrow> 16 \<le> x" "h = 4 \<Longrightarrow> x \<le> 15" using assms(6,7) h x by auto
  then have b: "65536 \<le> c" "c < 1114112"
    using h x y z unfolding c by linarith+
  have c': "c = ((h * 64 + x) * 64 + y) * 64 + z" using c by simp
  have "c div 64 = (h * 64 + x) * 64 + y \<and> c mod 64 = z" unfolding c' by (rule divmod64 [OF z(3)])
  then have d1: "c mod 64 = z" and q1: "c div 64 = (h * 64 + x) * 64 + y" by (rule conjunct2, rule conjunct1)
  have "c div 64 div 64 = h * 64 + x \<and> c div 64 mod 64 = y" unfolding q1 by (rule divmod64 [OF y(3)])
  then have d2: "c div 64 mod 64 = y" and q2: "c div 64 div 64 = h * 64 + x" by (rule conjunct2, rule conjunct1)
  have d3: "c div 64 div 64 mod 64 = x" and q3: "c div 64 div 64 div 64 = h"
    unfolding q2 using x(3) by simp_all
  have e: "c div 4096 = c div 64 div 64" "c div 262144 = c div 64 div 64 div 64"
    by (simp_all add: div_mult2_eq [symmetric])
  show "utf8_encode_char c = [b, c1, c2, c3]"
    using b d1 d2 d3 q3 e h x y z by (auto simp: utf8_encode_char_def intro!: char_of_byte)
  show "is_scalar c" "128 \<le> c" using b by (auto simp: is_scalar_def)
qed

section \<open>Induction over the code points of a valid string\<close>

text \<open>A valid string is empty, or the bytes of one code point before a valid string.
  \<open>code_unit\<close> says what is known of those bytes; the rule hides the four shapes.\<close>

definition code_unit :: "string \<Rightarrow> nat \<Rightarrow> bool" where
  "code_unit u c \<longleftrightarrow> utf8_encode_char c = u \<and> is_scalar c \<and> u \<noteq> [] \<and> \<not> is_cont (hd u)
     \<and> (\<forall>b \<in> set (tl u). is_cont b)
     \<and> ((\<exists>b. u = [b] \<and> c = byte_val b \<and> c < 128) \<or> (128 \<le> c \<and> (\<forall>b \<in> set u. 128 \<le> byte_val b)))"

lemma code_unit_split:
  assumes "utf8_decode (b # r) = Some cs"
  shows "\<exists>u c t ds. b # r = u @ t \<and> cs = c # ds \<and> utf8_decode t = Some ds \<and> code_unit u c"
proof -
  consider "byte_val b < 128" | "194 \<le> byte_val b" "byte_val b \<le> 223"
    | "224 \<le> byte_val b" "byte_val b \<le> 239" | "240 \<le> byte_val b" "byte_val b \<le> 244"
    using assms by (fastforce split: if_splits)
  then show ?thesis
  proof cases
    case 1
    with assms have "code_unit [b] (byte_val b)"
      by (auto simp: code_unit_def utf8_encode_char_def is_scalar_def is_cont_def)
    with 1 assms show ?thesis
      by (intro exI [of _ "[b]"] exI [of _ "byte_val b"] exI [of _ r]) auto
  next
    case 2
    with assms obtain c1 t ds where t: "r = c1 # t" "is_cont c1" "utf8_decode t = Some ds"
      "cs = ((byte_val b - 192) * 64 + cont c1) # ds"
      by (auto split: list.splits if_splits)
    with 2 utf8_encode2 [OF 2 t(2)] have "code_unit [b, c1] ((byte_val b - 192) * 64 + cont c1)"
      by (auto simp: code_unit_def is_cont_def)
    with t show ?thesis by (metis append_Cons append_Nil)
  next
    case 3
    with assms obtain c1 c2 t ds where t: "r = c1 # c2 # t" "is_cont c1" "is_cont c2"
      "byte_val b = 224 \<longrightarrow> 160 \<le> byte_val c1" "byte_val b = 237 \<longrightarrow> byte_val c1 \<le> 159"
      "utf8_decode t = Some ds" "cs = ((byte_val b - 224) * 4096 + cont c1 * 64 + cont c2) # ds"
      by (auto split: list.splits if_splits)
    with 3 utf8_encode3 [OF 3 t(2-5)]
    have "code_unit [b, c1, c2] ((byte_val b - 224) * 4096 + cont c1 * 64 + cont c2)"
      by (auto simp: code_unit_def is_cont_def)
    with t show ?thesis by (metis append_Cons append_Nil)
  next
    case 4
    with assms obtain c1 c2 c3 t ds where t: "r = c1 # c2 # c3 # t"
      "is_cont c1" "is_cont c2" "is_cont c3"
      "byte_val b = 240 \<longrightarrow> 144 \<le> byte_val c1" "byte_val b = 244 \<longrightarrow> byte_val c1 \<le> 143"
      "utf8_decode t = Some ds"
      "cs = ((byte_val b - 240) * 262144 + cont c1 * 4096 + cont c2 * 64 + cont c3) # ds"
      by (auto split: list.splits if_splits)
    with 4 utf8_encode4 [OF 4 t(2-6)]
    have "code_unit [b, c1, c2, c3]
        ((byte_val b - 240) * 262144 + cont c1 * 4096 + cont c2 * 64 + cont c3)"
      by (auto simp: code_unit_def is_cont_def)
    with t show ?thesis by (metis append_Cons append_Nil)
  qed
qed

lemma valid_not_cont:
  assumes "utf8_decode (b # r) = Some cs"
  shows "\<not> is_cont b"
proof -
  obtain u c t where u: "b # r = u @ t" "code_unit u c" using code_unit_split [OF assms] by blast
  then have "hd u = b" by (cases u) (auto simp: code_unit_def)
  with u(2) show ?thesis by (simp add: code_unit_def)
qed

declare utf8_decode.simps(2) [simp del]

lemma utf8_induct [consumes 1, case_names Nil Unit]:
  assumes "utf8_decode s = Some cs"
    and "P [] []"
    and "\<And>u c t ds. code_unit u c \<Longrightarrow> utf8_decode t = Some ds \<Longrightarrow> P t ds \<Longrightarrow> P (u @ t) (c # ds)"
  shows "P s cs"
  using assms(1)
proof (induction s arbitrary: cs rule: length_induct)
  case (1 s)
  show ?case
  proof (cases s)
    case Nil
    with 1 assms(2) show ?thesis by simp
  next
    case (Cons b r)
    with 1 obtain u c t ds where t: "s = u @ t" "cs = c # ds" "utf8_decode t = Some ds" "code_unit u c"
      using code_unit_split [of b r cs] by auto
    from t have "length t < length s" by (cases u) (auto simp: code_unit_def)
    with 1 t have "P t ds" by blast
    with t assms(3) show ?thesis by blast
  qed
qed

lemma utf8_encode_decode: "utf8_decode s = Some cs \<Longrightarrow> utf8_encode cs = s"
  by (induction rule: utf8_induct) (auto simp: utf8_encode_def code_unit_def)

lemma utf8_decode_scalar: "utf8_decode s = Some cs \<Longrightarrow> \<forall>c \<in> set cs. is_scalar c"
  by (induction rule: utf8_induct) (auto simp: code_unit_def)

lemma ascii_byte_is_char:
  "utf8_decode s = Some cs \<Longrightarrow> n < 128 \<Longrightarrow> n \<in> set cs \<longleftrightarrow> n \<in> byte_val ` set s"
  by (induction rule: utf8_induct) (auto simp: code_unit_def image_iff)

text \<open>After an ASCII byte of a valid string comes a character boundary.\<close>

lemma ascii_then_boundary:
  assumes "utf8_decode s = Some cs" and "i < length s" and "byte_val (s ! i) < 128"
  shows "is_char_boundary s i \<and> is_char_boundary s (Suc i)"
  using assms
proof (induction arbitrary: i rule: utf8_induct)
  case Nil
  then show ?case by simp
next
  case (Unit u c t ds)
  have hd_t: "t = [] \<or> \<not> is_cont (hd t)"
    using Unit.hyps(2) valid_not_cont by (cases t) auto
  show ?case
  proof (cases "i < length u")
    case True
    with Unit.prems(2) have "\<not> (\<forall>b \<in> set u. 128 \<le> byte_val b)"
      by (metis leD nth_append nth_mem)
    with Unit.hyps(1) obtain b where b: "u = [b]" by (auto simp: code_unit_def)
    with True have "i = 0" by simp
    with b hd_t show ?thesis by (cases t) (auto simp: is_char_boundary_def)
  next
    case False
    then obtain j where j: "i = length u + j" using le_Suc_ex not_less by blast
    with Unit.prems have "j < length t" "byte_val (t ! j) < 128" by (auto simp: nth_append)
    with Unit.IH have "is_char_boundary t (Suc j)" "\<not> is_cont (t ! j)" by (auto simp: is_cont_def)
    with j Unit.prems(1) show ?thesis by (auto simp: is_char_boundary_def nth_append)
  qed
qed

section \<open>ASCII strings\<close>

lemma utf8_decode_ascii: "(\<forall>b \<in> set s. is_ascii b) \<Longrightarrow> utf8_decode s = Some (map byte_val s)"
  by (induction s) (auto simp: is_ascii_def utf8_decode.simps(2))

lemma str_ok_ascii: "(\<forall>b \<in> set s. is_ascii b) \<Longrightarrow> str_ok s"
  by (simp add: str_ok_def utf8_decode_ascii)

lemma chars_ascii: "(\<forall>b \<in> set s. is_ascii b) \<Longrightarrow> chars s = map byte_val s"
  by (simp add: chars_def utf8_decode_ascii)

lemma str_ok_chars: "str_ok s \<Longrightarrow> utf8_decode s = Some (chars s)"
  by (auto simp: str_ok_def chars_def)

lemma chars_empty: "str_ok s \<Longrightarrow> chars s = [] \<longleftrightarrow> s = []"
  using utf8_encode_decode [OF str_ok_chars, of s] by (auto simp: utf8_encode_def chars_def)

lemma no_control_byte:
  assumes "str_ok s" and "\<not> has_control s" and "b \<in> set s"
  shows "32 \<le> byte_val b \<and> byte_val b \<noteq> 127"
proof (rule ccontr)
  assume "\<not> ?thesis"
  then have "byte_val b < 128" "is_control (byte_val b)" by (auto simp: is_control_def)
  moreover from this assms have "byte_val b \<in> set (chars s)"
    using ascii_byte_is_char [OF str_ok_chars] by blast
  ultimately show False using assms(2) by (auto simp: has_control_def list_ex_iff)
qed

text \<open>\<open>trim\<close> leaves nothing exactly when there is nothing but white space.\<close>

lemma utf8_encode_empty: "utf8_encode cs = [] \<longleftrightarrow> cs = []"
  by (cases cs) (auto simp: utf8_encode_def utf8_encode_char_def)

lemma trim_empty: "trim s = [] \<longleftrightarrow> (\<forall>c \<in> set (chars s). is_whitespace c)"
  by (auto simp: trim_def utf8_encode_empty dest: set_dropWhileD)
    (metis Un_iff set_append set_takeWhileD takeWhile_dropWhile_id)

end
