(* ===== verification/Serde.thy ===== *)
theory Serde
  imports Utf8
begin

text \<open>
  What the visitors under \<open>src/src/model\<close> see of \<open>serde\<close>. A deserializer calls exactly one
  \<open>visit\<close> method of the visitor it was given; \<open>visit\<close> is that call with its argument
  (\<open>Visit_some\<close> carries the call the inner deserializer makes on the inner visitor). A method a
  visitor does not implement is \<open>serde\<close>'s default, an \<open>invalid_type\<close> error, except that
  \<open>visit_string\<close> forwards to \<open>visit_str\<close>. An \<open>f64\<close> is its bit pattern.
\<close>

datatype visit =
    Visit_none
  | Visit_unit
  | Visit_some visit
  | Visit_bool bool
  | Visit_u64 u64
  | Visit_i64 "64 word"
  | Visit_f64 u64
  | Visit_str string
  | Visit_string string
  | Visit_seq
  | Visit_map

datatype 'e de_error =
    Invalid_type
  | Invalid_value
  | Invalid_length
  | Missing_field string
  | Duplicate_field string
  | Unknown_field string
  | Custom 'e

type_synonym ('e, 'a) visitor = "visit \<Rightarrow> 'e de_error + 'a"

text \<open>A visitor that implements \<open>visit_str\<close> only.\<close>

fun str_visitor :: "(string \<Rightarrow> 'e de_error + 'a) \<Rightarrow> ('e, 'a) visitor" where
  "str_visitor f (Visit_str s) = f s"
| "str_visitor f (Visit_string s) = f s"
| "str_visitor f _ = Inl Invalid_type"

text \<open>An optional visitor: \<open>visit_none\<close> and \<open>visit_unit\<close> give \<open>None\<close>, \<open>visit_some\<close> hands
  the call over to \<open>inner\<close>.\<close>

fun option_visitor :: "('e, 'a option) visitor \<Rightarrow> ('e, 'a option) visitor" where
  "option_visitor inner Visit_none = Inr None"
| "option_visitor inner Visit_unit = Inr None"
| "option_visitor inner (Visit_some v) = inner v"
| "option_visitor inner _ = Inl Invalid_type"

end
