(* ===== verification/Text_Value.thy ===== *)
theory Text_Value
  imports Serde
begin

text \<open>
  \<open>src/src/model/text.rs\<close>: the inline ASCII buffer behind every fixed-alphabet identifier, and the
  visitors that parse a wire string with \<open>FromStr\<close>. The two locales are the contracts the rest of
  the library programs against:

  \<^item> \<open>wire_value\<close>: a type with a parser and a printer such that parsing inverts printing on
    the values the parser can produce (MAC addresses, memory usage, hosts);
  \<^item> \<open>string_value\<close>: in addition the printer gives back exactly the accepted text, so nothing
    the router reported is lost (the macros \<open>impl_string_value\<close> and \<open>string_identifier\<close>).
\<close>

section \<open>InlineAscii\<close>

record InlineAscii =
  ia_bytes :: string
  ia_len :: u8

datatype InvalidInlineAscii = Length nat | Character nat

fun position :: "(char \<Rightarrow> bool) \<Rightarrow> string \<Rightarrow> nat option" where
  "position p [] = None"
| "position p (b # s) = (if p b then Some 0 else map_option Suc (position p s))"

text \<open>The const generic \<open>CAPACITY\<close> is the argument \<open>cap\<close>. \<open>u8::try_from\<close> of the length cannot
  fail for a capacity below 256 (\<open>InlineAscii_len\<close> below); the unused tail of the array is zero.\<close>

definition InlineAscii_parse ::
  "nat \<Rightarrow> string \<Rightarrow> nat \<Rightarrow> (char \<Rightarrow> bool) \<Rightarrow> InvalidInlineAscii + InlineAscii" where
  "InlineAscii_parse cap value min_len predicate =
     (if \<not> (min_len \<le> length value \<and> length value \<le> cap) then Inl (Length (length value))
      else case position (\<lambda>byte. \<not> predicate byte) value of
        Some index \<Rightarrow> Inl (Character index)
      | None \<Rightarrow> Inr \<lparr>ia_bytes = value @ replicate (cap - length value) (CHR 0x00),
                     ia_len = of_nat (length value)\<rparr>)"

definition InlineAscii_digits :: "nat \<Rightarrow> string \<Rightarrow> nat \<Rightarrow> InvalidInlineAscii + InlineAscii" where
  "InlineAscii_digits cap value min_len = InlineAscii_parse cap value min_len is_ascii_digit"

definition InlineAscii_uppercase :: "nat \<Rightarrow> string \<Rightarrow> InvalidInlineAscii + InlineAscii" where
  "InlineAscii_uppercase cap value = InlineAscii_parse cap value cap is_ascii_uppercase"

definition InlineAscii_as_bytes :: "InlineAscii \<Rightarrow> string" where
  "InlineAscii_as_bytes a = take (unat (ia_len a)) (ia_bytes a)"

definition InlineAscii_as_str :: "InlineAscii \<Rightarrow> string" where
  "InlineAscii_as_str a = InlineAscii_as_bytes a"

definition InlineAscii_as_array :: "InlineAscii \<Rightarrow> string" where
  "InlineAscii_as_array a = ia_bytes a"

definition inline_ascii_ok :: "nat \<Rightarrow> nat \<Rightarrow> (char \<Rightarrow> bool) \<Rightarrow> InlineAscii \<Rightarrow> bool" where
  "inline_ascii_ok cap min_len predicate a \<longleftrightarrow>
     min_len \<le> unat (ia_len a) \<and> unat (ia_len a) \<le> cap \<and> length (ia_bytes a) = cap
     \<and> list_all predicate (InlineAscii_as_bytes a)
     \<and> list_all (\<lambda>b. b = CHR 0x00) (drop (unat (ia_len a)) (ia_bytes a))"

lemma position_None: "position p s = None \<longleftrightarrow> (\<forall>b \<in> set s. \<not> p b)"
  by (induction s) auto

lemma position_Some:
  "position p s = Some i \<longleftrightarrow> i < length s \<and> p (s ! i) \<and> (\<forall>j < i. \<not> p (s ! j))"
proof (induction s arbitrary: i)
  case Nil
  then show ?case by simp
next
  case (Cons b s)
  then show ?case by (cases i) (auto simp: nth_Cons split: nat.splits)
qed

lemma InlineAscii_len:
  assumes "cap < 256" and "InlineAscii_parse cap s m p = Inr a"
  shows "unat (ia_len a) = length s"
  using assms
  by (auto simp: InlineAscii_parse_def unsigned_of_nat take_bit_nat_eq_self split: if_splits option.splits)

lemma InlineAscii_as_str_parse:
  assumes "cap < 256" and "InlineAscii_parse cap s m p = Inr a"
  shows "InlineAscii_as_str a = s"
  using assms InlineAscii_len [OF assms]
  by (auto simp: InlineAscii_as_str_def InlineAscii_as_bytes_def InlineAscii_parse_def
      split: if_splits option.splits)

lemma InlineAscii_parse_ok:
  assumes "cap < 256" and "InlineAscii_parse cap s m p = Inr a"
  shows "inline_ascii_ok cap m p a"
proof -
  from assms have a: "m \<le> length s" "length s \<le> cap" "\<forall>b \<in> set s. p b"
      "ia_bytes a = s @ replicate (cap - length s) (CHR 0x00)"
    by (auto simp: InlineAscii_parse_def position_None split: if_splits option.splits)
  show ?thesis
    using a InlineAscii_len [OF assms] InlineAscii_as_str_parse [OF assms]
    by (simp add: inline_ascii_ok_def InlineAscii_as_str_def list_all_iff)
qed

lemma inline_ascii_ok_parse:
  assumes "inline_ascii_ok cap m p a"
  shows "InlineAscii_parse cap (InlineAscii_as_str a) m p = Inr a"
proof -
  let ?s = "InlineAscii_as_bytes a"
  have len: "length ?s = unat (ia_len a)"
    using assms by (auto simp: inline_ascii_ok_def InlineAscii_as_bytes_def)
  have tail: "drop (unat (ia_len a)) (ia_bytes a) = replicate (cap - unat (ia_len a)) (CHR 0x00)"
    using assms by (intro replicate_eqI) (auto simp: inline_ascii_ok_def list_all_iff)
  have "?s @ replicate (cap - length ?s) (CHR 0x00) = ia_bytes a"
    by (simp only: len tail [symmetric]) (simp add: InlineAscii_as_bytes_def)
  moreover have "position (\<lambda>b. \<not> p b) ?s = None"
    using assms by (auto simp: inline_ascii_ok_def position_None list_all_iff)
  ultimately show ?thesis
    using assms len by (simp add: InlineAscii_parse_def InlineAscii_as_str_def inline_ascii_ok_def)
qed

lemma inline_ascii_ok_chars:
  "inline_ascii_ok cap m p a \<Longrightarrow> b \<in> set (InlineAscii_as_str a) \<Longrightarrow> p b"
  by (auto simp: inline_ascii_ok_def InlineAscii_as_str_def list_all_iff)

lemma inline_ascii_ok_length:
  "inline_ascii_ok cap m p a \<Longrightarrow>
     m \<le> length (InlineAscii_as_str a) \<and> length (InlineAscii_as_str a) \<le> cap"
  by (auto simp: inline_ascii_ok_def InlineAscii_as_str_def InlineAscii_as_bytes_def)

section \<open>Visitors over FromStr\<close>

definition FromStrVisitor_visit :: "(string \<Rightarrow> 'e + 'a) \<Rightarrow> ('e, 'a) visitor" where
  "FromStrVisitor_visit from_str = str_visitor (\<lambda>value. map_err Custom (from_str value))"

definition OptionalFromStrStringVisitor_visit ::
  "(string \<Rightarrow> 'e + 'a) \<Rightarrow> ('e, 'a option) visitor" where
  "OptionalFromStrStringVisitor_visit from_str =
     str_visitor (\<lambda>value. if value = [] then Inr None
                          else map_err Custom (map_res Some (from_str value)))"

definition OptionalFromStrVisitor_visit :: "(string \<Rightarrow> 'e + 'a) \<Rightarrow> ('e, 'a option) visitor" where
  "OptionalFromStrVisitor_visit from_str =
     option_visitor (OptionalFromStrStringVisitor_visit from_str)"

lemmas visitor_defs = FromStrVisitor_visit_def OptionalFromStrStringVisitor_visit_def
  OptionalFromStrVisitor_visit_def

section \<open>The contracts\<close>

locale wire_value =
  fixes parse :: "string \<Rightarrow> 'e + 't"
    and display :: "'t \<Rightarrow> string"
    and valid :: "'t \<Rightarrow> bool"
  assumes parse_valid: "parse s = Inr v \<Longrightarrow> valid v"
    and valid_parse: "valid v \<Longrightarrow> parse (display v) = Inr v"
    and display_nonempty: "valid v \<Longrightarrow> display v \<noteq> []"
begin

lemma reparse: "parse s = Inr v \<Longrightarrow> parse (display v) = Inr v"
  by (blast intro: parse_valid valid_parse)

lemma display_inj: "valid v \<Longrightarrow> valid w \<Longrightarrow> display v = display w \<Longrightarrow> v = w"
  by (metis sum.inject(2) valid_parse)

lemma deserialize_serialized:
  "valid v \<Longrightarrow> FromStrVisitor_visit parse (Visit_str (display v)) = Inr v"
  by (simp add: visitor_defs valid_parse)

lemma deserialize_valid: "FromStrVisitor_visit parse ev = Inr v \<Longrightarrow> valid v"
  by (cases ev) (auto simp: visitor_defs res_simps dest: parse_valid)

lemma optional_serialized:
  "valid v \<Longrightarrow> OptionalFromStrVisitor_visit parse (Visit_some (Visit_str (display v))) = Inr (Some v)"
  by (simp add: visitor_defs valid_parse display_nonempty)

lemma optional_valid:
  assumes "OptionalFromStrVisitor_visit parse ev = Inr (Some v)"
  shows "valid v"
proof (cases ev)
  case (Visit_some inner)
  with assms show ?thesis
    by (cases inner) (auto simp: visitor_defs res_simps split: if_splits dest: parse_valid)
qed (use assms in \<open>auto simp: visitor_defs\<close>)

end

locale string_value = wire_value +
  assumes parse_display: "parse s = Inr v \<Longrightarrow> display v = s"
begin

lemma parse_iff: "parse s = Inr v \<longleftrightarrow> valid v \<and> display v = s"
  by (blast intro: parse_valid parse_display dest: valid_parse)

lemma parse_inj: "parse s = Inr v \<Longrightarrow> parse t = Inr v \<Longrightarrow> s = t"
  by (metis parse_display)

lemma deserialize_exact:
  "FromStrVisitor_visit parse (Visit_str s) = Inr v \<longleftrightarrow> valid v \<and> display v = s"
  by (auto simp: visitor_defs res_simps parse_iff)

end

text \<open>The ways the identifier types are built from one another: a newtype around the buffer with its
  own error type, and a further check after the parse.\<close>

lemma string_value_newtype:
  assumes "string_value p d v" and "\<And>x. dest (con x) = x" and "\<And>y. con (dest y) = y"
  shows "string_value (\<lambda>s. map_err f (map_res con (p s))) (\<lambda>y. d (dest y)) (\<lambda>y. v (dest y))"
proof -
  note sv = assms(1) [THEN string_value.axioms(1)]
  show ?thesis
  proof
    fix s y
    assume "map_err f (map_res con (p s)) = Inr y"
    then obtain x where x: "p s = Inr x" "y = con x" by (auto simp: res_simps)
    from x show "v (dest y)" by (simp add: assms(2) wire_value.parse_valid [OF sv])
    from x show "d (dest y) = s" by (simp add: assms(2) string_value.parse_display [OF assms(1)])
  next
    fix y
    assume "v (dest y)"
    then show "map_err f (map_res con (p (d (dest y)))) = Inr y"
      by (simp add: wire_value.valid_parse [OF sv] assms(3))
  next
    fix y
    assume "v (dest y)"
    then show "d (dest y) \<noteq> []" by (rule wire_value.display_nonempty [OF sv])
  qed
qed

lemma string_value_check:
  assumes "string_value p d v"
  shows "string_value (\<lambda>s. bind_res (p s) (\<lambda>x. if q x then Inr x else Inl e)) d (\<lambda>x. v x \<and> q x)"
proof -
  note sv = assms [THEN string_value.axioms(1)]
  show ?thesis
    by unfold_locales (auto simp: res_simps wire_value.valid_parse [OF sv] split: if_splits
        dest: wire_value.parse_valid [OF sv] wire_value.display_nonempty [OF sv]
        string_value.parse_display [OF assms])
qed

text \<open>The inline buffers meet the string contract for every alphabet and every capacity that fits
  the length byte; the identifiers instantiate this.\<close>

lemma inline_string_value:
  assumes "cap < 256" and "0 < m"
  shows "string_value (\<lambda>s. InlineAscii_parse cap s m p) InlineAscii_as_str (inline_ascii_ok cap m p)"
proof
  fix v
  assume "inline_ascii_ok cap m p v"
  then show "InlineAscii_as_str v \<noteq> []" using assms inline_ascii_ok_length by fastforce
qed (use assms in \<open>auto intro: InlineAscii_parse_ok inline_ascii_ok_parse InlineAscii_as_str_parse\<close>)

section \<open>Properties\<close>

text \<open>The inline buffer's parser on every branch: the length is checked first and reported, then
  the index of the first byte outside the alphabet, and otherwise the buffer holds the text.\<close>

theorem inline_ascii_parse_spec:
  assumes "cap < 256"
  shows "(InlineAscii_parse cap s m p = Inl (Length n) \<longleftrightarrow> n = length s \<and> \<not> (m \<le> n \<and> n \<le> cap))
    \<and> (InlineAscii_parse cap s m p = Inl (Character i) \<longleftrightarrow>
        m \<le> length s \<and> length s \<le> cap \<and> i < length s \<and> \<not> p (s ! i)
        \<and> list_all p (take i s))
    \<and> (InlineAscii_parse cap s m p = Inr a \<longleftrightarrow> inline_ascii_ok cap m p a \<and> InlineAscii_as_str a = s)"
proof (intro conjI)
  show "InlineAscii_parse cap s m p = Inl (Length n) \<longleftrightarrow> n = length s \<and> \<not> (m \<le> n \<and> n \<le> cap)"
    by (auto simp: InlineAscii_parse_def split: option.splits)
  have "list_all p (take i s) \<longleftrightarrow> (\<forall>j < i. p (s ! j))" if "i < length s"
    using that by (auto simp: list_all_length)
  moreover have "position (\<lambda>b. \<not> p b) s = Some i \<longleftrightarrow> i < length s \<and> \<not> p (s ! i) \<and> (\<forall>j < i. p (s ! j))"
    by (auto simp: position_Some)
  ultimately show "InlineAscii_parse cap s m p = Inl (Character i) \<longleftrightarrow>
        m \<le> length s \<and> length s \<le> cap \<and> i < length s \<and> \<not> p (s ! i) \<and> list_all p (take i s)"
    by (auto simp: InlineAscii_parse_def split: option.splits)
  show "InlineAscii_parse cap s m p = Inr a \<longleftrightarrow> inline_ascii_ok cap m p a \<and> InlineAscii_as_str a = s"
    using assms InlineAscii_parse_ok InlineAscii_as_str_parse inline_ascii_ok_parse by metis
qed

theorem inline_ascii_parse_spec_witness:
  "InlineAscii_parse 4 ''12x4'' 2 is_ascii_digit = Inl (Character 2)"
  using inline_ascii_parse_spec [of 4 "''12x4''" 2 is_ascii_digit 0 2]
  by (simp add: is_ascii_digit_def)

end
