(* ===== verification/Reported.thy ===== *)
theory Reported
  imports Text_Value
begin

text \<open>
  \<open>src/src/model/reported.rs\<close>: a modem-reported string that is parsed when the domain parser
  recognizes it and kept verbatim otherwise. \<open>T: FromStr\<close> and \<open>T: AsRef<str>\<close> are the arguments
  \<open>from_str\<close> and \<open>as_ref\<close>; the contract \<open>string_value\<close> they satisfy for every domain type of
  the crate makes the wrapper lossless.
\<close>

datatype 't Reported = Parsed 't | Unrecognized string

fun Reported_parsed :: "'t Reported \<Rightarrow> 't option" where
  "Reported_parsed (Parsed v) = Some v"
| "Reported_parsed (Unrecognized s) = None"

fun Reported_as_str :: "('t \<Rightarrow> string) \<Rightarrow> 't Reported \<Rightarrow> string" where
  "Reported_as_str as_ref (Parsed v) = as_ref v"
| "Reported_as_str as_ref (Unrecognized s) = s"

definition Reported_from :: "(string \<Rightarrow> 'e + 't) \<Rightarrow> string \<Rightarrow> 't Reported" where
  "Reported_from from_str s = (case from_str s of Inl _ \<Rightarrow> Unrecognized s | Inr v \<Rightarrow> Parsed v)"

definition ReportedVisitor_visit :: "(string \<Rightarrow> 'e + 't) \<Rightarrow> ('e, 't Reported) visitor" where
  "ReportedVisitor_visit from_str = str_visitor (\<lambda>s. Inr (Reported_from from_str s))"

definition OptionalReportedStringVisitor_visit ::
  "(string \<Rightarrow> 'e + 't) \<Rightarrow> ('e, 't Reported option) visitor" where
  "OptionalReportedStringVisitor_visit from_str =
     str_visitor (\<lambda>s. if s = [] then Inr None
                      else map_res Some (ReportedVisitor_visit from_str (Visit_str s)))"

definition OptionalReportedVisitor_visit ::
  "(string \<Rightarrow> 'e + 't) \<Rightarrow> ('e, 't Reported option) visitor" where
  "OptionalReportedVisitor_visit from_str =
     option_visitor (OptionalReportedStringVisitor_visit from_str)"

lemmas reported_defs = Reported_from_def ReportedVisitor_visit_def
  OptionalReportedStringVisitor_visit_def OptionalReportedVisitor_visit_def

text \<open>A well-formed wrapper: \<open>Parsed\<close> holds a value the parser produces, \<open>Unrecognized\<close> a text
  it refuses.\<close>

fun reported_ok :: "(string \<Rightarrow> 'e + 't) \<Rightarrow> ('t \<Rightarrow> bool) \<Rightarrow> 't Reported \<Rightarrow> bool" where
  "reported_ok from_str ok (Parsed v) = ok v"
| "reported_ok from_str ok (Unrecognized s) = (\<not> is_ok (from_str s))"

context string_value
begin

lemma reported_lossless: "Reported_as_str display (Reported_from parse s) = s"
  by (cases "parse s") (auto simp: reported_defs parse_display)

lemma reported_from_ok: "reported_ok parse valid (Reported_from parse s)"
  by (cases "parse s") (auto simp: reported_defs res_simps dest: parse_valid)

lemma reported_from_as_str: "reported_ok parse valid r \<Longrightarrow> Reported_from parse (Reported_as_str display r) = r"
  by (cases r) (auto simp: reported_defs res_simps valid_parse split: sum.splits)

lemma reported_inj: "Reported_from parse s = Reported_from parse t \<longleftrightarrow> s = t"
  by (metis reported_lossless)

text \<open>So \<open>Reported T\<close> is itself the printed form of every string: its own contract with the parser
  that never fails.\<close>

lemma reported_bij: "bij_betw (Reported_from parse) UNIV {r. reported_ok parse valid r}"
  by (rule bij_betw_byWitness [where f' = "Reported_as_str display"])
    (auto simp: reported_lossless reported_from_as_str reported_from_ok)

end

text \<open>The optional field never fails on a string, a null or a missing marker, and returns nothing
  exactly for null, unit and the empty string.\<close>

lemma optional_reported_str:
  "OptionalReportedVisitor_visit p (Visit_some (Visit_str s)) =
     Inr (if s = [] then None else Some (Reported_from p s))"
  by (simp add: reported_defs)

end
