(* ===== verification/Identifiers.thy ===== *)
theory Identifiers
  imports Reported
begin

text \<open>
  The identifiers with a fixed alphabet and the free-form string identifiers:
  \<open>src/src/model/imei.rs\<close>, \<open>iccid.rs\<close>, \<open>imsi.rs\<close>, \<open>plmn.rs\<close>, \<open>hardware_id.rs\<close>, the two
  fixed-size values of \<open>version.rs\<close>, and the types the macro \<open>string_identifier\<close> of
  \<open>src/src/model.rs\<close> generates. Each is a newtype here as in the code, with its own error type.
  Every type is shown to satisfy the \<open>string_value\<close> contract by an interpretation.
\<close>

section \<open>IMEI\<close>

definition IMEI_LENGTH :: nat where "IMEI_LENGTH = 15"

datatype ParseImeiError =
    ImeiInvalidLength nat
  | ImeiInvalidDigit nat
  | ImeiInvalidChecksum

datatype Imei = Imei (imei_0: InlineAscii)

definition Imei_as_str :: "Imei \<Rightarrow> string" where
  "Imei_as_str i = InlineAscii_as_str (imei_0 i)"

definition Imei_as_bytes :: "Imei \<Rightarrow> string" where
  "Imei_as_bytes i = InlineAscii_as_array (imei_0 i)"

text \<open>The checksum loop of \<open>Imei::from_str\<close> in \<open>u8\<close> arithmetic; a debug build would trap where
  these operations wrap, and \<open>luhn_loop_exact\<close> shows that they do not.\<close>

definition luhn_term :: "nat \<Rightarrow> char \<Rightarrow> u8" where
  "luhn_term index byte =
     (let digit = byte_u8 byte - byte_u8 (CHR ''0'') in
      if index mod 2 = 0 then digit
      else let doubled = digit * 2 in if 9 < doubled then doubled - 9 else doubled)"

fun luhn_loop :: "nat \<Rightarrow> u8 \<Rightarrow> string \<Rightarrow> u8" where
  "luhn_loop index checksum [] = checksum"
| "luhn_loop index checksum (byte # rest) =
     luhn_loop (index + 1) (checksum + luhn_term index byte) rest"

fun imei_inline_error :: "InvalidInlineAscii \<Rightarrow> ParseImeiError" where
  "imei_inline_error (Length actual) = ImeiInvalidLength actual"
| "imei_inline_error (Character index) = ImeiInvalidDigit index"

definition Imei_from_str :: "string \<Rightarrow> ParseImeiError + Imei" where
  "Imei_from_str value =
     bind_res (map_err imei_inline_error (InlineAscii_digits IMEI_LENGTH value IMEI_LENGTH))
       (\<lambda>encoded.
          if luhn_loop 0 0 (InlineAscii_as_bytes encoded) mod 10 \<noteq> 0 then Inl ImeiInvalidChecksum
          else Inr (Imei encoded))"

subsection \<open>The Luhn checksum over the natural numbers\<close>

text \<open>The textbook definition: every second digit is doubled and the decimal digits of the result
  are added up.\<close>

definition digit_of :: "char \<Rightarrow> nat" where
  "digit_of b = byte_val b - 48"

definition luhn_weight :: "nat \<Rightarrow> nat \<Rightarrow> nat" where
  "luhn_weight index d = (if even index then d else (2 * d) div 10 + (2 * d) mod 10)"

fun luhn_sum :: "nat \<Rightarrow> string \<Rightarrow> nat" where
  "luhn_sum index [] = 0"
| "luhn_sum index (b # s) = luhn_weight index (digit_of b) + luhn_sum (index + 1) s"

definition luhn_valid :: "string \<Rightarrow> bool" where
  "luhn_valid s \<longleftrightarrow> luhn_sum 0 s mod 10 = 0"

lemma digit_of_less: "is_ascii_digit b \<Longrightarrow> digit_of b < 10"
  by (auto simp: is_ascii_digit_def digit_of_def)

lemma digit_of_inj: "is_ascii_digit a \<Longrightarrow> is_ascii_digit b \<Longrightarrow> digit_of a = digit_of b \<Longrightarrow> a = b"
proof -
  assume *: "is_ascii_digit a" "is_ascii_digit b" "digit_of a = digit_of b"
  then have "byte_val a = byte_val b" unfolding is_ascii_digit_def digit_of_def by linarith
  then show "a = b" by (simp only: of_char_eq_iff)
qed

lemma nat10_cases: "d < 10 \<Longrightarrow> d \<in> {0, 1, 2, 3, 4, 5, 6, 7, 8, 9}" for d :: nat
  by auto

lemma luhn_weight_less: "d < 10 \<Longrightarrow> luhn_weight i d < 10"
  by (drule nat10_cases) (auto simp: luhn_weight_def)

lemma luhn_weight_inj: "d < 10 \<Longrightarrow> e < 10 \<Longrightarrow> luhn_weight i d = luhn_weight i e \<Longrightarrow> d = e"
  by (drule nat10_cases, drule nat10_cases) (auto simp: luhn_weight_def split: if_splits)

text \<open>The loop body adds exactly the weight.\<close>

lemma luhn_step:
  assumes "is_ascii_digit b"
  shows "unat (luhn_term index b) = luhn_weight index (digit_of b)"
proof -
  have "byte_u8 b - byte_u8 (CHR ''0'') = of_nat (digit_of b)"
    using assms
    by (intro iffD2 [OF word_unat_eq_iff])
      (simp add: unat_byte_u8 unat_sub_if' is_ascii_digit_def digit_of_def word_le_nat_alt
        unsigned_of_nat take_bit_nat_eq_self)
  moreover have "digit_of b \<in> {0, 1, 2, 3, 4, 5, 6, 7, 8, 9}"
    using assms by (intro nat10_cases digit_of_less)
  ultimately show ?thesis
    by (auto simp: Let_def luhn_term_def luhn_weight_def even_iff_mod_2_eq_zero)
qed

lemma luhn_sum_bound: "list_all is_ascii_digit s \<Longrightarrow> luhn_sum i s \<le> 9 * length s"
proof (induction s arbitrary: i)
  case (Cons b s)
  then have "luhn_weight i (digit_of b) < 10"
    by (simp add: luhn_weight_less digit_of_less)
  with Cons show ?case by (simp add: add_mono)
qed simp

lemma luhn_loop_exact:
  "list_all is_ascii_digit s \<Longrightarrow> unat c + 9 * length s < 256 \<Longrightarrow>
     unat (luhn_loop i c s) = unat c + luhn_sum i s"
proof (induction s arbitrary: i c)
  case Nil
  then show ?case by simp
next
  case (Cons b s)
  have w: "unat (luhn_term i b) = luhn_weight i (digit_of b)" using Cons.prems by (simp add: luhn_step)
  have less: "luhn_weight i (digit_of b) < 10"
    using Cons.prems by (simp add: luhn_weight_less digit_of_less)
  have sum: "unat (c + luhn_term i b) = unat c + luhn_weight i (digit_of b)"
    using less Cons.prems by (simp add: unat_add_exact w)
  have "unat (luhn_loop (i + 1) (c + luhn_term i b) s)
      = unat (c + luhn_term i b) + luhn_sum (i + 1) s"
    using less Cons.prems by (intro Cons.IH) (simp_all add: sum)
  then show ?case by (simp add: sum)
qed

lemma luhn_sum_update:
  "k < length s \<Longrightarrow>
     luhn_sum i (s[k := c]) + luhn_weight (i + k) (digit_of (s ! k))
     = luhn_sum i s + luhn_weight (i + k) (digit_of c)"
proof (induction s arbitrary: i k)
  case (Cons b s)
  then show ?case
  proof (cases k)
    case (Suc j)
    with Cons have "luhn_sum (Suc i) (s[j := c]) + luhn_weight (i + k) (digit_of (s ! j))
        = luhn_sum (Suc i) s + luhn_weight (i + k) (digit_of c)"
      using Cons.IH [of j "Suc i"] by simp
    with Suc show ?thesis by simp
  qed simp
qed simp

text \<open>Replacing one digit of a valid number by another digit breaks the checksum.\<close>

lemma luhn_detects_substitution:
  assumes "luhn_valid s" and "k < length s" and "is_ascii_digit (s ! k)" and "is_ascii_digit c"
    and "c \<noteq> s ! k"
  shows "\<not> luhn_valid (s[k := c])"
proof
  assume v: "luhn_valid (s[k := c])"
  let ?a = "luhn_weight k (digit_of (s ! k))" and ?b = "luhn_weight k (digit_of c)"
  have eq: "luhn_sum 0 (s[k := c]) + ?a = luhn_sum 0 s + ?b"
    using luhn_sum_update [OF assms(2), of 0 c] by simp
  have "(luhn_sum 0 (s[k := c]) + ?a) mod 10 = ?a mod 10"
    using v by (simp add: luhn_valid_def mod_add_eq [symmetric])
  moreover have "(luhn_sum 0 s + ?b) mod 10 = ?b mod 10"
    using assms(1) by (simp add: luhn_valid_def mod_add_eq [symmetric])
  moreover have "?a < 10" "?b < 10" using assms by (simp_all add: luhn_weight_less digit_of_less)
  ultimately have "?a = ?b" using eq by simp
  with assms show False
    using digit_of_inj digit_of_less luhn_weight_inj by metis
qed

subsection \<open>What the parser accepts\<close>

lemma luhn_check_iff:
  assumes "list_all is_ascii_digit s" and "length s \<le> 15"
  shows "luhn_loop 0 0 s mod 10 = 0 \<longleftrightarrow> luhn_valid s"
proof -
  have "unat (luhn_loop 0 0 s) = luhn_sum 0 s"
    using assms luhn_loop_exact [of s 0 0] by simp
  then show ?thesis
    by (simp add: luhn_valid_def word_unat_eq_iff unat_mod)
qed

definition imei_ok :: "Imei \<Rightarrow> bool" where
  "imei_ok i \<longleftrightarrow> inline_ascii_ok IMEI_LENGTH IMEI_LENGTH is_ascii_digit (imei_0 i)
     \<and> luhn_valid (Imei_as_str i)"

lemma imei_from_str_alt:
  "Imei_from_str s =
     bind_res (map_err imei_inline_error (map_res Imei (InlineAscii_digits IMEI_LENGTH s IMEI_LENGTH)))
       (\<lambda>i. if luhn_valid (Imei_as_str i) then Inr i else Inl ImeiInvalidChecksum)"
proof (cases "InlineAscii_digits IMEI_LENGTH s IMEI_LENGTH")
  case (Inr a)
  then have ok: "inline_ascii_ok IMEI_LENGTH IMEI_LENGTH is_ascii_digit a"
    by (auto simp: InlineAscii_digits_def IMEI_LENGTH_def intro: InlineAscii_parse_ok)
  then have "luhn_loop 0 0 (InlineAscii_as_bytes a) mod 10 = 0 \<longleftrightarrow> luhn_valid (InlineAscii_as_str a)"
    using inline_ascii_ok_length [OF ok]
    by (subst luhn_check_iff) (auto simp: inline_ascii_ok_def InlineAscii_as_str_def IMEI_LENGTH_def)
  with Inr show ?thesis by (simp add: Imei_from_str_def Imei_as_str_def)
qed (simp add: Imei_from_str_def)

lemma imei_string_value: "string_value Imei_from_str Imei_as_str imei_ok"
proof -
  have "string_value (\<lambda>s. InlineAscii_digits IMEI_LENGTH s IMEI_LENGTH) InlineAscii_as_str
      (inline_ascii_ok IMEI_LENGTH IMEI_LENGTH is_ascii_digit)"
    unfolding InlineAscii_digits_def by (rule inline_string_value) (simp_all add: IMEI_LENGTH_def)
  then have "string_value
      (\<lambda>s. map_err imei_inline_error (map_res Imei (InlineAscii_digits IMEI_LENGTH s IMEI_LENGTH)))
      (\<lambda>i. InlineAscii_as_str (imei_0 i))
      (\<lambda>i. inline_ascii_ok IMEI_LENGTH IMEI_LENGTH is_ascii_digit (imei_0 i))"
    by (rule string_value_newtype) simp_all
  from string_value_check [OF this, of "\<lambda>i. luhn_valid (Imei_as_str i)" ImeiInvalidChecksum]
  show ?thesis
    by (simp add: imei_from_str_alt [abs_def] imei_ok_def [abs_def] Imei_as_str_def [abs_def])
qed

interpretation imei: string_value Imei_from_str Imei_as_str imei_ok
  by (rule imei_string_value)

lemma imei_accepts_iff:
  "is_ok (Imei_from_str s) \<longleftrightarrow>
     length s = IMEI_LENGTH \<and> list_all is_ascii_digit s \<and> luhn_valid s"
proof (cases "InlineAscii_digits IMEI_LENGTH s IMEI_LENGTH")
  case (Inl e)
  then show ?thesis
    by (auto simp: imei_from_str_alt InlineAscii_digits_def InlineAscii_parse_def position_Some
        list_all_iff split: if_splits option.splits dest: nth_mem)
next
  case (Inr a)
  then have "InlineAscii_as_str a = s" "length s = IMEI_LENGTH" "list_all is_ascii_digit s"
    using InlineAscii_as_str_parse [of IMEI_LENGTH s IMEI_LENGTH is_ascii_digit a]
    by (auto simp: InlineAscii_digits_def InlineAscii_parse_def IMEI_LENGTH_def position_None
        list_all_iff split: if_splits option.splits)
  with Inr show ?thesis by (simp add: imei_from_str_alt Imei_as_str_def)
qed

section \<open>The digit strings\<close>

subsection \<open>Iccid\<close>

definition MIN_ICCID_LENGTH :: nat where "MIN_ICCID_LENGTH = 19"
definition MAX_ICCID_LENGTH :: nat where "MAX_ICCID_LENGTH = 20"

datatype ParseIccidError = IccidInvalidLength nat | IccidInvalidDigit nat

datatype Iccid = Iccid (iccid_0: InlineAscii)

definition Iccid_as_str :: "Iccid \<Rightarrow> string" where
  "Iccid_as_str v = InlineAscii_as_str (iccid_0 v)"

definition Iccid_as_bytes :: "Iccid \<Rightarrow> string" where
  "Iccid_as_bytes v = InlineAscii_as_bytes (iccid_0 v)"

fun iccid_inline_error :: "InvalidInlineAscii \<Rightarrow> ParseIccidError" where
  "iccid_inline_error (Length actual) = IccidInvalidLength actual"
| "iccid_inline_error (Character index) = IccidInvalidDigit index"

definition Iccid_from_str :: "string \<Rightarrow> ParseIccidError + Iccid" where
  "Iccid_from_str value =
     map_err iccid_inline_error (map_res Iccid (InlineAscii_digits MAX_ICCID_LENGTH value MIN_ICCID_LENGTH))"

definition iccid_ok :: "Iccid \<Rightarrow> bool" where
  "iccid_ok v \<longleftrightarrow> inline_ascii_ok MAX_ICCID_LENGTH MIN_ICCID_LENGTH is_ascii_digit (iccid_0 v)"

interpretation iccid: string_value Iccid_from_str Iccid_as_str iccid_ok
  unfolding Iccid_from_str_def [abs_def] Iccid_as_str_def [abs_def] iccid_ok_def [abs_def]
    InlineAscii_digits_def
  by (rule string_value_newtype, rule inline_string_value)
    (simp_all add: MIN_ICCID_LENGTH_def MAX_ICCID_LENGTH_def)

subsection \<open>Imsi\<close>

definition MIN_IMSI_LENGTH :: nat where "MIN_IMSI_LENGTH = 6"
definition MAX_IMSI_LENGTH :: nat where "MAX_IMSI_LENGTH = 15"

datatype ParseImsiError = ImsiInvalidLength nat | ImsiInvalidDigit nat

datatype Imsi = Imsi (imsi_0: InlineAscii)

definition Imsi_as_str :: "Imsi \<Rightarrow> string" where
  "Imsi_as_str v = InlineAscii_as_str (imsi_0 v)"

definition Imsi_as_bytes :: "Imsi \<Rightarrow> string" where
  "Imsi_as_bytes v = InlineAscii_as_bytes (imsi_0 v)"

fun imsi_inline_error :: "InvalidInlineAscii \<Rightarrow> ParseImsiError" where
  "imsi_inline_error (Length actual) = ImsiInvalidLength actual"
| "imsi_inline_error (Character index) = ImsiInvalidDigit index"

definition Imsi_from_str :: "string \<Rightarrow> ParseImsiError + Imsi" where
  "Imsi_from_str value =
     map_err imsi_inline_error (map_res Imsi (InlineAscii_digits MAX_IMSI_LENGTH value MIN_IMSI_LENGTH))"

definition imsi_ok :: "Imsi \<Rightarrow> bool" where
  "imsi_ok v \<longleftrightarrow> inline_ascii_ok MAX_IMSI_LENGTH MIN_IMSI_LENGTH is_ascii_digit (imsi_0 v)"

interpretation imsi: string_value Imsi_from_str Imsi_as_str imsi_ok
  unfolding Imsi_from_str_def [abs_def] Imsi_as_str_def [abs_def] imsi_ok_def [abs_def]
    InlineAscii_digits_def
  by (rule string_value_newtype, rule inline_string_value)
    (simp_all add: MIN_IMSI_LENGTH_def MAX_IMSI_LENGTH_def)

subsection \<open>Plmn\<close>

definition MIN_PLMN_LENGTH :: nat where "MIN_PLMN_LENGTH = 5"
definition MAX_PLMN_LENGTH :: nat where "MAX_PLMN_LENGTH = 6"

datatype ParsePlmnError = PlmnInvalidLength nat | PlmnInvalidDigit nat

datatype Plmn = Plmn (plmn_0: InlineAscii)

definition Plmn_as_str :: "Plmn \<Rightarrow> string" where
  "Plmn_as_str v = InlineAscii_as_str (plmn_0 v)"

fun plmn_inline_error :: "InvalidInlineAscii \<Rightarrow> ParsePlmnError" where
  "plmn_inline_error (Length actual) = PlmnInvalidLength actual"
| "plmn_inline_error (Character index) = PlmnInvalidDigit index"

definition Plmn_from_str :: "string \<Rightarrow> ParsePlmnError + Plmn" where
  "Plmn_from_str value =
     map_err plmn_inline_error (map_res Plmn (InlineAscii_digits MAX_PLMN_LENGTH value MIN_PLMN_LENGTH))"

definition plmn_ok :: "Plmn \<Rightarrow> bool" where
  "plmn_ok v \<longleftrightarrow> inline_ascii_ok MAX_PLMN_LENGTH MIN_PLMN_LENGTH is_ascii_digit (plmn_0 v)"

interpretation plmn: string_value Plmn_from_str Plmn_as_str plmn_ok
  unfolding Plmn_from_str_def [abs_def] Plmn_as_str_def [abs_def] plmn_ok_def [abs_def]
    InlineAscii_digits_def
  by (rule string_value_newtype, rule inline_string_value)
    (simp_all add: MIN_PLMN_LENGTH_def MAX_PLMN_LENGTH_def)

text \<open>The slices cannot panic: a PLMN has at least five bytes, all of them ASCII.\<close>

definition Plmn_mcc :: "Plmn \<Rightarrow> string" where
  "Plmn_mcc v = take 3 (Plmn_as_str v)"

definition Plmn_mnc :: "Plmn \<Rightarrow> string" where
  "Plmn_mnc v = drop 3 (Plmn_as_str v)"

lemma plmn_parts:
  assumes "plmn_ok v"
  shows "Plmn_mcc v @ Plmn_mnc v = Plmn_as_str v"
    and "length (Plmn_mcc v) = 3" and "length (Plmn_mnc v) \<in> {2, 3}"
    and "is_char_boundary (Plmn_as_str v) 3"
proof -
  have len: "5 \<le> length (Plmn_as_str v)" "length (Plmn_as_str v) \<le> 6"
    using inline_ascii_ok_length [OF assms [unfolded plmn_ok_def]]
    by (simp_all add: Plmn_as_str_def MIN_PLMN_LENGTH_def MAX_PLMN_LENGTH_def)
  show "Plmn_mcc v @ Plmn_mnc v = Plmn_as_str v" by (simp add: Plmn_mcc_def Plmn_mnc_def)
  show "length (Plmn_mcc v) = 3" "length (Plmn_mnc v) \<in> {2, 3}"
    using len by (auto simp: Plmn_mcc_def Plmn_mnc_def)
  have "Plmn_as_str v ! 3 \<in> set (Plmn_as_str v)" using len by simp
  then have "is_ascii_digit (Plmn_as_str v ! 3)"
    using inline_ascii_ok_chars [OF assms [unfolded plmn_ok_def]] by (simp add: Plmn_as_str_def)
  then show "is_char_boundary (Plmn_as_str v) 3"
    using len by (auto simp: is_char_boundary_def is_cont_def is_ascii_digit_def)
qed

subsection \<open>HardwareVersion\<close>

definition HARDWARE_VERSION_LENGTH :: nat where "HARDWARE_VERSION_LENGTH = 8"

datatype ParseHardwareVersionError = HardwareVersionInvalidLength nat | HardwareVersionInvalidDigit nat

datatype HardwareVersion = HardwareVersion (hardware_version_0: InlineAscii)

definition HardwareVersion_as_str :: "HardwareVersion \<Rightarrow> string" where
  "HardwareVersion_as_str v = InlineAscii_as_str (hardware_version_0 v)"

definition HardwareVersion_as_bytes :: "HardwareVersion \<Rightarrow> string" where
  "HardwareVersion_as_bytes v = InlineAscii_as_array (hardware_version_0 v)"

fun hardware_version_inline_error :: "InvalidInlineAscii \<Rightarrow> ParseHardwareVersionError" where
  "hardware_version_inline_error (Length actual) = HardwareVersionInvalidLength actual"
| "hardware_version_inline_error (Character index) = HardwareVersionInvalidDigit index"

definition HardwareVersion_from_str :: "string \<Rightarrow> ParseHardwareVersionError + HardwareVersion" where
  "HardwareVersion_from_str value =
     map_err hardware_version_inline_error (map_res HardwareVersion (InlineAscii_digits HARDWARE_VERSION_LENGTH value HARDWARE_VERSION_LENGTH))"

definition hardware_version_ok :: "HardwareVersion \<Rightarrow> bool" where
  "hardware_version_ok v \<longleftrightarrow> inline_ascii_ok HARDWARE_VERSION_LENGTH HARDWARE_VERSION_LENGTH is_ascii_digit (hardware_version_0 v)"

interpretation hardware_version: string_value HardwareVersion_from_str HardwareVersion_as_str hardware_version_ok
  unfolding HardwareVersion_from_str_def [abs_def] HardwareVersion_as_str_def [abs_def] hardware_version_ok_def [abs_def]
    InlineAscii_digits_def
  by (rule string_value_newtype, rule inline_string_value)
    (simp_all add: HARDWARE_VERSION_LENGTH_def)

subsection \<open>HardwareModel\<close>

definition HARDWARE_MODEL_LENGTH :: nat where "HARDWARE_MODEL_LENGTH = 4"

datatype ParseHardwareModelError = HardwareModelInvalidLength nat | HardwareModelInvalidDigit nat

datatype HardwareModel = HardwareModel (hardware_model_0: InlineAscii)

definition HardwareModel_as_str :: "HardwareModel \<Rightarrow> string" where
  "HardwareModel_as_str v = InlineAscii_as_str (hardware_model_0 v)"

definition HardwareModel_as_bytes :: "HardwareModel \<Rightarrow> string" where
  "HardwareModel_as_bytes v = InlineAscii_as_array (hardware_model_0 v)"

fun hardware_model_inline_error :: "InvalidInlineAscii \<Rightarrow> ParseHardwareModelError" where
  "hardware_model_inline_error (Length actual) = HardwareModelInvalidLength actual"
| "hardware_model_inline_error (Character index) = HardwareModelInvalidDigit index"

definition HardwareModel_from_str :: "string \<Rightarrow> ParseHardwareModelError + HardwareModel" where
  "HardwareModel_from_str value =
     map_err hardware_model_inline_error (map_res HardwareModel (InlineAscii_digits HARDWARE_MODEL_LENGTH value HARDWARE_MODEL_LENGTH))"

definition hardware_model_ok :: "HardwareModel \<Rightarrow> bool" where
  "hardware_model_ok v \<longleftrightarrow> inline_ascii_ok HARDWARE_MODEL_LENGTH HARDWARE_MODEL_LENGTH is_ascii_digit (hardware_model_0 v)"

interpretation hardware_model: string_value HardwareModel_from_str HardwareModel_as_str hardware_model_ok
  unfolding HardwareModel_from_str_def [abs_def] HardwareModel_as_str_def [abs_def] hardware_model_ok_def [abs_def]
    InlineAscii_digits_def
  by (rule string_value_newtype, rule inline_string_value)
    (simp_all add: HARDWARE_MODEL_LENGTH_def)

subsection \<open>RegionCode\<close>

definition REGION_CODE_LENGTH :: nat where "REGION_CODE_LENGTH = 2"

datatype ParseRegionCodeError = RegionCodeInvalidLength nat | RegionCodeInvalidCharacter nat

datatype RegionCode = RegionCode (region_code_0: InlineAscii)

definition RegionCode_as_str :: "RegionCode \<Rightarrow> string" where
  "RegionCode_as_str v = InlineAscii_as_str (region_code_0 v)"

definition RegionCode_as_bytes :: "RegionCode \<Rightarrow> string" where
  "RegionCode_as_bytes v = InlineAscii_as_array (region_code_0 v)"

fun region_code_inline_error :: "InvalidInlineAscii \<Rightarrow> ParseRegionCodeError" where
  "region_code_inline_error (Length actual) = RegionCodeInvalidLength actual"
| "region_code_inline_error (Character index) = RegionCodeInvalidCharacter index"

definition RegionCode_from_str :: "string \<Rightarrow> ParseRegionCodeError + RegionCode" where
  "RegionCode_from_str value =
     map_err region_code_inline_error (map_res RegionCode (InlineAscii_uppercase REGION_CODE_LENGTH value))"

definition region_code_ok :: "RegionCode \<Rightarrow> bool" where
  "region_code_ok v \<longleftrightarrow> inline_ascii_ok REGION_CODE_LENGTH REGION_CODE_LENGTH is_ascii_uppercase (region_code_0 v)"

interpretation region_code: string_value RegionCode_from_str RegionCode_as_str region_code_ok
  unfolding RegionCode_from_str_def [abs_def] RegionCode_as_str_def [abs_def] region_code_ok_def [abs_def]
    InlineAscii_uppercase_def
  by (rule string_value_newtype, rule inline_string_value)
    (simp_all add: REGION_CODE_LENGTH_def)

section \<open>Hardware identifiers\<close>

datatype HardwareVendor = Keenetic | Netcraze

datatype ParseHardwareVendorError = ParseHardwareVendorError

fun HardwareVendor_as_str :: "HardwareVendor \<Rightarrow> string" where
  "HardwareVendor_as_str Keenetic = ''KN''"
| "HardwareVendor_as_str Netcraze = ''NC''"

definition HardwareVendor_from_str :: "string \<Rightarrow> ParseHardwareVendorError + HardwareVendor" where
  "HardwareVendor_from_str value =
     (if value = ''KN'' then Inr Keenetic else if value = ''NC'' then Inr Netcraze
      else Inl ParseHardwareVendorError)"

interpretation hardware_vendor:
  string_value HardwareVendor_from_str HardwareVendor_as_str "\<lambda>_. True"
proof
  fix v
  show "HardwareVendor_from_str (HardwareVendor_as_str v) = Inr v" "HardwareVendor_as_str v \<noteq> []"
    by (cases v; simp add: HardwareVendor_from_str_def)+
qed (auto simp: HardwareVendor_from_str_def split: if_splits)

datatype ParseHardwareIdError =
    HwIdInvalidLength nat
  | HwIdInvalidSeparator
  | HwIdInvalidVendor ParseHardwareVendorError
  | HwIdInvalidModel ParseHardwareModelError

record HardwareId =
  hw_vendor :: HardwareVendor
  hw_model :: HardwareModel

text \<open>Slicing a \<open>str\<close> panics when the index is not a character boundary.\<close>

definition str_to :: "string \<Rightarrow> nat \<Rightarrow> 'e failure + string" where
  "str_to s i = (if is_char_boundary s i then Inr (take i s) else Inl Panic)"

definition str_from :: "string \<Rightarrow> nat \<Rightarrow> 'e failure + string" where
  "str_from s i = (if is_char_boundary s i then Inr (drop i s) else Inl Panic)"

definition HardwareId_from_str :: "string \<Rightarrow> ParseHardwareIdError failure + HardwareId" where
  "HardwareId_from_str value =
     (if length value \<noteq> 7 then Inl (Err (HwIdInvalidLength (length value)))
      else if value ! 2 \<noteq> CHR ''-'' then Inl (Err HwIdInvalidSeparator)
      else bind_res (str_to value 2) (\<lambda>prefix.
           bind_res (map_err (\<lambda>e. Err (HwIdInvalidVendor e)) (HardwareVendor_from_str prefix)) (\<lambda>vendor.
           bind_res (str_from value 3) (\<lambda>suffix.
           bind_res (map_err (\<lambda>e. Err (HwIdInvalidModel e)) (HardwareModel_from_str suffix)) (\<lambda>model.
             Inr \<lparr>hw_vendor = vendor, hw_model = model\<rparr>)))))"

definition HardwareId_display :: "HardwareId \<Rightarrow> string" where
  "HardwareId_display h =
     HardwareVendor_as_str (hw_vendor h) @ ''-'' @ HardwareModel_as_str (hw_model h)"

definition hardware_id_ok :: "HardwareId \<Rightarrow> bool" where
  "hardware_id_ok h \<longleftrightarrow> hardware_model_ok (hw_model h)"

lemma vendor_length: "length (HardwareVendor_as_str v) = 2"
  by (cases v) simp_all

lemma vendor_ascii: "b \<in> set (HardwareVendor_as_str v) \<Longrightarrow> \<not> is_cont b"
  by (cases v) (auto simp: is_cont_def)

lemma model_facts:
  assumes "hardware_model_ok m"
  shows "length (HardwareModel_as_str m) = 4" and "b \<in> set (HardwareModel_as_str m) \<Longrightarrow> \<not> is_cont b"
proof -
  show "length (HardwareModel_as_str m) = 4"
    using inline_ascii_ok_length [OF assms [unfolded hardware_model_ok_def]]
    by (simp add: HardwareModel_as_str_def HARDWARE_MODEL_LENGTH_def)
  show "\<not> is_cont b" if "b \<in> set (HardwareModel_as_str m)"
    using inline_ascii_ok_chars [OF assms [unfolded hardware_model_ok_def], of b] that
    by (auto simp: HardwareModel_as_str_def is_cont_def is_ascii_digit_def)
qed

lemma hardware_id_display_parse:
  assumes "hardware_id_ok h"
  shows "HardwareId_from_str (HardwareId_display h) = Inr h"
proof -
  let ?v = "HardwareVendor_as_str (hw_vendor h)" and ?m = "HardwareModel_as_str (hw_model h)"
  have m: "length ?m = 4" "?m ! 0 \<in> set ?m" "HardwareModel_from_str ?m = Inr (hw_model h)"
    using assms model_facts(1) hardware_model.valid_parse by (auto simp: hardware_id_ok_def)
  then have "\<not> is_cont (?m ! 0)" using assms model_facts(2) by (simp add: hardware_id_ok_def)
  then have "is_char_boundary (?v @ ''-'' @ ?m) 2" "is_char_boundary (?v @ ''-'' @ ?m) 3"
    using m by (auto simp: is_char_boundary_def nth_append vendor_length is_cont_def nth_Cons')
  then show ?thesis
    using m by (simp add: HardwareId_from_str_def HardwareId_display_def str_to_def str_from_def
        vendor_length nth_append hardware_vendor.valid_parse)
qed

lemma hardware_id_parse:
  assumes "HardwareId_from_str s = Inr h"
  shows "hardware_id_ok h" and "HardwareId_display h = s"
proof -
  from assms have len: "length s = 7" and dash: "s ! 2 = CHR ''-''"
    and v: "HardwareVendor_from_str (take 2 s) = Inr (hw_vendor h)"
    and m: "HardwareModel_from_str (drop 3 s) = Inr (hw_model h)"
    by (auto simp: HardwareId_from_str_def str_to_def str_from_def res_simps split: if_splits)
  show "hardware_id_ok h" using m hardware_model.parse_valid by (simp add: hardware_id_ok_def)
  have "s = take 2 s @ s ! 2 # drop 3 s"
    using id_take_nth_drop [of 2 s] len by (simp add: numeral_3_eq_3)
  then show "HardwareId_display h = s"
    using hardware_vendor.parse_display [OF v] hardware_model.parse_display [OF m] dash
    by (simp add: HardwareId_display_def)
qed

lemma hardware_id_display_nonempty: "HardwareId_display h \<noteq> []"
  by (simp add: HardwareId_display_def)

interpretation hardware_id: string_value HardwareId_from_str HardwareId_display hardware_id_ok
  by unfold_locales
    (simp_all add: hardware_id_parse hardware_id_display_parse hardware_id_display_nonempty)

text \<open>The hyphen the code has just found makes the two indices it slices at character boundaries.\<close>

lemma hardware_id_slices:
  assumes "str_ok s" and "length s = 7" and "s ! 2 = CHR ''-''"
  shows "str_to s 2 = Inr (take 2 s)" and "str_from s 3 = Inr (drop 3 s)"
proof -
  have "is_char_boundary s 2 \<and> is_char_boundary s (Suc 2)"
    using assms by (intro ascii_then_boundary [OF str_ok_chars]) auto
  then show "str_to s 2 = Inr (take 2 s)" "str_from s 3 = Inr (drop 3 s)"
    by (simp_all add: str_to_def str_from_def numeral_3_eq_3)
qed

section \<open>Properties\<close>

text \<open>C29: \<open>Imei::from_str\<close> accepts exactly the strings of 15 ASCII digits whose Luhn sum, taken over
  the natural numbers, is a multiple of ten, and gives the accepted text back; so the \<open>u8\<close>
  accumulator of the loop never wraps on a 15-digit value.\<close>

theorem imei_accepts_luhn:
  "(\<exists>v. Imei_from_str s = Inr v \<and> Imei_as_str v = s) \<longleftrightarrow>
     length s = IMEI_LENGTH \<and> list_all is_ascii_digit s \<and> luhn_valid s"
  using imei_accepts_iff [of s] imei.parse_display by (auto simp: res_simps)

text \<open>Mistyping one digit of a valid IMEI is always reported as a checksum error.\<close>

theorem imei_detects_digit_error:
  assumes "Imei_from_str s = Inr v" and "k < length s" and "is_ascii_digit c" and "c \<noteq> s ! k"
  shows "Imei_from_str (s[k := c]) = Inl ImeiInvalidChecksum"
proof -
  have ok: "length s = IMEI_LENGTH" "list_all is_ascii_digit s" "luhn_valid s"
    using imei_accepts_iff [of s] assms(1) by simp_all
  then have "list_all is_ascii_digit (s[k := c])"
    using assms(3) by (auto simp: list_all_iff dest!: set_update_subset_insert [THEN subsetD])
  then obtain a where a: "InlineAscii_digits IMEI_LENGTH (s[k := c]) IMEI_LENGTH = Inr a"
    using ok(1) position_None [of "\<lambda>b. \<not> is_ascii_digit b" "s[k := c]"]
    by (auto simp: InlineAscii_digits_def InlineAscii_parse_def list_all_iff)
  then have "InlineAscii_as_str a = s[k := c]"
    using InlineAscii_as_str_parse [of IMEI_LENGTH]
    by (simp add: InlineAscii_digits_def IMEI_LENGTH_def)
  moreover have "\<not> luhn_valid (s[k := c])"
    using ok assms luhn_detects_substitution by (auto simp: list_all_length)
  ultimately show ?thesis using a by (simp add: imei_from_str_alt Imei_as_str_def)
qed

theorem imei_detects_digit_error_witness:
  "Imei_from_str (''490154203237518''[3 := CHR ''7'']) = Inl ImeiInvalidChecksum"
proof -
  obtain v where "Imei_from_str ''490154203237518'' = Inr v"
    using imei_accepts_iff [of "''490154203237518''"]
    by (auto simp: res_simps luhn_valid_def luhn_weight_def digit_of_def is_ascii_digit_def
        IMEI_LENGTH_def)
  then show ?thesis
    by (rule imei_detects_digit_error) (simp_all add: is_ascii_digit_def)
qed

text \<open>Parsing a hardware identifier never panics on a Rust string: although the code slices at
  byte 2 and byte 3 before it has looked at the other bytes, the hyphen it has just found makes
  both of them character boundaries.\<close>

theorem hardware_id_no_panic:
  assumes "str_ok s"
  shows "HardwareId_from_str s \<noteq> Inl Panic"
  by (cases "length s = 7 \<and> s ! 2 = CHR ''-''")
    (auto simp: HardwareId_from_str_def hardware_id_slices [OF assms] res_simps)

theorem hardware_id_no_panic_witness:
  "HardwareId_from_str [CHR ''K'', CHR ''N'', CHR ''-'', CHR 0xD0, CHR 0x96, CHR ''1'', CHR ''2''] \<noteq> Inl Panic"
  by (rule hardware_id_no_panic) (simp add: str_ok_def utf8_decode.simps(2) is_cont_def cont_def)

text \<open>Hardware identifiers round-trip: a string parses to an identifier exactly when it is that
  identifier's text, so \<open>(KN|NC)-[0-9]{4}\<close> is a canonical form.\<close>

theorem hardware_id_parse_iff:
  "HardwareId_from_str s = Inr h \<longleftrightarrow> hardware_id_ok h \<and> HardwareId_display h = s"
  by (rule hardware_id.parse_iff)

text \<open>Wrapping a modem-reported string as \<open>Reported<Imei>\<close>, \<open>Reported<Iccid>\<close>,
  \<open>Reported<Imsi>\<close> or \<open>Reported<Plmn>\<close> loses nothing: the wire text comes back unchanged
  whether or not the parser recognized it, and wrapping that text again gives the same value.\<close>

theorem reported_identifiers_lossless:
  "Reported_as_str Imei_as_str (Reported_from Imei_from_str s) = s
   \<and> Reported_as_str Iccid_as_str (Reported_from Iccid_from_str s) = s
   \<and> Reported_as_str Imsi_as_str (Reported_from Imsi_from_str s) = s
   \<and> Reported_as_str Plmn_as_str (Reported_from Plmn_from_str s) = s"
  by (simp add: imei.reported_lossless iccid.reported_lossless imsi.reported_lossless
      plmn.reported_lossless)

text \<open>A PLMN splits into a three-digit country code and a network code of two or three digits
  that together are the whole identifier.\<close>

theorem plmn_split:
  assumes "Plmn_from_str s = Inr v"
  shows "Plmn_mcc v @ Plmn_mnc v = s \<and> length (Plmn_mcc v) = 3 \<and> length (Plmn_mnc v) \<in> {2, 3}
     \<and> is_char_boundary s 3"
  using plmn_parts [OF plmn.parse_valid [OF assms]] plmn.parse_display [OF assms] by simp

theorem plmn_split_witness:
  "\<exists>v. Plmn_from_str ''25001'' = Inr v \<and> Plmn_mcc v = ''250'' \<and> Plmn_mnc v = ''01''"
proof -
  obtain v where v: "Plmn_from_str ''25001'' = Inr v"
    by (simp add: Plmn_from_str_def InlineAscii_digits_def InlineAscii_parse_def
        MIN_PLMN_LENGTH_def MAX_PLMN_LENGTH_def is_ascii_digit_def)
  then have "Plmn_mcc v @ Plmn_mnc v = ''25001'' \<and> length (Plmn_mcc v) = 3"
    using plmn_split [OF v] by blast
  with v show ?thesis by (auto simp: append_eq_conv_conj)
qed

end
