(* ===== verification/String_Identifiers.thy ===== *)
theory String_Identifiers
  imports Identifiers
begin

text \<open>
  The macro \<open>string_identifier\<close> of \<open>src/src/model.rs\<close> and the types it generates in
  \<open>network.rs\<close>, \<open>storage.rs\<close> and \<open>identification.rs\<close>: a non-empty string without control
  characters, kept verbatim. The macro is the function \<open>string_identifier_try_from\<close>, its
  parameters the constructor of the type and the two constructors of the error.
\<close>

definition string_identifier_try_from ::
  "(string \<Rightarrow> 't) \<Rightarrow> 'e \<Rightarrow> 'e \<Rightarrow> string \<Rightarrow> 'e + 't" where
  "string_identifier_try_from con empty_err control_err value =
     (if value = [] then Inl empty_err
      else if has_control value then Inl control_err
      else Inr (con value))"

definition plain_text :: "string \<Rightarrow> bool" where
  "plain_text s \<longleftrightarrow> s \<noteq> [] \<and> \<not> has_control s"

text \<open>\<open>Deserialize\<close> takes any string (\<open>Box<str>\<close>) and applies the same conversion.\<close>

definition string_identifier_deserialize :: "(string \<Rightarrow> 'e + 't) \<Rightarrow> ('e, 't) visitor" where
  "string_identifier_deserialize try_from = str_visitor (\<lambda>s. map_err Custom (try_from s))"

lemma string_identifier_contract:
  assumes "\<And>x. dest (con x) = x" and "\<And>y. con (dest y) = y"
  shows "string_value (string_identifier_try_from con e c) dest (\<lambda>v. plain_text (dest v))"
  by unfold_locales
    (auto simp: string_identifier_try_from_def plain_text_def assms split: if_splits)

section \<open>Interfaces\<close>

datatype InvalidInterfaceId = InterfaceEmpty | InterfaceControlCharacter

datatype InterfaceId = InterfaceId (InterfaceId_as_str: string)

definition InterfaceId_try_from :: "string \<Rightarrow> InvalidInterfaceId + InterfaceId" where
  "InterfaceId_try_from = string_identifier_try_from InterfaceId InterfaceEmpty InterfaceControlCharacter"

interpretation interface_id: string_value InterfaceId_try_from InterfaceId_as_str "\<lambda>v. plain_text (InterfaceId_as_str v)"
  unfolding InterfaceId_try_from_def by (rule string_identifier_contract) simp_all

section \<open>Storage inventory\<close>

datatype InvalidInventoryId = InventoryEmpty | InventoryControlCharacter

datatype InvalidVolumeId = VolumeEmpty | VolumeControlCharacter

datatype UsbDeviceId = UsbDeviceId (UsbDeviceId_as_str: string)

definition UsbDeviceId_try_from :: "string \<Rightarrow> InvalidInventoryId + UsbDeviceId" where
  "UsbDeviceId_try_from = string_identifier_try_from UsbDeviceId InventoryEmpty InventoryControlCharacter"

interpretation usb_device_id: string_value UsbDeviceId_try_from UsbDeviceId_as_str "\<lambda>v. plain_text (UsbDeviceId_as_str v)"
  unfolding UsbDeviceId_try_from_def by (rule string_identifier_contract) simp_all

datatype MediaId = MediaId (MediaId_as_str: string)

definition MediaId_try_from :: "string \<Rightarrow> InvalidInventoryId + MediaId" where
  "MediaId_try_from = string_identifier_try_from MediaId InventoryEmpty InventoryControlCharacter"

interpretation media_id: string_value MediaId_try_from MediaId_as_str "\<lambda>v. plain_text (MediaId_as_str v)"
  unfolding MediaId_try_from_def by (rule string_identifier_contract) simp_all

datatype PartitionId = PartitionId (PartitionId_as_str: string)

definition PartitionId_try_from :: "string \<Rightarrow> InvalidInventoryId + PartitionId" where
  "PartitionId_try_from = string_identifier_try_from PartitionId InventoryEmpty InventoryControlCharacter"

interpretation partition_id: string_value PartitionId_try_from PartitionId_as_str "\<lambda>v. plain_text (PartitionId_as_str v)"
  unfolding PartitionId_try_from_def by (rule string_identifier_contract) simp_all

datatype VolumeId = VolumeId (VolumeId_as_str: string)

definition VolumeId_try_from :: "string \<Rightarrow> InvalidVolumeId + VolumeId" where
  "VolumeId_try_from = string_identifier_try_from VolumeId VolumeEmpty VolumeControlCharacter"

interpretation volume_id: string_value VolumeId_try_from VolumeId_as_str "\<lambda>v. plain_text (VolumeId_as_str v)"
  unfolding VolumeId_try_from_def by (rule string_identifier_contract) simp_all

section \<open>Router identification\<close>

datatype InvalidServiceTag = ServiceTagEmpty | ServiceTagControlCharacter

datatype ServiceTag = ServiceTag (ServiceTag_as_str: string)

definition ServiceTag_try_from :: "string \<Rightarrow> InvalidServiceTag + ServiceTag" where
  "ServiceTag_try_from = string_identifier_try_from ServiceTag ServiceTagEmpty ServiceTagControlCharacter"

interpretation service_tag: string_value ServiceTag_try_from ServiceTag_as_str "\<lambda>v. plain_text (ServiceTag_as_str v)"
  unfolding ServiceTag_try_from_def by (rule string_identifier_contract) simp_all

datatype InvalidSerialNumber = SerialNumberEmpty | SerialNumberControlCharacter

datatype SerialNumber = SerialNumber (SerialNumber_as_str: string)

definition SerialNumber_try_from :: "string \<Rightarrow> InvalidSerialNumber + SerialNumber" where
  "SerialNumber_try_from = string_identifier_try_from SerialNumber SerialNumberEmpty SerialNumberControlCharacter"

interpretation serial_number: string_value SerialNumber_try_from SerialNumber_as_str "\<lambda>v. plain_text (SerialNumber_as_str v)"
  unfolding SerialNumber_try_from_def by (rule string_identifier_contract) simp_all

datatype InvalidCustomerId = CustomerIdEmpty | CustomerIdControlCharacter

datatype CustomerId = CustomerId (CustomerId_as_str: string)

definition CustomerId_try_from :: "string \<Rightarrow> InvalidCustomerId + CustomerId" where
  "CustomerId_try_from = string_identifier_try_from CustomerId CustomerIdEmpty CustomerIdControlCharacter"

interpretation customer_id: string_value CustomerId_try_from CustomerId_as_str "\<lambda>v. plain_text (CustomerId_as_str v)"
  unfolding CustomerId_try_from_def by (rule string_identifier_contract) simp_all

end
