(* ===== verification/Path.thy ===== *)
theory Path
  imports Utf8
begin

text \<open>
  \<open>src/src/path.rs\<close>: validation and canonicalization of the relative paths below \<open>/rci/\<close> and
  \<open>/ci/\<close>. The crate \<open>percent_encoding\<close> is not part of the repository; its two functions are
  the parameters \<open>decode\<close> and \<open>encode\<close>, and the locale \<open>percent_codec\<close> states what its
  documentation promises. The locale is interpreted on a reference codec written from RFC 3986.
\<close>

section \<open>Types and errors\<close>

datatype PathKind = Rci | Ci

record InvalidPath =
  ip_kind :: PathKind
  ip_reason :: string

definition InvalidPath_new :: "PathKind \<Rightarrow> string \<Rightarrow> InvalidPath" where
  "InvalidPath_new kind reason = \<lparr>ip_kind = kind, ip_reason = reason\<rparr>"

fun PathKind_display :: "PathKind \<Rightarrow> string" where
  "PathKind_display Rci = ''RCI''"
| "PathKind_display Ci = ''CI''"

text \<open>\<open>CONTROLS\<close> of \<open>percent_encoding\<close> (the C0 controls and DEL) with the characters the code
  adds; \<open>CHR 0x22\<close> is the double quote, \<open>0x27\<close> the apostrophe, \<open>0x5C\<close> the backslash and
  \<open>0x60\<close> the grave accent.\<close>

definition segment_encode_set :: "char \<Rightarrow> bool" where
  "segment_encode_set b \<longleftrightarrow>
     byte_val b < 32 \<or> byte_val b = 127
     \<or> b \<in> set (''!#$%&()*+,/:;<=>?@[]^{|} '' @ [CHR 0x22, CHR 0x27, CHR 0x5C, CHR 0x60])"

section \<open>Validation\<close>

fun validate_percent_encoding :: "string \<Rightarrow> string + unit" where
  "validate_percent_encoding [] = Inr ()"
| "validate_percent_encoding (byte # rest) =
     (if byte = CHR ''%'' then
        (case rest of
           high # low # tail \<Rightarrow>
             if is_ascii_hexdigit high \<and> is_ascii_hexdigit low then validate_percent_encoding tail
             else Inl ''percent escapes must contain two hexadecimal digits''
         | _ \<Rightarrow> Inl ''percent escapes must contain two hexadecimal digits'')
      else validate_percent_encoding rest)"

text \<open>The body of the segment loop up to the point where the canonical form is extended: it
  returns the decoded segment.\<close>

definition check_segment :: "(string \<Rightarrow> string) \<Rightarrow> PathKind \<Rightarrow> string \<Rightarrow> InvalidPath + string" where
  "check_segment decode kind segment =
     (if segment = [] then Inl (InvalidPath_new kind ''empty path segments are forbidden'')
      else bind_res (map_err (InvalidPath_new kind) (validate_percent_encoding segment)) (\<lambda>_.
        let decoded = decode segment in
        if \<not> str_ok decoded then Inl (InvalidPath_new kind ''segments must be valid UTF-8'')
        else if decoded = [] \<or> decoded = ''.'' \<or> decoded = ''..''
        then Inl (InvalidPath_new kind (''empty, '' @ [CHR 0x60] @ ''.'' @ [CHR 0x60] @ '' and ''
               @ [CHR 0x60] @ ''..'' @ [CHR 0x60] @ '' segments are forbidden''))
        else if CHR ''/'' \<in> set decoded \<or> CHR 0x5C \<in> set decoded
        then Inl (InvalidPath_new kind ''encoded path separators are forbidden'')
        else if has_control decoded
        then Inl (InvalidPath_new kind ''control characters are forbidden'')
        else Inr decoded))"

fun parse_segments ::
  "(string \<Rightarrow> string) \<Rightarrow> ((char \<Rightarrow> bool) \<Rightarrow> string \<Rightarrow> string) \<Rightarrow> PathKind \<Rightarrow> nat \<Rightarrow> string \<Rightarrow> string list
     \<Rightarrow> InvalidPath + string" where
  "parse_segments decode encode kind index canonical [] = Inr canonical"
| "parse_segments decode encode kind index canonical (segment # segments) =
     bind_res (check_segment decode kind segment) (\<lambda>decoded.
       parse_segments decode encode kind (index + 1)
         (canonical @ (if index \<noteq> 0 then ''/'' else []) @ encode segment_encode_set decoded)
         segments)"

fun namespace_prefix :: "PathKind \<Rightarrow> string" where
  "namespace_prefix Rci = ''rci/''"
| "namespace_prefix Ci = ''ci/''"

definition path_parse ::
  "(string \<Rightarrow> string) \<Rightarrow> ((char \<Rightarrow> bool) \<Rightarrow> string \<Rightarrow> string) \<Rightarrow> string \<Rightarrow> PathKind \<Rightarrow> InvalidPath + string"
where
  "path_parse decode encode s kind =
     (if s = [] then Inl (InvalidPath_new kind ''the path is empty'')
      else if starts_with ''/'' s then Inl (InvalidPath_new kind ''the path must be relative'')
      else if CHR ''?'' \<in> set s \<or> CHR ''#'' \<in> set s
      then Inl (InvalidPath_new kind ''query strings and fragments are forbidden'')
      else if CHR 0x5C \<in> set s then Inl (InvalidPath_new kind ''backslashes are forbidden'')
      else if str_contains ''://'' s
      then Inl (InvalidPath_new kind ''schemes and hosts are forbidden'')
      else if starts_with (namespace_prefix kind) s
      then Inl (InvalidPath_new kind ''the namespace prefix must be omitted'')
      else bind_res (parse_segments decode encode kind 0 [] (split_on (CHR ''/'') s)) (\<lambda>canonical.
        if starts_with (namespace_prefix kind) canonical
        then Inl (InvalidPath_new kind ''the namespace prefix must be omitted'')
        else Inr canonical))"

datatype RciPath = RciPath (RciPath_as_str: string)
datatype CiPath = CiPath (CiPath_as_str: string)

definition RciPath_from_str ::
  "(string \<Rightarrow> string) \<Rightarrow> ((char \<Rightarrow> bool) \<Rightarrow> string \<Rightarrow> string) \<Rightarrow> string \<Rightarrow> InvalidPath + RciPath" where
  "RciPath_from_str decode encode s = map_res RciPath (path_parse decode encode s Rci)"

definition CiPath_from_str ::
  "(string \<Rightarrow> string) \<Rightarrow> ((char \<Rightarrow> bool) \<Rightarrow> string \<Rightarrow> string) \<Rightarrow> string \<Rightarrow> InvalidPath + CiPath" where
  "CiPath_from_str decode encode s = map_res CiPath (path_parse decode encode s Ci)"

section \<open>Escapes\<close>

text \<open>What the escape scanner is for: a string is a sequence of plain bytes and complete
  escapes.\<close>

inductive escaped :: "string \<Rightarrow> bool" where
  Esc_Nil: "escaped []"
| Esc_plain: "b \<noteq> CHR ''%'' \<Longrightarrow> escaped s \<Longrightarrow> escaped (b # s)"
| Esc_hex: "is_ascii_hexdigit h \<Longrightarrow> is_ascii_hexdigit l \<Longrightarrow> escaped s \<Longrightarrow>
    escaped (CHR ''%'' # h # l # s)"

inductive_simps escaped_Cons: "escaped (b # s)"

lemma escaped_append: "escaped s \<Longrightarrow> escaped t \<Longrightarrow> escaped (s @ t)"
  by (induction rule: escaped.induct) (auto intro: escaped.intros)

lemma validate_iff_escaped: "validate_percent_encoding s = Inr () \<longleftrightarrow> escaped s"
proof (induction s rule: validate_percent_encoding.induct)
  case 1
  show ?case by (simp add: Esc_Nil)
next
  case (2 byte rest)
  then show ?case
    by (auto simp: escaped_Cons split: list.splits)
qed

lemma validate_unit: "is_ok (validate_percent_encoding s) \<longleftrightarrow> escaped s"
  by (simp add: res_simps validate_iff_escaped)

section \<open>Segments\<close>

definition segment_ok :: "string \<Rightarrow> bool" where
  "segment_ok d \<longleftrightarrow> str_ok d \<and> d \<notin> {[], ''.'', ''..''} \<and> CHR ''/'' \<notin> set d \<and> CHR 0x5C \<notin> set d
     \<and> \<not> has_control d"

lemma check_segment_iff:
  "check_segment decode kind g = Inr d \<longleftrightarrow> g \<noteq> [] \<and> escaped g \<and> d = decode g \<and> segment_ok d"
  by (auto simp: check_segment_def segment_ok_def res_simps validate_iff_escaped [symmetric] Let_def)

lemma join_on_Cons: "join_on c (g # gs) = g @ concat (map (Cons c) gs)"
  by (induction gs arbitrary: g) auto

lemma parse_segments_iff:
  "parse_segments decode encode kind i can gs = Inr c \<longleftrightarrow>
     list_all (\<lambda>g. g \<noteq> [] \<and> escaped g \<and> segment_ok (decode g)) gs
     \<and> c = can @ (if i = 0 then join_on (CHR ''/'') (map (\<lambda>g. encode segment_encode_set (decode g)) gs)
                 else concat (map (\<lambda>g. CHR ''/'' # encode segment_encode_set (decode g)) gs))"
proof (induction gs arbitrary: i can)
  case Nil
  show ?case by auto
next
  case (Cons g gs)
  show ?case
    by (auto simp: res_simps check_segment_iff Cons.IH join_on_Cons comp_def)
qed

section \<open>The codec\<close>

locale percent_codec =
  fixes decode :: "string \<Rightarrow> string"
    and encode :: "(char \<Rightarrow> bool) \<Rightarrow> string \<Rightarrow> string"
  assumes decode_encode: "S (CHR ''%'') \<Longrightarrow> decode (encode S s) = s"
    and decode_Nil: "decode [] = []"
    and encode_escaped: "S (CHR ''%'') \<Longrightarrow> escaped (encode S s)"
    and encode_alphabet: "b \<in> set (encode S s) \<Longrightarrow>
      is_ascii b \<and> (b = CHR ''%'' \<or> is_ascii_hexdigit b \<or> \<not> S b)"
begin

lemma canonical_segment_alphabet:
  assumes "b \<in> set (encode segment_encode_set d)"
  shows "is_ascii b" "b \<notin> set ''/?#:.'' \<or> b = CHR ''.''" "b \<noteq> CHR 0x5C"
  using encode_alphabet [OF assms]
  by (auto simp: segment_encode_set_def is_ascii_hexdigit_def is_ascii_digit_def)

lemma percent_in_set: "segment_encode_set (CHR ''%'')"
  by (simp add: segment_encode_set_def)

lemma encode_nonempty: "d \<noteq> [] \<Longrightarrow> encode segment_encode_set d \<noteq> []"
  using decode_encode [of segment_encode_set d, OF percent_in_set] decode_Nil by auto

lemma canonical_segment_checks:
  assumes "segment_ok d"
  shows "check_segment decode kind (encode segment_encode_set d) = Inr d"
  using assms
  by (auto simp: check_segment_iff decode_encode percent_in_set encode_escaped segment_ok_def
      dest: encode_nonempty)

lemma canonical_split:
  assumes "ds \<noteq> []"
  shows "split_on (CHR ''/'') (join_on (CHR ''/'') (map (encode segment_encode_set) ds))
    = map (encode segment_encode_set) ds"
  using assms canonical_segment_alphabet(2) by (intro split_join) fastforce+

text \<open>Joining encoded segments gives a text that passes every guard of \<open>parse\<close> except the
  namespace prefix.\<close>

lemma canonical_chars:
  assumes "b \<in> set (join_on (CHR ''/'') (map (encode segment_encode_set) ds))"
  shows "is_ascii b" "b \<notin> set ''?#:''" "b \<noteq> CHR 0x5C"
proof -
  from assms set_join_on have "b = CHR ''/'' \<or> (\<exists>d. b \<in> set (encode segment_encode_set d))"
    by fastforce
  then show "is_ascii b" "b \<notin> set ''?#:''" "b \<noteq> CHR 0x5C"
    using canonical_segment_alphabet by (auto simp: is_ascii_def dest: canonical_segment_alphabet)
qed

lemma canonical_not_absolute:
  assumes "ds \<noteq> []" and "list_all segment_ok ds"
  shows "\<not> starts_with ''/'' (join_on (CHR ''/'') (map (encode segment_encode_set) ds))"
    and "join_on (CHR ''/'') (map (encode segment_encode_set) ds) \<noteq> []"
proof -
  obtain d es where ds: "ds = d # es" using assms(1) by (cases ds) auto
  with assms(2) have ne: "encode segment_encode_set d \<noteq> []"
    by (auto simp: segment_ok_def dest!: encode_nonempty)
  moreover from ne have "hd (encode segment_encode_set d) \<noteq> CHR ''/''"
    using canonical_segment_alphabet(2) [of "hd (encode segment_encode_set d)" d] by auto
  ultimately show "\<not> starts_with ''/'' (join_on (CHR ''/'') (map (encode segment_encode_set) ds))"
    "join_on (CHR ''/'') (map (encode segment_encode_set) ds) \<noteq> []"
    unfolding ds by (cases "encode segment_encode_set d"; simp add: join_on_Cons starts_with_def)+
qed

lemma canonical_no_scheme:
  "\<not> str_contains ''://'' (join_on (CHR ''/'') (map (encode segment_encode_set) ds))"
proof
  assume "str_contains ''://'' (join_on (CHR ''/'') (map (encode segment_encode_set) ds))"
  then have "CHR '':'' \<in> set (join_on (CHR ''/'') (map (encode segment_encode_set) ds))"
    by (auto simp: str_contains_iff)
  from canonical_chars(2) [OF this] show False by simp
qed

text \<open>A path is accepted exactly when its guards hold and every segment is acceptable; the result
  is the encoding of the decoded segments.\<close>

lemma path_parse_iff:
  "path_parse decode encode s kind = Inr c \<longleftrightarrow>
     s \<noteq> [] \<and> \<not> starts_with ''/'' s \<and> CHR ''?'' \<notin> set s \<and> CHR ''#'' \<notin> set s \<and> CHR 0x5C \<notin> set s
     \<and> \<not> str_contains ''://'' s \<and> \<not> starts_with (namespace_prefix kind) s
     \<and> list_all (\<lambda>g. g \<noteq> [] \<and> escaped g \<and> segment_ok (decode g)) (split_on (CHR ''/'') s)
     \<and> c = join_on (CHR ''/'')
          (map (encode segment_encode_set) (map decode (split_on (CHR ''/'') s)))
     \<and> \<not> starts_with (namespace_prefix kind) c"
  by (auto simp: path_parse_def res_simps parse_segments_iff comp_def)

lemma path_parse_canonical:
  assumes "path_parse decode encode s kind = Inr c"
  obtains ds where "ds \<noteq> []" and "list_all segment_ok ds"
    and "c = join_on (CHR ''/'') (map (encode segment_encode_set) ds)"
    and "ds = map decode (split_on (CHR ''/'') s)"
    and "\<not> starts_with (namespace_prefix kind) c"
  using assms by (intro that [of "map decode (split_on (CHR ''/'') s)"])
    (auto simp: path_parse_iff list_all_iff)

lemma decoded_segments:
  assumes "ds \<noteq> []"
  shows "map decode (split_on (CHR ''/'') (join_on (CHR ''/'') (map (encode segment_encode_set) ds))) = ds"
  using assms by (simp add: canonical_split decode_encode percent_in_set comp_def)

lemma path_parse_fixpoint:
  assumes "path_parse decode encode s kind = Inr c"
  shows "path_parse decode encode c kind = Inr c"
proof -
  obtain ds where ds: "ds \<noteq> []" "list_all segment_ok ds"
    and c: "c = join_on (CHR ''/'') (map (encode segment_encode_set) ds)"
    and np: "\<not> starts_with (namespace_prefix kind) c"
    using path_parse_canonical [OF assms] by metis
  have "list_all (\<lambda>g. g \<noteq> [] \<and> escaped g \<and> segment_ok (decode g)) (split_on (CHR ''/'') c)"
    using ds(2) encode_nonempty
    by (auto simp: c canonical_split [OF ds(1)] list_all_iff decode_encode percent_in_set
        encode_escaped segment_ok_def)
  moreover have "CHR ''?'' \<notin> set c" "CHR ''#'' \<notin> set c" "CHR 0x5C \<notin> set c"
    using canonical_chars(2, 3) [of _ ds] by (auto simp: c)
  ultimately show ?thesis
    using np canonical_not_absolute [OF ds] canonical_no_scheme [of ds]
    by (auto simp: path_parse_iff c decoded_segments [OF ds(1)])
qed

lemma path_parse_inj:
  assumes "path_parse decode encode s kind = Inr c" and "path_parse decode encode t kind = Inr c"
  shows "map decode (split_on (CHR ''/'') s) = map decode (split_on (CHR ''/'') t)"
proof -
  have "map decode (split_on (CHR ''/'') u) = map decode (split_on (CHR ''/'') c)"
    if "path_parse decode encode u kind = Inr c" for u
    using path_parse_canonical [OF that] decoded_segments by metis
  with assms show ?thesis by metis
qed

end

section \<open>A reference codec\<close>

text \<open>Percent-encoding as RFC 3986 section 2.1 describes it, with upper-case digits; a percent
  sign that starts no escape is kept. It shows that the contract can be met, and the witnesses
  below run on it.\<close>

definition upper_hex :: "nat \<Rightarrow> char" where
  "upper_hex n = (if n < 10 then char_of (48 + n) else char_of (55 + n))"

definition hex_nat :: "char \<Rightarrow> nat" where
  "hex_nat b = (if is_ascii_digit b then byte_val b - 48
                else if byte_val b < 97 then byte_val b - 55 else byte_val b - 87)"

fun rfc_encode :: "(char \<Rightarrow> bool) \<Rightarrow> string \<Rightarrow> string" where
  "rfc_encode S [] = []"
| "rfc_encode S (b # s) =
     (if is_ascii b \<and> \<not> S b then [b]
      else [CHR ''%'', upper_hex (byte_val b div 16), upper_hex (byte_val b mod 16)])
     @ rfc_encode S s"

fun rfc_decode :: "string \<Rightarrow> string" where
  "rfc_decode [] = []"
| "rfc_decode (b # s) =
     (if b = CHR ''%'' then
        (case s of
           h # l # r \<Rightarrow>
             if is_ascii_hexdigit h \<and> is_ascii_hexdigit l
             then char_of (16 * hex_nat h + hex_nat l) # rfc_decode r
             else b # rfc_decode s
         | _ \<Rightarrow> b # rfc_decode s)
      else b # rfc_decode s)"

lemma upper_hex_facts:
  assumes "n < 16"
  shows "is_ascii_hexdigit (upper_hex n)" and "hex_nat (upper_hex n) = n"
proof -
  from nat16_cases [OF assms]
  show "is_ascii_hexdigit (upper_hex n)" "hex_nat (upper_hex n) = n"
    by (auto simp: upper_hex_def hex_nat_def is_ascii_hexdigit_def is_ascii_digit_def)
qed

lemma rfc_decode_escape:
  "rfc_decode (CHR ''%'' # upper_hex (byte_val b div 16) # upper_hex (byte_val b mod 16) # s)
     = b # rfc_decode s"
  by (simp add: upper_hex_facts byte_nibbles)

lemma ascii_percent: "is_ascii (CHR ''%'')"
  by (simp add: is_ascii_def)

lemma rfc_decode_plain: "b \<noteq> CHR ''%'' \<Longrightarrow> rfc_decode (b # s) = b # rfc_decode s"
  by simp

interpretation rfc: percent_codec rfc_decode rfc_encode
proof
  fix S :: "char \<Rightarrow> bool" and s
  assume S: "S (CHR ''%'')"
  show "rfc_decode (rfc_encode S s) = s"
  proof (induction s)
    case (Cons b s)
    then show ?case
      using S rfc_decode_plain [of b "rfc_encode S s"] rfc_decode_escape [of b "rfc_encode S s"]
      by (cases "b = CHR ''%''") (simp_all del: rfc_decode.simps)
  qed simp
  show "escaped (rfc_encode S s)"
  proof (induction s)
    case (Cons b s)
    then show ?case
      using S Esc_plain [of b] Esc_hex [OF upper_hex_facts(1) upper_hex_facts(1)]
      by (auto simp: byte_nibbles)
  qed (simp add: Esc_Nil)
next
  fix b S s
  assume "b \<in> set (rfc_encode S s)"
  then show "is_ascii b \<and> (b = CHR ''%'' \<or> is_ascii_hexdigit b \<or> \<not> S b)"
    using is_ascii_hexdigit_ascii [OF upper_hex_facts(1)] ascii_percent
    by (induction s) (auto simp: upper_hex_facts(1) byte_nibbles split: if_splits)
qed simp

text \<open>A concrete run, shared by the witnesses.\<close>

lemma path_parse_example:
  "path_parse rfc_decode rfc_encode ''show/%69nterface-name'' Rci = Inr ''show/interface-name''"
  by code_simp

section \<open>Properties\<close>

text \<open>C6: an accepted path is safe to append to the namespace: the canonical form is a non-empty
  relative path of printable ASCII, without query, fragment, scheme or backslash and without the
  namespace prefix, and every one of its segments decodes to text that is not empty, not a dot
  segment, and free of separators and control characters.\<close>

theorem path_canonical_safe:
  assumes "percent_codec decode encode" and "path_parse decode encode s kind = Inr c"
  shows "c \<noteq> [] \<and> list_all is_ascii c \<and> \<not> starts_with ''/'' c \<and> \<not> str_contains ''://'' c
    \<and> set c \<inter> {CHR ''?'', CHR ''#'', CHR 0x5C} = {} \<and> \<not> starts_with (namespace_prefix kind) c
    \<and> list_all (\<lambda>g. segment_ok (decode g)) (split_on (CHR ''/'') c)"
proof -
  obtain ds where ds: "ds \<noteq> []" "list_all segment_ok ds"
    and c: "c = join_on (CHR ''/'') (map (encode segment_encode_set) ds)"
    and np: "\<not> starts_with (namespace_prefix kind) c"
    using percent_codec.path_parse_canonical [OF assms] by metis
  have "list_all segment_ok (map decode (split_on (CHR ''/'') c))"
    using ds by (simp add: c percent_codec.decoded_segments [OF assms(1)])
  then show ?thesis
    using np percent_codec.canonical_not_absolute [OF assms(1) ds]
      percent_codec.canonical_no_scheme [OF assms(1), of ds]
      percent_codec.canonical_chars [OF assms(1), of _ ds]
    by (auto simp: c list_all_iff)
qed

theorem path_canonical_safe_witness:
  "\<not> starts_with ''rci/'' ''show/interface-name''
   \<and> list_all (\<lambda>g. segment_ok (rfc_decode g)) (split_on (CHR ''/'') ''show/interface-name'')"
  using path_canonical_safe [OF rfc.percent_codec_axioms path_parse_example] by simp

text \<open>Parsing is canonicalization: the canonical form of a path is accepted and is its own
  canonical form, so converting a path to text and back never changes the endpoint.\<close>

theorem path_parse_idempotent:
  assumes "percent_codec decode encode" and "path_parse decode encode s kind = Inr c"
  shows "path_parse decode encode c kind = Inr c"
  by (rule percent_codec.path_parse_fixpoint [OF assms])

theorem path_parse_idempotent_witness:
  "path_parse rfc_decode rfc_encode ''show/interface-name'' Rci = Inr ''show/interface-name''"
  by (rule path_parse_idempotent [OF rfc.percent_codec_axioms path_parse_example])

text \<open>C26: canonical forms are unambiguous: two accepted texts have the same canonical form exactly
  when they name the same decoded segments.\<close>

theorem path_canonical_iff_segments:
  assumes "percent_codec decode encode"
    and "path_parse decode encode s kind = Inr c" and "path_parse decode encode t kind = Inr d"
  shows "c = d \<longleftrightarrow> map decode (split_on (CHR ''/'') s) = map decode (split_on (CHR ''/'') t)"
proof
  assume "c = d"
  with assms show "map decode (split_on (CHR ''/'') s) = map decode (split_on (CHR ''/'') t)"
    using percent_codec.path_parse_inj by metis
next
  assume "map decode (split_on (CHR ''/'') s) = map decode (split_on (CHR ''/'') t)"
  then show "c = d"
    using assms(2, 3) by (auto simp: percent_codec.path_parse_iff [OF assms(1)])
qed

theorem path_canonical_iff_segments_witness:
  "path_parse rfc_decode rfc_encode ''show/interface%2Dname'' Rci
     = path_parse rfc_decode rfc_encode ''show/%69nterface-name'' Rci"
proof -
  have a: "path_parse rfc_decode rfc_encode ''show/interface%2Dname'' Rci = Inr ''show/interface-name''"
    by code_simp
  have "(''show/interface-name'' = ''show/interface-name'') \<longleftrightarrow>
      map rfc_decode (split_on (CHR ''/'') ''show/interface%2Dname'')
      = map rfc_decode (split_on (CHR ''/'') ''show/%69nterface-name'')"
    by (rule path_canonical_iff_segments [OF rfc.percent_codec_axioms a path_parse_example])
  then show ?thesis by (simp only: a path_parse_example)
qed

text \<open>The percent-escape scanner accepts exactly the strings that are sequences of plain bytes and
  complete two-digit escapes.\<close>

theorem validate_percent_encoding_iff:
  "validate_percent_encoding s = Inr () \<longleftrightarrow> escaped s"
  by (rule validate_iff_escaped)

end
