(* ===== verification/Errors.thy ===== *)
theory Errors
  imports Prelude
begin

text \<open>
  \<open>src/src/error.rs\<close>: the error values of the client. Errors that come out of third-party crates
  (\<open>reqwest\<close>, \<open>serde_json\<close>, \<open>serde_urlencoded\<close>) are opaque values with the observations the code
  makes on them: \<open>reqwest::Error::is_timeout\<close> and \<open>serde_json::Error::classify\<close>. The
  hand-written \<open>Debug\<close> implementations are functions into a tree of printed fields, so that what
  they leave out can be stated.
\<close>

section \<open>Foreign errors\<close>

record reqwest_error =
  re_timeout :: bool
  re_message :: string

datatype Category = Category_Io | Category_Syntax | Category_Data | Category_Eof

record json_error =
  je_category :: Category
  je_message :: string

section \<open>Configuration errors\<close>

datatype ConfigError =
    MissingBaseUrl
  | InvalidBaseUrl string
  | UnsupportedScheme string
  | MissingHost
  | EmbeddedCredentials
  | NotAnOrigin
  | EmptyLogin
  | ConnectTimeoutWithHttpClient
  | ZeroTimeout string
  | HttpClientError reqwest_error

section \<open>Authentication errors\<close>

datatype MalformedAuthReason =
    IncompleteHeaders
  | InvalidHeader string
  | EmptyHeader string

datatype AuthenticationError =
    Required
  | Unsupported
  | MalformedResponse MalformedAuthReason
  | RejectedCredentials
  | UnauthorizedAfterAuthentication

section \<open>Request errors\<close>

datatype Method = GET | POST | DELETE

record RequestContext =
  rc_method :: Method
  rc_endpoint :: string

definition RequestContext_new :: "Method \<Rightarrow> string \<Rightarrow> RequestContext" where
  "RequestContext_new method endpoint = \<lparr>rc_method = method, rc_endpoint = endpoint\<rparr>"

fun Method_display :: "Method \<Rightarrow> string" where
  "Method_display GET = ''GET''"
| "Method_display POST = ''POST''"
| "Method_display DELETE = ''DELETE''"

definition RequestContext_display :: "RequestContext \<Rightarrow> string" where
  "RequestContext_display c = Method_display (rc_method c) @ '' '' @ rc_endpoint c"

record QuerySerializationError =
  qs_context :: RequestContext
  qs_source :: string

record JsonSerializationError =
  js_context :: RequestContext
  js_source :: json_error

record TransportError =
  te_context :: RequestContext
  te_source :: reqwest_error

definition TransportError_is_timeout :: "TransportError \<Rightarrow> bool" where
  "TransportError_is_timeout e = re_timeout (te_source e)"

record HttpError =
  he_context :: RequestContext
  he_status :: nat

record RciStatusEntry =
  code :: "string option"
  ident :: "string option"
  message :: "string option"

record RciError =
  re_context :: RequestContext
  re_entries :: "RciStatusEntry list"

record ResponseJsonError =
  rj_context :: RequestContext
  rj_source :: json_error

record ResponseDeserializationError =
  rd_context :: RequestContext
  rd_path :: string
  rd_source :: json_error

definition ResponseDeserializationError_new ::
  "RequestContext \<Rightarrow> string \<times> json_error \<Rightarrow> ResponseDeserializationError" where
  "ResponseDeserializationError_new context e =
     \<lparr>rd_context = context, rd_path = fst e, rd_source = snd e\<rparr>"

datatype Error =
    QuerySerialization QuerySerializationError
  | JsonSerialization JsonSerializationError
  | Transport TransportError
  | Authentication AuthenticationError
  | Http HttpError
  | RciErr RciError
  | ResponseJson ResponseJsonError
  | ResponseDeserialization ResponseDeserializationError

section \<open>Debug output\<close>

text \<open>\<open>Debug_tuple\<close> is a tuple or unit variant, \<open>Debug_struct\<close> is \<open>debug_struct\<close> with its fields;
  the flag says whether the output ends with \<open>finish_non_exhaustive\<close>.\<close>

datatype debug_tree =
    Debug_text string
  | Debug_bool bool
  | Debug_number nat
  | Debug_tuple string "debug_tree list"
  | Debug_struct string "(string \<times> debug_tree) list" bool

text \<open>\<open>Option\<close> prints as \<open>None\<close> or \<open>Some(..)\<close>, a unit variant as its name.\<close>

fun option_debug :: "('a \<Rightarrow> debug_tree) \<Rightarrow> 'a option \<Rightarrow> debug_tree" where
  "option_debug f None = Debug_tuple ''None'' []"
| "option_debug f (Some x) = Debug_tuple ''Some'' [f x]"

definition RequestContext_debug :: "RequestContext \<Rightarrow> debug_tree" where
  "RequestContext_debug c = Debug_struct ''RequestContext''
     [(''method'', Debug_text (Method_display (rc_method c))), (''endpoint'', Debug_text (rc_endpoint c))]
     False"

definition QuerySerializationError_debug :: "QuerySerializationError \<Rightarrow> debug_tree" where
  "QuerySerializationError_debug e = Debug_struct ''QuerySerializationError''
     [(''context'', RequestContext_debug (qs_context e))] True"

definition JsonSerializationError_debug :: "JsonSerializationError \<Rightarrow> debug_tree" where
  "JsonSerializationError_debug e = Debug_struct ''JsonSerializationError''
     [(''context'', RequestContext_debug (js_context e))] True"

definition TransportError_debug :: "TransportError \<Rightarrow> debug_tree" where
  "TransportError_debug e = Debug_struct ''TransportError''
     [(''context'', RequestContext_debug (te_context e)),
      (''is_timeout'', Debug_bool (TransportError_is_timeout e))] True"

definition RciError_debug :: "RciError \<Rightarrow> debug_tree" where
  "RciError_debug e = Debug_struct ''RciError''
     [(''context'', RequestContext_debug (re_context e)),
      (''entry_count'', Debug_number (length (re_entries e)))] False"

definition ResponseJsonError_debug :: "ResponseJsonError \<Rightarrow> debug_tree" where
  "ResponseJsonError_debug e = Debug_struct ''ResponseJsonError''
     [(''context'', RequestContext_debug (rj_context e))] True"

definition ResponseDeserializationError_debug :: "ResponseDeserializationError \<Rightarrow> debug_tree" where
  "ResponseDeserializationError_debug e = Debug_struct ''ResponseDeserializationError''
     [(''context'', RequestContext_debug (rd_context e)), (''path'', Debug_text (rd_path e))] True"

lemmas error_debug_defs = QuerySerializationError_debug_def JsonSerializationError_debug_def
  TransportError_debug_def RciError_debug_def ResponseJsonError_debug_def
  ResponseDeserializationError_debug_def TransportError_is_timeout_def

end
