(* ===== verification/Auth.thy ===== *)
theory Auth
  imports Errors Utf8
begin

text \<open>
  \<open>src/src/auth.rs\<close>: credentials and the challenge response. MD5 and SHA-256 come from third-party
  crates and are the parameters \<open>md5\<close> and \<open>sha256\<close>, functions from byte strings to digests.
\<close>

datatype Secret = Secret string

fun Secret_expose :: "Secret \<Rightarrow> string" where
  "Secret_expose (Secret v) = v"

record Credentials =
  cred_login :: string
  cred_password :: Secret

record AuthPayload =
  ap_login :: string
  ap_password :: string

datatype ResponseHash = ResponseHash string

fun ResponseHash_as_str :: "ResponseHash \<Rightarrow> string" where
  "ResponseHash_as_str (ResponseHash h) = h"

definition Secret_debug :: "Secret \<Rightarrow> debug_tree" where
  "Secret_debug s = Debug_text ''Secret([REDACTED])''"

definition Credentials_debug :: "Credentials \<Rightarrow> debug_tree" where
  "Credentials_debug c = Debug_struct ''Credentials''
     [(''login'', Debug_text (cred_login c)), (''password'', Secret_debug (cred_password c))] False"

section \<open>Hexadecimal digests\<close>

definition HEX :: string where
  "HEX = ''0123456789abcdef''"

text \<open>The loop writes two characters for every byte into the next chunk of the buffer and stops when
  the bytes or the chunks run out.\<close>

fun encode_lower_hex :: "string \<Rightarrow> string \<Rightarrow> string" where
  "encode_lower_hex (byte # bytes) (p0 # p1 # pairs) =
     HEX ! unat (drop_bit 4 (byte_u8 byte)) # HEX ! unat (and (byte_u8 byte) 0x0F)
     # encode_lower_hex bytes pairs"
| "encode_lower_hex bytes encoded = encoded"

definition response_hash ::
  "(string \<Rightarrow> string) \<Rightarrow> (string \<Rightarrow> string) \<Rightarrow> string \<Rightarrow> string \<Rightarrow> Secret \<Rightarrow> string \<Rightarrow> ResponseHash" where
  "response_hash md5 sha256 login realm password challenge =
     (let md5_digest = md5 (login @ '':'' @ realm @ '':'' @ Secret_expose password);
          md5_hex = encode_lower_hex md5_digest (replicate 32 (CHR 0x00));
          sha256_digest = sha256 (challenge @ md5_hex)
      in ResponseHash (encode_lower_hex sha256_digest (replicate 64 (CHR 0x00))))"

section \<open>Facts\<close>

lemma HEX_nth:
  assumes "n < 16"
  shows "HEX ! n = lower_hex n"
proof -
  have "\<forall>k \<in> set [0, 1, 2, 3, 4, 5, 6, 7, 8, 9, 10, 11, 12, 13, 14, 15]. HEX ! k = lower_hex k"
    by code_simp
  with nat16_cases [OF assms] show ?thesis by (metis empty_set list.simps(15))
qed

lemma nibble_high: "unat (drop_bit 4 (byte_u8 b)) = byte_val b div 16"
  by (simp add: drop_bit_eq_div unat_div unat_byte_u8)

lemma nibble_low: "unat (and (byte_u8 b) 0x0F) = byte_val b mod 16"
proof -
  have "and (byte_u8 b) 0x0F = take_bit 4 (byte_u8 b)" by (simp add: take_bit_eq_mask mask_eq_exp_minus_1)
  then show ?thesis by (simp add: unsigned_take_bit_eq unat_byte_u8 take_bit_eq_mod unat_mod)
qed

text \<open>On a buffer of the right size every byte becomes its two digits, whatever the buffer held.\<close>

lemma encode_lower_hex_digits:
  "length buf = 2 * length bs \<Longrightarrow> encode_lower_hex bs buf =
     concat (map (\<lambda>b. [lower_hex (byte_val b div 16), lower_hex (byte_val b mod 16)]) bs)"
proof (induction bs buf rule: encode_lower_hex.induct)
  case (1 byte bytes p0 p1 pairs)
  then show ?case by (simp add: nibble_high nibble_low HEX_nth byte_nibbles)
qed (auto simp: length_Suc_conv)

fun hex_decode :: "string \<Rightarrow> string" where
  "hex_decode (h # l # s) = char_of (16 * lower_hex_val h + lower_hex_val l) # hex_decode s"
| "hex_decode _ = []"

lemma hex_round_trip: "length buf = 2 * length bs \<Longrightarrow> hex_decode (encode_lower_hex bs buf) = bs"
proof -
  assume "length buf = 2 * length bs"
  moreover have "hex_decode (concat (map (\<lambda>b. [lower_hex (byte_val b div 16), lower_hex (byte_val b mod 16)]) bs)) = bs"
    by (induction bs) (simp_all add: lower_hex_facts byte_nibbles)
  ultimately show ?thesis by (simp add: encode_lower_hex_digits)
qed

lemma encode_lower_hex_form:
  assumes "length buf = 2 * length bs"
  shows "length (encode_lower_hex bs buf) = 2 * length bs"
    and "list_all is_lower_hex (encode_lower_hex bs buf)"
  unfolding encode_lower_hex_digits [OF assms]
  by (induction bs) (simp_all add: lower_hex_facts byte_nibbles)

section \<open>Properties\<close>

text \<open>The challenge response is 64 lower-case hexadecimal digits that spell the SHA-256 digest of
  the challenge followed by the hexadecimal MD5 digest of login, realm and password; hence it is
  valid UTF-8 and \<open>ResponseHash::as_str\<close> cannot panic.\<close>

theorem response_hash_hex:
  assumes "\<And>m. length (md5 m) = 16" and "\<And>m. length (sha256 m) = 32"
  shows "\<exists>inner. let h = ResponseHash_as_str (response_hash md5 sha256 l r p c) in
      length h = 64 \<and> list_all is_lower_hex h \<and> str_ok h
      \<and> hex_decode h = sha256 (c @ inner)
      \<and> hex_decode inner = md5 (l @ '':'' @ r @ '':'' @ Secret_expose p)
      \<and> length inner = 32 \<and> list_all is_lower_hex inner"
proof -
  let ?m = "md5 (l @ '':'' @ r @ '':'' @ Secret_expose p)"
  let ?inner = "encode_lower_hex ?m (replicate 32 (CHR 0x00))"
  let ?h = "encode_lower_hex (sha256 (c @ ?inner)) (replicate 64 (CHR 0x00))"
  have h: "length ?h = 64" "list_all is_lower_hex ?h" "hex_decode ?h = sha256 (c @ ?inner)"
    using encode_lower_hex_form [of "replicate 64 (CHR 0x00)"] assms(2)
    by (simp_all add: hex_round_trip)
  moreover have "length ?inner = 32" "list_all is_lower_hex ?inner" "hex_decode ?inner = ?m"
    using encode_lower_hex_form [of "replicate 32 (CHR 0x00)"] assms(1)
    by (simp_all add: hex_round_trip)
  moreover have "str_ok ?h"
    using h(2) by (intro str_ok_ascii) (auto simp: list_all_iff is_lower_hex_def is_ascii_def is_ascii_digit_def)
  moreover have "ResponseHash_as_str (response_hash md5 sha256 l r p c) = ?h"
    by (simp add: response_hash_def Let_def)
  ultimately show ?thesis by (intro exI [of _ ?inner]) (simp add: Let_def)
qed

theorem response_hash_hex_witness:
  "length (ResponseHash_as_str (response_hash (\<lambda>m. take 16 (m @ replicate 16 (CHR ''x'')))
     (\<lambda>m. take 32 (m @ replicate 32 (CHR ''y''))) ''admin'' ''Keenetic'' (Secret ''secret'') ''00ff'')) = 64"
proof -
  have "length (take 16 (m @ replicate 16 (CHR ''x''))) = 16"
    "length (take 32 (m @ replicate 32 (CHR ''y''))) = 32" for m :: string
    by simp_all
  from response_hash_hex [of "\<lambda>m. take 16 (m @ replicate 16 (CHR ''x''))"
      "\<lambda>m. take 32 (m @ replicate 32 (CHR ''y''))", OF this, unfolded Let_def]
  show ?thesis by blast
qed

end
