(* ===== verification/Config.thy ===== *)
theory Config
  imports Auth Text_Value
begin

text \<open>
  The builder of \<open>src/src/client.rs\<close>: defaults, setters, \<open>normalize_base_url\<close> and \<open>build\<close>. The crates
  \<open>url\<close> and \<open>reqwest\<close> are parameters: a URL is any type \<open>'u\<close> with the record of functions
  \<open>url_ops\<close>, an HTTP transport any type \<open>'c\<close>.
\<close>

record 'u url_ops =
  url_parse :: "string \<Rightarrow> string + 'u"
  url_scheme :: "'u \<Rightarrow> string"
  url_host :: "'u \<Rightarrow> string option"
  url_username :: "'u \<Rightarrow> string"
  url_password :: "'u \<Rightarrow> string option"
  url_path :: "'u \<Rightarrow> string"
  url_query :: "'u \<Rightarrow> string option"
  url_fragment :: "'u \<Rightarrow> string option"
  url_set_path :: "'u \<Rightarrow> string \<Rightarrow> 'u"

definition authority_end :: "string \<Rightarrow> nat" where
  "authority_end remainder =
     (case position (\<lambda>b. b \<in> set ''/?#'') remainder of None \<Rightarrow> length remainder | Some i \<Rightarrow> i)"

definition normalize_base_url :: "'u url_ops \<Rightarrow> string \<Rightarrow> ConfigError + 'u" where
  "normalize_base_url ops s =
     bind_res (ok_or (InvalidBaseUrl ''relative URL without a base'') (split_once ''://'' s)) (\<lambda>(_, remainder).
       let end = authority_end remainder in
       if CHR ''@'' \<in> set (take end remainder) then Inl EmbeddedCredentials
       else if drop end remainder \<notin> {[], ''/''} then Inl NotAnOrigin
       else bind_res (map_err InvalidBaseUrl (url_parse ops s)) (\<lambda>url.
         if url_scheme ops url \<notin> {''http'', ''https''} then Inl (UnsupportedScheme (url_scheme ops url))
         else if url_host ops url = None then Inl MissingHost
         else if url_username ops url \<noteq> [] \<or> url_password ops url \<noteq> None then Inl EmbeddedCredentials
         else if url_path ops url \<notin> {[], ''/''} \<or> url_query ops url \<noteq> None
              \<or> url_fragment ops url \<noteq> None then Inl NotAnOrigin
         else Inr (url_set_path ops url ''/'')))"

section \<open>The builder\<close>

definition DEFAULT_REQUEST_TIMEOUT :: duration where
  "DEFAULT_REQUEST_TIMEOUT = from_secs 10"

definition DEFAULT_CONNECT_TIMEOUT :: duration where
  "DEFAULT_CONNECT_TIMEOUT = from_secs 3"

definition NETWORK_TEST_POLL_INTERVAL :: duration where
  "NETWORK_TEST_POLL_INTERVAL = from_secs 1"

record 'c KeeneticClientBuilder =
  b_base_url :: "string option"
  b_credentials :: "Credentials option"
  b_http_client :: "'c option"
  b_request_timeout :: duration
  b_connect_timeout :: duration
  b_connect_timeout_explicit :: bool

definition KeeneticClientBuilder_default :: "'c KeeneticClientBuilder" where
  "KeeneticClientBuilder_default =
     \<lparr>b_base_url = None, b_credentials = None, b_http_client = None,
      b_request_timeout = DEFAULT_REQUEST_TIMEOUT, b_connect_timeout = DEFAULT_CONNECT_TIMEOUT,
      b_connect_timeout_explicit = False\<rparr>"

definition builder_base_url :: "string \<Rightarrow> 'c KeeneticClientBuilder \<Rightarrow> 'c KeeneticClientBuilder" where
  "builder_base_url base_url b = b\<lparr>b_base_url := Some base_url\<rparr>"

definition builder_credentials ::
  "string \<Rightarrow> string \<Rightarrow> 'c KeeneticClientBuilder \<Rightarrow> 'c KeeneticClientBuilder" where
  "builder_credentials login password b =
     b\<lparr>b_credentials := Some \<lparr>cred_login = login, cred_password = Secret password\<rparr>\<rparr>"

definition builder_http_client :: "'c \<Rightarrow> 'c KeeneticClientBuilder \<Rightarrow> 'c KeeneticClientBuilder" where
  "builder_http_client http_client b = b\<lparr>b_http_client := Some http_client\<rparr>"

definition builder_request_timeout ::
  "duration \<Rightarrow> 'c KeeneticClientBuilder \<Rightarrow> 'c KeeneticClientBuilder" where
  "builder_request_timeout timeout b = b\<lparr>b_request_timeout := timeout\<rparr>"

definition builder_connect_timeout ::
  "duration \<Rightarrow> 'c KeeneticClientBuilder \<Rightarrow> 'c KeeneticClientBuilder" where
  "builder_connect_timeout timeout b =
     b\<lparr>b_connect_timeout := timeout, b_connect_timeout_explicit := True\<rparr>"

text \<open>The immutable part of the client's \<open>Inner\<close>; the mutable part is in theory \<open>Client\<close>.\<close>

record ('c, 'u) client =
  http :: 'c
  base_url :: 'u
  credentials :: "Credentials option"
  request_timeout :: duration
  request_timeout_per_request :: bool

text \<open>\<open>build_http connect_timeout timeout\<close> is \<open>reqwest::Client::builder()\<close> with the policies the code
  sets, up to \<open>build()\<close>.\<close>

definition builder_build ::
  "'u url_ops \<Rightarrow> (duration \<Rightarrow> duration \<Rightarrow> reqwest_error + 'c) \<Rightarrow> 'c KeeneticClientBuilder
     \<Rightarrow> ConfigError + ('c, 'u) client" where
  "builder_build ops build_http b =
     (if b_request_timeout b = 0 then Inl (ZeroTimeout ''request_timeout'')
      else if b_connect_timeout b = 0 then Inl (ZeroTimeout ''connect_timeout'')
      else if b_http_client b \<noteq> None \<and> b_connect_timeout_explicit b
      then Inl ConnectTimeoutWithHttpClient
      else if (case b_credentials b of None \<Rightarrow> False | Some c \<Rightarrow> cred_login c = []) then Inl EmptyLogin
      else bind_res (bind_res (ok_or MissingBaseUrl (b_base_url b)) (normalize_base_url ops)) (\<lambda>url.
        bind_res
          (case b_http_client b of
             Some c \<Rightarrow> Inr (c, True)
           | None \<Rightarrow> map_res (\<lambda>c. (c, False))
               (map_err HttpClientError (build_http (b_connect_timeout b) (b_request_timeout b))))
          (\<lambda>(c, per_request).
             Inr \<lparr>http = c, base_url = url, credentials = b_credentials b,
                  request_timeout = b_request_timeout b,
                  request_timeout_per_request = per_request\<rparr>)))"

definition client_debug :: "('u \<Rightarrow> string) \<Rightarrow> ('c, 'u) client \<Rightarrow> debug_tree" where
  "client_debug url_str c = Debug_struct ''KeeneticClient''
     [(''base_url'', Debug_text (url_str (base_url c))),
      (''request_timeout'', Debug_number (request_timeout c)),
      (''credentials'', option_debug (\<lambda>_. Debug_text ''[REDACTED]'') (credentials c))]
     True"

lemma authority_end_split:
  "set (take (authority_end r) r) \<inter> set ''/?#'' = {} \<and> authority_end r \<le> length r"
proof (cases "position (\<lambda>b. b \<in> set ''/?#'') r")
  case None
  then have "\<forall>b \<in> set r. b \<notin> set ''/?#''" by (simp only: position_None not_False_eq_True simp_thms)
  with None show ?thesis unfolding authority_end_def by (simp only: option.case) fastforce
next
  case (Some i)
  then have i: "i < length r" "\<forall>j < i. r ! j \<notin> set ''/?#''" unfolding position_Some by blast+
  then have "\<forall>b \<in> set (take i r). b \<notin> set ''/?#''" by (metis in_set_conv_nth length_take min_less_iff_conj nth_take)
  with Some i(1) show ?thesis unfolding authority_end_def by (simp only: option.case) fastforce
qed

section \<open>Properties\<close>

text \<open>C28: an accepted base URL is an origin: its text is a scheme, \<open>://\<close> and an authority without
  user information, followed by at most one slash, and the URL it parses to has the scheme
  \<open>http\<close> or \<open>https\<close>, a host, and neither user, password, query nor fragment.\<close>

theorem base_url_is_origin:
  assumes "normalize_base_url ops s = Inr u"
  shows "\<exists>scheme auth slash url. s = scheme @ ''://'' @ auth @ slash \<and> slash \<in> {[], ''/''}
     \<and> set auth \<inter> set ''/?#@'' = {} \<and> url_parse ops s = Inr url \<and> u = url_set_path ops url ''/''
     \<and> url_scheme ops url \<in> {''http'', ''https''} \<and> url_host ops url \<noteq> None
     \<and> url_username ops url = [] \<and> url_password ops url = None \<and> url_path ops url \<in> {[], ''/''}
     \<and> url_query ops url = None \<and> url_fragment ops url = None"
proof -
  from assms obtain l r url where *: "split_once ''://'' s = Some (l, r)"
    "CHR ''@'' \<notin> set (take (authority_end r) r)" "drop (authority_end r) r \<in> {[], ''/''}"
    "url_parse ops s = Inr url" "u = url_set_path ops url ''/''"
    "url_scheme ops url \<in> {''http'', ''https''}" "url_host ops url \<noteq> None"
    "url_username ops url = []" "url_password ops url = None" "url_path ops url \<in> {[], ''/''}"
    "url_query ops url = None" "url_fragment ops url = None"
    by (auto simp: normalize_base_url_def res_simps Let_def split: if_splits)
  let ?auth = "take (authority_end r) r" and ?rest = "drop (authority_end r) r"
  have "set ?auth \<inter> set ''/?#'' = {}" using authority_end_split by blast
  with *(2) have "set ?auth \<inter> set ''/?#@'' = {}" by auto
  moreover have "s = l @ ''://'' @ ?auth @ ?rest"
    using split_once_Some [OF *(1)] by simp
  ultimately show ?thesis
    using *(3-) by (intro exI [of _ l] exI [of _ ?auth] exI [of _ ?rest] exI [of _ url] conjI)
qed

definition example_url_ops :: "string url_ops" where
  "example_url_ops = \<lparr>url_parse = Inr, url_scheme = (\<lambda>_. ''http''), url_host = (\<lambda>u. Some (drop 7 u)),
     url_username = (\<lambda>_. []), url_password = (\<lambda>_. None), url_path = (\<lambda>_. []), url_query = (\<lambda>_. None),
     url_fragment = (\<lambda>_. None), url_set_path = (\<lambda>u p. u @ p)\<rparr>"

theorem base_url_is_origin_witness:
  "\<exists>scheme auth slash. ''http://10.0.0.1'' = scheme @ ''://'' @ auth @ slash \<and> CHR ''@'' \<notin> set auth"
proof -
  have "normalize_base_url example_url_ops ''http://10.0.0.1'' = Inr ''http://10.0.0.1/''"
    by code_simp
  from base_url_is_origin [OF this] show ?thesis by auto
qed

text \<open>A built client is configured as documented: positive timeouts, a non-empty login when there
  are credentials, and the per-request timeout exactly when the transport was injected.\<close>

theorem built_client_ok:
  assumes "builder_build ops build_http b = Inr c"
  shows "0 < request_timeout c \<and> request_timeout c = b_request_timeout b
     \<and> credentials c = b_credentials b \<and> (\<forall>k. credentials c = Some k \<longrightarrow> cred_login k \<noteq> [])
     \<and> (request_timeout_per_request c \<longleftrightarrow> b_http_client b \<noteq> None)
     \<and> (b_connect_timeout_explicit b \<longrightarrow> b_http_client b = None)
     \<and> normalize_base_url ops (the (b_base_url b)) = Inr (base_url c)"
  using assms
  by (auto simp: builder_build_def res_simps split: if_splits option.splits)

theorem built_client_ok_witness:
  "\<exists>c. builder_build example_url_ops (\<lambda>_ _. Inr ())
       (builder_base_url ''http://10.0.0.1'' KeeneticClientBuilder_default) = Inr c
     \<and> 0 < request_timeout c \<and> \<not> request_timeout_per_request c"
proof -
  have u: "normalize_base_url example_url_ops ''http://10.0.0.1'' = Inr ''http://10.0.0.1/''"
    by code_simp
  let ?b = "builder_base_url ''http://10.0.0.1'' KeeneticClientBuilder_default"
  obtain c where c: "builder_build example_url_ops (\<lambda>_ _. Inr ()) ?b = Inr c"
    by (simp add: builder_build_def builder_base_url_def KeeneticClientBuilder_default_def u
        DEFAULT_REQUEST_TIMEOUT_def DEFAULT_CONNECT_TIMEOUT_def from_secs_def)
  with built_client_ok [OF c] show ?thesis
    by (auto simp: builder_base_url_def KeeneticClientBuilder_default_def)
qed

text \<open>Debug output never contains the password: the printed fields of the credentials are the same
  for every password, and those of the client for every login and password.\<close>

theorem debug_redacted:
  "Credentials_debug (k\<lparr>cred_password := p\<rparr>) = Credentials_debug k
   \<and> client_debug url_str (c\<lparr>credentials := Some k\<rparr>) = client_debug url_str (c\<lparr>credentials := Some k'\<rparr>)
   \<and> JsonSerializationError_debug (js\<lparr>js_source := e\<rparr>) = JsonSerializationError_debug js
   \<and> ResponseJsonError_debug (rj\<lparr>rj_source := e\<rparr>) = ResponseJsonError_debug rj
   \<and> ResponseDeserializationError_debug (rd\<lparr>rd_source := e\<rparr>) = ResponseDeserializationError_debug rd"
  by (simp add: Credentials_debug_def Secret_debug_def client_debug_def error_debug_defs)

end
