(* ===== verification/Json.thy ===== *)
theory Json
  imports Errors Text_Value
begin

text \<open>
  JSON responses in \<open>src/src/client.rs\<close>: the byte-level prefilter \<open>needs_rci_inspection\<close>, the
  collection of RCI errors from a parsed response, and \<open>decode_json_response\<close>. The crates
  \<open>memchr\<close> and \<open>serde_json\<close> are parameters: \<open>memchr\<close> and \<open>memmem\<close> with the locale
  \<open>byte_search\<close>, the deserializers with the record \<open>json_ops\<close>.
\<close>

section \<open>Values\<close>

text \<open>\<open>serde_json::Value\<close>; an object is its entries in iteration order.\<close>

datatype Value =
    Null
  | Bool bool
  | Number string
  | String string
  | Array "Value list"
  | Object "(string \<times> Value) list"

fun as_object :: "Value \<Rightarrow> (string \<times> Value) list option" where
  "as_object (Object ms) = Some ms"
| "as_object _ = None"

fun as_str :: "Value \<Rightarrow> string option" where
  "as_str (String s) = Some s"
| "as_str _ = None"

section \<open>RCI errors\<close>

definition status_error :: "Value \<Rightarrow> RciStatusEntry option" where
  "status_error status =
     Option.bind (as_object status) (\<lambda>object.
     Option.bind (map_of object ''status'') (\<lambda>v.
     Option.bind (as_str v) (\<lambda>s.
       if s = ''error''
       then Some \<lparr>code = Option.bind (map_of object ''code'') as_str,
                  ident = Option.bind (map_of object ''ident'') as_str,
                  message = Option.bind (map_of object ''message'') as_str\<rparr>
       else None)))"

fun status_entries :: "string \<Rightarrow> Value \<Rightarrow> RciStatusEntry list" where
  "status_entries key (Array statuses) =
     (if key = ''status'' then List.map_filter status_error statuses else [])"
| "status_entries key _ = []"

fun collect_rci_errors :: "Value \<Rightarrow> RciStatusEntry list \<Rightarrow> RciStatusEntry list"
  and collect_members :: "(string \<times> Value) list \<Rightarrow> RciStatusEntry list \<Rightarrow> RciStatusEntry list"
  and collect_elements :: "Value list \<Rightarrow> RciStatusEntry list \<Rightarrow> RciStatusEntry list" where
  "collect_rci_errors (Object object) entries = collect_members object entries"
| "collect_rci_errors (Array array) entries = collect_elements array entries"
| "collect_rci_errors Null entries = entries"
| "collect_rci_errors (Bool _) entries = entries"
| "collect_rci_errors (Number _) entries = entries"
| "collect_rci_errors (String _) entries = entries"
| "collect_members [] entries = entries"
| "collect_members ((key, child) # object) entries =
     collect_members object (collect_rci_errors child (entries @ status_entries key child))"
| "collect_elements [] entries = entries"
| "collect_elements (child # array) entries =
     collect_elements array (collect_rci_errors child entries)"

text \<open>The declarative reading: a value contains an error entry when some object inside it, at any
  depth, has a \<open>status\<close> array with an element that is an error.\<close>

inductive inside :: "Value \<Rightarrow> Value \<Rightarrow> bool" where
  Inside_refl: "inside v v"
| Inside_array: "inside v w \<Longrightarrow> w \<in> set ws \<Longrightarrow> inside v (Array ws)"
| Inside_object: "inside v w \<Longrightarrow> (k, w) \<in> set ms \<Longrightarrow> inside v (Object ms)"

inductive_cases inside_arrayE: "inside v (Array ws)"
inductive_cases inside_objectE: "inside v (Object ms)"
inductive_simps inside_simps: "inside v Null" "inside v (Bool b)" "inside v (Number n)" "inside v (String s)"

definition has_rci_error :: "Value \<Rightarrow> RciStatusEntry \<Rightarrow> bool" where
  "has_rci_error v e \<longleftrightarrow> (\<exists>ms statuses st. inside (Object ms) v
     \<and> (''status'', Array statuses) \<in> set ms \<and> st \<in> set statuses \<and> status_error st = Some e)"

lemma set_status_entries:
  "e \<in> set (status_entries k w) \<longleftrightarrow>
     k = ''status'' \<and> (\<exists>ss st. w = Array ss \<and> st \<in> set ss \<and> status_error st = Some e)"
  by (cases w) (force simp: List.map_filter_def image_iff)+

lemma has_rci_error_object:
  "has_rci_error (Object ms) e \<longleftrightarrow>
     (\<exists>k w. (k, w) \<in> set ms \<and> (e \<in> set (status_entries k w) \<or> has_rci_error w e))"
  unfolding has_rci_error_def set_status_entries
  by (blast intro: Inside_refl Inside_object elim: inside_objectE)

lemma has_rci_error_array:
  "has_rci_error (Array ws) e \<longleftrightarrow> (\<exists>w \<in> set ws. has_rci_error w e)"
  unfolding has_rci_error_def by (blast intro: Inside_array elim: inside_arrayE)

lemma has_rci_error_scalar:
  "\<not> has_rci_error Null e" "\<not> has_rci_error (Bool b) e" "\<not> has_rci_error (Number n) e"
  "\<not> has_rci_error (String s) e"
  by (simp_all add: has_rci_error_def inside_simps)

lemma collect_set:
  "set (collect_rci_errors v acc) = set acc \<union> {e. has_rci_error v e}"
  "set (collect_members ms acc) = set acc
     \<union> {e. \<exists>k w. (k, w) \<in> set ms \<and> (e \<in> set (status_entries k w) \<or> has_rci_error w e)}"
  "set (collect_elements ws acc) = set acc \<union> {e. \<exists>w \<in> set ws. has_rci_error w e}"
proof (induction v acc and ms acc and ws acc
    rule: collect_rci_errors_collect_members_collect_elements.induct)
  case (1 object entries)
  then show ?case by (simp add: has_rci_error_object)
next
  case (2 array entries)
  then show ?case by (simp add: has_rci_error_array)
qed (auto simp: has_rci_error_scalar)

lemma collect_append:
  "collect_rci_errors v (a @ acc) = a @ collect_rci_errors v acc"
  "collect_members ms (a @ acc) = a @ collect_members ms acc"
  "collect_elements ws (a @ acc) = a @ collect_elements ws acc"
  by (induction v acc and ms acc and ws acc arbitrary: a and a and a
      rule: collect_rci_errors_collect_members_collect_elements.induct) auto

lemma collect_nonempty: "collect_rci_errors v [] \<noteq> [] \<longleftrightarrow> (\<exists>e. has_rci_error v e)"
  using collect_set(1) [of v "[]"] by (cases "collect_rci_errors v []") (auto simp: set_eq_iff)

section \<open>The prefilter\<close>

text \<open>Byte \<open>0x22\<close> is the double quote, \<open>0x5C\<close> the backslash.\<close>

definition json_hex_value :: "char \<Rightarrow> u16 option" where
  "json_hex_value byte =
     (let n = byte_val byte in
      if 48 \<le> n \<and> n \<le> 57 then Some (of_nat (n - 48))
      else if 97 \<le> n \<and> n \<le> 102 then Some (of_nat (n - 97 + 10))
      else if 65 \<le> n \<and> n \<le> 70 then Some (of_nat (n - 65 + 10))
      else None)"

fun fold_hex :: "u16 \<Rightarrow> string \<Rightarrow> u16 option" where
  "fold_hex value [] = Some value"
| "fold_hex value (digit # digits) =
     (case json_hex_value digit of None \<Rightarrow> None
      | Some d \<Rightarrow> fold_hex (or (push_bit 4 value) d) digits)"

fun json_string_matches :: "string \<Rightarrow> string \<Rightarrow> bool" where
  "json_string_matches bytes [] = (take 1 bytes = [CHR 0x22])"
| "json_string_matches bytes (expected_byte # expected) =
     (if take 1 bytes = [expected_byte] then json_string_matches (drop 1 bytes) expected
      else if starts_with [CHR 0x5C, CHR ''u''] bytes \<and> 4 \<le> length (drop 2 bytes) then
        (case fold_hex 0 (take 4 (drop 2 bytes)) of
           None \<Rightarrow> False
         | Some decoded \<Rightarrow>
             if decoded \<noteq> of_nat (byte_val expected_byte) then False
             else json_string_matches (drop 6 bytes) expected)
      else False)"

text \<open>The scan over the quotes. \<open>memchr\<close> returns an index into the remaining bytes, so each round
  drops at least one byte; the recursion is on a bound for their number, and \<open>quote_scan\<close> starts it
  with the length, which is enough.\<close>

fun quote_scan_fuel :: "(char \<Rightarrow> string \<Rightarrow> nat option) \<Rightarrow> string \<Rightarrow> nat \<Rightarrow> string \<Rightarrow> bool" where
  "quote_scan_fuel memchr expected 0 remaining = False"
| "quote_scan_fuel memchr expected (Suc n) remaining =
     (case memchr (CHR 0x22) remaining of
        None \<Rightarrow> False
      | Some quote \<Rightarrow>
          let remaining = drop (quote + 1) remaining in
          if json_string_matches remaining expected then True
          else quote_scan_fuel memchr expected n remaining)"

definition quote_scan :: "(char \<Rightarrow> string \<Rightarrow> nat option) \<Rightarrow> string \<Rightarrow> string \<Rightarrow> bool" where
  "quote_scan memchr expected bytes = quote_scan_fuel memchr expected (length bytes + 1) bytes"

definition contains_json_string ::
  "(char \<Rightarrow> string \<Rightarrow> nat option) \<Rightarrow> (string \<Rightarrow> string \<Rightarrow> nat option) \<Rightarrow> string \<Rightarrow> string \<Rightarrow> string \<Rightarrow> bool"
where
  "contains_json_string memchr memmem bytes expected literal =
     (if memmem bytes literal \<noteq> None then True
      else if memchr (CHR 0x5C) bytes = None then False
      else quote_scan memchr expected bytes)"

definition needs_rci_inspection ::
  "(char \<Rightarrow> string \<Rightarrow> nat option) \<Rightarrow> (string \<Rightarrow> string \<Rightarrow> nat option) \<Rightarrow> string \<Rightarrow> bool" where
  "needs_rci_inspection memchr memmem bytes \<longleftrightarrow>
     contains_json_string memchr memmem bytes ''status'' (CHR 0x22 # ''status'' @ [CHR 0x22])
     \<and> contains_json_string memchr memmem bytes ''error'' (CHR 0x22 # ''error'' @ [CHR 0x22])"

text \<open>The documented behaviour of \<open>memchr::memchr\<close> (index of the first occurrence) and of
  \<open>memmem::find\<close> (an occurrence exists).\<close>

locale byte_search =
  fixes memchr :: "char \<Rightarrow> string \<Rightarrow> nat option"
    and memmem :: "string \<Rightarrow> string \<Rightarrow> nat option"
  assumes memchr_None: "memchr c s = None \<longleftrightarrow> c \<notin> set s"
    and memchr_Some: "memchr c s = Some i \<Longrightarrow> i < length s \<and> s ! i = c \<and> c \<notin> set (take i s)"
    and memmem_None: "memmem s p = None \<longleftrightarrow> \<not> str_contains p s"

text \<open>JSON string tokens (RFC 8259 section 7): the bytes between the quotes on the left, the string
  they denote on the right.\<close>

inductive json_token :: "string \<Rightarrow> string \<Rightarrow> bool" where
  Tok_end: "json_token [] []"
| Tok_plain: "b \<noteq> CHR 0x22 \<Longrightarrow> b \<noteq> CHR 0x5C \<Longrightarrow> 32 \<le> byte_val b \<Longrightarrow> json_token t s \<Longrightarrow>
    json_token (b # t) (b # s)"
| Tok_short: "(c, d) \<in> {(CHR 0x22, CHR 0x22), (CHR 0x5C, CHR 0x5C), (CHR ''/'', CHR ''/''),
      (CHR ''b'', CHR 0x08), (CHR ''f'', CHR 0x0C), (CHR ''n'', CHR 0x0A), (CHR ''r'', CHR 0x0D),
      (CHR ''t'', CHR 0x09)} \<Longrightarrow> json_token t s \<Longrightarrow>
    json_token (CHR 0x5C # c # t) (d # s)"
| Tok_unicode: "length h = 4 \<Longrightarrow> fold_hex 0 h = Some u \<Longrightarrow> is_scalar (unat u) \<Longrightarrow> json_token t s \<Longrightarrow>
    json_token (CHR 0x5C # CHR ''u'' # h @ t) (utf8_encode_char (unat u) @ s)"
| Tok_pair: "length h = 4 \<Longrightarrow> fold_hex 0 h = Some u \<Longrightarrow> 0xD800 \<le> unat u \<Longrightarrow> unat u \<le> 0xDBFF \<Longrightarrow>
    length l = 4 \<Longrightarrow> fold_hex 0 l = Some w \<Longrightarrow> 0xDC00 \<le> unat w \<Longrightarrow> unat w \<le> 0xDFFF \<Longrightarrow>
    json_token t s \<Longrightarrow>
    json_token (CHR 0x5C # CHR ''u'' # h @ CHR 0x5C # CHR ''u'' # l @ t)
      (utf8_encode_char (0x10000 + (unat u - 0xD800) * 0x400 + (unat w - 0xDC00)) @ s)"

text \<open>A printable ASCII string other than a quote, a backslash or a slash can be written in a token
  in only two ways, which is what \<open>json_string_matches\<close> looks for.\<close>

definition letters :: "string \<Rightarrow> bool" where
  "letters s \<longleftrightarrow> (\<forall>b \<in> set s. 97 \<le> byte_val b \<and> byte_val b \<le> 122)"

lemma letters_keywords: "letters ''status''" "letters ''error''"
  by (simp_all add: letters_def)

lemma utf8_encode_char_ascii_hd:
  assumes "utf8_encode_char n @ s = b # r" and "byte_val b < 128" and "n < 1114112"
  shows "n < 128 \<and> byte_val b = n \<and> r = s"
proof -
  have "n div 262144 < 5" "n div 4096 < 272" using assms(3) by linarith+
  with assms show ?thesis
    by (auto simp: utf8_encode_char_def byte_val_char_of split: if_splits)
qed

lemma utf8_encode_char_Cons:
  obtains b r where "utf8_encode_char n @ s = b # r"
  by (cases "utf8_encode_char n @ s") (auto simp: utf8_encode_char_def split: if_splits)

lemma token_matches:
  "json_token t s \<Longrightarrow> letters s \<Longrightarrow> json_string_matches (t @ CHR 0x22 # r) s"
proof (induction rule: json_token.induct)
  case Tok_end
  show ?case by simp
next
  case (Tok_plain b t s)
  then show ?case by (simp add: letters_def)
next
  case (Tok_short c d t s)
  then show ?case by (auto simp: letters_def)
next
  case (Tok_unicode h u t s)
  obtain b s' where b: "utf8_encode_char (unat u) @ s = b # s'" by (rule utf8_encode_char_Cons)
  with Tok_unicode.prems have l: "97 \<le> byte_val b" "byte_val b \<le> 122" by (auto simp: letters_def)
  then have u: "unat u = byte_val b" "s' = s" using utf8_encode_char_ascii_hd [OF b] Tok_unicode.hyps(3) by (auto simp: is_scalar_def)
  then have "u = of_nat (byte_val b)" by (simp flip: u(1))
  moreover have "json_string_matches (t @ CHR 0x22 # r) s"
    using Tok_unicode b u by (auto simp: letters_def)
  ultimately show ?case
    using Tok_unicode.hyps l u unfolding b by (auto simp: starts_with_def)
next
  case (Tok_pair h u l w t s)
  let ?n = "0x10000 + (unat u - 0xD800) * 0x400 + (unat w - 0xDC00)"
  obtain b s' where b: "utf8_encode_char ?n @ s = b # s'" by (rule utf8_encode_char_Cons)
  with Tok_pair.prems have "byte_val b < 128" by (auto simp: letters_def)
  moreover have "?n < 1114112" using Tok_pair.hyps by linarith
  ultimately have "?n < 128" using utf8_encode_char_ascii_hd [OF b] by blast
  then show ?case by simp
qed

lemma token_plain: "json_token t s \<Longrightarrow> CHR 0x5C \<notin> set t \<Longrightarrow> t = s"
  by (induction rule: json_token.induct) auto

context byte_search
begin

lemma quote_scan_fuel_sound:
  "quote_scan_fuel memchr expected n bytes \<Longrightarrow>
     \<exists>l r. bytes = l @ CHR 0x22 # r \<and> json_string_matches r expected"
proof (induction n arbitrary: bytes)
  case 0
  then show ?case by simp
next
  case (Suc n)
  then obtain i where i: "memchr (CHR 0x22) bytes = Some i"
    by (auto split: option.splits)
  from memchr_Some [OF i] have b: "bytes = take i bytes @ CHR 0x22 # drop (i + 1) bytes"
    by (metis id_take_nth_drop add.commute plus_1_eq_Suc)
  show ?case
  proof (cases "json_string_matches (drop (i + 1) bytes) expected")
    case True
    with b show ?thesis by blast
  next
    case False
    with Suc.prems i have "quote_scan_fuel memchr expected n (drop (i + 1) bytes)" by simp
    from Suc.IH [OF this] obtain l r where
      "drop (i + 1) bytes = l @ CHR 0x22 # r" "json_string_matches r expected" by blast
    with b have "bytes = (take i bytes @ CHR 0x22 # l) @ CHR 0x22 # r" by simp
    with \<open>json_string_matches r expected\<close> show ?thesis by blast
  qed
qed

lemma quote_scan_fuel_complete:
  "json_string_matches r expected \<Longrightarrow> length l < n \<Longrightarrow>
     quote_scan_fuel memchr expected n (l @ CHR 0x22 # r)"
proof (induction n arbitrary: l)
  case 0
  then show ?case by simp
next
  case (Suc n)
  let ?b = "l @ CHR 0x22 # r"
  obtain i where i: "memchr (CHR 0x22) ?b = Some i"
    using memchr_None [of "CHR 0x22" ?b] by fastforce
  have le: "i \<le> length l"
  proof (rule ccontr)
    assume "\<not> i \<le> length l"
    then have "CHR 0x22 \<in> set (take i ?b)" by (cases "i - length l") auto
    with memchr_Some [OF i] show False by blast
  qed
  show ?case
  proof (cases "i = length l")
    case True
    with i Suc.prems show ?thesis by simp
  next
    case False
    with le have "drop (i + 1) ?b = drop (i + 1) l @ CHR 0x22 # r" by simp
    moreover have "length (drop (i + 1) l) < n"
      using Suc.prems(2) le False unfolding length_drop by linarith
    ultimately show ?thesis using i Suc.IH [of "drop (i + 1) l"] Suc.prems(1) by simp
  qed
qed

lemma quote_scan_iff:
  "quote_scan memchr expected bytes \<longleftrightarrow>
     (\<exists>l r. bytes = l @ CHR 0x22 # r \<and> json_string_matches r expected)"
proof
  assume "quote_scan memchr expected bytes"
  then show "\<exists>l r. bytes = l @ CHR 0x22 # r \<and> json_string_matches r expected"
    unfolding quote_scan_def by (rule quote_scan_fuel_sound)
next
  assume "\<exists>l r. bytes = l @ CHR 0x22 # r \<and> json_string_matches r expected"
  then obtain l r where b: "bytes = l @ CHR 0x22 # r" "json_string_matches r expected" by blast
  have "length l < length bytes + 1" unfolding b(1) by simp
  with b show "quote_scan memchr expected bytes"
    unfolding quote_scan_def by (metis quote_scan_fuel_complete)
qed

lemma token_found:
  assumes "json_token t s" and "letters s" and "bytes = l @ CHR 0x22 # t @ CHR 0x22 # r"
  shows "contains_json_string memchr memmem bytes s (CHR 0x22 # s @ [CHR 0x22])"
proof (cases "CHR 0x5C \<in> set t")
  case False
  with assms(1) have "t = s" by (rule token_plain)
  then have "str_contains (CHR 0x22 # s @ [CHR 0x22]) bytes"
    unfolding str_contains_iff assms(3) by (intro exI [of _ l] exI [of _ r]) simp
  then show ?thesis by (simp add: contains_json_string_def memmem_None)
next
  case True
  then have "memchr (CHR 0x5C) bytes \<noteq> None" by (simp add: memchr_None assms(3))
  moreover have "json_string_matches (t @ CHR 0x22 # r) s" by (rule token_matches [OF assms(1, 2)])
  ultimately show ?thesis
    by (auto simp: contains_json_string_def quote_scan_iff assms(3))
qed

end

definition memchr_ref :: "char \<Rightarrow> string \<Rightarrow> nat option" where
  "memchr_ref c s = position (\<lambda>b. b = c) s"

definition memmem_ref :: "string \<Rightarrow> string \<Rightarrow> nat option" where
  "memmem_ref s p = map_option (\<lambda>(l, r). length l) (split_once p s)"

interpretation naive_search: byte_search memchr_ref memmem_ref
proof
  fix c s i
  assume "memchr_ref c s = Some i"
  then show "i < length s \<and> s ! i = c \<and> c \<notin> set (take i s)"
    by (auto simp: memchr_ref_def position_Some in_set_conv_nth)
qed (auto simp: memchr_ref_def position_None memmem_ref_def split_once_None)

section \<open>Decoding a response\<close>

record 't json_ops =
  from_slice :: "string \<Rightarrow> json_error + Value"
  de_value :: "Value \<Rightarrow> (string \<times> json_error) + 't"
  de_slice :: "string \<Rightarrow> (string \<times> json_error) + ('t \<times> string)"
  de_end :: "string \<Rightarrow> json_error + unit"

definition classify_response_error :: "RequestContext \<Rightarrow> string \<times> json_error \<Rightarrow> Error" where
  "classify_response_error context e =
     (case je_category (snd e) of
        Category_Data \<Rightarrow> ResponseDeserialization (ResponseDeserializationError_new context e)
      | Category_Io \<Rightarrow> ResponseJson \<lparr>rj_context = context, rj_source = snd e\<rparr>
      | Category_Syntax \<Rightarrow> ResponseJson \<lparr>rj_context = context, rj_source = snd e\<rparr>
      | Category_Eof \<Rightarrow> ResponseJson \<lparr>rj_context = context, rj_source = snd e\<rparr>)"

definition decode_json_response ::
  "(char \<Rightarrow> string \<Rightarrow> nat option) \<Rightarrow> (string \<Rightarrow> string \<Rightarrow> nat option) \<Rightarrow> 't json_ops \<Rightarrow>
   string \<Rightarrow> RequestContext \<Rightarrow> Error + 't" where
  "decode_json_response memchr memmem ops bytes context =
     (if needs_rci_inspection memchr memmem bytes then
        bind_res (map_err (\<lambda>source. ResponseJson \<lparr>rj_context = context, rj_source = source\<rparr>)
                    (from_slice ops bytes)) (\<lambda>v.
        let entries = collect_rci_errors v [] in
        if entries \<noteq> [] then Inl (RciErr \<lparr>re_context = context, re_entries = entries\<rparr>)
        else map_err (classify_response_error context) (de_value ops v))
      else
        bind_res (map_err (classify_response_error context) (de_slice ops bytes)) (\<lambda>(response, rest).
        bind_res (map_err (\<lambda>source. ResponseJson \<lparr>rj_context = context, rj_source = source\<rparr>)
                    (de_end ops rest)) (\<lambda>_.
        Inr response)))"

lemma classify_not_rci [simp]: "classify_response_error context e \<noteq> RciErr r"
  by (cases "je_category (snd e)") (simp_all add: classify_response_error_def)

text \<open>Every string of a parsed value, object keys included, comes from a string token of the
  text.\<close>

definition value_strings :: "Value \<Rightarrow> string set" where
  "value_strings v = {s. inside (String s) v \<or> (\<exists>ms w. inside (Object ms) v \<and> (s, w) \<in> set ms)}"

definition json_text :: "(string \<Rightarrow> json_error + Value) \<Rightarrow> bool" where
  "json_text parse \<longleftrightarrow> (\<forall>bytes v s. parse bytes = Inr v \<and> s \<in> value_strings v \<longrightarrow>
     (\<exists>l t r. bytes = l @ CHR 0x22 # t @ CHR 0x22 # r \<and> json_token t s))"

lemma value_strings_simps:
  "value_strings Null = {}" "value_strings (Bool b) = {}" "value_strings (Number n) = {}"
  "value_strings (String s) = {s}"
  "value_strings (Array ws) = (\<Union>w \<in> set ws. value_strings w)"
  "value_strings (Object ms) = fst ` set ms \<union> (\<Union>m \<in> set ms. value_strings (snd m))"
proof -
  show "value_strings (Array ws) = (\<Union>w \<in> set ws. value_strings w)"
    by (auto simp: value_strings_def intro: Inside_array elim!: inside_arrayE)
  show "value_strings (Object ms) = fst ` set ms \<union> (\<Union>m \<in> set ms. value_strings (snd m))"
    by (auto simp: value_strings_def image_iff intro: Inside_object Inside_refl elim!: inside_objectE)
      (force intro: Inside_object Inside_refl)+
qed (auto simp: value_strings_def inside_simps)

lemma inside_trans: "inside v w \<Longrightarrow> inside u v \<Longrightarrow> inside u w"
  by (induction rule: inside.induct) (auto intro: inside.intros)

lemma status_error_Some:
  assumes "status_error st = Some e"
  obtains ms where "st = Object ms" and "(''status'', String ''error'') \<in> set ms"
proof -
  from assms obtain ms v s where *: "as_object st = Some ms" "map_of ms ''status'' = Some v"
    "as_str v = Some s" "s = ''error''"
    by (auto simp: status_error_def bind_eq_Some_conv split: if_splits)
  from *(1) have "st = Object ms" by (cases st) auto
  moreover from *(3, 4) have "v = String ''error''" by (cases v) auto
  ultimately have "st = Object ms" "v = String ''error''" by simp_all
  with * map_of_SomeD that show thesis by metis
qed

lemma error_strings:
  assumes "has_rci_error v e"
  shows "''status'' \<in> value_strings v" and "''error'' \<in> value_strings v"
proof -
  from assms obtain ms ss st where *: "inside (Object ms) v" "(''status'', Array ss) \<in> set ms"
    "st \<in> set ss" "status_error st = Some e"
    by (auto simp: has_rci_error_def)
  from *(1, 2) show "''status'' \<in> value_strings v" by (auto simp: value_strings_def)
  from *(4) obtain ns where ns: "st = Object ns" "(''status'', String ''error'') \<in> set ns"
    by (rule status_error_Some)
  then have "inside (String ''error'') st" by (auto intro: inside.intros)
  with * have "inside (String ''error'') (Object ms)" by (blast intro: inside.intros)
  with *(1) inside_trans show "''error'' \<in> value_strings v" by (auto simp: value_strings_def)
qed

context byte_search
begin

lemma prefilter_complete:
  assumes "json_text parse" and "parse bytes = Inr v" and "has_rci_error v e"
  shows "needs_rci_inspection memchr memmem bytes"
proof -
  have found: "contains_json_string memchr memmem bytes s (CHR 0x22 # s @ [CHR 0x22])"
    if "s \<in> value_strings v" and "letters s" for s
    using assms(1, 2) that token_found unfolding json_text_def by blast
  show ?thesis
    unfolding needs_rci_inspection_def
    using found [OF error_strings(1) [OF assms(3)]] found [OF error_strings(2) [OF assms(3)]]
    by (simp add: letters_keywords)
qed

end

lemma response_with_error:
  assumes "byte_search memchr memmem" and "json_text (from_slice ops)"
    and "from_slice ops bytes = Inr v" and "has_rci_error v e"
  shows "decode_json_response memchr memmem ops bytes context
     = Inl (RciErr \<lparr>re_context = context, re_entries = collect_rci_errors v []\<rparr>)
     \<and> e \<in> set (collect_rci_errors v [])"
proof -
  have "needs_rci_inspection memchr memmem bytes"
    by (rule byte_search.prefilter_complete [OF assms])
  moreover have "e \<in> set (collect_rci_errors v [])" using assms(4) by (simp add: collect_set)
  ultimately show ?thesis
    using assms(3) by (auto simp: decode_json_response_def Let_def)
qed

lemma rci_error_body:
  assumes "decode_json_response memchr memmem ops bytes context = Inl (RciErr e)"
  shows "\<exists>v. from_slice ops bytes = Inr v \<and> re_entries e = collect_rci_errors v []
     \<and> re_entries e \<noteq> [] \<and> re_context e = context"
  using assms
  by (auto simp: decode_json_response_def res_simps Let_def classify_not_rci [symmetric]
      split: if_splits prod.splits)

section \<open>Properties\<close>

text \<open>C10: \<open>collect_rci_errors\<close> finds exactly the error entries that occur at any depth of a response:
  the elements of a \<open>status\<close> array, in an object anywhere in the value, whose own \<open>status\<close> is
  \<open>error\<close>.\<close>

theorem collect_rci_errors_exact:
  "e \<in> set (collect_rci_errors v []) \<longleftrightarrow>
     (\<exists>ms statuses st. inside (Object ms) v \<and> (''status'', Array statuses) \<in> set ms
        \<and> st \<in> set statuses \<and> status_error st = Some e)"
  by (simp add: collect_set has_rci_error_def)

text \<open>The byte-level prefilter is sound: a response body that parses to a value with an RCI error
  is never decoded on the fast path, however the router chose to escape the two keywords, so
  the caller gets the RCI error with every entry in traversal order.\<close>

theorem rci_errors_never_missed:
  assumes "byte_search memchr memmem" and "json_text (from_slice ops)"
    and "from_slice ops bytes = Inr v" and "has_rci_error v e"
  shows "decode_json_response memchr memmem ops bytes context
     = Inl (RciErr \<lparr>re_context = context, re_entries = collect_rci_errors v []\<rparr>)
     \<and> e \<in> set (collect_rci_errors v [])"
  by (rule response_with_error [OF assms])

text \<open>A response in which the router escaped a letter of the keyword \<open>error\<close>.\<close>

definition escaped_error_text :: string where
  "escaped_error_text = ''{'' @ [CHR 0x22] @ ''status'' @ [CHR 0x22] @ '':[{'' @ [CHR 0x22] @ ''status''
     @ [CHR 0x22] @ '':'' @ [CHR 0x22, CHR 0x5C] @ ''u0065rror'' @ [CHR 0x22] @ ''}]}''"

definition escaped_error_value :: Value where
  "escaped_error_value =
     Object [(''status'', Array [Object [(''status'', String ''error'')]])]"

definition escaped_error_ops :: "unit json_ops" where
  "escaped_error_ops = \<lparr>
     from_slice = (\<lambda>bytes. if bytes = escaped_error_text then Inr escaped_error_value
                         else Inl \<lparr>je_category = Category_Syntax, je_message = []\<rparr>),
     de_value = (\<lambda>_. Inr ()), de_slice = (\<lambda>_. Inr ((), [])), de_end = (\<lambda>_. Inr ())\<rparr>"

lemma escaped_error_tokens: "json_text (from_slice escaped_error_ops)"
proof -
  have status: "json_token ''status'' ''status''"
    by (intro json_token.intros) simp_all
  have "json_token (''rror'') ''rror''"
    by (intro json_token.intros) simp_all
  moreover have "fold_hex 0 ''0065'' = Some 0x65" by (simp add: json_hex_value_def)
  ultimately have "json_token (CHR 0x5C # CHR ''u'' # ''0065'' @ ''rror'')
      (utf8_encode_char (unat (0x65 :: u16)) @ ''rror'')"
    by (intro Tok_unicode) (simp_all add: is_scalar_def)
  moreover have "char_of (101 :: nat) = CHR ''e''" by code_simp
  ultimately have error: "json_token (CHR 0x5C # ''u0065rror'') ''error''"
    by (simp add: utf8_encode_char_def)
  have s1: "escaped_error_text = ''{'' @ CHR 0x22 # ''status'' @ CHR 0x22 # drop 9 escaped_error_text"
    and s2: "escaped_error_text = take 21 escaped_error_text @ CHR 0x22 # (CHR 0x5C # ''u0065rror'')
       @ CHR 0x22 # ''}]}''"
    by (simp_all add: escaped_error_text_def)
  have token: "\<exists>l t r. escaped_error_text = l @ CHR 0x22 # t @ CHR 0x22 # r \<and> json_token t s"
    if "s = ''status'' \<or> s = ''error''" for s
    using that
  proof
    assume "s = ''status''"
    then show ?thesis using status by (intro exI conjI) (rule s1, simp)
  next
    assume "s = ''error''"
    then show ?thesis using error by (intro exI conjI) (rule s2, simp)
  qed
  have "value_strings escaped_error_value = {''status'', ''error''}"
    by (auto simp: escaped_error_value_def value_strings_simps)
  with token show ?thesis
    unfolding json_text_def by (simp add: escaped_error_ops_def)
qed

theorem rci_errors_never_missed_witness:
  "decode_json_response memchr_ref memmem_ref escaped_error_ops escaped_error_text
       (RequestContext_new POST ''/rci/'')
     = Inl (RciErr \<lparr>re_context = RequestContext_new POST ''/rci/'',
         re_entries = [\<lparr>code = None, ident = None, message = None\<rparr>]\<rparr>)"
proof -
  have e: "has_rci_error escaped_error_value \<lparr>code = None, ident = None, message = None\<rparr>"
    by (simp add: escaped_error_value_def has_rci_error_object has_rci_error_array
        has_rci_error_scalar set_status_entries status_error_def)
  have "collect_rci_errors escaped_error_value [] = [\<lparr>code = None, ident = None, message = None\<rparr>]"
    by (simp add: escaped_error_value_def status_error_def List.map_filter_def)
  then show ?thesis
    using rci_errors_never_missed [OF naive_search.byte_search_axioms escaped_error_tokens _ e]
    by (simp add: escaped_error_ops_def)
qed

text \<open>C1: the byte-level prefilter changes nothing about RCI errors: the caller gets one exactly when the
  body is JSON with an error entry at some depth, however the router chose to escape the two keywords,
  and it carries all entries of the body in traversal order.\<close>

theorem rci_errors_exact:
  assumes "byte_search memchr memmem" and "json_text (from_slice ops)"
  shows "decode_json_response memchr memmem ops bytes context = Inl (RciErr e) \<longleftrightarrow>
     (\<exists>v. from_slice ops bytes = Inr v \<and> (\<exists>entry. has_rci_error v entry)
        \<and> e = \<lparr>re_context = context, re_entries = collect_rci_errors v []\<rparr>)"
proof
  assume "decode_json_response memchr memmem ops bytes context = Inl (RciErr e)"
  from rci_error_body [OF this] obtain v where v: "from_slice ops bytes = Inr v"
      "re_entries e = collect_rci_errors v []" "re_entries e \<noteq> []" "re_context e = context"
    by blast
  then have "\<exists>entry. has_rci_error v entry" using collect_nonempty [of v] by simp
  with v show "\<exists>v. from_slice ops bytes = Inr v \<and> (\<exists>entry. has_rci_error v entry)
      \<and> e = \<lparr>re_context = context, re_entries = collect_rci_errors v []\<rparr>"
    by (intro exI [of _ v]) (cases e; simp)
qed (use response_with_error [OF assms] in blast)

theorem rci_errors_exact_witness:
  "\<exists>e. decode_json_response memchr_ref memmem_ref escaped_error_ops escaped_error_text
       (RequestContext_new POST ''/rci/'') = Inl (RciErr e)
     \<and> re_entries e = [\<lparr>code = None, ident = None, message = None\<rparr>]"
proof -
  have "has_rci_error escaped_error_value \<lparr>code = None, ident = None, message = None\<rparr>"
    by (simp add: escaped_error_value_def has_rci_error_object has_rci_error_array
        has_rci_error_scalar set_status_entries status_error_def)
  moreover have "collect_rci_errors escaped_error_value [] = [\<lparr>code = None, ident = None, message = None\<rparr>]"
    by (simp add: escaped_error_value_def status_error_def List.map_filter_def)
  ultimately show ?thesis
    unfolding rci_errors_exact [OF naive_search.byte_search_axioms escaped_error_tokens]
    by (auto simp: escaped_error_ops_def)
qed

text \<open>Conversely an RCI error is reported only when the body parses to a value that contains one,
  and then with all of its entries.\<close>

theorem rci_error_only_if_present:
  assumes "decode_json_response memchr memmem ops bytes context = Inl (RciErr e)"
  shows "\<exists>v. from_slice ops bytes = Inr v \<and> re_entries e = collect_rci_errors v []
     \<and> re_entries e \<noteq> [] \<and> re_context e = context"
  by (rule rci_error_body [OF assms])

theorem rci_error_only_if_present_witness:
  "\<exists>v. from_slice escaped_error_ops escaped_error_text = Inr v \<and> collect_rci_errors v [] \<noteq> []"
proof -
  have "needs_rci_inspection memchr_ref memmem_ref escaped_error_text" by code_simp
  then have "\<exists>e. decode_json_response memchr_ref memmem_ref escaped_error_ops escaped_error_text
      (RequestContext_new POST ''/rci/'') = Inl (RciErr e)"
    by (simp add: decode_json_response_def escaped_error_ops_def escaped_error_value_def
        status_error_def List.map_filter_def)
  then show ?thesis using rci_error_only_if_present by metis
qed

end
