(* ===== verification/Client.thy ===== *)
theory Client
  imports Config Json
begin

text \<open>
  The request pipeline of \<open>src/src/client.rs\<close> as one task runs it: \<open>send_once\<close>, the challenge
  response in \<open>perform_authentication\<close>, \<open>authenticate\<close>, \<open>send_authenticated\<close>,
  \<open>send_successful\<close>, \<open>send_json\<close> and \<open>send_text\<close>. The mutable part of \<open>Inner\<close> (cookie jar,
  generation counters, last result) is the record \<open>session\<close>, threaded explicitly together with
  the outside world, whose type is a parameter; theory \<open>Single_Flight\<close> interleaves tasks.

  Everything the code calls in \<open>reqwest\<close>, \<open>http\<close>, \<open>url\<close>, \<open>serde_json\<close>, \<open>md5\<close> and \<open>sha2\<close> is a
  field of the record \<open>deps\<close>. The field \<open>log\<close> of the session is not in the code: it records
  every request handed to the transport with the outcome, so that what goes over the wire can be
  stated.
\<close>

section \<open>Requests, responses, session\<close>

record 'u PreparedRequest =
  pr_context :: RequestContext
  pr_url :: 'u
  pr_body :: "string option"

record 'u HttpRequest =
  hr_method :: Method
  hr_url :: 'u
  hr_timeout :: "duration option"
  hr_cookie :: "string option"
  hr_content_type :: "string option"
  hr_body :: "string option"

record ('u, 'h) Response =
  rs_status :: nat
  rs_headers :: 'h
  rs_url :: 'u
  rs_bytes :: "reqwest_error + string"
  rs_text :: "reqwest_error + string"

record AuthState =
  generation :: u64
  last_result :: "(Error + unit) option"

type_synonym ('u, 'h) event = "'u PreparedRequest \<times> (reqwest_error + ('u, 'h) Response)"

record ('u, 'h, 'j, 'w) session =
  cookies :: 'j
  auth_generation :: u64
  auth :: AuthState
  world :: 'w
  log :: "('u, 'h) event list"

record ('c, 'u, 'h, 'j, 'w) deps =
  d_send :: "'c \<Rightarrow> 'u HttpRequest \<Rightarrow> 'w \<Rightarrow> (reqwest_error + ('u, 'h) Response) \<times> 'w"
  d_set_path :: "'u \<Rightarrow> string \<Rightarrow> 'u"
  d_set_query :: "'u \<Rightarrow> string option \<Rightarrow> 'u"
  d_append_pair :: "'u \<Rightarrow> string \<Rightarrow> string \<Rightarrow> 'u"
  d_cookies :: "'j \<Rightarrow> 'u \<Rightarrow> string option"
  d_set_cookies :: "'j \<Rightarrow> string list \<Rightarrow> 'u \<Rightarrow> 'j"
  d_header_get :: "'h \<Rightarrow> string \<Rightarrow> string option"
  d_header_get_all :: "'h \<Rightarrow> string \<Rightarrow> string list"
  d_header_contains :: "'h \<Rightarrow> string \<Rightarrow> bool"
  d_to_str :: "string \<Rightarrow> string option"
  d_is_success :: "nat \<Rightarrow> bool"
  d_md5 :: "string \<Rightarrow> string"
  d_sha256 :: "string \<Rightarrow> string"
  d_auth_json :: "AuthPayload \<Rightarrow> json_error + string"
  d_memchr :: "char \<Rightarrow> string \<Rightarrow> nat option"
  d_memmem :: "string \<Rightarrow> string \<Rightarrow> nat option"

text \<open>An operation returns its result and the session after it; \<open>bind_io\<close> is \<open>?\<close> on such a
  result.\<close>

type_synonym ('s, 'a) io = "'s \<Rightarrow> (Error failure + 'a) \<times> 's"

definition bind_io :: "('s, 'a) io \<Rightarrow> ('a \<Rightarrow> ('s, 'b) io) \<Rightarrow> ('s, 'b) io" where
  "bind_io m k s = (case m s of (Inl e, t) \<Rightarrow> (Inl e, t) | (Inr x, t) \<Rightarrow> k x t)"

definition fail_io :: "Error \<Rightarrow> ('s, 'a) io" where
  "fail_io e s = (Inl (Err e), s)"

definition return_io :: "'a \<Rightarrow> ('s, 'a) io" where
  "return_io x s = (Inr x, s)"

definition lift_io :: "Error + 'a \<Rightarrow> ('s, 'a) io" where
  "lift_io r s = (map_err Err r, s)"

lemma bind_io_Inr:
  "bind_io m k s = (Inr y, t) \<longleftrightarrow> (\<exists>x u. m s = (Inr x, u) \<and> k x u = (Inr y, t))"
  by (auto simp: bind_io_def split: sum.splits prod.splits)

lemma bind_io_Inl:
  "bind_io m k s = (Inl e, t) \<longleftrightarrow>
     m s = (Inl e, t) \<or> (\<exists>x u. m s = (Inr x, u) \<and> k x u = (Inl e, t))"
  by (auto simp: bind_io_def split: sum.splits prod.splits)

section \<open>Preparing requests\<close>

definition AUTH_ENDPOINT :: string where "AUTH_ENDPOINT = ''/auth''"
definition REALM_HEADER :: string where "REALM_HEADER = ''x-ndm-realm''"
definition CHALLENGE_HEADER :: string where "CHALLENGE_HEADER = ''x-ndm-challenge''"

definition endpoint :: "string \<Rightarrow> string \<Rightarrow> string" where
  "endpoint namespace path = ''/'' @ namespace @ ''/'' @ path"

definition endpoint_url :: "('c, 'u, 'h, 'j, 'w) deps \<Rightarrow> ('c, 'u) client \<Rightarrow> string \<Rightarrow> 'u" where
  "endpoint_url d c ep = d_set_path d (base_url c) ep"

definition prepare ::
  "('c, 'u, 'h, 'j, 'w) deps \<Rightarrow> ('c, 'u) client \<Rightarrow> Method \<Rightarrow> string \<Rightarrow> string option \<Rightarrow> 'u PreparedRequest"
where
  "prepare d c meth ep body =
     (let context = RequestContext_new meth ep in
      \<lparr>pr_context = context, pr_url = endpoint_url d c (rc_endpoint context), pr_body = body\<rparr>)"

definition rci_context :: "Method \<Rightarrow> string \<Rightarrow> RequestContext" where
  "rci_context meth path = RequestContext_new meth (endpoint ''rci'' path)"

definition prepare_get ::
  "('c, 'u, 'h, 'j, 'w) deps \<Rightarrow> ('c, 'u) client \<Rightarrow> string \<Rightarrow> string \<Rightarrow> string option \<Rightarrow> 'u PreparedRequest"
where
  "prepare_get d c namespace path query =
     (let request = prepare d c GET (endpoint namespace path) None in
      request\<lparr>pr_url := d_set_query d (pr_url request) query\<rparr>)"

definition prepare_rci_get ::
  "('c, 'u, 'h, 'j, 'w) deps \<Rightarrow> ('c, 'u) client \<Rightarrow> string \<Rightarrow> string option \<Rightarrow> 'u PreparedRequest" where
  "prepare_rci_get d c path query = prepare_get d c ''rci'' path query"

definition prepare_rci_get_pair ::
  "('c, 'u, 'h, 'j, 'w) deps \<Rightarrow> ('c, 'u) client \<Rightarrow> string \<Rightarrow> string \<Rightarrow> string \<Rightarrow> 'u PreparedRequest" where
  "prepare_rci_get_pair d c path key v =
     (let prepared = prepare_rci_get d c path None in
      prepared\<lparr>pr_url := d_append_pair d (pr_url prepared) key v\<rparr>)"

definition prepare_ci_get ::
  "('c, 'u, 'h, 'j, 'w) deps \<Rightarrow> ('c, 'u) client \<Rightarrow> string \<Rightarrow> 'u PreparedRequest" where
  "prepare_ci_get d c path = prepare_get d c ''ci'' path None"

definition prepare_rci_post_at ::
  "('c, 'u, 'h, 'j, 'w) deps \<Rightarrow> ('c, 'u) client \<Rightarrow> string \<Rightarrow> string \<Rightarrow> 'u PreparedRequest" where
  "prepare_rci_post_at d c path body = prepare d c POST (endpoint ''rci'' path) (Some body)"

definition prepare_rci_post ::
  "('c, 'u, 'h, 'j, 'w) deps \<Rightarrow> ('c, 'u) client \<Rightarrow> string \<Rightarrow> 'u PreparedRequest" where
  "prepare_rci_post d c body = prepare_rci_post_at d c [] body"

definition prepare_rci_delete ::
  "('c, 'u, 'h, 'j, 'w) deps \<Rightarrow> ('c, 'u) client \<Rightarrow> string \<Rightarrow> 'u PreparedRequest" where
  "prepare_rci_delete d c path = prepare d c DELETE (endpoint ''rci'' path) None"

definition auth_context :: "Method \<Rightarrow> RequestContext" where
  "auth_context meth = RequestContext_new meth AUTH_ENDPOINT"

definition prepare_auth ::
  "('c, 'u, 'h, 'j, 'w) deps \<Rightarrow> ('c, 'u) client \<Rightarrow> Method \<Rightarrow> string option \<Rightarrow> 'u PreparedRequest" where
  "prepare_auth d c meth body = prepare d c meth AUTH_ENDPOINT body"

section \<open>Sending\<close>

definition http_request ::
  "('c, 'u, 'h, 'j, 'w) deps \<Rightarrow> ('c, 'u) client \<Rightarrow> 'j \<Rightarrow> 'u PreparedRequest \<Rightarrow> 'u HttpRequest" where
  "http_request d c jar request =
     \<lparr>hr_method = rc_method (pr_context request), hr_url = pr_url request,
      hr_timeout = (if request_timeout_per_request c then Some (request_timeout c) else None),
      hr_cookie = d_cookies d jar (pr_url request),
      hr_content_type = map_option (\<lambda>_. ''application/json'') (pr_body request),
      hr_body = pr_body request\<rparr>"

definition send_once ::
  "('c, 'u, 'h, 'j, 'w) deps \<Rightarrow> ('c, 'u) client \<Rightarrow> 'u PreparedRequest
     \<Rightarrow> (('u, 'h, 'j, 'w) session, ('u, 'h) Response) io" where
  "send_once d c request s =
     (let (result, w) = d_send d (http c) (http_request d c (cookies s) request) (world s);
          s = s\<lparr>world := w, log := log s @ [(request, result)]\<rparr>
      in case result of
           Inl source \<Rightarrow> (Inl (Err (Transport \<lparr>te_context = pr_context request, te_source = source\<rparr>)), s)
         | Inr response \<Rightarrow>
             (Inr response,
              if d_header_contains d (rs_headers response) ''set-cookie''
              then s\<lparr>cookies := d_set_cookies d (cookies s)
                        (d_header_get_all d (rs_headers response) ''set-cookie'') (rs_url response)\<rparr>
              else s))"

definition parse_challenge ::
  "('c, 'u, 'h, 'j, 'w) deps \<Rightarrow> 'h \<Rightarrow> AuthenticationError + string \<times> string" where
  "parse_challenge d headers =
     (case (d_header_get d headers REALM_HEADER, d_header_get d headers CHALLENGE_HEADER) of
        (None, None) \<Rightarrow> Inl Unsupported
      | (Some realm, Some challenge) \<Rightarrow>
          bind_res (ok_or (MalformedResponse (InvalidHeader REALM_HEADER)) (d_to_str d realm)) (\<lambda>realm.
          bind_res (ok_or (MalformedResponse (InvalidHeader CHALLENGE_HEADER)) (d_to_str d challenge)) (\<lambda>challenge.
            if realm = [] then Inl (MalformedResponse (EmptyHeader REALM_HEADER))
            else if challenge = [] then Inl (MalformedResponse (EmptyHeader CHALLENGE_HEADER))
            else Inr (realm, challenge)))
      | _ \<Rightarrow> Inl (MalformedResponse IncompleteHeaders))"

definition auth_payload ::
  "('c, 'u, 'h, 'j, 'w) deps \<Rightarrow> Credentials \<Rightarrow> string \<Rightarrow> string \<Rightarrow> AuthPayload" where
  "auth_payload d k realm challenge =
     \<lparr>ap_login = cred_login k,
      ap_password = ResponseHash_as_str
        (response_hash (d_md5 d) (d_sha256 d) (cred_login k) realm (cred_password k) challenge)\<rparr>"

definition perform_authentication ::
  "('c, 'u, 'h, 'j, 'w) deps \<Rightarrow> ('c, 'u) client \<Rightarrow> (('u, 'h, 'j, 'w) session, unit) io" where
  "perform_authentication d c =
     (case credentials c of
        None \<Rightarrow> (\<lambda>s. (Inl Panic, s))
      | Some k \<Rightarrow>
          let get = prepare_auth d c GET None in
          bind_io (send_once d c get) (\<lambda>response.
            if rs_status response = 200 then return_io ()
            else if rs_status response \<noteq> 401
            then fail_io (Http \<lparr>he_context = pr_context get, he_status = rs_status response\<rparr>)
            else
              bind_io (lift_io (map_err Authentication (parse_challenge d (rs_headers response))))
                (\<lambda>(realm, challenge).
              bind_io (lift_io (map_err (\<lambda>e. JsonSerialization \<lparr>js_context = auth_context POST, js_source = e\<rparr>)
                        (d_auth_json d (auth_payload d k realm challenge)))) (\<lambda>body.
              let post = prepare_auth d c POST (Some body) in
              bind_io (send_once d c post) (\<lambda>response.
                if rs_status response = 401 then fail_io (Authentication RejectedCredentials)
                else if \<not> d_is_success d (rs_status response)
                then fail_io (Http \<lparr>he_context = pr_context post, he_status = rs_status response\<rparr>)
                else return_io ())))))"

text \<open>What \<open>authenticate\<close> stores: a panic unwinds out of the function before the counters move.\<close>

fun finish_authentication :: "Error failure + unit \<Rightarrow> ('u, 'h, 'j, 'w) session \<Rightarrow> (Error failure + unit) \<times> ('u, 'h, 'j, 'w) session"
where
  "finish_authentication (Inl Panic) s = (Inl Panic, s)"
| "finish_authentication (Inl (Err e)) s =
     (let state = \<lparr>generation = generation (auth s) + 1, last_result = Some (Inl e)\<rparr>
      in (Inl (Err e), s\<lparr>auth := state, auth_generation := generation state\<rparr>))"
| "finish_authentication (Inr u) s =
     (let state = \<lparr>generation = generation (auth s) + 1, last_result = Some (Inr u)\<rparr>
      in (Inr u, s\<lparr>auth := state, auth_generation := generation state\<rparr>))"

definition authenticate ::
  "('c, 'u, 'h, 'j, 'w) deps \<Rightarrow> ('c, 'u) client \<Rightarrow> u64 \<Rightarrow> (('u, 'h, 'j, 'w) session, unit) io" where
  "authenticate d c observed_generation s =
     (if generation (auth s) \<noteq> observed_generation then
        (case last_result (auth s) of
           None \<Rightarrow> (Inl Panic, s)
         | Some r \<Rightarrow> (map_err Err r, s))
      else
        let (result, s) = perform_authentication d c s in finish_authentication result s)"

definition send_authenticated ::
  "('c, 'u, 'h, 'j, 'w) deps \<Rightarrow> ('c, 'u) client \<Rightarrow> 'u PreparedRequest
     \<Rightarrow> (('u, 'h, 'j, 'w) session, ('u, 'h) Response) io" where
  "send_authenticated d c request s =
     (let observed_generation = auth_generation s in
      bind_io (send_once d c request) (\<lambda>response.
        if rs_status response \<noteq> 401 then return_io response
        else if credentials c = None then fail_io (Authentication Required)
        else
          bind_io (authenticate d c observed_generation) (\<lambda>_.
          bind_io (send_once d c request) (\<lambda>response.
            if rs_status response = 401 then fail_io (Authentication UnauthorizedAfterAuthentication)
            else return_io response))) s)"

definition send_successful ::
  "('c, 'u, 'h, 'j, 'w) deps \<Rightarrow> ('c, 'u) client \<Rightarrow> 'u PreparedRequest
     \<Rightarrow> (('u, 'h, 'j, 'w) session, ('u, 'h) Response) io" where
  "send_successful d c request =
     bind_io (send_authenticated d c request) (\<lambda>response.
       if \<not> d_is_success d (rs_status response)
       then fail_io (Http \<lparr>he_context = pr_context request, he_status = rs_status response\<rparr>)
       else return_io response)"

definition send_json ::
  "('c, 'u, 'h, 'j, 'w) deps \<Rightarrow> ('c, 'u) client \<Rightarrow> 't json_ops \<Rightarrow> 'u PreparedRequest
     \<Rightarrow> (('u, 'h, 'j, 'w) session, 't) io" where
  "send_json d c ops request =
     bind_io (send_successful d c request) (\<lambda>response.
     bind_io (lift_io (map_err (\<lambda>e. Transport \<lparr>te_context = pr_context request, te_source = e\<rparr>)
               (rs_bytes response))) (\<lambda>bytes.
     lift_io (decode_json_response (d_memchr d) (d_memmem d) ops bytes (pr_context request))))"

definition send_text ::
  "('c, 'u, 'h, 'j, 'w) deps \<Rightarrow> ('c, 'u) client \<Rightarrow> 'u PreparedRequest
     \<Rightarrow> (('u, 'h, 'j, 'w) session, string) io" where
  "send_text d c request =
     bind_io (send_successful d c request) (\<lambda>response.
     lift_io (map_err (\<lambda>e. Transport \<lparr>te_context = pr_context request, te_source = e\<rparr>)
       (rs_text response)))"

section \<open>The protocol\<close>

text \<open>What may go over the wire while one request is sent, and what the caller gets: the login
  dialogue (\<open>/auth\<close> challenge and response), and the dialogue of a request around it. The
  definitions above refine this specification.\<close>

definition transport_failure :: "'u PreparedRequest \<Rightarrow> reqwest_error \<Rightarrow> Error failure" where
  "transport_failure request e = Err (Transport \<lparr>te_context = pr_context request, te_source = e\<rparr>)"

definition http_failure :: "'u PreparedRequest \<Rightarrow> nat \<Rightarrow> Error failure" where
  "http_failure request status = Err (Http \<lparr>he_context = pr_context request, he_status = status\<rparr>)"

inductive login_dialogue ::
  "('c, 'u, 'h, 'j, 'w) deps \<Rightarrow> ('c, 'u) client \<Rightarrow> Credentials \<Rightarrow> ('u, 'h) event list
     \<Rightarrow> Error failure + unit \<Rightarrow> bool"
  for d :: "('c, 'u, 'h, 'j, 'w) deps" and c :: "('c, 'u) client" and k :: Credentials
where
  Get_lost: "get = prepare_auth d c GET None \<Longrightarrow>
    login_dialogue d c k [(get, Inl e)] (Inl (transport_failure get e))"
| Get_open: "get = prepare_auth d c GET None \<Longrightarrow> rs_status r = 200 \<Longrightarrow>
    login_dialogue d c k [(get, Inr r)] (Inr ())"
| Get_status: "get = prepare_auth d c GET None \<Longrightarrow> rs_status r \<notin> {200, 401} \<Longrightarrow>
    login_dialogue d c k [(get, Inr r)] (Inl (http_failure get (rs_status r)))"
| Get_malformed: "get = prepare_auth d c GET None \<Longrightarrow> rs_status r = 401 \<Longrightarrow>
    parse_challenge d (rs_headers r) = Inl e \<Longrightarrow>
    login_dialogue d c k [(get, Inr r)] (Inl (Err (Authentication e)))"
| Post_unserializable: "get = prepare_auth d c GET None \<Longrightarrow> rs_status r = 401 \<Longrightarrow>
    parse_challenge d (rs_headers r) = Inr (realm, challenge) \<Longrightarrow>
    d_auth_json d (auth_payload d k realm challenge) = Inl e \<Longrightarrow>
    login_dialogue d c k [(get, Inr r)]
      (Inl (Err (JsonSerialization \<lparr>js_context = auth_context POST, js_source = e\<rparr>)))"
| Post_sent: "get = prepare_auth d c GET None \<Longrightarrow> rs_status r = 401 \<Longrightarrow>
    parse_challenge d (rs_headers r) = Inr (realm, challenge) \<Longrightarrow>
    d_auth_json d (auth_payload d k realm challenge) = Inr body \<Longrightarrow>
    post = prepare_auth d c POST (Some body) \<Longrightarrow>
    outcome = (case res of
        Inl e \<Rightarrow> Inl (transport_failure post e)
      | Inr r' \<Rightarrow> if rs_status r' = 401 then Inl (Err (Authentication RejectedCredentials))
                 else if d_is_success d (rs_status r') then Inr ()
                 else Inl (http_failure post (rs_status r'))) \<Longrightarrow>
    login_dialogue d c k [(get, Inr r), (post, res)] outcome"

inductive request_dialogue ::
  "('c, 'u, 'h, 'j, 'w) deps \<Rightarrow> ('c, 'u) client \<Rightarrow> 'u PreparedRequest \<Rightarrow> ('u, 'h) event list
     \<Rightarrow> Error failure + ('u, 'h) Response \<Rightarrow> bool"
  for d :: "('c, 'u, 'h, 'j, 'w) deps" and c :: "('c, 'u) client" and req :: "'u PreparedRequest"
where
  Req_lost: "request_dialogue d c req [(req, Inl e)] (Inl (transport_failure req e))"
| Req_direct: "rs_status r \<noteq> 401 \<Longrightarrow> request_dialogue d c req [(req, Inr r)] (Inr r)"
| Req_anonymous: "rs_status r = 401 \<Longrightarrow> credentials c = None \<Longrightarrow>
    request_dialogue d c req [(req, Inr r)] (Inl (Err (Authentication Required)))"
| Req_login_failed: "rs_status r = 401 \<Longrightarrow> credentials c = Some k \<Longrightarrow>
    login_dialogue d c k es (Inl e) \<Longrightarrow>
    request_dialogue d c req ((req, Inr r) # es) (Inl e)"
| Req_again: "rs_status r = 401 \<Longrightarrow> credentials c = Some k \<Longrightarrow>
    login_dialogue d c k es (Inr ()) \<Longrightarrow>
    outcome = (case res of
        Inl e \<Rightarrow> Inl (transport_failure req e)
      | Inr r' \<Rightarrow> if rs_status r' = 401
                 then Inl (Err (Authentication UnauthorizedAfterAuthentication)) else Inr r') \<Longrightarrow>
    request_dialogue d c req ((req, Inr r) # es @ [(req, res)]) outcome"

inductive_cases login_dialogueE: "login_dialogue d c k es out"
inductive_cases request_dialogueE: "request_dialogue d c req es out"

definition auth_inv :: "('u, 'h, 'j, 'w) session \<Rightarrow> bool" where
  "auth_inv s \<longleftrightarrow> auth_generation s = generation (auth s)
     \<and> (last_result (auth s) = None \<longrightarrow> generation (auth s) = 0)"

section \<open>The code follows the protocol\<close>

lemma send_once_run:
  assumes "send_once d c req s = (result, t)"
  obtains res where "log t = log s @ [(req, res)]" and "auth t = auth s"
    and "auth_generation t = auth_generation s"
    and "result = (case res of Inl e \<Rightarrow> Inl (transport_failure req e) | Inr r \<Rightarrow> Inr r)"
proof -
  obtain res w where res: "d_send d (http c) (http_request d c (cookies s) req) (world s) = (res, w)"
    by (metis surj_pair)
  with assms show thesis
    by (intro that [of res])
      (auto simp: send_once_def transport_failure_def Let_def split: sum.splits if_splits)
qed

lemma perform_run:
  assumes "perform_authentication d c s = (result, t)" and "credentials c = Some k"
  obtains es where "log t = log s @ es" and "login_dialogue d c k es result"
    and "auth t = auth s" and "auth_generation t = auth_generation s"
proof -
  let ?get = "prepare_auth d c GET None"
  obtain r1 s1 where run1: "send_once d c ?get s = (r1, s1)" by (metis surj_pair)
  obtain res1 where log1: "log s1 = log s @ [(?get, res1)]" and auth1: "auth s1 = auth s"
    "auth_generation s1 = auth_generation s"
    and r1: "r1 = (case res1 of Inl e \<Rightarrow> Inl (transport_failure ?get e) | Inr r \<Rightarrow> Inr r)"
    by (rule send_once_run [OF run1])
  note perform = assms(1) [unfolded perform_authentication_def assms(2) option.case Let_def bind_io_def run1]
  show thesis
  proof (cases res1)
    case (Inl e)
    with perform r1 log1 auth1 show thesis
      by (intro that [of "[(?get, res1)]"]) (auto intro: Get_lost)
  next
    case (Inr r)
    show thesis
    proof (cases "rs_status r = 401 \<and> is_ok (parse_challenge d (rs_headers r))")
      case False
      then have "t = s1 \<and> login_dialogue d c k [(?get, res1)] result"
        using perform r1 Inr
        by (cases "parse_challenge d (rs_headers r)")
          (auto simp: return_io_def fail_io_def lift_io_def http_failure_def [symmetric]
            split: if_splits intro: login_dialogue.intros)
      with log1 auth1 show thesis by (intro that [of "[(?get, res1)]"]) simp_all
    next
      case True
      then obtain realm challenge where ch: "rs_status r = 401"
        "parse_challenge d (rs_headers r) = Inr (realm, challenge)" by (auto simp: res_simps)
      show thesis
      proof (cases "d_auth_json d (auth_payload d k realm challenge)")
        case json: (Inl e)
        with perform r1 Inr ch have "t = s1 \<and> login_dialogue d c k [(?get, res1)] result"
          by (auto simp: lift_io_def intro: Post_unserializable)
        with log1 auth1 show thesis by (intro that [of "[(?get, res1)]"]) simp_all
      next
        case json: (Inr body)
        let ?post = "prepare_auth d c POST (Some body)"
        obtain r2 s2 where run2: "send_once d c ?post s1 = (r2, s2)" by (metis surj_pair)
        obtain res2 where log2: "log s2 = log s1 @ [(?post, res2)]" and auth2: "auth s2 = auth s1"
          "auth_generation s2 = auth_generation s1"
          and r2: "r2 = (case res2 of Inl e \<Rightarrow> Inl (transport_failure ?post e) | Inr r \<Rightarrow> Inr r)"
          by (rule send_once_run [OF run2])
        have "t = s2 \<and> result = (case res2 of
            Inl e \<Rightarrow> Inl (transport_failure ?post e)
          | Inr r' \<Rightarrow> if rs_status r' = 401 then Inl (Err (Authentication RejectedCredentials))
                     else if d_is_success d (rs_status r') then Inr ()
                     else Inl (http_failure ?post (rs_status r')))"
          using perform r1 Inr ch json r2
          by (auto simp: lift_io_def return_io_def fail_io_def run2 http_failure_def bind_io_def
              split: sum.splits if_splits)
        moreover from this have "login_dialogue d c k [(?get, Inr r), (?post, res2)] result"
          using ch json by (intro Post_sent) simp_all
        ultimately show thesis
          using log1 log2 auth1 auth2 Inr by (intro that [of "[(?get, res1), (?post, res2)]"]) simp_all
      qed
    qed
  qed
qed

lemma login_no_panic: "login_dialogue d c k es r \<Longrightarrow> r \<noteq> Inl Panic"
  by (erule login_dialogueE)
    (auto simp: transport_failure_def http_failure_def split: sum.splits if_splits)

lemma authenticate_run:
  assumes "authenticate d c g s = (result, t)" and "credentials c = Some k"
    and "generation (auth s) = g"
  obtains es where "log t = log s @ es" and "login_dialogue d c k es result"
    and "auth_generation t = generation (auth t)" and "generation (auth t) = g + 1"
    and "last_result (auth t) = Some (case result of Inl (Err e) \<Rightarrow> Inl e | _ \<Rightarrow> Inr ())"
proof -
  obtain r u where run: "perform_authentication d c s = (r, u)" by (metis surj_pair)
  obtain es where es: "log u = log s @ es" "login_dialogue d c k es r" "auth u = auth s"
    by (rule perform_run [OF run assms(2)])
  from assms(1, 3) have "finish_authentication r u = (result, t)"
    by (simp add: authenticate_def run)
  then show thesis
    using es login_no_panic [OF es(2)] assms(3)
    by (intro that [of es]; cases "(r, u)" rule: finish_authentication.cases) (auto simp: Let_def)
qed

lemma send_authenticated_run:
  assumes "send_authenticated d c req s = (result, t)"
    and "auth_generation s = generation (auth s)"
  obtains es where "log t = log s @ es" and "request_dialogue d c req es result"
    and "auth_generation t = generation (auth t)"
    and "auth t = auth s \<or> generation (auth t) = generation (auth s) + 1 \<and> last_result (auth t) \<noteq> None"
proof -
  obtain r1 s1 where run1: "send_once d c req s = (r1, s1)" by (metis surj_pair)
  obtain res1 where log1: "log s1 = log s @ [(req, res1)]" and auth1: "auth s1 = auth s"
    "auth_generation s1 = auth_generation s"
    and r1: "r1 = (case res1 of Inl e \<Rightarrow> Inl (transport_failure req e) | Inr r \<Rightarrow> Inr r)"
    by (rule send_once_run [OF run1])
  note run = assms(1) [unfolded send_authenticated_def Let_def bind_io_def run1]
  show thesis
  proof (cases "\<exists>r k. res1 = Inr r \<and> rs_status r = 401 \<and> credentials c = Some k")
    case False
    then have "t = s1 \<and> request_dialogue d c req [(req, res1)] result"
      using run r1
      by (auto simp: return_io_def fail_io_def split: sum.splits if_splits
          intro: request_dialogue.intros)
    with log1 auth1 assms(2) show thesis by (intro that [of "[(req, res1)]"]) simp_all
  next
    case True
    then obtain r k where res: "res1 = Inr r" "rs_status r = 401" "credentials c = Some k" by blast
    obtain r2 s2 where run2: "authenticate d c (auth_generation s) s1 = (r2, s2)" by (metis surj_pair)
    have "generation (auth s1) = auth_generation s" using auth1 assms(2) by simp
    from authenticate_run [OF run2 res(3) this] obtain es where
      es: "log s2 = log s1 @ es" "login_dialogue d c k es r2"
      and auth2: "auth_generation s2 = generation (auth s2)"
        "generation (auth s2) = generation (auth s) + 1" "last_result (auth s2) \<noteq> None"
      using assms(2) by (metis option.distinct(1))
    show thesis
    proof (cases r2)
      case (Inl e)
      with run r1 res run2 have "t = s2 \<and> result = Inl e" by simp
      moreover have "request_dialogue d c req ((req, Inr r) # es) (Inl e)"
        using res es(2) Inl by (intro Req_login_failed) simp_all
      ultimately show thesis
        using log1 es(1) auth2 res(1) by (intro that [of "(req, res1) # es"]) simp_all
    next
      case (Inr u)
      obtain r3 s3 where run3: "send_once d c req s2 = (r3, s3)" by (metis surj_pair)
      obtain res3 where log3: "log s3 = log s2 @ [(req, res3)]" and auth3: "auth s3 = auth s2"
        "auth_generation s3 = auth_generation s2"
        and r3: "r3 = (case res3 of Inl e \<Rightarrow> Inl (transport_failure req e) | Inr r \<Rightarrow> Inr r)"
        by (rule send_once_run [OF run3])
      have "t = s3 \<and> result = (case res3 of
          Inl e \<Rightarrow> Inl (transport_failure req e)
        | Inr r' \<Rightarrow> if rs_status r' = 401
                   then Inl (Err (Authentication UnauthorizedAfterAuthentication)) else Inr r')"
        using run r1 res run2 Inr r3
        by (auto simp: bind_io_def run3 return_io_def fail_io_def split: sum.splits if_splits)
      moreover from this have "request_dialogue d c req ((req, Inr r) # es @ [(req, res3)]) result"
        using res es(2) Inr by (intro Req_again) simp_all
      ultimately show thesis
        using log1 log3 es(1) auth2 auth3 res(1)
        by (intro that [of "(req, res1) # es @ [(req, res3)]"]) simp_all
    qed
  qed
qed

section \<open>A scripted router\<close>

text \<open>A concrete instance of the parameters for the witnesses: the world is the list of outcomes the
  transport will deliver, headers are an association list, and a URL is its text.\<close>

type_synonym headers = "(string \<times> string) list"

definition script_deps ::
  "(unit, string, headers, string list, (reqwest_error + (string, headers) Response) list) deps" where
  "script_deps = \<lparr>
     d_send = (\<lambda>_ _ w. case w of [] \<Rightarrow> (Inl \<lparr>re_timeout = True, re_message = []\<rparr>, []) | x # xs \<Rightarrow> (x, xs)),
     d_set_path = (\<lambda>u p. u @ p), d_set_query = (\<lambda>u q. case q of None \<Rightarrow> u | Some v \<Rightarrow> u @ ''?'' @ v),
     d_append_pair = (\<lambda>u k v. u @ ''?'' @ k @ ''='' @ v),
     d_cookies = (\<lambda>j _. case j of [] \<Rightarrow> None | x # _ \<Rightarrow> Some x),
     d_set_cookies = (\<lambda>j new _. new @ j),
     d_header_get = (\<lambda>h k. map_of h k),
     d_header_get_all = (\<lambda>h k. map snd (filter (\<lambda>p. fst p = k) h)),
     d_header_contains = (\<lambda>h k. k \<in> fst ` set h),
     d_to_str = Some,
     d_is_success = (\<lambda>n. 200 \<le> n \<and> n < 300),
     d_md5 = (\<lambda>s. take 16 (s @ replicate 16 (CHR ''x''))),
     d_sha256 = (\<lambda>s. take 32 (s @ replicate 32 (CHR ''y''))),
     d_auth_json = (\<lambda>p. Inr (ap_login p @ '':'' @ ap_password p)),
     d_memchr = memchr_ref, d_memmem = memmem_ref\<rparr>"

definition script_client :: "(unit, string) client" where
  "script_client = \<lparr>http = (), base_url = ''http://router'',
     credentials = Some \<lparr>cred_login = ''admin'', cred_password = Secret ''pw''\<rparr>,
     request_timeout = 1000, request_timeout_per_request = False\<rparr>"

definition script_response :: "nat \<Rightarrow> headers \<Rightarrow> (string, headers) Response" where
  "script_response status h =
     \<lparr>rs_status = status, rs_headers = h, rs_url = ''http://router'', rs_bytes = Inr ''{}'', rs_text = Inr ''{}''\<rparr>"

definition script_session ::
  "(reqwest_error + (string, headers) Response) list
     \<Rightarrow> (string, headers, string list, (reqwest_error + (string, headers) Response) list) session" where
  "script_session w = \<lparr>cookies = [], auth_generation = 0,
     auth = \<lparr>generation = 0, last_result = None\<rparr>, world = w, log = []\<rparr>"

text \<open>The router refuses the request, issues a challenge, accepts the login and answers.\<close>

definition login_script :: "(reqwest_error + (string, headers) Response) list" where
  "login_script = [Inr (script_response 401 []),
     Inr (script_response 401 [(''x-ndm-realm'', ''Keenetic''), (''x-ndm-challenge'', ''00ff'')]),
     Inr (script_response 200 [(''set-cookie'', ''sid=1'')]),
     Inr (script_response 200 [])]"

definition script_request :: "string PreparedRequest" where
  "script_request = prepare_rci_get script_deps script_client ''show/version'' None"

lemma login_script_run:
  "\<exists>t. send_authenticated script_deps script_client script_request (script_session login_script)
     = (Inr (script_response 200 []), t) \<and> length (log t) = 4 \<and> cookies t = [''sid=1'']"
  by (rule exI [of _ "snd (send_authenticated script_deps script_client script_request
        (script_session login_script))"]) code_simp

section \<open>Consequences of the protocol\<close>

lemma login_dialogue_shape:
  assumes "login_dialogue d c k es r"
  shows "(\<exists>g. es = [(prepare_auth d c GET None, g)])
     \<or> (\<exists>r' body p realm challenge. es = [(prepare_auth d c GET None, Inr r'),
          (prepare_auth d c POST (Some body), p)] \<and> rs_status r' = 401
          \<and> parse_challenge d (rs_headers r') = Inr (realm, challenge)
          \<and> d_auth_json d (auth_payload d k realm challenge) = Inr body)"
  using assms by (cases rule: login_dialogueE) blast+

lemma login_dialogue_ok:
  "login_dialogue d c k es (Inr u) \<Longrightarrow> (\<exists>r. snd (last es) = Inr r)"
  by (erule login_dialogueE) (auto split: sum.splits if_splits)

lemma request_dialogue_no_panic: "request_dialogue d c req es r \<Longrightarrow> r \<noteq> Inl Panic"
  by (erule request_dialogueE)
    (auto simp: transport_failure_def dest: login_no_panic split: sum.splits if_splits)

lemma request_dialogue_shape:
  assumes "request_dialogue d c req es result"
  obtains (one) res where "es = [(req, res)]"
  | (login) r k ls e where "es = (req, Inr r) # ls" "rs_status r = 401" "credentials c = Some k"
      "login_dialogue d c k ls (Inl e)"
  | (again) r k ls res where "es = (req, Inr r) # ls @ [(req, res)]" "rs_status r = 401"
      "credentials c = Some k" "login_dialogue d c k ls (Inr ())"
  using assms by (cases rule: request_dialogueE) (auto intro: one login again)

lemma request_dialogue_answer:
  "request_dialogue d c req es (Inr r) \<Longrightarrow> rs_status r \<noteq> 401 \<and> last es = (req, Inr r)"
  by (erule request_dialogueE) (auto split: sum.splits if_splits)

lemma answered_prefix:
  assumes "login_dialogue d c k ls out" and "i + 1 < length ls"
  shows "\<exists>r. snd (ls ! i) = Inr r"
  using login_dialogue_shape [OF assms(1)] assms(2) by (auto simp: nth_Cons split: nat.splits)

lemma send_authenticated_dialogue:
  assumes "auth_inv s" and "send_authenticated d c req s = (result, t)"
  shows "\<exists>es. log t = log s @ es \<and> request_dialogue d c req es result"
  using assms by (auto simp: auth_inv_def elim!: send_authenticated_run)

lemma send_authenticated_inv:
  assumes "auth_inv s" and "send_authenticated d c req s = (result, t)"
  shows "auth_inv t"
proof (rule send_authenticated_run [OF assms(2)])
  show "auth_generation s = generation (auth s)" using assms(1) by (simp add: auth_inv_def)
qed (use assms(1) in \<open>auto simp: auth_inv_def\<close>)

text \<open>A JSON request that succeeds: the answer it is decoded from is the last thing on the wire.\<close>

lemma send_json_answer:
  assumes "auth_inv s" and "send_json d c ops req s = (Inr x, t)"
  obtains r bytes where "last (log t) = (req, Inr r)" and "d_is_success d (rs_status r)"
    and "rs_status r \<noteq> 401" and "rs_bytes r = Inr bytes"
    and "decode_json_response (d_memchr d) (d_memmem d) ops bytes (pr_context req) = Inr x"
proof -
  from assms(2) obtain r bytes where run: "send_authenticated d c req s = (Inr r, t)"
    and ok: "d_is_success d (rs_status r)" "rs_bytes r = Inr bytes"
    and dec: "decode_json_response (d_memchr d) (d_memmem d) ops bytes (pr_context req) = Inr x"
    by (auto simp: send_json_def send_successful_def bind_io_Inr lift_io_def return_io_def
        fail_io_def res_simps split: if_splits)
  from send_authenticated_dialogue [OF assms(1) run] obtain es where
    es: "log t = log s @ es" "request_dialogue d c req es (Inr r)" by blast
  then have "rs_status r \<noteq> 401" "last (log t) = (req, Inr r)"
    using request_dialogue_answer [OF es(2)]
    by (auto elim: request_dialogue_shape simp: last_append)
  with ok dec show thesis using that by blast
qed

section \<open>Properties\<close>

text \<open>C3: one call of \<open>send_authenticated\<close> with a fresh view of the generation follows the protocol:
  the requests it adds to the wire and the result it returns are a request dialogue.\<close>

theorem send_authenticated_refines_protocol:
  assumes "auth_inv s" and "send_authenticated d c req s = (result, t)"
  shows "\<exists>es. log t = log s @ es \<and> request_dialogue d c req es result"
  by (rule send_authenticated_dialogue [OF assms])

theorem send_authenticated_refines_protocol_witness:
  "\<exists>t result. send_authenticated script_deps script_client script_request (script_session login_script) = (result, t)
     \<and> request_dialogue script_deps script_client script_request (log t) result"
proof -
  obtain t where run: "send_authenticated script_deps script_client script_request
      (script_session login_script) = (Inr (script_response 200 []), t)"
    using login_script_run by blast
  have "auth_inv (script_session login_script)" by (simp add: auth_inv_def script_session_def)
  from send_authenticated_refines_protocol [OF this run] run show ?thesis
    by (auto simp: script_session_def)
qed

text \<open>C4: no blind retry: a call puts between one and four requests on the wire, the first of them the
  caller's; every request but the last has been answered, so a transport failure is never
  retried; and anything follows the first request only after the router refused it with 401
  and only when credentials are configured. A command that may have taken effect is not sent
  again.\<close>

theorem no_blind_retry:
  assumes "auth_inv s" and "send_authenticated d c req s = (result, t)"
  shows "\<exists>es. log t = log s @ es \<and> length es \<in> {1, 2, 3, 4} \<and> fst (es ! 0) = req
     \<and> list_all (\<lambda>e. is_ok (snd e)) (butlast es)
     \<and> (length es = 1 \<or> (\<exists>r k. es ! 0 = (req, Inr r) \<and> rs_status r = 401 \<and> credentials c = Some k))"
proof -
  obtain es where es: "log t = log s @ es" "request_dialogue d c req es result"
    using send_authenticated_dialogue [OF assms] by blast
  from es(2) show ?thesis
  proof (cases rule: request_dialogue_shape)
    case (one res)
    then show ?thesis using es(1) by auto
  next
    case (login r k ls e)
    then show ?thesis using es(1) login_dialogue_shape [OF login(4)] by auto
  next
    case (again r k ls res)
    then show ?thesis
      using es(1) login_dialogue_shape [OF again(4)] login_dialogue_ok [OF again(4)] by auto
  qed
qed

theorem no_blind_retry_witness:
  "\<exists>t. send_authenticated script_deps script_client script_request (script_session [])
       = (Inl (transport_failure script_request \<lparr>re_timeout = True, re_message = []\<rparr>), t)
     \<and> length (log t) \<in> {1, 2, 3, 4} \<and> fst (log t ! 0) = script_request"
proof -
  let ?run = "send_authenticated script_deps script_client script_request (script_session [])"
  have r: "fst ?run = Inl (transport_failure script_request \<lparr>re_timeout = True, re_message = []\<rparr>)"
    by code_simp
  obtain t where t: "?run = (Inl (transport_failure script_request \<lparr>re_timeout = True, re_message = []\<rparr>), t)"
    using r by (metis prod.collapse)
  have "auth_inv (script_session [])" by (simp add: auth_inv_def script_session_def)
  from no_blind_retry [OF this t] t show ?thesis by (auto simp: script_session_def)
qed

text \<open>C17: credentials leave the client only towards \<open>/auth\<close>: every request of a call that is not the
  caller's own is a GET of \<open>/auth\<close> without a body, or a POST to it whose body is the login and
  the hash computed from the realm and challenge of a 401 answer to that GET; the caller's own
  request is passed on unchanged.\<close>

theorem credentials_only_to_auth:
  assumes "auth_inv s" and "send_authenticated d c req s = (result, t)"
  shows "\<exists>es. log t = log s @ es \<and> (\<forall>(q, res) \<in> set es. q = req \<or> q = prepare_auth d c GET None
     \<or> (\<exists>k r realm challenge body. credentials c = Some k
          \<and> (prepare_auth d c GET None, Inr r) \<in> set es \<and> rs_status r = 401
          \<and> parse_challenge d (rs_headers r) = Inr (realm, challenge)
          \<and> d_auth_json d (auth_payload d k realm challenge) = Inr body
          \<and> q = prepare_auth d c POST (Some body)))"
proof -
  obtain es where es: "log t = log s @ es" "request_dialogue d c req es result"
    using send_authenticated_dialogue [OF assms] by blast
  from es(2) show ?thesis
  proof (cases rule: request_dialogue_shape)
    case (one res)
    then show ?thesis using es(1) by auto
  next
    case (login r k ls e)
    then show ?thesis using es(1) login_dialogue_shape [OF login(4)] by (intro exI [of _ es]) auto
  next
    case (again r k ls res)
    then show ?thesis using es(1) login_dialogue_shape [OF again(4)] by (intro exI [of _ es]) auto
  qed
qed

theorem credentials_only_to_auth_witness:
  "\<exists>t. send_authenticated script_deps script_client script_request (script_session login_script)
       = (Inr (script_response 200 []), t)
     \<and> (\<forall>(q, res) \<in> set (log t). q = script_request \<or> rc_endpoint (pr_context q) = ''/auth'')"
proof -
  obtain t where run: "send_authenticated script_deps script_client script_request
      (script_session login_script) = (Inr (script_response 200 []), t)"
    using login_script_run by blast
  have "auth_inv (script_session login_script)" by (simp add: auth_inv_def script_session_def)
  from credentials_only_to_auth [OF this run] run show ?thesis
    by (fastforce simp: script_session_def prepare_auth_def prepare_def Let_def RequestContext_new_def
        AUTH_ENDPOINT_def)
qed

text \<open>Without credentials a call sends exactly its one request, reports a 401 as
  \<open>AuthenticationError::Required\<close>, and leaves the authentication state alone.\<close>

theorem anonymous_client:
  assumes "credentials c = None" and "send_authenticated d c req s = (result, t)"
  shows "\<exists>res. log t = log s @ [(req, res)] \<and> auth t = auth s \<and> auth_generation t = auth_generation s
     \<and> result = (case res of Inl e \<Rightarrow> Inl (transport_failure req e)
                 | Inr r \<Rightarrow> if rs_status r = 401 then Inl (Err (Authentication Required)) else Inr r)"
proof -
  obtain r1 s1 where run1: "send_once d c req s = (r1, s1)" by (metis surj_pair)
  obtain res1 where "log s1 = log s @ [(req, res1)]" "auth s1 = auth s"
    "auth_generation s1 = auth_generation s"
    "r1 = (case res1 of Inl e \<Rightarrow> Inl (transport_failure req e) | Inr r \<Rightarrow> Inr r)"
    by (rule send_once_run [OF run1])
  then show ?thesis
    using assms
    by (intro exI [of _ res1]) (auto simp: send_authenticated_def Let_def bind_io_def run1
        return_io_def fail_io_def split: sum.splits if_splits)
qed

theorem anonymous_client_witness:
  "\<exists>t. send_authenticated script_deps (script_client\<lparr>credentials := None\<rparr>) script_request
         (script_session login_script) = (Inl (Err (Authentication Required)), t)
     \<and> length (log t) = 1 \<and> generation (auth t) = 0"
proof -
  let ?run = "send_authenticated script_deps (script_client\<lparr>credentials := None\<rparr>) script_request
     (script_session login_script)"
  have "fst ?run = Inl (Err (Authentication Required))" by code_simp
  then obtain t where t: "?run = (Inl (Err (Authentication Required)), t)" by (metis prod.collapse)
  from anonymous_client [OF _ t] t show ?thesis by (auto simp: script_session_def)
qed

text \<open>C19: neither \<open>expect\<close> in the authentication code can fire, and a call re-establishes the
  invariant that rules them out, so any number of calls in a row is safe: a generation that was
  ever completed has a result.\<close>

theorem send_authenticated_no_panic:
  assumes "auth_inv s" and "send_authenticated d c req s = (result, t)"
  shows "result \<noteq> Inl Panic \<and> auth_inv t"
proof -
  from assms(1) have g: "auth_generation s = generation (auth s)" by (simp add: auth_inv_def)
  obtain es where "request_dialogue d c req es result" "auth_generation t = generation (auth t)"
    "auth t = auth s \<or> generation (auth t) = generation (auth s) + 1 \<and> last_result (auth t) \<noteq> None"
    by (rule send_authenticated_run [OF assms(2) g])
  with assms(1) show ?thesis by (auto simp: auth_inv_def dest: request_dialogue_no_panic)
qed

theorem send_authenticated_no_panic_witness:
  "auth_inv (snd (send_authenticated script_deps script_client script_request (script_session login_script)))"
proof -
  have "auth_inv (script_session login_script)" by (simp add: auth_inv_def script_session_def)
  from send_authenticated_no_panic [OF this prod.collapse [symmetric]] show ?thesis by blast
qed

text \<open>A JSON request that succeeds has been answered properly: the last thing on the wire is this
  request with a response of a successful status whose body decodes, and that body does not
  parse to a value with an RCI error in it.\<close>

theorem send_json_success:
  assumes "auth_inv s" and "send_json d c ops req s = (Inr x, t)"
    and "byte_search (d_memchr d) (d_memmem d)" and "json_text (from_slice ops)"
  shows "\<exists>r bytes. last (log t) = (req, Inr r) \<and> d_is_success d (rs_status r) \<and> rs_status r \<noteq> 401
     \<and> rs_bytes r = Inr bytes
     \<and> (\<forall>v e. from_slice ops bytes = Inr v \<longrightarrow> \<not> has_rci_error v e)"
proof -
  obtain r bytes where ok: "last (log t) = (req, Inr r)" "d_is_success d (rs_status r)"
      "rs_status r \<noteq> 401" "rs_bytes r = Inr bytes"
    and dec: "decode_json_response (d_memchr d) (d_memmem d) ops bytes (pr_context req) = Inr x"
    by (rule send_json_answer [OF assms(1,2)])
  have "\<not> has_rci_error v e" if "from_slice ops bytes = Inr v" for v e
    using response_with_error [OF assms(3, 4) that] dec by auto
  with ok show ?thesis by blast
qed

definition empty_object_ops :: "unit json_ops" where
  "empty_object_ops = \<lparr>
     from_slice = (\<lambda>bytes. if bytes = ''{}'' then Inr (Object [])
                         else Inl \<lparr>je_category = Category_Syntax, je_message = []\<rparr>),
     de_value = (\<lambda>_. Inr ()), de_slice = (\<lambda>_. Inr ((), [])), de_end = (\<lambda>_. Inr ())\<rparr>"

theorem send_json_success_witness:
  "\<exists>t. send_json script_deps script_client empty_object_ops script_request (script_session login_script)
       = (Inr (), t)
     \<and> (\<exists>r. last (log t) = (script_request, Inr r) \<and> rs_status r \<noteq> 401)"
proof -
  let ?run = "send_json script_deps script_client empty_object_ops script_request
     (script_session login_script)"
  have "fst ?run = Inr ()" by code_simp
  then obtain t where t: "?run = (Inr (), t)" by (metis prod.collapse)
  have inv: "auth_inv (script_session login_script)" by (simp add: auth_inv_def script_session_def)
  have bs: "byte_search (d_memchr script_deps) (d_memmem script_deps)"
    using naive_search.byte_search_axioms by (simp add: script_deps_def)
  have jt: "json_text (from_slice empty_object_ops)"
    by (auto simp: json_text_def empty_object_ops_def value_strings_simps split: if_splits)
  from send_json_success [OF inv t bs jt] t show ?thesis by blast
qed

text \<open>The challenge headers of an authentication response, on every branch: both missing means the
  scheme is unsupported, one missing is incomplete, and a challenge is accepted exactly when
  both are present, readable and non-empty.\<close>

theorem parse_challenge_branches:
  "(parse_challenge d h = Inl Unsupported \<longleftrightarrow>
      d_header_get d h REALM_HEADER = None \<and> d_header_get d h CHALLENGE_HEADER = None)
   \<and> (parse_challenge d h = Inl (MalformedResponse IncompleteHeaders) \<longleftrightarrow>
      (d_header_get d h REALM_HEADER = None) \<noteq> (d_header_get d h CHALLENGE_HEADER = None))
   \<and> (parse_challenge d h = Inr (realm, challenge) \<longleftrightarrow>
      Option.bind (d_header_get d h REALM_HEADER) (d_to_str d) = Some realm
      \<and> Option.bind (d_header_get d h CHALLENGE_HEADER) (d_to_str d) = Some challenge
      \<and> realm \<noteq> [] \<and> challenge \<noteq> [])"
  by (cases "d_header_get d h REALM_HEADER"; cases "d_header_get d h CHALLENGE_HEADER")
    (auto simp: parse_challenge_def res_simps split: if_splits)

end
