(* ===== verification/Single_Flight.thy ===== *)
theory Single_Flight
  imports Client
begin

text \<open>
  The authentication of \<open>src/src/client.rs\<close> under concurrency: any number of tasks run
  \<open>send_authenticated\<close> on clones of one client. They share the atomic \<open>auth_generation\<close> and the
  mutex \<open>auth\<close> around the \<open>AuthState\<close>. A step is what a task does between two points where other
  tasks can run: the load of the generation, the end of a request, taking the mutex, the end of the
  login, and the store that publishes the new generation before the guard is dropped. Dropping a
  future at an await point is a step too (\<open>Cancel\<close>).

  The outcome of a request or a login is chosen by the environment, so every interleaving and every
  router behaviour is a run of the relation. Four fields are ghost state: \<open>completed\<close>, the logins
  that ran to their end, each with the generation its task had observed; \<open>published\<close>, how many of
  them the atomic already shows; and, for each task at its load, \<open>seen\<close>, how many were published, and
  \<open>done_before\<close>, how many had completed.
\<close>

datatype pc =
    Start
  | First u64
  | Waiting u64
  | Holding u64
  | Publishing "Error + unit"
  | Second
  | Finished
  | Failed Error
  | Cancelled
  | Panicked

record flight =
  fl_auth_generation :: u64
  fl_auth :: AuthState
  fl_lock :: "nat option"
  fl_pc :: "nat \<Rightarrow> pc"
  completed :: "(u64 \<times> (Error + unit)) list"
  published :: nat
  seen :: "nat \<Rightarrow> nat"
  done_before :: "nat \<Rightarrow> nat"

definition goto :: "nat \<Rightarrow> pc \<Rightarrow> flight \<Rightarrow> flight" where
  "goto i p s = s\<lparr>fl_pc := (fl_pc s)(i := p)\<rparr>"

fun after_login :: "Error + unit \<Rightarrow> pc" where
  "after_login (Inl e) = Failed e"
| "after_login (Inr _) = Second"

fun stale_result :: "(Error + unit) option \<Rightarrow> pc" where
  "stale_result None = Panicked"
| "stale_result (Some r) = after_login r"

definition complete_login :: "u64 \<Rightarrow> Error + unit \<Rightarrow> flight \<Rightarrow> flight" where
  "complete_login g r s =
     s\<lparr>fl_auth := \<lparr>generation = generation (fl_auth s) + 1, last_result = Some r\<rparr>,
       completed := completed s @ [(g, r)]\<rparr>"

inductive step :: "flight \<Rightarrow> flight \<Rightarrow> bool" where
  Load: "fl_pc s i = Start \<Longrightarrow>
    step s (goto i (First (fl_auth_generation s))
      (s\<lparr>seen := (seen s)(i := published s), done_before := (done_before s)(i := length (completed s))\<rparr>))"
| Answered: "fl_pc s i = First g \<Longrightarrow> step s (goto i Finished s)"
| Lost: "fl_pc s i = First g \<Longrightarrow> step s (goto i (Failed e) s)"
| Refused: "fl_pc s i = First g \<Longrightarrow> step s (goto i (Waiting g) s)"
| Lock_stale: "fl_pc s i = Waiting g \<Longrightarrow> fl_lock s = None \<Longrightarrow> generation (fl_auth s) \<noteq> g \<Longrightarrow>
    step s (goto i (stale_result (last_result (fl_auth s))) s)"
| Lock_fresh: "fl_pc s i = Waiting g \<Longrightarrow> fl_lock s = None \<Longrightarrow> generation (fl_auth s) = g \<Longrightarrow>
    step s (goto i (Holding g) (s\<lparr>fl_lock := Some i\<rparr>))"
| Login_done: "fl_pc s i = Holding g \<Longrightarrow> step s (goto i (Publishing r) (complete_login g r s))"
| Publish: "fl_pc s i = Publishing r \<Longrightarrow>
    step s (goto i (after_login r)
      (s\<lparr>fl_auth_generation := generation (fl_auth s), fl_lock := None,
         published := length (completed s)\<rparr>))"
| Resent: "fl_pc s i = Second \<Longrightarrow> step s (goto i Finished s)"
| Resend_failed: "fl_pc s i = Second \<Longrightarrow> step s (goto i (Failed e) s)"
| Cancel: "fl_pc s i \<in> {Start, First g, Waiting g, Second} \<Longrightarrow> step s (goto i Cancelled s)"
| Cancel_login: "fl_pc s i = Holding g \<Longrightarrow> step s (goto i Cancelled (s\<lparr>fl_lock := None\<rparr>))"

definition init :: flight where
  "init = \<lparr>fl_auth_generation = 0, fl_auth = \<lparr>generation = 0, last_result = None\<rparr>, fl_lock = None,
     fl_pc = (\<lambda>_. Start), completed = [], published = 0, seen = (\<lambda>_. 0), done_before = (\<lambda>_. 0)\<rparr>"

inductive reachable :: "flight \<Rightarrow> bool" where
  Init: "reachable init"
| Step: "reachable s \<Longrightarrow> step s t \<Longrightarrow> reachable t"

section \<open>The invariant\<close>

definition critical :: "pc \<Rightarrow> bool" where
  "critical p \<longleftrightarrow> (\<exists>g. p = Holding g) \<or> (\<exists>r. p = Publishing r)"

definition lock_inv :: "flight \<Rightarrow> bool" where
  "lock_inv s \<longleftrightarrow> (\<forall>i. critical (fl_pc s i) \<longleftrightarrow> fl_lock s = Some i)"

definition generation_inv :: "flight \<Rightarrow> bool" where
  "generation_inv s \<longleftrightarrow>
     generation (fl_auth s) = of_nat (length (completed s))
     \<and> fl_auth_generation s = of_nat (published s)
     \<and> last_result (fl_auth s) = (if completed s = [] then None else Some (snd (last (completed s))))
     \<and> map fst (completed s) = map of_nat [0..<length (completed s)]"

definition publish_inv :: "flight \<Rightarrow> bool" where
  "publish_inv s \<longleftrightarrow>
     (\<forall>i r. fl_pc s i = Publishing r \<longrightarrow> length (completed s) = Suc (published s)
        \<and> snd (last (completed s)) = r)
     \<and> ((\<forall>i r. fl_pc s i \<noteq> Publishing r) \<longrightarrow> length (completed s) = published s)"

text \<open>What a task knew of the logins when it loaded the generation: those it saw published had completed,
  and at most one more had.\<close>

definition observed_ok :: "flight \<Rightarrow> nat \<Rightarrow> bool" where
  "observed_ok s i \<longleftrightarrow> seen s i \<le> published s \<and> seen s i \<le> done_before s i
     \<and> done_before s i \<le> Suc (seen s i) \<and> done_before s i \<le> length (completed s)"

definition task_ok :: "flight \<Rightarrow> nat \<Rightarrow> bool" where
  "task_ok s i \<longleftrightarrow>
     (case fl_pc s i of
        First g \<Rightarrow> g = of_nat (seen s i) \<and> observed_ok s i
      | Waiting g \<Rightarrow> g = of_nat (seen s i) \<and> observed_ok s i
      | Holding g \<Rightarrow> g = generation (fl_auth s)
      | Panicked \<Rightarrow> False
      | _ \<Rightarrow> True)"

definition flight_inv :: "flight \<Rightarrow> bool" where
  "flight_inv s \<longleftrightarrow> lock_inv s \<and> generation_inv s \<and> publish_inv s \<and> (\<forall>i. task_ok s i)"

lemma after_login_not_critical [simp]:
  "\<not> critical (after_login r)" "after_login r \<noteq> First g" "after_login r \<noteq> Waiting g"
  "after_login r \<noteq> Holding g" "after_login r \<noteq> Panicked" "after_login r \<noteq> Publishing q"
  by (cases r; simp add: critical_def)+

lemma stale_not_critical [simp]:
  "\<not> critical (stale_result q)" "stale_result q \<noteq> First g" "stale_result q \<noteq> Waiting g"
  "stale_result q \<noteq> Holding g" "stale_result q \<noteq> Publishing r"
  "stale_result q = Panicked \<longleftrightarrow> q = None"
  by (cases q; simp add: critical_def)+

lemma critical_simps [simp]:
  "critical (Holding g)" "critical (Publishing r)" "\<not> critical Start" "\<not> critical (First g)"
  "\<not> critical (Waiting g)" "\<not> critical Second" "\<not> critical Finished" "\<not> critical (Failed e)"
  "\<not> critical Cancelled" "\<not> critical Panicked"
  by (simp_all add: critical_def)

lemma goto_simps [simp]:
  "fl_pc (goto i p s) j = (if j = i then p else fl_pc s j)"
  "fl_auth_generation (goto i p s) = fl_auth_generation s" "fl_auth (goto i p s) = fl_auth s"
  "fl_lock (goto i p s) = fl_lock s" "completed (goto i p s) = completed s"
  "published (goto i p s) = published s" "seen (goto i p s) = seen s"
  "done_before (goto i p s) = done_before s"
  by (simp_all add: goto_def)

lemma observed_ok_goto [simp]: "observed_ok (goto i p s) j = observed_ok s j"
  by (simp add: observed_ok_def)

lemma task_ok_mono:
  assumes "task_ok s j" and "fl_pc t j = fl_pc s j" and "seen t j = seen s j" and "done_before t j = done_before s j"
    and "published s \<le> published t" and "length (completed s) \<le> length (completed t)"
    and "\<And>g. fl_pc s j = Holding g \<Longrightarrow> generation (fl_auth t) = generation (fl_auth s)"
  shows "task_ok t j"
  using assms by (cases "fl_pc s j") (auto simp: task_ok_def observed_ok_def)

lemma task_ok_goto:
  "task_ok (goto i p s) j \<longleftrightarrow>
     (if j = i then (case p of
        First g \<Rightarrow> g = of_nat (seen s i) \<and> observed_ok s i
      | Waiting g \<Rightarrow> g = of_nat (seen s i) \<and> observed_ok s i
      | Holding g \<Rightarrow> g = generation (fl_auth s)
      | Panicked \<Rightarrow> False
      | _ \<Rightarrow> True)
      else task_ok s j)"
proof (cases "j = i")
  case True
  then show ?thesis by (cases p) (simp_all add: task_ok_def)
next
  case False
  then show ?thesis by (cases "fl_pc s j") (simp_all add: task_ok_def)
qed

lemma task_ok_after_login: "task_ok (goto i (after_login r) s) i"
  by (cases r) (simp_all add: task_ok_goto)

text \<open>A move between non-critical points that leaves the shared state alone.\<close>

lemma local_move:
  assumes "flight_inv s" and "\<not> critical (fl_pc s i)" and "\<not> critical p"
    and "task_ok (goto i p s) i"
  shows "flight_inv (goto i p s)"
proof -
  have "lock_inv (goto i p s)" using assms by (auto simp: flight_inv_def lock_inv_def)
  moreover have "generation_inv (goto i p s)"
    using assms(1) by (simp add: flight_inv_def generation_inv_def)
  moreover have "publish_inv (goto i p s)"
    using assms(1-3) unfolding flight_inv_def publish_inv_def
    by (auto simp: critical_def)
  moreover have "task_ok (goto i p s) j" for j
    using assms by (cases "j = i") (auto simp: flight_inv_def task_ok_goto [of i p s j])
  ultimately show ?thesis by (simp add: flight_inv_def)
qed

lemma lock_facts:
  assumes "lock_inv s"
  shows "fl_lock s = None \<Longrightarrow> fl_pc s j \<noteq> Publishing r \<and> fl_pc s j \<noteq> Holding g"
    and "critical (fl_pc s i) \<Longrightarrow> critical (fl_pc s j) \<Longrightarrow> j = i"
    and "critical (fl_pc s i) \<Longrightarrow> fl_lock s = Some i"
proof -
  show "fl_pc s j \<noteq> Publishing r \<and> fl_pc s j \<noteq> Holding g" if "fl_lock s = None"
    using assms that unfolding lock_inv_def critical_def by (metis option.distinct(1))
  show "j = i" if "critical (fl_pc s i)" "critical (fl_pc s j)"
    using assms that unfolding lock_inv_def by (metis option.inject)
  show "fl_lock s = Some i" if "critical (fl_pc s i)"
    using assms that unfolding lock_inv_def by blast
qed

lemma inv_lock_fresh:
  assumes "flight_inv s" and "fl_pc s i = Waiting (generation (fl_auth s))" and "fl_lock s = None"
  shows "flight_inv (goto i (Holding (generation (fl_auth s))) (s\<lparr>fl_lock := Some i\<rparr>))" (is "flight_inv ?t")
proof -
  have inv: "lock_inv s" "generation_inv s" "publish_inv s" "\<forall>j. task_ok s j"
    using assms(1) by (simp_all add: flight_inv_def)
  note free = lock_facts(1) [OF inv(1) assms(3)]
  have "lock_inv ?t" using free by (auto simp: lock_inv_def critical_def)
  moreover have "generation_inv ?t" using inv(2) by (simp add: generation_inv_def)
  moreover have "publish_inv ?t" using inv(3) free by (auto simp: publish_inv_def)
  moreover have "task_ok ?t j" for j
    using inv(4) task_ok_mono [of s j "s\<lparr>fl_lock := Some i\<rparr>"] by (simp add: task_ok_goto)
  ultimately show ?thesis by (simp add: flight_inv_def)
qed

lemma inv_login_done:
  assumes "flight_inv s" and "fl_pc s i = Holding g"
  shows "flight_inv (goto i (Publishing r) (complete_login g r s))" (is "flight_inv ?t")
proof -
  have inv: "lock_inv s" "generation_inv s" "publish_inv s" "\<forall>j. task_ok s j"
    using assms(1) by (simp_all add: flight_inv_def)
  have g: "g = of_nat (length (completed s))"
    using inv(2) inv(4) [THEN spec, of i] assms(2) by (simp add: task_ok_def generation_inv_def)
  have alone: "fl_pc s j \<noteq> Publishing q \<and> (j \<noteq> i \<longrightarrow> fl_pc s j \<noteq> Holding h)" for j q h
    using lock_facts(2) [OF inv(1), of i j] assms(2) by (auto simp: critical_def)
  have "lock_inv ?t"
    using inv(1) assms(2) by (auto simp: lock_inv_def complete_login_def critical_def)
  moreover have "generation_inv ?t"
    using inv(2) g by (auto simp: generation_inv_def complete_login_def)
  moreover have "publish_inv ?t"
    using inv(3) alone by (auto simp: publish_inv_def complete_login_def)
  moreover have "task_ok ?t j" for j
    using inv(4) alone [of j] task_ok_mono [of s j "complete_login g r s"]
    by (auto simp: task_ok_goto complete_login_def)
  ultimately show ?thesis by (simp add: flight_inv_def)
qed

lemma inv_publish:
  assumes "flight_inv s" and "fl_pc s i = Publishing r"
  shows "flight_inv (goto i (after_login r)
     (s\<lparr>fl_auth_generation := generation (fl_auth s), fl_lock := None,
        published := length (completed s)\<rparr>))" (is "flight_inv ?t")
proof -
  have inv: "lock_inv s" "generation_inv s" "publish_inv s" "\<forall>j. task_ok s j"
    using assms(1) by (simp_all add: flight_inv_def)
  have alone: "j \<noteq> i \<Longrightarrow> \<not> critical (fl_pc s j)" for j
    using lock_facts(2) [OF inv(1), of i j] assms(2) by auto
  have pub: "length (completed s) = Suc (published s)"
    using inv(3) assms(2) unfolding publish_inv_def by blast
  have "lock_inv ?t" using alone by (auto simp: lock_inv_def)
  moreover have "generation_inv ?t" using inv(2) by (simp add: generation_inv_def)
  moreover have "publish_inv ?t" using alone by (auto simp: publish_inv_def critical_def)
  moreover have "task_ok ?t j" for j
  proof (cases "j = i")
    case False
    let ?u = "s\<lparr>fl_auth_generation := generation (fl_auth s), fl_lock := None,
        published := length (completed s)\<rparr>"
    have "task_ok ?u j" using inv(4) pub by (intro task_ok_mono [of s j ?u]) auto
    with False show ?thesis by (simp add: task_ok_goto)
  qed (simp add: task_ok_after_login)
  ultimately show ?thesis by (simp add: flight_inv_def)
qed

lemma inv_cancel_login:
  assumes "flight_inv s" and "fl_pc s i = Holding g"
  shows "flight_inv (goto i Cancelled (s\<lparr>fl_lock := None\<rparr>))" (is "flight_inv ?t")
proof -
  have inv: "lock_inv s" "generation_inv s" "publish_inv s" "\<forall>j. task_ok s j"
    using assms(1) by (simp_all add: flight_inv_def)
  have alone: "j \<noteq> i \<Longrightarrow> \<not> critical (fl_pc s j)" for j
    using lock_facts(2) [OF inv(1), of i j] assms(2) by auto
  have none: "fl_pc s j \<noteq> Publishing q" for j q
    using alone [of j] assms(2) by (cases "j = i") auto
  have "lock_inv ?t" using alone by (auto simp: lock_inv_def)
  moreover have "generation_inv ?t" using inv(2) by (simp add: generation_inv_def)
  moreover have "publish_inv ?t"
    using inv(3) none by (auto simp: publish_inv_def)
  moreover have "task_ok ?t j" for j
    using inv(4) task_ok_mono [of s j "s\<lparr>fl_lock := None\<rparr>"] by (simp add: task_ok_goto)
  ultimately show ?thesis by (simp add: flight_inv_def)
qed

lemma completed_published:
  assumes "publish_inv s"
  shows "published s \<le> length (completed s)" and "length (completed s) \<le> Suc (published s)"
  using assms unfolding publish_inv_def by (metis le_SucI order_refl)+

lemma inv_load:
  assumes "flight_inv s" and "fl_pc s i = Start"
  shows "flight_inv (goto i (First (fl_auth_generation s))
     (s\<lparr>seen := (seen s)(i := published s), done_before := (done_before s)(i := length (completed s))\<rparr>))"
    (is "flight_inv (goto i _ ?s)")
proof (rule local_move)
  have "task_ok ?s j" for j
    using assms task_ok_mono [of s j ?s] by (cases "j = i") (auto simp: flight_inv_def task_ok_def)
  then show "flight_inv ?s"
    using assms(1) by (auto simp: flight_inv_def lock_inv_def generation_inv_def publish_inv_def)
  show "task_ok (goto i (First (fl_auth_generation s)) ?s) i"
    using assms(1) completed_published [of s]
    by (auto simp: flight_inv_def generation_inv_def task_ok_goto observed_ok_def)
qed (use assms in simp_all)

text \<open>A stale task finds a result: nobody can observe a generation other than zero before a login has
  completed. The login had not been published at the load of the task, so it completed after the load
  or was the one that had completed and was still to be published.\<close>

lemma stale_has_result:
  assumes "flight_inv s" and "fl_pc s i = Waiting g" and "generation (fl_auth s) \<noteq> g"
  shows "seen s i < length (completed s)"
    and "last_result (fl_auth s) = Some (snd (last (completed s)))"
    and "done_before s i < length (completed s)
      \<or> done_before s i = Suc (seen s i) \<and> length (completed s) = Suc (seen s i)"
proof -
  have gi: "generation_inv s" and pi: "publish_inv s" and ti: "task_ok s i"
    using assms(1) by (simp_all add: flight_inv_def)
  from ti assms(2) have g: "g = of_nat (seen s i)" and ob: "observed_ok s i"
    by (simp_all add: task_ok_def)
  have "seen s i \<le> length (completed s)"
    using ob completed_published(1) [OF pi] by (simp add: observed_ok_def)
  moreover have "seen s i \<noteq> length (completed s)"
    using gi assms(3) g by (auto simp: generation_inv_def)
  ultimately show less: "seen s i < length (completed s)" by simp
  then show "last_result (fl_auth s) = Some (snd (last (completed s)))"
    using gi by (auto simp: generation_inv_def)
  show "done_before s i < length (completed s)
      \<or> done_before s i = Suc (seen s i) \<and> length (completed s) = Suc (seen s i)"
    using ob less by (auto simp: observed_ok_def)
qed

lemma step_inv: "step s t \<Longrightarrow> flight_inv s \<Longrightarrow> flight_inv t"
proof (induction rule: step.induct)
  case (Lock_stale s i g)
  then show ?case
    using stale_has_result(2) by (intro local_move) (auto simp: task_ok_def split: pc.splits)
next
  case (Refused s i g)
  then have "task_ok s i" by (simp add: flight_inv_def)
  with Refused show ?case by (intro local_move) (auto simp: task_ok_def)
qed (auto intro!: inv_load inv_lock_fresh inv_login_done inv_publish inv_cancel_login local_move
    simp: task_ok_def)

lemma reachable_inv: "reachable s \<Longrightarrow> flight_inv s"
proof (induction rule: reachable.induct)
  case Init
  show ?case
    by (simp add: flight_inv_def lock_inv_def generation_inv_def publish_inv_def task_ok_def init_def)
next
  case (Step s t)
  then show ?case by (blast intro: step_inv)
qed

section \<open>The relation and the sequential code agree\<close>

text \<open>The update a login makes under the mutex is the one \<open>finish_authentication\<close> makes, and \<open>Publish\<close>
  stores what it stores.\<close>

lemma complete_login_finish:
  assumes "auth s = fl_auth f"
  shows "auth (snd (finish_authentication (map_err Err r) s)) = fl_auth (complete_login g r f)"
    and "auth_generation (snd (finish_authentication (map_err Err r) s))
      = generation (fl_auth (complete_login g r f))"
  using assms by (cases r; simp add: complete_login_def Let_def)+

text \<open>A run with two tasks: both are refused under generation 0, task 0 logs in, task 1 takes over the
  result without a login of its own.\<close>

definition after_refusals :: flight where
  "after_refusals = init\<lparr>fl_pc := (\<lambda>_. Start)(0 := Waiting 0, 1 := Waiting 0)\<rparr>"

definition after_first_login :: flight where
  "after_first_login = after_refusals\<lparr>fl_pc := (\<lambda>_. Start)(0 := Second, 1 := Waiting 0),
     fl_auth_generation := 1, fl_auth := \<lparr>generation = 1, last_result = Some (Inr ())\<rparr>,
     completed := [(0, Inr ())], published := 1\<rparr>"

definition after_stale :: flight where
  "after_stale = after_first_login\<lparr>fl_pc := (\<lambda>_. Start)(0 := Second, 1 := Second)\<rparr>"

lemma reachable_refusals: "reachable after_refusals"
proof -
  have 1: "reachable (init\<lparr>fl_pc := (\<lambda>_. Start)(0 := First 0)\<rparr>)"
    using Step [OF Init Load [of init 0]] by (simp add: init_def goto_def fun_upd_idem)
  have 2: "reachable (init\<lparr>fl_pc := (\<lambda>_. Start)(0 := Waiting 0)\<rparr>)"
    using Step [OF 1 Refused [of _ 0 0]] by (simp add: init_def goto_def)
  have 3: "reachable (init\<lparr>fl_pc := (\<lambda>_. Start)(0 := Waiting 0, 1 := First 0)\<rparr>)"
    using Step [OF 2 Load [of _ 1]] by (simp add: init_def goto_def fun_upd_idem)
  show ?thesis
    using Step [OF 3 Refused [of _ 1 0]] by (simp add: init_def goto_def after_refusals_def)
qed

lemma reachable_first_login: "reachable after_first_login"
proof -
  have 1: "reachable (after_refusals\<lparr>fl_pc := (\<lambda>_. Start)(0 := Holding 0, 1 := Waiting 0), fl_lock := Some 0\<rparr>)"
    using Step [OF reachable_refusals Lock_fresh [of _ 0 0]]
    by (simp add: after_refusals_def init_def goto_def fun_upd_twist)
  have 2: "reachable (after_refusals\<lparr>fl_pc := (\<lambda>_. Start)(0 := Publishing (Inr ()), 1 := Waiting 0),
      fl_lock := Some 0, fl_auth := \<lparr>generation = 1, last_result = Some (Inr ())\<rparr>, completed := [(0, Inr ())]\<rparr>)"
    using Step [OF 1 Login_done [of _ 0 0 "Inr ()"]]
    by (simp add: after_refusals_def init_def goto_def complete_login_def fun_upd_twist)
  show ?thesis
    using Step [OF 2 Publish [of _ 0 "Inr ()"]]
    by (simp add: after_first_login_def after_refusals_def init_def goto_def fun_upd_twist)
qed

lemma reachable_stale: "reachable after_stale"
  using Step [OF reachable_first_login Lock_stale [of _ 1 0]]
  by (simp add: after_stale_def after_first_login_def after_refusals_def init_def goto_def)

section \<open>Progress\<close>

definition can_move :: "flight \<Rightarrow> nat \<Rightarrow> bool" where
  "can_move s i \<longleftrightarrow> (\<exists>t. step s t \<and> fl_pc t i \<noteq> fl_pc s i \<and> fl_pc t i \<noteq> Cancelled)"

lemma can_moveI: "step s t \<Longrightarrow> fl_pc t i \<noteq> fl_pc s i \<Longrightarrow> fl_pc t i \<noteq> Cancelled \<Longrightarrow> can_move s i"
  by (auto simp: can_move_def)

lemma after_login_ends [simp]: "after_login r \<noteq> Cancelled"
  by (cases r) simp_all

lemma critical_can_move: "critical (fl_pc s k) \<Longrightarrow> can_move s k"
  by (auto simp: critical_def intro: can_moveI [OF Login_done] can_moveI [OF Publish])

lemma local_can_move:
  "fl_pc s i = Start \<Longrightarrow> can_move s i" "fl_pc s i = First g \<Longrightarrow> can_move s i" "fl_pc s i = Second \<Longrightarrow> can_move s i"
  using can_moveI [OF Load, of s i] can_moveI [OF Answered, of s i g] can_moveI [OF Resent, of s i] by simp_all

text \<open>A task that has not ended can go on, or waits for the holder of the mutex, which can.\<close>

lemma progress:
  assumes "reachable s" and "fl_pc s i \<notin> {Finished, Cancelled} \<union> range Failed"
  shows "\<exists>j. (j = i \<or> fl_lock s = Some j) \<and> can_move s j"
proof (cases "fl_pc s i")
  case (Waiting g)
  have inv: "flight_inv s" by (rule reachable_inv [OF assms(1)])
  show ?thesis
  proof (cases "fl_lock s")
    case None
    have "can_move s i"
    proof (cases "generation (fl_auth s) = g")
      case True
      with Waiting None show ?thesis by (intro can_moveI [OF Lock_fresh]) simp_all
    next
      case False
      let ?r = "snd (last (completed s))"
      have "step s (goto i (after_login ?r) s)"
        using Lock_stale [OF Waiting None False] stale_has_result(2) [OF inv Waiting False] by simp
      with Waiting show ?thesis by (intro can_moveI [of s "goto i (after_login ?r) s"]) simp_all
    qed
    then show ?thesis by blast
  next
    case (Some k)
    with inv show ?thesis by (auto simp: flight_inv_def lock_inv_def intro!: critical_can_move)
  qed
next
  case Panicked
  with reachable_inv [OF assms(1)] have "task_ok s i" by (simp add: flight_inv_def)
  with Panicked show ?thesis by (simp add: task_ok_def)
qed (use assms(2) local_can_move [of s i] critical_can_move [of s i] in \<open>auto intro!: exI [of _ i]\<close>)

section \<open>Properties\<close>

text \<open>C2: authentication is single-flight: within \<open>2^64\<close> logins, no two logins that ran to their end
  were started from the same observed generation. However many tasks a 401 sends to the mutex,
  one of them logs in.\<close>

theorem single_flight:
  assumes "reachable s" and "length (completed s) \<le> 2 ^ 64"
  shows "distinct (map fst (completed s))"
proof -
  have "map fst (completed s) = map of_nat [0..<length (completed s)]"
    using reachable_inv [OF assms(1)] by (simp add: flight_inv_def generation_inv_def)
  moreover have "inj_on (of_nat :: nat \<Rightarrow> u64) (set [0..<length (completed s)])"
  proof (rule inj_onI)
    fix a b
    assume "a \<in> set [0..<length (completed s)]" "b \<in> set [0..<length (completed s)]"
      and e: "of_nat a = (of_nat b :: u64)"
    with assms(2) have "a < 2 ^ 64" "b < 2 ^ 64" by auto
    with arg_cong [OF e, of unat] show "a = b" by (simp add: unsigned_of_nat take_bit_nat_eq_self)
  qed
  ultimately show ?thesis by (simp add: distinct_map)
qed

theorem single_flight_witness: "distinct (map fst (completed after_stale)) \<and> completed after_stale \<noteq> []"
  using single_flight [OF reachable_stale] by (simp add: after_stale_def after_first_login_def)

text \<open>C22: a task that finds the generation changed never hits the \<open>expect\<close> and never reuses a login it
  could have known of: the state holds the result of the latest login, which was not published when the
  task loaded the generation; it completed after that load, or it was the one login that had
  completed and was just about to be published.\<close>

theorem waiting_task_gets_fresh_result:
  assumes "reachable s" and "fl_pc s i = Waiting g" and "generation (fl_auth s) \<noteq> g"
  shows "last_result (fl_auth s) = Some (snd (last (completed s))) \<and> seen s i < length (completed s)
    \<and> (done_before s i < length (completed s)
        \<or> done_before s i = Suc (seen s i) \<and> length (completed s) = Suc (seen s i))"
  using stale_has_result [OF reachable_inv [OF assms(1)] assms(2, 3)] by blast

theorem waiting_task_gets_fresh_result_witness:
  "last_result (fl_auth after_first_login) = Some (Inr ()) \<and> done_before after_first_login 1 < 1"
  using waiting_task_gets_fresh_result [OF reachable_first_login, of 1 0]
  by (auto simp: after_first_login_def after_refusals_def init_def)

text \<open>C24: mutual exclusion and freedom from panics in every interleaving: at most one task is between
  taking the mutex and publishing, and no task ever fails the \<open>expect\<close> on a missing result.\<close>

theorem login_mutual_exclusion:
  assumes "reachable s"
  shows "fl_pc s i \<noteq> Panicked \<and> (critical (fl_pc s i) \<and> critical (fl_pc s j) \<longrightarrow> i = j)"
proof -
  have inv: "flight_inv s" by (rule reachable_inv [OF assms])
  then have "task_ok s i" by (simp add: flight_inv_def)
  then have "fl_pc s i \<noteq> Panicked" by (auto simp: task_ok_def)
  with inv lock_facts(2) show ?thesis by (auto simp: flight_inv_def)
qed

theorem login_mutual_exclusion_witness:
  "\<exists>s. reachable s \<and> critical (fl_pc s 0) \<and> \<not> critical (fl_pc s 1) \<and> fl_pc s 1 \<noteq> Panicked"
proof -
  have r: "reachable (goto 0 (Holding 0) (after_refusals\<lparr>fl_lock := Some 0\<rparr>))"
    using Step [OF reachable_refusals Lock_fresh [of _ 0 0]] by (simp add: after_refusals_def init_def)
  show ?thesis using login_mutual_exclusion [OF r, of 1 0] r by force
qed

text \<open>No deadlock: as long as some task has not ended, some task can move on without being
  cancelled; in particular a holder of the mutex can always release it.\<close>

theorem no_deadlock:
  assumes "reachable s" and "fl_pc s i \<notin> {Finished, Cancelled} \<union> range Failed"
  shows "\<exists>j t. step s t \<and> fl_pc t j \<noteq> fl_pc s j \<and> fl_pc t j \<noteq> Cancelled"
  using progress [OF assms] unfolding can_move_def by blast

theorem no_deadlock_witness: "\<exists>j t. step init t \<and> fl_pc t j \<noteq> fl_pc init j"
  using no_deadlock [OF Init, of 0] by (auto simp: init_def)

end
