(* ===== verification/Sequential.thy ===== *)
theory Sequential
  imports Single_Flight
begin

text \<open>
  The sequential code of \<open>Client\<close> and the step relation of \<open>Single_Flight\<close> are two models of the same
  functions of \<open>src/src/client.rs\<close>. Here the first is shown to refine the second: a call of
  \<open>send_authenticated\<close> that no other task interrupts is a run of one task from \<open>Start\<close> to the
  point that stands for its result, and the shared state it leaves is the one the run leaves. The
  steps of \<open>Single_Flight\<close> let the environment choose the outcome of a request; here every step is
  labelled with the exchanges it puts on the wire (\<open>emits\<close>), which determine that outcome, and the labels
  of the run are the exchanges the call logged. So what holds of every reachable state holds after
  every sequence of calls.
\<close>

section \<open>Runs\<close>

inductive steps :: "flight \<Rightarrow> flight \<Rightarrow> bool" where
  Steps_refl: "steps s s"
| Steps_step: "step s t \<Longrightarrow> steps t u \<Longrightarrow> steps s u"

lemma steps_one: "step s t \<Longrightarrow> steps s t"
  by (blast intro: steps.intros)

lemma steps_trans: "steps s t \<Longrightarrow> steps t u \<Longrightarrow> steps s u"
  by (induction rule: steps.induct) (auto intro: Steps_step)

lemma steps_reachable: "steps s t \<Longrightarrow> reachable s \<Longrightarrow> reachable t"
  by (induction rule: steps.induct) (auto intro: reachable.Step)

text \<open>The shared state of the tasks is the session's, and nobody is in the critical section.\<close>

definition shares :: "flight \<Rightarrow> ('u, 'h, 'j, 'w) session \<Rightarrow> bool" where
  "shares f s \<longleftrightarrow> fl_auth f = auth s \<and> fl_auth_generation f = auth_generation s \<and> fl_lock f = None"

fun outcome_pc :: "Error failure + 'a \<Rightarrow> pc" where
  "outcome_pc (Inl Panic) = Panicked"
| "outcome_pc (Inl (Err e)) = Failed e"
| "outcome_pc (Inr x) = Finished"

definition bystanders :: "nat \<Rightarrow> flight \<Rightarrow> flight \<Rightarrow> bool" where
  "bystanders i f g \<longleftrightarrow> (\<forall>j. j \<noteq> i \<longrightarrow> fl_pc g j = fl_pc f j)"

lemma bystanders_trans: "bystanders i f g \<Longrightarrow> bystanders i g h \<Longrightarrow> bystanders i f h"
  by (simp add: bystanders_def)

text \<open>The exchanges a task puts on the wire when it goes from one point to the next: its request at \<open>First\<close>
  and at \<open>Second\<close>, a whole login at \<open>Holding\<close>, nothing elsewhere. What was answered decides where it
  goes.\<close>

definition lost :: "'u PreparedRequest \<Rightarrow> reqwest_error \<Rightarrow> pc" where
  "lost req e = Failed (Transport \<lparr>te_context = pr_context req, te_source = e\<rparr>)"

inductive emits ::
  "('c, 'u, 'h, 'j, 'w) deps \<Rightarrow> ('c, 'u) client \<Rightarrow> 'u PreparedRequest \<Rightarrow> pc \<Rightarrow> ('u, 'h) event list \<Rightarrow> pc \<Rightarrow> bool"
  for d :: "('c, 'u, 'h, 'j, 'w) deps" and c :: "('c, 'u) client" and req :: "'u PreparedRequest"
where
  Emit_load: "emits d c req Start [] (First g)"
| Emit_answered: "rs_status r \<noteq> 401 \<Longrightarrow> emits d c req (First g) [(req, Inr r)] Finished"
| Emit_lost: "emits d c req (First g) [(req, Inl e)] (lost req e)"
| Emit_anonymous: "rs_status r = 401 \<Longrightarrow> credentials c = None \<Longrightarrow>
    emits d c req (First g) [(req, Inr r)] (Failed (Authentication Required))"
| Emit_refused: "rs_status r = 401 \<Longrightarrow> credentials c \<noteq> None \<Longrightarrow>
    emits d c req (First g) [(req, Inr r)] (Waiting g)"
| Emit_stale: "emits d c req (Waiting g) [] (after_login out)"
| Emit_lock: "emits d c req (Waiting g) [] (Holding g)"
| Emit_login: "credentials c = Some k \<Longrightarrow> login_dialogue d c k es (map_err Err out) \<Longrightarrow>
    emits d c req (Holding g) es (Publishing out)"
| Emit_publish: "emits d c req (Publishing out) [] (after_login out)"
| Emit_resent: "rs_status r \<noteq> 401 \<Longrightarrow> emits d c req Second [(req, Inr r)] Finished"
| Emit_resend_lost: "emits d c req Second [(req, Inl e)] (lost req e)"
| Emit_resend_refused: "rs_status r = 401 \<Longrightarrow>
    emits d c req Second [(req, Inr r)] (Failed (Authentication UnauthorizedAfterAuthentication))"

text \<open>A run of task \<open>i\<close> alone, with the exchanges of its steps.\<close>

inductive task_run ::
  "('c, 'u, 'h, 'j, 'w) deps \<Rightarrow> ('c, 'u) client \<Rightarrow> 'u PreparedRequest \<Rightarrow> nat
     \<Rightarrow> flight \<Rightarrow> ('u, 'h) event list \<Rightarrow> flight \<Rightarrow> bool"
  for d :: "('c, 'u, 'h, 'j, 'w) deps" and c :: "('c, 'u) client" and req :: "'u PreparedRequest" and i :: nat
where
  Task_done: "task_run d c req i f [] f"
| Task_move: "step f g \<Longrightarrow> bystanders i f g \<Longrightarrow> emits d c req (fl_pc f i) es (fl_pc g i) \<Longrightarrow>
    task_run d c req i g fs h \<Longrightarrow> task_run d c req i f (es @ fs) h"

lemma task_run_one:
  "step f g \<Longrightarrow> bystanders i f g \<Longrightarrow> emits d c req (fl_pc f i) es (fl_pc g i) \<Longrightarrow> task_run d c req i f es g"
  using Task_move [OF _ _ _ Task_done] by force

lemma task_run_trans: "task_run d c req i f es g \<Longrightarrow> task_run d c req i g fs h \<Longrightarrow> task_run d c req i f (es @ fs) h"
  by (induction rule: task_run.induct) (auto intro: Task_move)

lemma task_run_steps: "task_run d c req i f es g \<Longrightarrow> steps f g"
  by (induction rule: task_run.induct) (auto intro: steps.intros)

lemma task_run_bystanders: "task_run d c req i f es g \<Longrightarrow> bystanders i f g"
  by (induction rule: task_run.induct) (auto intro: bystanders_trans simp: bystanders_def)

text \<open>A step that moves task \<open>i\<close> and leaves the shared state alone.\<close>

lemma local_run:
  assumes "step f (goto i p f)" and "emits d c req (fl_pc f i) es p" and "shares f s"
    and "auth t = auth s" and "auth_generation t = auth_generation s"
  shows "task_run d c req i f es (goto i p f)" and "shares (goto i p f) t"
  using assms by (auto intro!: task_run_one simp: bystanders_def shares_def)

lemma load_run:
  assumes "fl_pc f i = Start" and "shares f s"
  shows "\<exists>g. task_run d c req i f [] g \<and> fl_pc g i = First (auth_generation s) \<and> shares g s"
proof -
  let ?g = "goto i (First (fl_auth_generation f))
    (f\<lparr>seen := (seen f)(i := published f), done_before := (done_before f)(i := length (completed f))\<rparr>)"
  have "task_run d c req i f [] ?g"
    using assms(1) by (intro task_run_one step.Load) (auto simp: bystanders_def intro: Emit_load)
  then show ?thesis using assms(2) by (intro exI [of _ ?g]) (simp add: shares_def)
qed

text \<open>The login of a task that observed the current generation takes three steps: the mutex, the login,
  the publication of its result.\<close>

lemma login_run:
  assumes "fl_pc f i = Waiting (generation (fl_auth f))" and "fl_lock f = None"
    and "credentials c = Some k" and "login_dialogue d c k es (map_err Err r)"
  shows "\<exists>f'. task_run d c req i f es f' \<and> fl_pc f' i = after_login r \<and> fl_lock f' = None
    \<and> fl_auth f' = \<lparr>generation = generation (fl_auth f) + 1, last_result = Some r\<rparr>
    \<and> fl_auth_generation f' = generation (fl_auth f) + 1"
proof -
  let ?g = "generation (fl_auth f)"
  let ?h = "goto i (Holding ?g) (f\<lparr>fl_lock := Some i\<rparr>)"
  let ?p = "goto i (Publishing r) (complete_login ?g r ?h)"
  let ?q = "goto i (after_login r) (?p\<lparr>fl_auth_generation := generation (fl_auth ?p),
      fl_lock := None, published := length (completed ?p)\<rparr>)"
  have "task_run d c req i f [] ?h"
    using assms(1,2) by (intro task_run_one step.Lock_fresh) (auto simp: bystanders_def intro: Emit_lock)
  moreover have "task_run d c req i ?h es ?p"
    using assms(3,4) by (intro task_run_one step.Login_done)
      (auto simp: bystanders_def complete_login_def intro: Emit_login)
  moreover have "task_run d c req i ?p [] ?q"
    by (intro task_run_one step.Publish) (auto simp: bystanders_def intro: Emit_publish)
  ultimately have "task_run d c req i f ([] @ es @ []) ?q" by (blast intro: task_run_trans)
  then show ?thesis by (intro exI [of _ ?q]) (simp add: complete_login_def)
qed

section \<open>Simulation\<close>

lemma authenticate_run_task:
  assumes "authenticate d c (generation (auth s)) s = (result, t)" and "credentials c = Some k"
    and "shares f s" and "fl_pc f i = Waiting (generation (auth s))"
  shows "\<exists>f' es. task_run d c req i f es f' \<and> log t = log s @ es \<and> shares f' t
    \<and> fl_pc f' i = (case result of Inr _ \<Rightarrow> Second | Inl _ \<Rightarrow> outcome_pc result)"
proof -
  obtain es where es: "log t = log s @ es" and dlg: "login_dialogue d c k es result"
      and gen: "auth_generation t = generation (auth t)" "generation (auth t) = generation (auth s) + 1"
      "last_result (auth t) = Some (case result of Inl (Err e) \<Rightarrow> Inl e | _ \<Rightarrow> Inr ())"
    by (rule authenticate_run [OF assms(1,2) refl])
  let ?r = "case result of Inl (Err e) \<Rightarrow> Inl e | _ \<Rightarrow> Inr ()"
  have result: "result = map_err Err ?r"
    using login_no_panic [OF dlg] by (auto split: sum.splits failure.splits)
  have at: "fl_pc f i = Waiting (generation (fl_auth f))" "fl_lock f = None"
      "generation (fl_auth f) = generation (auth s)"
    using assms(3,4) by (simp_all add: shares_def)
  obtain f' where f': "task_run d c req i f es f'" "fl_pc f' i = after_login ?r" "fl_lock f' = None"
      "fl_auth f' = \<lparr>generation = generation (fl_auth f) + 1, last_result = Some ?r\<rparr>"
      "fl_auth_generation f' = generation (fl_auth f) + 1"
    using login_run [OF at(1,2) assms(2), of d es ?r req] dlg result by auto
  have "shares f' t" using f'(3-5) gen at(3) by (cases "auth t") (simp add: shares_def)
  moreover have "fl_pc f' i = (case result of Inr _ \<Rightarrow> Second | Inl _ \<Rightarrow> outcome_pc result)"
    using login_no_panic [OF dlg] f'(2) by (auto split: sum.splits failure.splits)
  ultimately show ?thesis using f'(1) es by blast
qed

text \<open>The first and the second request of a call, with the result the call ends on unless it goes on.\<close>

definition ends_on :: "'u PreparedRequest \<Rightarrow> ('u, 'h) event list \<Rightarrow> Error failure + ('u, 'h) Response \<Rightarrow> bool" where
  "ends_on req es result \<longleftrightarrow> (\<forall>r. result = Inr r \<longrightarrow> es \<noteq> [] \<and> last es = (req, Inr r))"

lemma call_run:
  assumes "auth_inv s" and "shares f s" and "fl_pc f i = Start"
    and run: "send_authenticated d c req s = (result, t)"
  shows "\<exists>f' es. task_run d c req i f es f' \<and> log t = log s @ es \<and> shares f' t
    \<and> fl_pc f' i = outcome_pc result \<and> ends_on req es result"
proof -
  obtain f1 where f1: "task_run d c req i f [] f1" "fl_pc f1 i = First (auth_generation s)" "shares f1 s"
    using load_run [OF assms(3,2)] by blast
  obtain r1 s1 where run1: "send_once d c req s = (r1, s1)" by (metis surj_pair)
  obtain res where s1: "log s1 = log s @ [(req, res)]" "auth s1 = auth s" "auth_generation s1 = auth_generation s"
      and r1: "r1 = (case res of Inl e \<Rightarrow> Inl (transport_failure req e) | Inr r \<Rightarrow> Inr r)"
    by (rule send_once_run [OF run1])
  note run = run [unfolded send_authenticated_def Let_def bind_io_def run1]
  have finish: ?thesis
    if "step f1 (goto i (outcome_pc result) f1)" and "t = s1" and "ends_on req [(req, res)] result"
      and "emits d c req (First (auth_generation s)) [(req, res)] (outcome_pc result)"
    using local_run [OF that(1) that(4) [folded f1(2)] f1(3) s1(2,3)] task_run_trans [OF f1(1)] s1(1) that(2,3)
    by (intro exI [of _ "goto i (outcome_pc result) f1"] exI [of _ "[(req, res)]"]) force
  show ?thesis
  proof (cases "\<exists>r k. res = Inr r \<and> rs_status r = 401 \<and> credentials c = Some k")
    case False
    show ?thesis
    proof (cases res)
      case (Inl e)
      with run r1 have "result = Inl (transport_failure req e)" "t = s1" by simp_all
      with Inl show ?thesis using step.Lost [OF f1(2)]
        by (intro finish) (auto simp: transport_failure_def ends_on_def intro: Emit_lost [unfolded lost_def])
    next
      case (Inr r)
      show ?thesis
      proof (cases "rs_status r = 401")
        case True
        with False Inr run r1 have "result = Inl (Err (Authentication Required))" "t = s1" "credentials c = None"
          by (auto simp: fail_io_def)
        with Inr True show ?thesis using step.Lost [OF f1(2)]
          by (intro finish) (auto simp: ends_on_def intro: Emit_anonymous)
      next
        case False
        with Inr run r1 have "result = Inr r" "t = s1" by (simp_all add: return_io_def)
        with Inr False show ?thesis using step.Answered [OF f1(2)]
          by (intro finish) (auto simp: ends_on_def intro: Emit_answered)
      qed
    qed
  next
    case True
    then obtain r k where res: "res = Inr r" "rs_status r = 401" "credentials c = Some k" by blast
    let ?f2 = "goto i (Waiting (auth_generation s)) f1"
    have emit2: "emits d c req (fl_pc f1 i) [(req, res)] (Waiting (auth_generation s))"
      using res f1(2) by (auto intro: Emit_refused)
    note f2 = local_run [OF step.Refused [OF f1(2)] emit2 f1(3) s1(2,3)]
    have gen: "auth_generation s = generation (auth s1)" using assms(1) s1 by (simp add: auth_inv_def)
    obtain r2 s2 where run2: "authenticate d c (auth_generation s) s1 = (r2, s2)" by (metis surj_pair)
    have wait2: "fl_pc ?f2 i = Waiting (generation (auth s1))" by (simp add: gen)
    obtain f3 es where f3: "task_run d c req i ?f2 es f3" "log s2 = log s1 @ es" "shares f3 s2"
        "fl_pc f3 i = (case r2 of Inr _ \<Rightarrow> Second | Inl _ \<Rightarrow> outcome_pc r2)"
      using authenticate_run_task [OF run2 [unfolded gen] res(3) f2(2) wait2] by blast
    have to3: "task_run d c req i f ([(req, res)] @ es) f3" "log s2 = log s @ [(req, res)] @ es"
      using task_run_trans [OF f1(1) task_run_trans [OF f2(1) f3(1)]] f3(2) s1(1) by simp_all
    show ?thesis
    proof (cases r2)
      case (Inl e)
      with run r1 res run2 have "t = s2" "result = Inl e" by simp_all
      with f3 to3 Inl show ?thesis
        by (intro exI [of _ f3] exI [of _ "[(req, res)] @ es"]) (cases e; simp add: ends_on_def)
    next
      case (Inr u)
      then have second: "fl_pc f3 i = Second" using f3(4) by simp
      obtain r3 s3 where run3: "send_once d c req s2 = (r3, s3)" by (metis surj_pair)
      obtain res3 where s3: "log s3 = log s2 @ [(req, res3)]" "auth s3 = auth s2" "auth_generation s3 = auth_generation s2"
        and r3: "r3 = (case res3 of Inl e \<Rightarrow> Inl (transport_failure req e) | Inr r \<Rightarrow> Inr r)"
        by (rule send_once_run [OF run3])
      have out: "t = s3" "result = (case res3 of Inl e \<Rightarrow> Inl (transport_failure req e)
          | Inr q \<Rightarrow> if rs_status q = 401 then Inl (Err (Authentication UnauthorizedAfterAuthentication)) else Inr q)"
        using run r1 res run2 Inr r3 by (auto simp: bind_io_def run3 return_io_def fail_io_def split: sum.splits if_splits)
      have step3: "step f3 (goto i (outcome_pc result) f3)"
          and emit3: "emits d c req (fl_pc f3 i) [(req, res3)] (outcome_pc result)"
          and on3: "ends_on req [(req, res3)] result"
        using out(2) second step.Resent [OF second] step.Resend_failed [OF second]
        by (auto simp: transport_failure_def ends_on_def intro: Emit_resent Emit_resend_lost [unfolded lost_def]
            Emit_resend_refused split: sum.splits)
      note f4 = local_run [OF step3 emit3 f3(3) s3(2,3)]
      have "task_run d c req i f (([(req, res)] @ es) @ [(req, res3)]) (goto i (outcome_pc result) f3)"
        by (rule task_run_trans [OF to3(1) f4(1)])
      then show ?thesis
        using f4(2) s3(1) to3(2) out(1) on3
        by (intro exI [of _ "goto i (outcome_pc result) f3"] exI [of _ "([(req, res)] @ es) @ [(req, res3)]"])
          (auto simp: ends_on_def)
    qed
  qed
qed

text \<open>Any number of calls, one after the other.\<close>

fun call_all ::
  "('c, 'u, 'h, 'j, 'w) deps \<Rightarrow> ('c, 'u) client \<Rightarrow> 'u PreparedRequest list
     \<Rightarrow> ('u, 'h, 'j, 'w) session \<Rightarrow> (Error failure + ('u, 'h) Response) list \<times> ('u, 'h, 'j, 'w) session"
where
  "call_all d c [] s = ([], s)"
| "call_all d c (req # reqs) s =
     (let (result, s) = send_authenticated d c req s;
          (results, s) = call_all d c reqs s
      in (result # results, s))"

text \<open>Calls one after the other, the \<open>n\<close>-th by the \<open>n\<close>-th task: each goes from \<open>Start\<close> to the point of its
  result, and a response it returns is the answer in its last exchange.\<close>

inductive calls_run ::
  "('c, 'u, 'h, 'j, 'w) deps \<Rightarrow> ('c, 'u) client \<Rightarrow> nat \<Rightarrow> 'u PreparedRequest list
     \<Rightarrow> (Error failure + ('u, 'h) Response) list \<Rightarrow> flight \<Rightarrow> ('u, 'h) event list \<Rightarrow> flight \<Rightarrow> bool"
  for d :: "('c, 'u, 'h, 'j, 'w) deps" and c :: "('c, 'u) client"
where
  Calls_none: "calls_run d c i [] [] f [] f"
| Calls_next: "fl_pc f i = Start \<Longrightarrow> task_run d c req i f es g \<Longrightarrow> fl_pc g i = outcome_pc r \<Longrightarrow> ends_on req es r \<Longrightarrow>
    calls_run d c (Suc i) reqs rs g fs h \<Longrightarrow> calls_run d c i (req # reqs) (r # rs) f (es @ fs) h"

lemma calls_run_steps: "calls_run d c i reqs rs f es g \<Longrightarrow> steps f g"
  by (induction rule: calls_run.induct) (auto intro: steps.intros steps_trans task_run_steps)

lemma call_all_run:
  assumes "auth_inv s" and "shares f s" and "\<And>j. i \<le> j \<Longrightarrow> fl_pc f j = Start"
    and "call_all d c reqs s = (results, t)"
  shows "\<exists>g es. calls_run d c i reqs results f es g \<and> log t = log s @ es \<and> shares g t"
  using assms
proof (induction reqs arbitrary: s f i results)
  case Nil
  then show ?case by (auto intro: Calls_none)
next
  case (Cons req reqs)
  obtain r u where run: "send_authenticated d c req s = (r, u)" by (metis surj_pair)
  obtain rs where rest: "call_all d c reqs u = (rs, t)" and results: "results = r # rs"
    using Cons.prems(4) by (auto simp: run split: prod.splits)
  obtain f1 es where f1: "task_run d c req i f es f1" "log u = log s @ es" "shares f1 u"
      "fl_pc f1 i = outcome_pc r" "ends_on req es r"
    using call_run [OF Cons.prems(1,2) Cons.prems(3) [OF order_refl] run] by blast
  have inv: "auth_inv u" by (rule send_authenticated_inv [OF Cons.prems(1) run])
  have "fl_pc f1 j = Start" if "Suc i \<le> j" for j
    using task_run_bystanders [OF f1(1)] Cons.prems(3) that by (simp add: bystanders_def)
  from Cons.IH [OF inv f1(3) this rest] obtain g fs where
    g: "calls_run d c (Suc i) reqs rs f1 fs g" "log t = log u @ fs" "shares g t" by blast
  have "calls_run d c i (req # reqs) results f (es @ fs) g"
    unfolding results using Cons.prems(3) f1(1,4,5) g(1) by (intro Calls_next) simp_all
  with f1(2) g(2,3) show ?case by fastforce
qed

section \<open>Properties\<close>

text \<open>C13: the sequential code refines the concurrent model: every sequence of calls on a fresh session is
  a run of the step relation in which the \<open>n\<close>-th task makes the \<open>n\<close>-th call alone; the exchanges that the
  steps of the run put on the wire are exactly those the calls logged, each task ends where the
  result of its call puts it, a response that is returned is the answer of the task's last exchange, and
  the run leaves the generation, the last result and the counter of the session.\<close>

theorem calls_refine_flight:
  assumes "auth s = \<lparr>generation = 0, last_result = None\<rparr>" and "auth_generation s = 0"
    and "call_all d c reqs s = (results, t)"
  shows "\<exists>f es. calls_run d c 0 reqs results init es f \<and> log t = log s @ es \<and> shares f t \<and> reachable f"
proof -
  have "auth_inv s" "shares init s" using assms(1,2) by (simp_all add: auth_inv_def shares_def init_def)
  moreover have "fl_pc init j = Start" for j by (simp add: init_def)
  ultimately obtain f es where f: "calls_run d c 0 reqs results init es f" "log t = log s @ es" "shares f t"
    using call_all_run [of s init 0, OF _ _ _ assms(3)] by blast
  with steps_reachable [OF calls_run_steps [OF f(1)] reachable.Init] show ?thesis by blast
qed

text \<open>A call that logs in: its request, the two requests of the login, and its request again.\<close>

theorem calls_refine_flight_witness:
  "\<exists>f es t. call_all script_deps script_client [script_request] (script_session login_script)
       = ([Inr (script_response 200 [])], t)
     \<and> calls_run script_deps script_client 0 [script_request] [Inr (script_response 200 [])] init es f
     \<and> length es = 4 \<and> fl_auth f = auth t"
proof -
  obtain t where run: "send_authenticated script_deps script_client script_request
      (script_session login_script) = (Inr (script_response 200 []), t)" and len: "length (log t) = 4"
    using login_script_run by blast
  then have all: "call_all script_deps script_client [script_request] (script_session login_script)
      = ([Inr (script_response 200 [])], t)" by simp
  have "auth (script_session login_script) = \<lparr>generation = 0, last_result = None\<rparr>"
      "auth_generation (script_session login_script) = 0" "log (script_session login_script) = []"
    by (simp_all add: script_session_def)
  with calls_refine_flight [OF this(1,2) all] all len show ?thesis by (auto simp: shares_def)
qed

end
