(* ===== verification/Secrecy.thy ===== *)
theory Secrecy
  imports Client
begin

text \<open>
  What the password can influence. Two runs of the client of \<open>src/src/client.rs\<close> that differ in nothing
  but the password are compared: the bodies of \<open>POST /auth\<close> differ, and as long as the router
  answers both alike, nothing else does. \<open>alike\<close> is the relation between the two runs; it is
  preserved by each combinator the client is built from and by each function, in the order of the
  code.
\<close>

section \<open>Alike\<close>

definition same_but_password :: "('c, 'u) client \<Rightarrow> ('c, 'u) client \<Rightarrow> bool" where
  "same_but_password c c' \<longleftrightarrow> c' = c\<lparr>credentials := credentials c'\<rparr>
     \<and> rel_option (\<lambda>k k'. cred_login k' = cred_login k) (credentials c) (credentials c')"

definition same_request :: "'u PreparedRequest \<Rightarrow> 'u PreparedRequest \<Rightarrow> bool" where
  "same_request q q' \<longleftrightarrow> q' = q
     \<or> pr_context q = auth_context POST \<and> (\<exists>b b'. pr_body q = Some b \<and> q' = q\<lparr>pr_body := Some b'\<rparr>)"

definition same_session :: "('u, 'h, 'j, 'w) session \<Rightarrow> ('u, 'h, 'j, 'w) session \<Rightarrow> bool" where
  "same_session s s' \<longleftrightarrow> s' = s\<lparr>log := log s'\<rparr>
     \<and> list_all2 (\<lambda>e e'. same_request (fst e) (fst e') \<and> snd e' = snd e) (log s) (log s')"

definition alike :: "(('u, 'h, 'j, 'w) session, 'a) io \<Rightarrow> (('u, 'h, 'j, 'w) session, 'a) io \<Rightarrow> bool" where
  "alike m m' \<longleftrightarrow> (\<forall>s s'. same_session s s' \<longrightarrow>
     fst (m' s') = fst (m s) \<and> same_session (snd (m s)) (snd (m' s')))"

text \<open>What is asked of the environment: the payload of a login can be serialized, and the transport
  delivers the same answer whatever the login body says.\<close>

definition answers_alike :: "('c, 'u, 'h, 'j, 'w) deps \<Rightarrow> ('c, 'u) client \<Rightarrow> bool" where
  "answers_alike d c \<longleftrightarrow> (\<forall>p. is_ok (d_auth_json d p))
     \<and> (\<forall>jar b b' w. d_send d (http c) (http_request d c jar (prepare_auth d c POST (Some b'))) w
          = d_send d (http c) (http_request d c jar (prepare_auth d c POST (Some b))) w)"

lemma alikeI:
  assumes "\<And>s s'. same_session s s' \<Longrightarrow> fst (m' s') = fst (m s) \<and> same_session (snd (m s)) (snd (m' s'))"
  shows "alike m m'"
  using assms by (simp add: alike_def)

lemma alikeD:
  assumes "alike m m'" and "same_session s s'" and "m s = (r, t)" and "m' s' = (r', t')"
  shows "r' = r \<and> same_session t t'"
  using assms unfolding alike_def by (metis fst_conv snd_conv)

lemma alike_bind:
  assumes "alike m m'" and "\<And>x. alike (k x) (k' x)"
  shows "alike (bind_io m k) (bind_io m' k')"
proof (rule alikeI)
  fix s s' :: "('a, 'b, 'c, 'd) session"
  assume same: "same_session s s'"
  obtain r t r' t' where run: "m s = (r, t)" "m' s' = (r', t')" by (metis surj_pair)
  from alikeD [OF assms(1) same run] have "r' = r" "same_session t t'" by simp_all
  with run assms(2) show "fst (bind_io m' k' s') = fst (bind_io m k s)
      \<and> same_session (snd (bind_io m k s)) (snd (bind_io m' k' s'))"
    by (cases r) (auto simp: bind_io_def alike_def)
qed

lemma alike_basic: "alike (return_io x) (return_io x)" "alike (fail_io e) (fail_io e)" "alike (lift_io r) (lift_io r)"
  by (simp_all add: alike_def return_io_def fail_io_def lift_io_def)

lemma same_sessionD:
  assumes "same_session s s'"
  shows "cookies s' = cookies s" and "world s' = world s" and "auth s' = auth s"
    and "auth_generation s' = auth_generation s"
  using assms unfolding same_session_def by (cases s; cases s'; simp)+

section \<open>The functions of the client\<close>

lemma same_client_simps:
  assumes "same_but_password c c'"
  shows "http c' = http c" and "base_url c' = base_url c" and "prepare_auth d c' m b = prepare_auth d c m b"
    and "http_request d c' jar q = http_request d c jar q" and "credentials c' = None \<longleftrightarrow> credentials c = None"
  using assms unfolding same_but_password_def
  by (cases c; cases c'; auto simp: prepare_auth_def prepare_def endpoint_url_def http_request_def rel_option_iff
      split: option.splits)+

lemma same_request_refl [simp]: "same_request q q"
  by (simp add: same_request_def)

lemma send_once_alike:
  fixes d :: "('c, 'u, 'h, 'j, 'w) deps"
  assumes "same_but_password c c'" and "same_request q q'"
    and "\<And>jar w. d_send d (http c) (http_request d c jar q') w = d_send d (http c) (http_request d c jar q) w"
  shows "alike (send_once d c q) (send_once d c' q')"
proof (rule alikeI)
  fix s s' :: "('u, 'h, 'j, 'w) session"
  assume same: "same_session s s'"
  note same_state = same_sessionD [OF same]
  have q: "pr_context q' = pr_context q" using assms(2) by (auto simp: same_request_def)
  obtain res w where "d_send d (http c) (http_request d c (cookies s) q) (world s) = (res, w)" by (metis surj_pair)
  then show "fst (send_once d c' q' s') = fst (send_once d c q s)
      \<and> same_session (snd (send_once d c q s)) (snd (send_once d c' q' s'))"
    using same assms(2)
    by (cases res) (auto simp: send_once_def same_client_simps [OF assms(1)] assms(3) same_state q Let_def same_session_def
        intro!: list_all2_appendI)
qed

lemmas send_same_alike = send_once_alike [OF _ _ refl]

lemma perform_authentication_alike:
  assumes "same_but_password c c'" and "answers_alike d c"
  shows "alike (perform_authentication d c) (perform_authentication d c')"
proof (cases "credentials c")
  case None
  then have "credentials c' = None" using same_client_simps(5) [OF assms(1)] by simp
  with None show ?thesis by (simp add: alike_def perform_authentication_def)
next
  case (Some k)
  then obtain k' where k': "credentials c' = Some k'" using same_client_simps(5) [OF assms(1)] by auto
  have step: "alike (bind_io (lift_io (map_err f (d_auth_json d p))) g) (bind_io (lift_io (map_err f (d_auth_json d p'))) g')"
    if "\<And>b b'. alike (g b) (g' b')" for f p p' g g'
  proof -
    obtain b b' where "d_auth_json d p = Inr b" "d_auth_json d p' = Inr b'"
      using assms(2) unfolding answers_alike_def is_ok_iff by metis
    then show ?thesis using that by (simp add: alike_def bind_io_def lift_io_def)
  qed
  have post: "alike (send_once d c (prepare_auth d c POST (Some b))) (send_once d c' (prepare_auth d c POST (Some b')))" for b b'
    using assms
    by (intro send_once_alike)
      (auto simp: answers_alike_def same_request_def prepare_auth_def prepare_def auth_context_def Let_def)
  have get: "alike (send_once d c (prepare_auth d c GET None)) (send_once d c' (prepare_auth d c GET None))"
    by (rule send_same_alike [OF assms(1)]) simp
  have context_eq: "pr_context (prepare_auth d c POST b) = auth_context POST" for b
    by (simp add: prepare_auth_def prepare_def auth_context_def Let_def)
  show ?thesis
    unfolding perform_authentication_def Some k' option.case Let_def same_client_simps(3) [OF assms(1)] context_eq
    by (intro alike_bind get step post | auto simp: alike_basic intro!: alike_bind get step post split: prod.splits)+
qed

lemma authenticate_alike:
  fixes d :: "('c, 'u, 'h, 'j, 'w) deps"
  assumes "same_but_password c c'" and "answers_alike d c"
  shows "alike (authenticate d c g) (authenticate d c' g)"
proof (rule alikeI)
  fix s s' :: "('u, 'h, 'j, 'w) session"
  assume same: "same_session s s'"
  note same_state = same_sessionD [OF same]
  obtain r t r' t' where run: "perform_authentication d c s = (r, t)" "perform_authentication d c' s' = (r', t')"
    by (metis surj_pair)
  from alikeD [OF perform_authentication_alike [OF assms] same run]
  have alike: "r' = r" "same_session t t'" by simp_all
  have "fst (finish_authentication r t') = fst (finish_authentication r t)
      \<and> same_session (snd (finish_authentication r t)) (snd (finish_authentication r t'))"
    using alike(2) same_sessionD [OF alike(2)]
    by (cases "(r, t)" rule: finish_authentication.cases) (auto simp: same_session_def Let_def)
  then show "fst (authenticate d c' g s') = fst (authenticate d c g s)
      \<and> same_session (snd (authenticate d c g s)) (snd (authenticate d c' g s'))"
    using same alike(1) by (simp add: authenticate_def run same_state split: option.splits)
qed

lemma send_authenticated_alike:
  fixes d :: "('c, 'u, 'h, 'j, 'w) deps"
  assumes "same_but_password c c'" and "answers_alike d c"
  shows "alike (send_authenticated d c q) (send_authenticated d c' q)"
proof (rule alikeI)
  fix s s' :: "('u, 'h, 'j, 'w) session"
  assume same: "same_session s s'"
  have once: "alike (send_once d c q) (send_once d c' q)"
    by (rule send_same_alike [OF assms(1)]) simp
  have "alike (bind_io (send_once d c q) (\<lambda>response.
        if rs_status response \<noteq> 401 then return_io response
        else if credentials c = None then fail_io (Authentication Required)
        else bind_io (authenticate d c g) (\<lambda>_. bind_io (send_once d c q) (\<lambda>response.
            if rs_status response = 401 then fail_io (Authentication UnauthorizedAfterAuthentication)
            else return_io response))))
      (bind_io (send_once d c' q) (\<lambda>response.
        if rs_status response \<noteq> 401 then return_io response
        else if credentials c' = None then fail_io (Authentication Required)
        else bind_io (authenticate d c' g) (\<lambda>_. bind_io (send_once d c' q) (\<lambda>response.
            if rs_status response = 401 then fail_io (Authentication UnauthorizedAfterAuthentication)
            else return_io response))))" for g
    by (auto simp: same_client_simps(5) [OF assms(1)] alike_basic
        intro!: alike_bind once authenticate_alike assms)
  then show "fst (send_authenticated d c' q s') = fst (send_authenticated d c q s)
      \<and> same_session (snd (send_authenticated d c q s)) (snd (send_authenticated d c' q s'))"
    using same unfolding send_authenticated_def Let_def same_sessionD(4) [OF same] alike_def by blast
qed

lemma send_json_alike:
  assumes "same_but_password c c'" and "answers_alike d c"
  shows "alike (send_json d c ops q) (send_json d c' ops q)"
  unfolding send_json_def send_successful_def
  by (auto simp: alike_basic intro!: alike_bind send_authenticated_alike assms)

lemma send_text_alike:
  assumes "same_but_password c c'" and "answers_alike d c"
  shows "alike (send_text d c q) (send_text d c' q)"
  unfolding send_text_def send_successful_def
  by (auto simp: alike_basic intro!: alike_bind send_authenticated_alike assms)

section \<open>Properties\<close>

text \<open>C8: what a call returns, and everything it does, depends on the password through the answers of
  the router only: let two clients differ in the password, and let the router answer both logins
  alike; then a JSON call and a text call return the same result, be it a value or an error, leave
  the same session, and put the same requests on the wire except for the body of \<open>POST /auth\<close>; and
  the two clients print alike.\<close>

theorem password_only_in_login:
  assumes "same_but_password c c'" and "answers_alike d c"
    and "send_json d c ops q s = (r, t)" and "send_json d c' ops q s = (r', t')"
    and "send_text d c q' t = (x, u)" and "send_text d c' q' t' = (x', u')"
  shows "r' = r \<and> x' = x \<and> same_session u u' \<and> client_debug url_str c' = client_debug url_str c"
proof -
  have "same_session s s" by (simp add: same_session_def list.rel_refl)
  from alikeD [OF send_json_alike [OF assms(1,2)] this assms(3,4)]
  have json: "r' = r" "same_session t t'" by simp_all
  from alikeD [OF send_text_alike [OF assms(1,2)] json(2) assms(5,6)]
  have "x' = x" "same_session u u'" by simp_all
  moreover have "client_debug url_str c' = client_debug url_str c"
    using assms(1) unfolding same_but_password_def
    by (cases c; cases c') (auto simp: client_debug_def rel_option_iff split: option.splits)
  ultimately show ?thesis using json(1) by blast
qed

definition other_password :: "(unit, string) client" where
  "other_password = script_client\<lparr>credentials :=
     Some \<lparr>cred_login = ''admin'', cred_password = Secret ''other''\<rparr>\<rparr>"

theorem password_only_in_login_witness:
  "fst (send_json script_deps other_password empty_object_ops script_request (script_session login_script))
     = fst (send_json script_deps script_client empty_object_ops script_request (script_session login_script))
   \<and> client_debug id other_password = client_debug id script_client"
proof -
  have c: "same_but_password script_client other_password"
    by (simp add: same_but_password_def other_password_def script_client_def)
  have d: "answers_alike script_deps script_client"
    by (simp add: answers_alike_def script_deps_def split: list.splits)
  from password_only_in_login [OF c d prod.collapse [symmetric] prod.collapse [symmetric] prod.collapse [symmetric]
      prod.collapse [symmetric], of empty_object_ops script_request "script_session login_script" script_request id]
  show ?thesis by simp
qed

end
