(* ===== verification/Network_Values.thy ===== *)
theory Network_Values
  imports String_Identifiers Json
begin

text \<open>
  The values of \<open>src/src/model/network.rs\<close>: MAC addresses, hosts, lease and uptime values, data
  rates, the numeric newtypes and the visitors that accept numbers or strings. The text syntax of
  \<open>std::net::IpAddr\<close> is the pair of parameters \<open>ip_parse\<close> and \<open>ip_show\<close>.
\<close>

section \<open>MAC addresses\<close>

datatype ParseMacAddressError =
    MacInvalidLength nat
  | MacInvalidSeparator nat
  | MacInvalidHexDigit nat

datatype MacAddress = MacAddress (octets: "u8 list")

definition decode_hex :: "char \<Rightarrow> u8 option" where
  "decode_hex byte =
     (let n = byte_val byte in
      if 48 \<le> n \<and> n \<le> 57 then Some (byte_u8 byte - 48)
      else if 97 \<le> n \<and> n \<le> 102 then Some (byte_u8 byte - 97 + 10)
      else if 65 \<le> n \<and> n \<le> 70 then Some (byte_u8 byte - 65 + 10)
      else None)"

definition mac_octet :: "string \<Rightarrow> nat \<Rightarrow> ParseMacAddressError + u8" where
  "mac_octet bytes index =
     (let offset = index * 3 in
      if index \<noteq> 5 \<and> bytes ! (offset + 2) \<noteq> CHR '':'' then Inl (MacInvalidSeparator (offset + 2))
      else bind_res (ok_or (MacInvalidHexDigit offset) (decode_hex (bytes ! offset))) (\<lambda>high.
           bind_res (ok_or (MacInvalidHexDigit (offset + 1)) (decode_hex (bytes ! (offset + 1)))) (\<lambda>low.
             Inr (or (push_bit 4 high) low))))"

fun mac_octets :: "string \<Rightarrow> nat list \<Rightarrow> ParseMacAddressError + u8 list" where
  "mac_octets bytes [] = Inr []"
| "mac_octets bytes (index # indices) =
     bind_res (mac_octet bytes index) (\<lambda>octet. map_res (Cons octet) (mac_octets bytes indices))"

definition MacAddress_from_str :: "string \<Rightarrow> ParseMacAddressError + MacAddress" where
  "MacAddress_from_str s =
     (if length s \<noteq> 17 then Inl (MacInvalidLength (length s))
      else map_res MacAddress (mac_octets s [0..<6]))"

text \<open>\<open>{:02x}\<close> of an octet.\<close>

definition show_octet :: "u8 \<Rightarrow> string" where
  "show_octet o' = [lower_hex (unat o' div 16), lower_hex (unat o' mod 16)]"

fun display_octets :: "u8 list \<Rightarrow> string" where
  "display_octets [] = []"
| "display_octets (first # rest) = show_octet first @ concat (map (\<lambda>o'. CHR '':'' # show_octet o') rest)"

definition MacAddress_display :: "MacAddress \<Rightarrow> string" where
  "MacAddress_display m = display_octets (octets m)"

definition mac_ok :: "MacAddress \<Rightarrow> bool" where
  "mac_ok m \<longleftrightarrow> length (octets m) = 6"

text \<open>\<open>to_ascii_lowercase\<close>, to say what the printed form has in common with the accepted text.\<close>

definition ascii_lower :: "char \<Rightarrow> char" where
  "ascii_lower b = (if is_ascii_uppercase b then char_of (byte_val b + 32) else b)"

lemma six: "length xs = 6 \<longleftrightarrow> (\<exists>a b c d e f. xs = [a, b, c, d, e, f])"
  by (auto simp: numeral_eq_Suc length_Suc_conv)

lemma nibbles_join:
  assumes "h < 16" and "l < 16"
  shows "or (push_bit 4 (of_nat h :: u8)) (of_nat l) = of_nat (16 * h + l)"
proof -
  have "push_bit 4 h + l = or (push_bit 4 h) l"
  proof (rule disjunctive_add_eq_or)
    have "take_bit 4 l = l" using assms(2) by (simp add: take_bit_nat_eq_self)
    then have "\<not> bit (push_bit 4 h) n \<or> \<not> bit l n" for n
      by (metis bit_push_bit_iff_nat bit_take_bit_iff not_less)
    then show "and (push_bit 4 h) l = 0" by (auto simp: bit_eq_iff bit_and_iff)
  qed
  then have "or (push_bit 4 h) l = 16 * h + l" by (simp add: push_bit_eq_mult mult.commute)
  then show ?thesis by (metis of_nat_or_eq of_nat_push_bit)
qed

text \<open>The value of a hexadecimal digit of either case.\<close>

definition hex_value :: "char \<Rightarrow> nat option" where
  "hex_value b =
     (let n = byte_val b in
      if 48 \<le> n \<and> n \<le> 57 then Some (n - 48)
      else if 97 \<le> n \<and> n \<le> 102 then Some (n - 87)
      else if 65 \<le> n \<and> n \<le> 70 then Some (n - 55)
      else None)"

lemma byte_u8_minus: "k \<le> byte_val b \<Longrightarrow> byte_u8 b - of_nat k = of_nat (byte_val b - k)"
  by (metis of_nat_diff of_nat_of_char)

lemma decode_hex_value: "decode_hex b = map_option of_nat (hex_value b)"
  using byte_u8_minus [of 48 b] byte_u8_minus [of 87 b] byte_u8_minus [of 55 b]
  by (simp add: decode_hex_def hex_value_def Let_def)

lemma hex_value_some:
  assumes "hex_value b = Some n"
  shows "n < 16" and "lower_hex n = ascii_lower b"
  using assms
  by (auto simp: hex_value_def lower_hex_def ascii_lower_def is_ascii_uppercase_def Let_def split: if_splits)

lemma hex_value_lower: "n < 16 \<Longrightarrow> hex_value (lower_hex n) = Some n"
  by (auto simp: hex_value_def lower_hex_def Let_def)

lemma unat_nibble: "n < 16 \<Longrightarrow> unat (of_nat n :: u8) = n"
  by (simp add: unat_of_nat take_bit_nat_eq_self)


lemma unat_byte_less: "unat (w :: u8) < 256"
proof -
  have "unat w < 2 ^ LENGTH(8)" by (rule unsigned_less)
  then show ?thesis by simp
qed

lemma mac_octet_hex:
  assumes "hex_value (b1 ! (index * 3)) = Some (unat o' div 16)"
    and "hex_value (b1 ! (index * 3 + 1)) = Some (unat o' mod 16)"
    and "index \<noteq> 5 \<Longrightarrow> b1 ! (index * 3 + 2) = CHR '':''"
  shows "mac_octet b1 index = Inr o'"
proof -
  have n: "unat o' div 16 < 16" "unat o' mod 16 < 16"
    using unat_byte_less [of o'] by simp_all
  have "or (push_bit 4 (of_nat (unat o' div 16))) (of_nat (unat o' mod 16)) = o'"
    using nibbles_join [OF n] by simp
  moreover have "\<not> (index \<noteq> 5 \<and> b1 ! (index * 3 + 2) \<noteq> CHR '':'')"
    using assms(3) by blast
  ultimately show ?thesis
    by (simp only: mac_octet_def Let_def decode_hex_value assms(1,2) option.map ok_or.simps bind_res.simps if_False)
qed

lemma mac_octet_show:
  assumes "b1 ! (index * 3) = lower_hex (unat o' div 16)"
    and "b1 ! (index * 3 + 1) = lower_hex (unat o' mod 16)"
    and "index \<noteq> 5 \<Longrightarrow> b1 ! (index * 3 + 2) = CHR '':''"
  shows "mac_octet b1 index = Inr o'"
proof (rule mac_octet_hex)
  have "unat o' div 16 < 16" "unat o' mod 16 < 16"
    using unat_byte_less [of o'] by simp_all
  then show "hex_value (b1 ! (index * 3)) = Some (unat o' div 16)"
      "hex_value (b1 ! (index * 3 + 1)) = Some (unat o' mod 16)"
    by (simp_all only: assms(1,2) hex_value_lower)
qed (rule assms(3))

lemma mac_octet_ok:
  assumes "mac_octet b index = Inr o'"
  shows "show_octet o' = map ascii_lower [b ! (index * 3), b ! (index * 3 + 1)]"
    and "index \<noteq> 5 \<longrightarrow> b ! (index * 3 + 2) = CHR '':''"
proof -
  obtain h l where h: "hex_value (b ! (index * 3)) = Some h" and l: "hex_value (b ! (index * 3 + 1)) = Some l"
    and o': "o' = or (push_bit 4 (of_nat h)) (of_nat l)"
    using assms by (auto simp: mac_octet_def Let_def res_simps decode_hex_value split: if_splits)
  have "o' = of_nat (16 * h + l)" using o' nibbles_join hex_value_some h l by blast
  then have "unat o' = 16 * h + l"
    using hex_value_some(1) [OF h] hex_value_some(1) [OF l]
    by (simp add: unat_of_nat take_bit_nat_eq_self del: of_nat_add of_nat_mult)
  then show "show_octet o' = map ascii_lower [b ! (index * 3), b ! (index * 3 + 1)]"
    using hex_value_some(1) [OF l] by (simp add: show_octet_def hex_value_some(2) [OF h] hex_value_some(2) [OF l])
  show "index \<noteq> 5 \<longrightarrow> b ! (index * 3 + 2) = CHR '':''"
    using assms by (auto simp: mac_octet_def Let_def split: if_splits)
qed

lemma upt_6: "[0..<6] = [0, 1, 2, 3, 4, 5]"
  by (simp add: upt_rec)

lemma mac_parse_display:
  assumes "mac_ok m"
  shows "MacAddress_from_str (MacAddress_display m) = Inr m"
proof -
  obtain a b c d e f where m: "m = MacAddress [a, b, c, d, e, f]"
    using assms by (cases m) (auto simp: mac_ok_def six)
  let ?s = "MacAddress_display m"
  have "length ?s = 17" by (simp add: m MacAddress_display_def show_octet_def)
  moreover have "mac_octet ?s 0 = Inr a" "mac_octet ?s 1 = Inr b" "mac_octet ?s 2 = Inr c"
      "mac_octet ?s 3 = Inr d" "mac_octet ?s 4 = Inr e" "mac_octet ?s 5 = Inr f"
    by (rule mac_octet_show; simp add: m MacAddress_display_def show_octet_def)+
  ultimately show ?thesis by (simp add: MacAddress_from_str_def upt_6 m)
qed

lemma upt_17: "[0..<17] = [0, 1, 2, 3, 4, 5, 6, 7, 8, 9, 10, 11, 12, 13, 14, 15, 16]"
  by code_simp

lemma seventeen:
  assumes "length s = 17"
  shows "s = map ((!) s) [0, 1, 2, 3, 4, 5, 6, 7, 8, 9, 10, 11, 12, 13, 14, 15, 16]"
  using map_nth [of s] unfolding assms upt_17 by (rule sym)

lemma mac_display_parse:
  assumes "MacAddress_from_str s = Inr m"
  shows "mac_ok m \<and> MacAddress_display m = map ascii_lower s"
proof -
  obtain a b c d e f where m: "m = MacAddress [a, b, c, d, e, f]" and l: "length s = 17"
    and o': "mac_octet s 0 = Inr a" "mac_octet s 1 = Inr b" "mac_octet s 2 = Inr c"
      "mac_octet s 3 = Inr d" "mac_octet s 4 = Inr e" "mac_octet s 5 = Inr f"
    using assms by (auto simp: MacAddress_from_str_def upt_6 res_simps split: if_splits)
  have "ascii_lower CHR '':'' = CHR '':''" by code_simp
  then show ?thesis
    using mac_octet_ok [OF o'(1)] mac_octet_ok [OF o'(2)] mac_octet_ok [OF o'(3)]
      mac_octet_ok [OF o'(4)] mac_octet_ok [OF o'(5)] mac_octet_ok [OF o'(6)]
    by (subst seventeen [OF l]) (simp add: m mac_ok_def MacAddress_display_def numeral_2_eq_2)
qed

interpretation mac_address: wire_value MacAddress_from_str MacAddress_display mac_ok
proof
  fix v
  assume "mac_ok v"
  then show "MacAddress_display v \<noteq> []"
    by (cases v) (auto simp: mac_ok_def six MacAddress_display_def show_octet_def)
qed (blast dest: mac_parse_display mac_display_parse)+

definition MacAddress_visit :: "(ParseMacAddressError, MacAddress) visitor" where
  "MacAddress_visit = str_visitor (\<lambda>value. map_err Custom (MacAddress_from_str value))"

section \<open>Addresses and host names\<close>

datatype Ipv4Addr = Ipv4Addr u8 u8 u8 u8

datatype Ipv6Addr = Ipv6Addr u16 u16 u16 u16 u16 u16 u16 u16

datatype IpAddr = V4 Ipv4Addr | V6 Ipv6Addr

fun is_ipv4 :: "IpAddr \<Rightarrow> bool" where
  "is_ipv4 (V4 _) = True"
| "is_ipv4 (V6 _) = False"

fun is_ipv6 :: "IpAddr \<Rightarrow> bool" where
  "is_ipv6 (V4 _) = False"
| "is_ipv6 (V6 _) = True"

definition is_unspecified :: "Ipv4Addr \<Rightarrow> bool" where
  "is_unspecified a \<longleftrightarrow> a = Ipv4Addr 0 0 0 0"

datatype InvalidNetworkHost = HostEmpty | HostControlCharacter

datatype NetworkHost = Address IpAddr | Name string

definition validate_network_host :: "string \<Rightarrow> InvalidNetworkHost + unit" where
  "validate_network_host value =
     (if value = [] then Inl HostEmpty
      else if has_control value then Inl HostControlCharacter
      else Inr ())"

definition NetworkHost_from_str :: "(string \<Rightarrow> IpAddr option) \<Rightarrow> string \<Rightarrow> InvalidNetworkHost + NetworkHost" where
  "NetworkHost_from_str ip_parse value =
     bind_res (validate_network_host value) (\<lambda>_.
       Inr (case ip_parse value of None \<Rightarrow> Name value | Some address \<Rightarrow> Address address))"

definition NetworkHost_try_from :: "(string \<Rightarrow> IpAddr option) \<Rightarrow> string \<Rightarrow> InvalidNetworkHost + NetworkHost" where
  "NetworkHost_try_from ip_parse value =
     bind_res (validate_network_host value) (\<lambda>_.
       Inr (case ip_parse value of None \<Rightarrow> Name value | Some address \<Rightarrow> Address address))"

fun NetworkHost_address :: "NetworkHost \<Rightarrow> IpAddr option" where
  "NetworkHost_address (Address address) = Some address"
| "NetworkHost_address (Name _) = None"

fun NetworkHost_name :: "NetworkHost \<Rightarrow> string option" where
  "NetworkHost_name (Address _) = None"
| "NetworkHost_name (Name name) = Some name"

fun NetworkHost_display :: "(IpAddr \<Rightarrow> string) \<Rightarrow> NetworkHost \<Rightarrow> string" where
  "NetworkHost_display ip_show (Address address) = ip_show address"
| "NetworkHost_display ip_show (Name name) = name"

fun NetworkHost_visit :: "(string \<Rightarrow> IpAddr option) \<Rightarrow> (InvalidNetworkHost, NetworkHost) visitor" where
  "NetworkHost_visit ip_parse (Visit_str value) = map_err Custom (NetworkHost_from_str ip_parse value)"
| "NetworkHost_visit ip_parse (Visit_string value) = map_err Custom (NetworkHost_try_from ip_parse value)"
| "NetworkHost_visit ip_parse _ = Inl Invalid_type"

definition host_ok :: "(string \<Rightarrow> IpAddr option) \<Rightarrow> NetworkHost \<Rightarrow> bool" where
  "host_ok ip_parse h \<longleftrightarrow> (case h of Address _ \<Rightarrow> True | Name n \<Rightarrow> plain_text n \<and> ip_parse n = None)"

text \<open>What the hosts rely on of the text form of \<open>IpAddr\<close>: printed addresses parse back, and they
  are printable.\<close>

locale ip_text =
  fixes ip_parse :: "string \<Rightarrow> IpAddr option"
    and ip_show :: "IpAddr \<Rightarrow> string"
  assumes ip_parse_show: "ip_parse (ip_show a) = Some a"
    and ip_show_plain: "plain_text (ip_show a)"
begin

lemma host_wire: "wire_value (NetworkHost_from_str ip_parse) (NetworkHost_display ip_show) (host_ok ip_parse)"
proof
  fix s v
  assume "NetworkHost_from_str ip_parse s = Inr v"
  then show "host_ok ip_parse v"
    by (auto simp: NetworkHost_from_str_def validate_network_host_def host_ok_def plain_text_def res_simps
        split: if_splits option.splits)
next
  fix v
  assume "host_ok ip_parse v"
  then show "NetworkHost_from_str ip_parse (NetworkHost_display ip_show v) = Inr v"
    using ip_show_plain ip_parse_show
    by (cases v) (auto simp: NetworkHost_from_str_def validate_network_host_def host_ok_def plain_text_def)
next
  fix v
  assume "host_ok ip_parse v"
  then show "NetworkHost_display ip_show v \<noteq> []"
    using ip_show_plain by (cases v) (auto simp: host_ok_def plain_text_def)
qed

end

text \<open>A reference text form: dotted decimal for version 4, eight groups of four hexadecimal digits
  for version 6. It shows that the interface can be met, and lets the host functions run.\<close>

definition parse_octet :: "string \<Rightarrow> u8 option" where
  "parse_octet s = Option.bind (parse_u8 s) (\<lambda>v. if show_nat (unat v) = s then Some v else None)"

definition show_group :: "u16 \<Rightarrow> string" where
  "show_group w = map (\<lambda>k. lower_hex (unat w div 16 ^ k mod 16)) [3, 2, 1, 0]"

fun hex_number :: "nat \<Rightarrow> string \<Rightarrow> nat option" where
  "hex_number acc [] = Some acc"
| "hex_number acc (b # s) = Option.bind (hex_value b) (\<lambda>d. hex_number (acc * 16 + d) s)"

definition parse_group :: "string \<Rightarrow> u16 option" where
  "parse_group s = (if length s = 4 then map_option of_nat (hex_number 0 s) else None)"

fun ref_ip_show :: "IpAddr \<Rightarrow> string" where
  "ref_ip_show (V4 (Ipv4Addr a b c d)) = join_on CHR ''.'' (map (\<lambda>o'. show_nat (unat o')) [a, b, c, d])"
| "ref_ip_show (V6 (Ipv6Addr a b c d e f g h)) = join_on CHR '':'' (map show_group [a, b, c, d, e, f, g, h])"

fun all_some :: "'a option list \<Rightarrow> 'a list option" where
  "all_some [] = Some []"
| "all_some (x # xs) = Option.bind x (\<lambda>v. map_option (Cons v) (all_some xs))"

definition ref_ip_parse :: "string \<Rightarrow> IpAddr option" where
  "ref_ip_parse s =
     (case all_some (map parse_octet (split_on CHR ''.'' s)) of
        Some [a, b, c, d] \<Rightarrow> Some (V4 (Ipv4Addr a b c d))
      | _ \<Rightarrow>
        (case all_some (map parse_group (split_on CHR '':'' s)) of
           Some [a, b, c, d, e, f, g, h] \<Rightarrow> Some (V6 (Ipv6Addr a b c d e f g h))
         | _ \<Rightarrow> None))"

lemma parse_octet_show: "parse_octet (show_nat (unat o')) = Some o'" for o' :: u8
  using unat_byte_less [of o'] by (simp add: parse_octet_def num_simps)

lemma hex_step: "x div (k * 16) * 16 + x div k mod 16 = x div k" for x k :: nat
  by (simp add: div_mult2_eq)

lemma parse_group_show: "parse_group (show_group w) = Some w"
proof -
  have "unat w < 2 ^ LENGTH(16)" by (rule unsigned_less)
  then have "unat w div 4096 mod 16 = unat w div 4096" by simp
  then have "((unat w div 4096 mod 16 * 16 + unat w div 256 mod 16) * 16 + unat w div 16 mod 16) * 16
      + unat w mod 16 = unat w"
    using hex_step [of "unat w" 256] hex_step [of "unat w" 16] hex_step [of "unat w" 1] by simp
  moreover have "hex_number 0 (show_group w) =
      Some (((unat w div 4096 mod 16 * 16 + unat w div 256 mod 16) * 16 + unat w div 16 mod 16) * 16
      + unat w mod 16)"
    by (simp add: show_group_def hex_value_lower)
  ultimately have "hex_number 0 (show_group w) = Some (unat w)" by (simp only:)
  then show ?thesis by (simp add: parse_group_def show_group_def)
qed

lemma byte_val_lower_hex: "n < 16 \<Longrightarrow> byte_val (lower_hex n) = (if n < 10 then 48 + n else 87 + n)"
  by (simp add: lower_hex_def)

lemma show_group_chars: "b \<in> set (show_group w) \<Longrightarrow>
    48 \<le> byte_val b \<and> byte_val b \<le> 102 \<and> byte_val b \<noteq> 58"
  by (auto simp: show_group_def byte_val_lower_hex split: if_split_asm)

lemma show_octet_chars: "b \<in> set (show_nat n) \<Longrightarrow> 48 \<le> byte_val b \<and> byte_val b \<le> 57"
  using show_nat_digits [of b n] by (simp add: is_ascii_digit_def)

lemma plain_ascii:
  assumes "s \<noteq> []" and "\<And>b. b \<in> set s \<Longrightarrow> 32 \<le> byte_val b \<and> byte_val b < 127"
  shows "plain_text s"
proof -
  have "\<forall>b \<in> set s. is_ascii b" using assms(2) by (fastforce simp: is_ascii_def)
  then have "chars s = map byte_val s" by (rule chars_ascii)
  moreover have "\<not> is_control (byte_val b)" if "b \<in> set s" for b
    using assms(2) [OF that] by (simp add: is_control_def)
  ultimately show ?thesis
    using assms(1) by (auto simp: plain_text_def has_control_def list_ex_iff)
qed

lemma all_some_map: "all_some (map f (map g xs)) = Some xs" if "\<And>x. f (g x) = Some x"
  by (induction xs) (simp_all add: that)

lemma all_some_None: "x \<in> set xs \<Longrightarrow> x = None \<Longrightarrow> all_some xs = None"
  by (induction xs) (auto split: option.splits)

lemma ref_show_chars:
  "b \<in> set (ref_ip_show a) \<Longrightarrow> 46 \<le> byte_val b \<and> byte_val b \<le> 102"
proof (induction a rule: ref_ip_show.induct)
  case (1 a b c d)
  then show ?case by (auto dest!: show_octet_chars)
next
  case (2 a b c d e f g h)
  then show ?case by (auto dest!: show_group_chars)
qed

lemma ref_ip_parse_show: "ref_ip_parse (ref_ip_show a) = Some a"
proof (induction a rule: ref_ip_show.induct)
  case (1 a b c d)
  have "split_on CHR ''.'' (ref_ip_show (V4 (Ipv4Addr a b c d))) = map (\<lambda>o'. show_nat (unat o')) [a, b, c, d]"
    unfolding ref_ip_show.simps by (rule split_join) (auto dest: show_octet_chars)
  then show ?case by (simp add: ref_ip_parse_def parse_octet_show del: ref_ip_show.simps)
next
  case (2 a b c d e f g h)
  let ?s = "ref_ip_show (V6 (Ipv6Addr a b c d e f g h))"
  have no_dot: "CHR ''.'' \<notin> set ?s"
    by (auto dest: show_group_chars)
  have "show_nat n \<noteq> ?s" for n
  proof
    assume "show_nat n = ?s"
    then have "CHR '':'' \<in> set (show_nat n)" by simp
    then show False using show_octet_chars by fastforce
  qed
  then have "parse_octet ?s = None"
    by (simp add: parse_octet_def split: option.splits bind_split del: ref_ip_show.simps)
  then have "all_some (map parse_octet (split_on CHR ''.'' ?s)) = None"
    using no_dot by (simp add: split_on_no_sep del: ref_ip_show.simps)
  moreover have "split_on CHR '':'' ?s = map show_group [a, b, c, d, e, f, g, h]"
    unfolding ref_ip_show.simps by (rule split_join) (auto dest: show_group_chars)
  ultimately show ?case by (simp add: ref_ip_parse_def parse_group_show del: ref_ip_show.simps)
qed

interpretation ref_ip: ip_text ref_ip_parse ref_ip_show
proof
  fix a
  show "ref_ip_parse (ref_ip_show a) = Some a" by (rule ref_ip_parse_show)
  have "ref_ip_show a \<noteq> []" by (induction a rule: ref_ip_show.induct) simp_all
  then show "plain_text (ref_ip_show a)"
    by (rule plain_ascii) (use ref_show_chars in fastforce)
qed

interpretation ref_host: wire_value "NetworkHost_from_str ref_ip_parse" "NetworkHost_display ref_ip_show"
  "host_ok ref_ip_parse"
  by (rule ref_ip.host_wire)

section \<open>Numbers on the wire\<close>

text \<open>\<open>T::deserialize\<close> of a primitive is the parameter \<open>de\<close> of the functions below (\<open>serde\<close>
  provides it); the errors the code wraps with \<open>E::custom\<close> are \<open>value_error\<close>.\<close>

datatype value_error = TryFromInt | ParseInt | InvalidDataRate | BadDuration string

text \<open>\<open>u64::try_from\<close> and \<open>u8::try_from\<close> of an \<open>i64\<close>.\<close>

definition u64_try_from_i64 :: "64 word \<Rightarrow> value_error + u64" where
  "u64_try_from_i64 v = (if sint v < 0 then Inl TryFromInt else Inr v)"

definition u8_try_from_i64 :: "64 word \<Rightarrow> value_error + u8" where
  "u8_try_from_i64 v = (if 0 \<le> sint v \<and> sint v < 256 then Inr (ucast v) else Inl TryFromInt)"

definition u8_try_from_u64 :: "u64 \<Rightarrow> value_error + u8" where
  "u8_try_from_u64 v = (if unat v < 256 then Inr (ucast v) else Inl TryFromInt)"

fun U64Visitor :: "(value_error, u64) visitor" where
  "U64Visitor (Visit_u64 value) = Inr value"
| "U64Visitor (Visit_i64 value) = map_err Custom (u64_try_from_i64 value)"
| "U64Visitor (Visit_str value) = ok_or (Custom ParseInt) (parse_u64 value)"
| "U64Visitor (Visit_string value) = ok_or (Custom ParseInt) (parse_u64 value)"
| "U64Visitor _ = Inl Invalid_type"

fun U8Visitor :: "(value_error, u8) visitor" where
  "U8Visitor (Visit_u64 value) = map_err Custom (u8_try_from_u64 value)"
| "U8Visitor (Visit_i64 value) = map_err Custom (u8_try_from_i64 value)"
| "U8Visitor (Visit_str value) = ok_or (Custom ParseInt) (parse_u8 value)"
| "U8Visitor (Visit_string value) = ok_or (Custom ParseInt) (parse_u8 value)"
| "U8Visitor _ = Inl Invalid_type"

definition OptionalU8Visitor :: "(value_error, u8 option) visitor" where
  "OptionalU8Visitor = option_visitor (\<lambda>ev. map_res Some (U8Visitor ev))"

section \<open>Byte counts, rates and radio parameters\<close>

datatype ByteCount = ByteCount (ByteCount_get: u64)

datatype DataRate = DataRate (bits_per_second: u64)

definition from_kilobits_per_second :: "u64 \<Rightarrow> value_error + DataRate" where
  "from_kilobits_per_second value =
     (case checked_mul value 1000 of Some value \<Rightarrow> Inr (DataRate value) | None \<Rightarrow> Inl InvalidDataRate)"

definition from_megabits_per_second :: "u64 \<Rightarrow> value_error + DataRate" where
  "from_megabits_per_second value =
     (case checked_mul value 1000000 of Some value \<Rightarrow> Inr (DataRate value) | None \<Rightarrow> Inl InvalidDataRate)"

type_synonym 'a deserialize = "visit \<Rightarrow> value_error de_error + 'a"

definition deserialize_mbps :: "u64 deserialize \<Rightarrow> visit \<Rightarrow> value_error de_error + DataRate" where
  "deserialize_mbps de ev = bind_res (de ev) (\<lambda>v. map_err Custom (from_megabits_per_second v))"

definition deserialize_kbps :: "u64 deserialize \<Rightarrow> visit \<Rightarrow> value_error de_error + DataRate" where
  "deserialize_kbps de ev = bind_res (de ev) (\<lambda>v. map_err Custom (from_kilobits_per_second v))"

definition deserialize_optional_mbps ::
  "u64 option deserialize \<Rightarrow> visit \<Rightarrow> value_error de_error + DataRate option" where
  "deserialize_optional_mbps de ev = bind_res (de ev) (\<lambda>v.
     case v of None \<Rightarrow> Inr None
     | Some mbps \<Rightarrow> map_err Custom (map_res Some (from_megabits_per_second mbps)))"

definition deserialize_optional_ipv4 ::
  "Ipv4Addr deserialize \<Rightarrow> visit \<Rightarrow> value_error de_error + Ipv4Addr option" where
  "deserialize_optional_ipv4 de ev = bind_res (de ev) (\<lambda>address.
     Inr (if \<not> is_unspecified address then Some address else None))"

definition deserialize_seconds :: "u64 deserialize \<Rightarrow> visit \<Rightarrow> value_error de_error + duration" where
  "deserialize_seconds de ev = map_res from_secs (de ev)"

definition deserialize_optional_seconds ::
  "u64 option deserialize \<Rightarrow> visit \<Rightarrow> value_error de_error + duration option" where
  "deserialize_optional_seconds de ev = map_res (map_option from_secs) (de ev)"

datatype McsIndex = McsIndex (McsIndex_get: u8)

datatype ChannelWidth = ChannelWidth (megahertz: u16)

datatype GuardInterval = GuardInterval (nanoseconds: u16)

datatype SpatialStreams = SpatialStreams (SpatialStreams_get: u8)

definition SpatialStreams_new :: "u8 \<Rightarrow> SpatialStreams option" where
  "SpatialStreams_new value = (if value \<noteq> 0 then Some (SpatialStreams value) else None)"

section \<open>Leases and uptimes\<close>

datatype LeaseExpiration = Finite duration | Infinite

fun LeaseExpiration_serialize :: "LeaseExpiration \<Rightarrow> visit" where
  "LeaseExpiration_serialize (Finite d) = Visit_u64 (of_nat (as_secs d))"
| "LeaseExpiration_serialize Infinite = Visit_str ''infinity''"

definition lease_word :: "string \<Rightarrow> value_error de_error + LeaseExpiration" where
  "lease_word value = (if value = ''infinity'' then Inr Infinite else Inl Invalid_value)"

fun LeaseExpiration_visit :: "(value_error, LeaseExpiration) visitor" where
  "LeaseExpiration_visit (Visit_u64 value) = Inr (Finite (from_secs value))"
| "LeaseExpiration_visit (Visit_i64 value) =
     map_err Custom (map_res Finite (map_res from_secs (u64_try_from_i64 value)))"
| "LeaseExpiration_visit (Visit_str value) = lease_word value"
| "LeaseExpiration_visit (Visit_string value) = lease_word value"
| "LeaseExpiration_visit _ = Inl Invalid_type"

datatype Uptime = Uptime (Uptime_get: duration)

definition Uptime_from_secs :: "u64 \<Rightarrow> Uptime" where
  "Uptime_from_secs seconds = Uptime (from_secs seconds)"

definition parse_human_uptime :: "string \<Rightarrow> duration option" where
  "parse_human_uptime value =
     Option.bind (case split_once '' days, '' value of Some p \<Rightarrow> Some p | None \<Rightarrow> split_once '' day, '' value)
       (\<lambda>(days, time).
       case split_on CHR '':'' time of [] \<Rightarrow> None | p1 # parts1 \<Rightarrow>
       Option.bind (parse_u64 p1) (\<lambda>hours.
       case parts1 of [] \<Rightarrow> None | p2 # parts2 \<Rightarrow>
       Option.bind (parse_u64 p2) (\<lambda>minutes.
       case parts2 of [] \<Rightarrow> None | p3 # parts3 \<Rightarrow>
       Option.bind (parse_u64 p3) (\<lambda>seconds.
       if parts3 \<noteq> [] \<or> 24 \<le> unat hours \<or> 60 \<le> unat minutes \<or> 60 \<le> unat seconds then None
       else Option.bind (parse_u64 days) (\<lambda>d.
         Option.bind (checked_mul d 24) (\<lambda>s1.
         Option.bind (checked_add s1 hours) (\<lambda>s2.
         Option.bind (checked_mul s2 60) (\<lambda>s3.
         Option.bind (checked_add s3 minutes) (\<lambda>s4.
         Option.bind (checked_mul s4 60) (\<lambda>s5.
         Option.bind (checked_add s5 seconds) (\<lambda>s6.
         Some (from_secs s6))))))))))))"

definition uptime_text :: "string \<Rightarrow> value_error de_error + Uptime" where
  "uptime_text value =
     ok_or Invalid_value
       (case map_option Uptime_from_secs (parse_u64 value) of
          Some u \<Rightarrow> Some u
        | None \<Rightarrow> map_option Uptime (parse_human_uptime value))"

fun Uptime_visit :: "(value_error, Uptime) visitor" where
  "Uptime_visit (Visit_u64 value) = Inr (Uptime_from_secs value)"
| "Uptime_visit (Visit_i64 value) = map_err Custom (map_res Uptime_from_secs (u64_try_from_i64 value))"
| "Uptime_visit (Visit_str value) = uptime_text value"
| "Uptime_visit (Visit_string value) = uptime_text value"
| "Uptime_visit _ = Inl Invalid_type"

definition Uptime_serialize :: "Uptime \<Rightarrow> visit" where
  "Uptime_serialize u = Visit_u64 (of_nat (as_secs (Uptime_get u)))"

section \<open>Decimal durations\<close>

text \<open>\<open>Duration::new\<close> carries whole seconds out of the nanoseconds and panics when they do not
  fit; the multiplication and the power are \<open>u32\<close> and panic on overflow.\<close>

definition Duration_new :: "u64 \<Rightarrow> u32 \<Rightarrow> 'e failure + duration" where
  "Duration_new secs nanos =
     (if unat secs + unat nanos div 1000000000 < 2 ^ 64
      then Inr (unat secs * 1000000000 + unat nanos) else Inl Panic)"

definition u32_pow10 :: "nat \<Rightarrow> u32 option" where
  "u32_pow10 k = (if 10 ^ k < (2 :: nat) ^ 32 then Some (of_nat (10 ^ k)) else None)"

definition parse_decimal_duration :: "string \<Rightarrow> value_error failure + duration" where
  "parse_decimal_duration value =
     (let (whole, fraction) = (case split_once ''.'' value of Some p \<Rightarrow> p | None \<Rightarrow> (value, [])) in
      bind_res (ok_or (Err (BadDuration ''invalid whole seconds'')) (parse_u64 whole)) (\<lambda>seconds.
      if 9 < length fraction \<or> \<not> list_all is_ascii_digit fraction
      then Inl (Err (BadDuration ''invalid fractional seconds''))
      else bind_res
        (if fraction = [] then Inr 0
         else bind_res (ok_or (Err (BadDuration ''invalid fractional seconds'')) (parse_u32 fraction)) (\<lambda>parsed.
              bind_res (ok_or Panic (u32_pow10 (9 - length fraction))) (\<lambda>scale.
              ok_or Panic (checked_mul parsed scale))))
        (\<lambda>nanos. Duration_new seconds nanos)))"

section \<open>Lemmas\<close>

lemma ascii_lower_hex:
  assumes "n < 16" and "ascii_lower b = lower_hex n"
  shows "hex_value b = Some n"
proof -
  have "byte_val (ascii_lower b) = (if n < 10 then 48 + n else 87 + n)"
    using assms byte_val_lower_hex by simp
  moreover have "byte_val (ascii_lower b) = (if is_ascii_uppercase b then byte_val b + 32 else byte_val b)"
    by (simp add: ascii_lower_def is_ascii_uppercase_def)
  ultimately show ?thesis
    using assms(1) by (auto simp: hex_value_def is_ascii_uppercase_def Let_def split: if_split_asm)
qed

lemma ascii_lower_colon: "ascii_lower b = CHR '':'' \<Longrightarrow> b = CHR '':''"
proof -
  assume c: "ascii_lower b = CHR '':''"
  then have "byte_val (ascii_lower b) = 58" by simp
  then have "\<not> is_ascii_uppercase b" by (auto simp: ascii_lower_def is_ascii_uppercase_def)
  with c show ?thesis by (simp add: ascii_lower_def)
qed

lemma mac_parse_lower:
  assumes "mac_ok m" and "map ascii_lower s = MacAddress_display m"
  shows "MacAddress_from_str s = Inr m"
proof -
  obtain a b c d e f where m: "m = MacAddress [a, b, c, d, e, f]"
    using assms by (cases m) (auto simp: mac_ok_def six)
  have len: "length s = 17"
    using arg_cong [OF assms(2), of length] by (simp add: m MacAddress_display_def show_octet_def)
  have nth: "ascii_lower (s ! i) = MacAddress_display m ! i" if "i < 17" for i
    using nth_map [of i s ascii_lower] that by (simp add: len assms(2))
  have octet: "mac_octet s k = Inr o'" if "k < 6"
    and "MacAddress_display m ! (k * 3) = lower_hex (unat o' div 16)"
    and "MacAddress_display m ! (k * 3 + 1) = lower_hex (unat o' mod 16)"
    and sep: "k \<noteq> 5 \<Longrightarrow> MacAddress_display m ! (k * 3 + 2) = CHR '':''" for k o'
  proof (rule mac_octet_hex)
    have n: "unat o' div 16 < 16" "unat o' mod 16 < 16"
      using unat_byte_less [of o'] by simp_all
    have k: "k * 3 < 17" "k * 3 + 1 < 17" using that(1) by linarith+
    show "hex_value (s ! (k * 3)) = Some (unat o' div 16)"
      using n(1) nth [OF k(1)] unfolding that(2) by (rule ascii_lower_hex)
    show "hex_value (s ! (k * 3 + 1)) = Some (unat o' mod 16)"
      using n(2) nth [OF k(2)] unfolding that(3) by (rule ascii_lower_hex)
    show "s ! (k * 3 + 2) = CHR '':''" if "k \<noteq> 5"
    proof (rule ascii_lower_colon)
      have "k * 3 + 2 < 17" using that \<open>k < 6\<close> by linarith
      then show "ascii_lower (s ! (k * 3 + 2)) = CHR '':''"
        using nth sep [OF that] by simp
    qed
  qed
  have "mac_octet s 0 = Inr a" "mac_octet s 1 = Inr b" "mac_octet s 2 = Inr c"
      "mac_octet s 3 = Inr d" "mac_octet s 4 = Inr e" "mac_octet s 5 = Inr f"
    by (rule octet; simp add: m MacAddress_display_def show_octet_def)+
  with len show ?thesis by (simp add: MacAddress_from_str_def upt_6 m)
qed

text \<open>The checked chain of \<open>parse_human_uptime\<close> succeeds exactly when the total fits.\<close>

lemma checked_chain:
  fixes d h m s :: u64
  assumes "unat h < 24" and "unat m < 60" and "unat s < 60"
  shows "Option.bind (checked_mul d 24) (\<lambda>s1.
         Option.bind (checked_add s1 h) (\<lambda>s2.
         Option.bind (checked_mul s2 60) (\<lambda>s3.
         Option.bind (checked_add s3 m) (\<lambda>s4.
         Option.bind (checked_mul s4 60) (\<lambda>s5.
         Option.bind (checked_add s5 s) (\<lambda>s6.
         Some (from_secs s6)))))))
    = (let total = unat d * 86400 + unat h * 3600 + unat m * 60 + unat s in
       if total < 2 ^ 64 then Some (total * 1000000000) else None)"
  unfolding checked_mul_def checked_add_def Let_def
  by (auto simp: from_secs_def unat_word_ariths)

definition two_digits :: "nat \<Rightarrow> string" where
  "two_digits n = [digit_char (n div 10), digit_char (n mod 10)]"

text \<open>\<open>DD days, HH:MM:SS\<close> as the router prints it, with either separator.\<close>

definition uptime_form :: "nat \<Rightarrow> string \<Rightarrow> nat \<Rightarrow> nat \<Rightarrow> nat \<Rightarrow> string" where
  "uptime_form d sep h m s =
     show_nat d @ sep @ join_on CHR '':'' [two_digits h, two_digits m, two_digits s]"

lemma two_digits_parse: "n < 100 \<Longrightarrow> parse_u64 (two_digits n) = Some (of_nat n)"
proof -
  assume n: "n < 100"
  then have d: "n div 10 < 10" "n mod 10 < 10" by auto
  then have "parse_nat (two_digits n) = Some (n div 10 * 10 + n mod 10)"
    by (subst parse_nat_digits) (auto simp: two_digits_def num_simps)
  then show ?thesis using n by (simp add: parse_uint_def)
qed

lemma two_digits_chars: "n < 100 \<Longrightarrow> b \<in> set (two_digits n) \<Longrightarrow> 48 \<le> byte_val b \<and> byte_val b \<le> 57"
  by (auto simp: two_digits_def num_simps)

lemma split_once_skip:
  "p \<noteq> [] \<Longrightarrow> hd p \<notin> set l \<Longrightarrow>
     split_once p (l @ r) = map_option (\<lambda>(a, b). (l @ a, b)) (split_once p r)"
proof (induction l)
  case Nil
  show ?case by (cases "split_once p r") auto
next
  case (Cons c l)
  then have "\<not> starts_with p (c # l @ r)" by (cases p) (auto simp: starts_with_def)
  with Cons show ?case by (cases "split_once p r") auto
qed

lemma split_once_absent: "p \<noteq> [] \<Longrightarrow> hd p \<notin> set l \<Longrightarrow> split_once p l = None"
  using split_once_skip [of p l "[]"] by simp

lemma uptime_split:
  assumes "sep = '' days, '' \<or> sep = '' day, ''" and "\<And>b. b \<in> set t \<Longrightarrow> 48 \<le> byte_val b \<and> byte_val b \<le> 58"
  shows "(case split_once '' days, '' (show_nat d @ sep @ t) of Some p \<Rightarrow> Some p
          | None \<Rightarrow> split_once '' day, '' (show_nat d @ sep @ t)) = Some (show_nat d, t)"
proof -
  have sp: "CHR '' '' \<notin> set (show_nat d)" using show_octet_chars [of "CHR '' ''" d] by auto
  have st: "CHR '' '' \<notin> set t" using assms(2) [of "CHR '' ''"] by auto
  have "split_once '' days, '' ('' day, '' @ t) = None"
  proof -
    have "split_once '' days, '' t = None" using st by (intro split_once_absent) auto
    moreover have "\<not> starts_with '' days, '' (CHR '' '' # t)"
      using assms(2) [of "CHR ''d''"] by (cases t) (auto simp: starts_with_def)
    ultimately show ?thesis by (simp add: starts_with_def)
  qed
  then have "split_once '' days, '' (show_nat d @ '' day, '' @ t) = None"
    using sp by (subst split_once_skip) auto
  moreover have "split_once '' days, '' (show_nat d @ '' days, '' @ t) = Some (show_nat d, t)"
    "split_once '' day, '' (show_nat d @ '' day, '' @ t) = Some (show_nat d, t)"
    using sp by (intro split_once_first; simp)+
  ultimately show ?thesis using assms(1) by auto
qed

lemma parse_uptime_form:
  assumes "h < 24" and "m < 60" and "s < 60" and "sep = '' days, '' \<or> sep = '' day, ''"
  shows "parse_human_uptime (uptime_form d sep h m s) =
    (let total = d * 86400 + h * 3600 + m * 60 + s in
     if total < 2 ^ 64 then Some (total * 1000000000) else None)"
proof -
  let ?t = "join_on CHR '':'' [two_digits h, two_digits m, two_digits s]"
  have split: "split_on CHR '':'' ?t = [two_digits h, two_digits m, two_digits s]"
    using assms by (intro split_join) (auto dest!: two_digits_chars [rotated])
  have "48 \<le> byte_val b \<and> byte_val b \<le> 58" if "b \<in> set ?t" for b
    using that assms by (auto dest!: two_digits_chars [rotated])
  then have days: "(case split_once '' days, '' (show_nat d @ sep @ ?t) of Some p \<Rightarrow> Some p
          | None \<Rightarrow> split_once '' day, '' (show_nat d @ sep @ ?t)) = Some (show_nat d, ?t)"
    by (rule uptime_split [OF assms(4)])
  have parts: "parse_u64 (two_digits h) = Some (of_nat h)" "parse_u64 (two_digits m) = Some (of_nat m)"
      "parse_u64 (two_digits s) = Some (of_nat s)"
    using assms by (simp_all add: two_digits_parse)
  have u: "unat (of_nat h :: u64) = h" "unat (of_nat m :: u64) = m" "unat (of_nat s :: u64) = s"
    using assms by (simp_all add: unat_of_nat take_bit_nat_eq_self)
  show ?thesis
  proof (cases "d < 2 ^ 64")
    case True
    then have "unat (of_nat d :: u64) = d" by (simp add: unat_of_nat take_bit_nat_eq_self)
    with True show ?thesis
      using checked_chain [of "of_nat h" "of_nat m" "of_nat s" "of_nat d"] assms
      by (simp add: parse_human_uptime_def uptime_form_def days split parts u num_simps del: join_on.simps)
  next
    case False
    then show ?thesis
      using assms by (simp add: parse_human_uptime_def uptime_form_def days split parts u num_simps del: join_on.simps)
  qed
qed

lemma parse_uint_nat: "parse_uint TYPE('a::len) t = Some w \<longleftrightarrow> parse_nat t = Some (unat w)"
  by (auto simp: parse_uint_def unat_of_nat take_bit_nat_eq_self unsigned_less split: option.splits if_splits)

text \<open>What a text must look like for \<open>parse_human_uptime\<close> to accept it, and what it then means.\<close>

definition uptime_reading :: "string \<Rightarrow> duration \<Rightarrow> bool" where
  "uptime_reading value t \<longleftrightarrow> (\<exists>days sep hh mm ss d h m s.
     (sep = '' days, '' \<or> sep = '' day, '')
     \<and> value = days @ sep @ join_on CHR '':'' [hh, mm, ss]
     \<and> parse_nat days = Some d \<and> parse_nat hh = Some h \<and> parse_nat mm = Some m \<and> parse_nat ss = Some s
     \<and> h < 24 \<and> m < 60 \<and> s < 60 \<and> d * 86400 + h * 3600 + m * 60 + s < 2 ^ 64
     \<and> t = (d * 86400 + h * 3600 + m * 60 + s) * 1000000000)"

lemma human_uptime_reading:
  assumes "parse_human_uptime value = Some t"
  shows "uptime_reading value t"
proof -
  obtain sep days time where sep: "sep = '' days, '' \<or> sep = '' day, ''"
    and once: "split_once sep value = Some (days, time)"
    and rest: "(case split_on CHR '':'' time of [] \<Rightarrow> None | p1 # parts1 \<Rightarrow>
       Option.bind (parse_u64 p1) (\<lambda>hours.
       case parts1 of [] \<Rightarrow> None | p2 # parts2 \<Rightarrow>
       Option.bind (parse_u64 p2) (\<lambda>minutes.
       case parts2 of [] \<Rightarrow> None | p3 # parts3 \<Rightarrow>
       Option.bind (parse_u64 p3) (\<lambda>seconds.
       if parts3 \<noteq> [] \<or> 24 \<le> unat hours \<or> 60 \<le> unat minutes \<or> 60 \<le> unat seconds then None
       else Option.bind (parse_u64 days) (\<lambda>d.
         Option.bind (checked_mul d 24) (\<lambda>s1.
         Option.bind (checked_add s1 hours) (\<lambda>s2.
         Option.bind (checked_mul s2 60) (\<lambda>s3.
         Option.bind (checked_add s3 minutes) (\<lambda>s4.
         Option.bind (checked_mul s4 60) (\<lambda>s5.
         Option.bind (checked_add s5 seconds) (\<lambda>s6.
         Some (from_secs s6))))))))))))  = Some t"
    using assms unfolding parse_human_uptime_def
    by (cases "split_once '' days, '' value"; cases "split_once '' day, '' value") auto
  from rest obtain hh r1 h where r1: "split_on CHR '':'' time = hh # r1" "parse_u64 hh = Some h"
    by (cases "split_on CHR '':'' time") (auto simp: bind_eq_Some_conv)
  from rest obtain mm r2 m where r2: "r1 = mm # r2" "parse_u64 mm = Some m"
    by (cases r1) (auto simp: r1 bind_eq_Some_conv)
  from rest obtain ss r3 s where r3: "r2 = ss # r3" "parse_u64 ss = Some s"
    by (cases r2) (auto simp: r1 r2 bind_eq_Some_conv)
  from rest have bounds: "unat h < 24" "unat m < 60" "unat s < 60" and "r3 = []"
    by (auto simp: r1 r2 r3 split: if_splits)
  then have time: "split_on CHR '':'' time = [hh, mm, ss]" by (simp add: r1 r2 r3)
  note nums = r1(2) r2(2) r3(2)
  from rest obtain d where d: "parse_u64 days = Some d"
    by (auto simp: time nums bind_eq_Some_conv split: if_splits)
  have "(let total = unat d * 86400 + unat h * 3600 + unat m * 60 + unat s in
       if total < 2 ^ 64 then Some (total * 1000000000) else None) = Some t"
    using rest bounds by (simp only: checked_chain [OF bounds, symmetric]) (simp add: time nums d)
  then have "unat d * 86400 + unat h * 3600 + unat m * 60 + unat s < 2 ^ 64"
      "t = (unat d * 86400 + unat h * 3600 + unat m * 60 + unat s) * 1000000000"
    by (simp_all add: Let_def split: if_splits)
  moreover have "value = days @ sep @ join_on CHR '':'' [hh, mm, ss]"
    using split_once_Some [OF once] join_split [of "CHR '':''" time] by (simp add: time)
  ultimately show ?thesis
    using sep bounds nums d unfolding uptime_reading_def parse_uint_nat by blast
qed

lemma dec_val_less: "dec_val 0 s = Some n \<Longrightarrow> n < 10 ^ length s"
  using dec_val_bound [of 0 s n] by simp

lemma decimal_nanos:
  assumes "length f \<le> 9" and "f \<noteq> []" and "list_all is_ascii_digit f"
  obtains n where "parse_nat f = Some n" and "n < 10 ^ length f" and "parse_u32 f = Some (of_nat n)"
    and "checked_mul (of_nat n) (of_nat (10 ^ (9 - length f)) :: u32) = Some (of_nat (n * 10 ^ (9 - length f)))"
    and "u32_pow10 (9 - length f) = Some (of_nat (10 ^ (9 - length f)))"
    and "unat (of_nat (n * 10 ^ (9 - length f)) :: u32) = n * 10 ^ (9 - length f)"
    and "n * 10 ^ (9 - length f) < 1000000000"
proof -
  obtain n where n: "dec_val 0 f = Some n"
    using assms(3) dec_val_total [of f 0] by (auto simp: list_all_iff)
  have p: "parse_nat f = Some n"
    using assms n by (subst parse_nat_digits) (auto simp: list_all_iff)
  have less: "n < 10 ^ length f" by (rule dec_val_less [OF n])
  have pow: "(10 :: nat) ^ length f * 10 ^ (9 - length f) = 1000000000"
    using assms(1) by (simp flip: power_add)
  have prod: "n * 10 ^ (9 - length f) < 1000000000"
    using less mult_strict_right_mono [OF less, of "10 ^ (9 - length f)"] by (simp add: pow)
  have "(10 :: nat) ^ length f \<le> 10 ^ 9" "(10 :: nat) ^ (9 - length f) \<le> 10 ^ 9"
    using assms(1) by (intro power_increasing; simp)+
  then have small: "n < 2 ^ 32" "(10 :: nat) ^ (9 - length f) < 2 ^ 32"
    using less by simp_all
  then have u: "unat (of_nat n :: u32) = n" "unat (of_nat (10 ^ (9 - length f)) :: u32) = 10 ^ (9 - length f)"
    by (simp_all only: unat_of_nat take_bit_nat_eq_self len_bit1 len_bit0 len_num1 mult_2 add_mult_distrib)
       (simp_all add: take_bit_nat_eq_self del: of_nat_power)
  show ?thesis
  proof (rule that [OF p less])
    show "parse_u32 f = Some (of_nat n)" using small by (simp add: parse_uint_def p)
    show "u32_pow10 (9 - length f) = Some (of_nat (10 ^ (9 - length f)))"
      using small by (simp add: u32_pow10_def)
    show "checked_mul (of_nat n) (of_nat (10 ^ (9 - length f)) :: u32) = Some (of_nat (n * 10 ^ (9 - length f)))"
      using prod by (simp add: checked_mul_def u del: of_nat_power)
    show "unat (of_nat (n * 10 ^ (9 - length f)) :: u32) = n * 10 ^ (9 - length f)"
      using prod by (simp add: unat_of_nat take_bit_nat_eq_self del: of_nat_power of_nat_mult)
  qed (rule prod)
qed

lemma decimal_fraction:
  assumes "length f \<le> 9" and "f \<noteq> []" and "list_all is_ascii_digit f"
  obtains n k where "parse_nat f = Some n" and "unat k = n * 10 ^ (9 - length f)" and "unat k < 1000000000"
    and "\<And>e :: value_error failure. bind_res (ok_or e (parse_u32 f)) (\<lambda>parsed. bind_res (ok_or Panic (u32_pow10 (9 - length f)))
      (\<lambda>scale. ok_or Panic (checked_mul parsed scale))) = Inr k"
proof (rule decimal_nanos [OF assms])
  fix n
  assume n: "parse_nat f = Some n" "parse_u32 f = Some (of_nat n)"
    "checked_mul (of_nat n) (of_nat (10 ^ (9 - length f)) :: u32) = Some (of_nat (n * 10 ^ (9 - length f)))"
    "u32_pow10 (9 - length f) = Some (of_nat (10 ^ (9 - length f)))"
    "unat (of_nat (n * 10 ^ (9 - length f)) :: u32) = n * 10 ^ (9 - length f)"
    "n * 10 ^ (9 - length f) < 1000000000"
  show thesis
  proof (rule that)
    show "parse_nat f = Some n" by (rule n(1))
    show "unat (of_nat (n * 10 ^ (9 - length f)) :: u32) = n * 10 ^ (9 - length f)" by (rule n(5))
    then show "unat (of_nat (n * 10 ^ (9 - length f)) :: u32) < 1000000000" using n(6) by (simp only:)
    show "bind_res (ok_or e (parse_u32 f)) (\<lambda>parsed. bind_res (ok_or Panic (u32_pow10 (9 - length f)))
      (\<lambda>scale. ok_or Panic (checked_mul parsed scale))) = Inr (of_nat (n * 10 ^ (9 - length f)))" for e
      by (simp only: n ok_or.simps bind_res.simps)
  qed
qed

lemma Duration_new_small: "unat k < 1000000000 \<Longrightarrow> Duration_new w k = Inr (unat w * 1000000000 + unat k)"
  using unsigned_less [of w] by (simp add: Duration_new_def)

lemma decimal_no_panic: "parse_decimal_duration value \<noteq> Inl Panic"
proof -
  obtain whole fraction where parts: "(case split_once ''.'' value of Some p \<Rightarrow> p | None \<Rightarrow> (value, [])) = (whole, fraction)"
    by fastforce
  show ?thesis
  proof (cases "fraction = [] \<or> 9 < length fraction \<or> \<not> list_all is_ascii_digit fraction")
    case True
    then show ?thesis
      by (auto simp: parse_decimal_duration_def parts Let_def res_simps Duration_new_small)
  next
    case False
    then obtain n k where "unat k < 1000000000" "\<And>e :: value_error failure. bind_res (ok_or e (parse_u32 fraction)) (\<lambda>parsed.
        bind_res (ok_or Panic (u32_pow10 (9 - length fraction))) (\<lambda>scale. ok_or Panic (checked_mul parsed scale))) = Inr k"
      using decimal_fraction [of fraction] by (metis not_less)
    with False show ?thesis
      by (cases "parse_u64 whole") (simp_all add: parse_decimal_duration_def parts Duration_new_small)
  qed
qed

section \<open>Properties\<close>

text \<open>C36: MAC addresses: the accepted texts are exactly the printed forms up to the case of the
  hexadecimal digits, and the octets read back are the printed ones.\<close>

theorem mac_address_exact:
  "MacAddress_from_str s = Inr m \<longleftrightarrow> mac_ok m \<and> map ascii_lower s = MacAddress_display m"
  using mac_display_parse mac_parse_lower by metis

text \<open>C37: the human-readable uptime: every well-formed text whose total fits 64 bits of seconds gives
  exactly that total, one that does not fit is refused instead of wrapping, and nothing is accepted
  that does not have the form with hours below 24 and minutes and seconds below 60.\<close>

theorem human_uptime_exact:
  assumes "h < 24" and "m < 60" and "s < 60" and "sep = '' days, '' \<or> sep = '' day, ''"
  shows "parse_human_uptime (uptime_form d sep h m s) =
      (let total = d * 86400 + h * 3600 + m * 60 + s in
       if total < 2 ^ 64 then Some (total * 1000000000) else None)
    \<and> (parse_human_uptime value = Some t \<longrightarrow> uptime_reading value t)"
  using parse_uptime_form [OF assms] human_uptime_reading by blast

theorem human_uptime_exact_witness:
  "parse_human_uptime ''1 day, 01:02:03'' = Some (90123 * 1000000000)"
proof -
  have "uptime_form 1 '' day, '' 1 2 3 = ''1 day, 01:02:03''" by code_simp
  then show ?thesis using human_uptime_exact [of 1 2 3 "'' day, ''" 1] by simp
qed

text \<open>Decimal seconds: the \<open>u32\<close> arithmetic on the fraction never overflows, and whole seconds
  with up to nine fractional digits are read to the nanosecond.\<close>

theorem decimal_duration_exact:
  assumes "w < 2 ^ 64" and "list_all is_ascii_digit f" and "f \<noteq> []" and "length f \<le> 9"
    and "parse_nat f = Some n"
  shows "parse_decimal_duration value \<noteq> Inl Panic
    \<and> parse_decimal_duration (show_nat w @ CHR ''.'' # f) = Inr (w * 1000000000 + n * 10 ^ (9 - length f))"
proof
  show "parse_decimal_duration value \<noteq> Inl Panic"
    using decimal_no_panic by blast
  have "CHR ''.'' \<notin> set (show_nat w)" using show_octet_chars [of "CHR ''.''" w] by auto
  then have "split_once ''.'' (show_nat w @ ''.'' @ f) = Some (show_nat w, f)"
    by (intro split_once_first) simp_all
  moreover obtain k where "unat k = n * 10 ^ (9 - length f)" "unat k < 1000000000"
      "\<And>e :: value_error failure. bind_res (ok_or e (parse_u32 f)) (\<lambda>parsed. bind_res (ok_or Panic (u32_pow10 (9 - length f)))
        (\<lambda>scale. ok_or Panic (checked_mul parsed scale))) = Inr k"
    using decimal_fraction [OF assms(4,3,2)] assms(5) by (metis option.inject)
  moreover have "unat (of_nat w :: u64) = w" using assms(1) by (simp add: unat_of_nat take_bit_nat_eq_self)
  ultimately show "parse_decimal_duration (show_nat w @ CHR ''.'' # f) = Inr (w * 1000000000 + n * 10 ^ (9 - length f))"
    using assms by (simp add: parse_decimal_duration_def num_simps Duration_new_small)
qed

theorem decimal_duration_exact_witness:
  "parse_decimal_duration ''1.25'' = Inr (1 * 1000000000 + 25 * 10 ^ 7)"
proof -
  have "list_all is_ascii_digit ''25''" "parse_nat ''25'' = Some 25" by code_simp+
  moreover have "show_nat 1 @ CHR ''.'' # ''25'' = ''1.25''" by code_simp
  ultimately show ?thesis using decimal_duration_exact [of 1 "''25''" 25] by simp
qed

end
