(* ===== verification/Wire.thy ===== *)
theory Wire
  imports Text_Value "HOL-Library.List_Lexorder" "HOL-Library.Char_ord"
begin

text \<open>
  How the response structs of \<open>src/src/model\<close> read a response. A decoded JSON document is a
  \<open>wire\<close> tree; a scalar is the \<open>visit\<close> call the deserializer makes for it. \<open>any_event\<close> is what
  \<open>deserialize_any\<close> and the typed hints present to a visitor, \<open>option_event\<close> what
  \<open>deserialize_option\<close> presents.

  The structs derive \<open>Deserialize\<close>; what their attributes ask for is:

  \<^item> a field is read from the entry with its name (\<open>rename\<close>), entries with other names are
    skipped, a second entry with the name is an error (\<open>required\<close>);
  \<^item> a missing field is an error, except that an \<open>Option\<close> without \<open>deserialize_with\<close> is \<open>None\<close>
    (\<open>optional\<close>) and that \<open>default\<close> gives the type's default (\<open>defaulted\<close>);
  \<^item> an array is read by position: its elements belong to the fields in the order of their
    declaration, and only trailing fields with \<open>default\<close> may be left out (\<open>de_struct\<close> takes the names
    in order and how many elements must be there);
  \<^item> \<open>flatten\<close> hands the entries the outer struct does not name to the inner one (\<open>remaining\<close>), and
    such a struct is read from an object only (\<open>de_flat_struct\<close>).

  Which of several errors of one response is reported, and its text, is not modelled: the error
  payload is erased. The locale \<open>entry_decoder\<close> is what all structs promise: they read the entries
  they name and nothing else.
\<close>

section \<open>Trees and events\<close>

datatype wire =
    Scalar visit
  | Wire_seq "wire list"
  | Wire_map "(string \<times> wire) list"

type_synonym entries = "(string \<times> wire) list"

type_synonym 'a decoded = "unit de_error + 'a"

type_synonym 'a decode = "wire \<Rightarrow> 'a decoded"

fun any_event :: "wire \<Rightarrow> visit" where
  "any_event (Scalar v) = v"
| "any_event (Wire_seq ws) = Visit_seq"
| "any_event (Wire_map es) = Visit_map"

definition option_event :: "wire \<Rightarrow> visit" where
  "option_event w = (if w = Scalar Visit_unit then Visit_none else Visit_some (any_event w))"

definition erase :: "'e de_error + 'a \<Rightarrow> 'a decoded" where
  "erase = map_err (map_de_error (\<lambda>_. ()))"

definition visiting :: "('e, 'a) visitor \<Rightarrow> 'a decode" where
  "visiting visitor w = erase (visitor (any_event w))"

definition visiting_option :: "('e, 'a) visitor \<Rightarrow> 'a decode" where
  "visiting_option visitor w = erase (visitor (option_event w))"

section \<open>Standard types\<close>

fun bool_visit :: "('e, bool) visitor" where
  "bool_visit (Visit_bool b) = Inr b"
| "bool_visit _ = Inl Invalid_type"

fun uint_visit :: "('e, 'a::len word) visitor" where
  "uint_visit (Visit_u64 v) = (if unat v < 2 ^ LENGTH('a) then Inr (ucast v) else Inl Invalid_value)"
| "uint_visit (Visit_i64 v) =
     (if 0 \<le> sint v \<and> nat (sint v) < 2 ^ LENGTH('a) then Inr (ucast v) else Inl Invalid_value)"
| "uint_visit _ = Inl Invalid_type"

fun i64_visit :: "('e, 64 word) visitor" where
  "i64_visit (Visit_i64 v) = Inr v"
| "i64_visit (Visit_u64 v) = (if unat v < 2 ^ 63 then Inr v else Inl Invalid_value)"
| "i64_visit _ = Inl Invalid_type"

definition nonzero_visit :: "('e, 'a::len word) visitor" where
  "nonzero_visit ev = bind_res (uint_visit ev) (\<lambda>v. if v = 0 then Inl Invalid_value else Inr v)"

definition de_bool :: "bool decode" where "de_bool = visiting (bool_visit :: (unit, bool) visitor)"

definition de_uint :: "'a::len word decode" where "de_uint = visiting (uint_visit :: (unit, 'a word) visitor)"

definition de_i64 :: "64 word decode" where "de_i64 = visiting (i64_visit :: (unit, 64 word) visitor)"

definition de_nonzero :: "'a::len word decode" where "de_nonzero = visiting (nonzero_visit :: (unit, 'a word) visitor)"

definition string_visit :: "('e, string) visitor" where
  "string_visit = str_visitor Inr"

definition de_str :: "string decode" where "de_str = visiting (string_visit :: (unit, string) visitor)"

definition de_from_str :: "(string \<Rightarrow> 'e + 'a) \<Rightarrow> 'a decode" where
  "de_from_str from_str = visiting (FromStrVisitor_visit from_str)"

text \<open>Types of other crates whose text form is a parameter.\<close>

definition de_text :: "(string \<Rightarrow> 'a option) \<Rightarrow> 'a decode" where
  "de_text parse = visiting (str_visitor (\<lambda>s. ok_or (Custom ()) (parse s)))"

definition de_opt :: "'a decode \<Rightarrow> 'a option decode" where
  "de_opt de w = (if w = Scalar Visit_unit then Inr None else map_res Some (de w))"

fun traverse :: "('b \<Rightarrow> 'e + 'a) \<Rightarrow> 'b list \<Rightarrow> 'e + 'a list" where
  "traverse f [] = Inr []"
| "traverse f (x # xs) = bind_res (f x) (\<lambda>y. map_res (Cons y) (traverse f xs))"

fun de_seq :: "'a decode \<Rightarrow> 'a list decode" where
  "de_seq de (Wire_seq ws) = traverse de ws"
| "de_seq de _ = Inl Invalid_type"

text \<open>\<open>BTreeMap\<close>: its entries in key order.\<close>

type_synonym ('k, 'v) btree = "('k \<times> 'v) list"

fun bt_insert :: "'k::linorder \<Rightarrow> 'v \<Rightarrow> ('k, 'v) btree \<Rightarrow> ('k, 'v) btree" where
  "bt_insert k v [] = [(k, v)]"
| "bt_insert k v ((l, w) # t) =
     (if k < l then (k, v) # (l, w) # t
      else if k = l then (k, v) # t
      else (l, w) # bt_insert k v t)"

definition bt_get :: "('k, 'v) btree \<Rightarrow> 'k \<Rightarrow> 'v option" where
  "bt_get t k = map_of t k"

definition bt_ok :: "('k::linorder, 'v) btree \<Rightarrow> bool" where
  "bt_ok t \<longleftrightarrow> sorted_wrt (<) (map fst t)"

fun de_map :: "(string \<Rightarrow> 'k::linorder decoded) \<Rightarrow> 'v decode \<Rightarrow> ('k, 'v) btree decode" where
  "de_map key de (Wire_map es) =
     map_res (\<lambda>kvs. foldl (\<lambda>t (k, v). bt_insert k v t) [] kvs)
       (traverse (\<lambda>(s, w). bind_res (key s) (\<lambda>k. map_res (Pair k) (de w))) es)"
| "de_map key de _ = Inl Invalid_type"

definition de_key :: "(string \<Rightarrow> 'e + 'k) \<Rightarrow> string \<Rightarrow> 'k decoded" where
  "de_key from_str s = erase (map_err Custom (from_str s))"

definition option_visit :: "('e, 'a) visitor \<Rightarrow> ('e, 'a option) visitor" where
  "option_visit inner = option_visitor (\<lambda>ev. map_res Some (inner ev))"

section \<open>Struct fields\<close>

definition occurrences :: "string \<Rightarrow> entries \<Rightarrow> wire list" where
  "occurrences name es = map snd (filter (\<lambda>e. fst e = name) es)"

definition field :: "'a decode \<Rightarrow> 'a decoded \<Rightarrow> string \<Rightarrow> entries \<Rightarrow> 'a decoded" where
  "field de missing name es =
     (case occurrences name es of
        [] \<Rightarrow> missing
      | [w] \<Rightarrow> de w
      | _ \<Rightarrow> Inl (Duplicate_field name))"

definition required :: "'a decode \<Rightarrow> string \<Rightarrow> entries \<Rightarrow> 'a decoded" where
  "required de name es = field de (Inl (Missing_field name)) name es"

definition optional :: "'a decode \<Rightarrow> string \<Rightarrow> entries \<Rightarrow> 'a option decoded" where
  "optional de name es = field (de_opt de) (Inr None) name es"

definition defaulted :: "'a \<Rightarrow> 'a decode \<Rightarrow> string \<Rightarrow> entries \<Rightarrow> 'a decoded" where
  "defaulted fallback de name es = field de (Inr fallback) name es"

definition remaining :: "string list \<Rightarrow> entries \<Rightarrow> entries" where
  "remaining names es = filter (\<lambda>e. fst e \<notin> set names) es"

fun de_struct :: "string list \<Rightarrow> nat \<Rightarrow> (entries \<Rightarrow> 'a decoded) \<Rightarrow> 'a decode" where
  "de_struct names n visit_map (Wire_map es) = visit_map es"
| "de_struct names n visit_map (Wire_seq ws) =
     (if n \<le> length ws \<and> length ws \<le> length names then visit_map (zip names ws) else Inl Invalid_length)"
| "de_struct names n visit_map _ = Inl Invalid_type"

fun de_flat_struct :: "(entries \<Rightarrow> 'a decoded) \<Rightarrow> 'a decode" where
  "de_flat_struct visit_map (Wire_map es) = visit_map es"
| "de_flat_struct visit_map _ = Inl Invalid_type"

lemmas field_defs = required_def optional_def defaulted_def field_def

section \<open>What a struct reads\<close>

lemma occurrences_remaining:
  "occurrences n (remaining names es) = (if n \<in> set names then [] else occurrences n es)"
  by (induction es) (auto simp: occurrences_def remaining_def)

lemma field_cong: "occurrences n es = occurrences n es' \<Longrightarrow> field de missing n es = field de missing n es'"
  by (simp add: field_def)

lemma occurrences_distinct:
  assumes "distinct (map fst es)"
  shows "occurrences n es = (case map_of es n of None \<Rightarrow> [] | Some w \<Rightarrow> [w])"
  using assms
proof (induction es)
  case (Cons e es)
  then have "map_of es (fst e) = None" by (simp add: map_of_eq_None_iff)
  with Cons show ?case by (cases e) (auto simp: occurrences_def)
qed (simp add: occurrences_def)

definition same_entries :: "string list \<Rightarrow> entries \<Rightarrow> entries \<Rightarrow> bool" where
  "same_entries names es es' \<longleftrightarrow> (\<forall>n \<in> set names. occurrences n es = occurrences n es')"

lemma same_entriesD: "same_entries names es es' \<Longrightarrow> n \<in> set names \<Longrightarrow> occurrences n es = occurrences n es'"
  by (simp add: same_entries_def)

lemma same_entries_remaining:
  "same_entries names es es' \<Longrightarrow> same_entries names (remaining ms es) (remaining ms es')"
  by (simp add: same_entries_def occurrences_remaining)

locale entry_decoder =
  fixes names :: "string list"
    and visit_map :: "entries \<Rightarrow> 'a decoded"
  assumes reads_names: "same_entries names es es' \<Longrightarrow> visit_map es = visit_map es'"
begin

lemma ignores_unknown:
  assumes "k \<notin> set names"
  shows "visit_map (l @ (k, w) # r) = visit_map (l @ r)"
  using assms by (intro reads_names) (auto simp: same_entries_def occurrences_def)

lemma ignores_unnamed:
  assumes "\<And>k w. (k, w) \<in> set extra \<Longrightarrow> k \<notin> set names"
  shows "visit_map (extra @ es) = visit_map es"
proof (rule reads_names)
  show "same_entries names (extra @ es) es"
    using assms by (fastforce simp: same_entries_def occurrences_def filter_empty_conv)
qed

lemma ignores_order:
  assumes "distinct (map fst es)" and "distinct (map fst es')" and "set es = set es'"
  shows "visit_map es = visit_map es'"
proof (rule reads_names)
  have "map_of es = map_of es'" by (rule map_of_eqI) (use assms in \<open>auto simp: map_of_eq_Some_iff\<close>)
  then show "same_entries names es es'"
    by (simp add: same_entries_def occurrences_distinct assms(1,2))
qed

lemma known_fields_only: "visit_map (filter (\<lambda>e. fst e \<in> set names) es) = visit_map es"
proof (rule reads_names)
  show "same_entries names (filter (\<lambda>e. fst e \<in> set names) es) es"
    unfolding same_entries_def occurrences_def
    by (auto intro!: arg_cong [where f = "map snd"] filter_cong)
qed

end

text \<open>The contract as a statement about one struct.\<close>

definition reads_only :: "string list \<Rightarrow> (entries \<Rightarrow> 'a decoded) \<Rightarrow> bool" where
  "reads_only names visit_map \<longleftrightarrow>
     (\<forall>l k w r. k \<notin> set names \<longrightarrow> visit_map (l @ (k, w) # r) = visit_map (l @ r))
     \<and> (\<forall>es es'. distinct (map fst es) \<and> distinct (map fst es') \<and> set es = set es' \<longrightarrow>
          visit_map es = visit_map es')"

lemma entry_decoder_reads_only:
  assumes "entry_decoder names visit_map"
  shows "reads_only names visit_map"
  using entry_decoder.ignores_unknown [OF assms] entry_decoder.ignores_order [OF assms]
  unfolding reads_only_def by blast

section \<open>Results\<close>

lemma erase_Inr [simp]: "erase m = Inr x \<longleftrightarrow> m = Inr x"
  by (cases m) (simp_all add: erase_def)

lemma erase_simps [simp]: "erase (Inr x) = Inr x" "erase (Inl e) = Inl (map_de_error (\<lambda>_. ()) e)"
  by (simp_all add: erase_def)

lemma is_ok_erase [simp]: "is_ok (erase m) = is_ok m"
  by (cases m) (simp_all add: erase_def)

text \<open>A chain of fields succeeds exactly when each field does.\<close>

lemma bind_ok: "bind_res m f = Inr y \<longleftrightarrow> is_ok m \<and> f (projr m) = Inr y"
  by (cases m) auto

lemma is_ok_bind: "is_ok (bind_res m f) \<longleftrightarrow> is_ok m \<and> is_ok (f (projr m))"
  by (cases m) auto

lemma is_ok_projr: "is_ok m \<longleftrightarrow> m = Inr (projr m)"
  by (cases m) auto

lemma traverse_Inr: "traverse f xs = Inr ys \<longleftrightarrow> list_all2 (\<lambda>x y. f x = Inr y) xs ys"
  by (induction xs arbitrary: ys) (auto simp: res_simps list_all2_Cons1 list_all2_Cons2)

section \<open>Ordered maps\<close>

lemma bt_insert_keys: "fst ` set (bt_insert k v t) = insert k (fst ` set t)"
  by (induction k v t rule: bt_insert.induct) auto

lemma bt_insert_ok: "bt_ok t \<Longrightarrow> bt_ok (bt_insert k v t)"
proof (induction k v t rule: bt_insert.induct)
  case (2 k v l w t)
  then have "bt_ok t" and l: "\<forall>x \<in> fst ` set t. l < x" by (auto simp: bt_ok_def)
  with 2 show ?case
    using bt_insert_keys [of k v t] by (auto simp: bt_ok_def)
qed (simp add: bt_ok_def)

lemma bt_get_insert:
  assumes "bt_ok t"
  shows "bt_get (bt_insert k v t) = (bt_get t)(k \<mapsto> v)"
  using assms
proof (induction k v t rule: bt_insert.induct)
  case (2 k v l w t)
  then have "bt_ok t" and "\<forall>x \<in> fst ` set t. l < x" by (auto simp: bt_ok_def)
  with 2 show ?case by (auto simp: bt_get_def fun_eq_iff)
qed (simp add: bt_get_def fun_eq_iff)

lemma bt_ok_distinct: "bt_ok t \<Longrightarrow> distinct (map fst t)"
  by (simp add: bt_ok_def strict_sorted_iff)

lemma bt_ext:
  assumes "bt_ok s" and "bt_ok t" and "bt_get s = bt_get t"
  shows "s = t"
proof -
  have expand: "u = map (\<lambda>k. (k, the (bt_get u k))) (map fst u)" if "bt_ok u" for u :: "('a, 'b) btree"
    unfolding bt_get_def map_map
    by (rule map_idI [symmetric]) (use bt_ok_distinct [OF that] in \<open>auto simp: map_of_is_SomeI\<close>)
  have "set (map fst s) = set (map fst t)"
    using assms(3) unfolding bt_get_def by (metis dom_map_of_conv_image_fst list.set_map)
  then have "map fst s = map fst t"
    using assms(1,2) by (intro strict_sorted_equal) (simp_all add: bt_ok_def)
  then show "s = t" using expand [OF assms(1)] expand [OF assms(2)] assms(3) by simp
qed

lemma foldl_insert_ok: "bt_ok t \<Longrightarrow> bt_ok (foldl (\<lambda>t (k, v). bt_insert k v t) t kvs)"
  by (induction kvs arbitrary: t) (auto simp: bt_insert_ok)

lemma foldl_insert_set: "set (foldl (\<lambda>t (k, v). bt_insert k v t) t kvs) \<subseteq> set t \<union> set kvs"
proof (induction kvs arbitrary: t)
  case (Cons kv kvs)
  have "set (bt_insert k v t) \<subseteq> insert (k, v) (set t)" for k v
    by (induction k v t rule: bt_insert.induct) auto
  then show ?case using Cons [of "bt_insert (fst kv) (snd kv) t"] by (cases kv) force
qed simp

lemma de_map_Inr:
  assumes "de_map key de w = Inr t"
  obtains es where "w = Wire_map es" and "bt_ok t"
    and "\<forall>k v. (k, v) \<in> set t \<longrightarrow> (\<exists>s u. (s, u) \<in> set es \<and> key s = Inr k \<and> de u = Inr v)"
proof (cases w)
  case (Wire_map es)
  with assms obtain kvs
    where kvs: "traverse (\<lambda>(s, w). bind_res (key s) (\<lambda>k. map_res (Pair k) (de w))) es = Inr kvs"
      and t: "t = foldl (\<lambda>t (k, v). bt_insert k v t) [] kvs"
    by (auto simp: res_simps)
  have "\<exists>s u. (s, u) \<in> set es \<and> key s = Inr k \<and> de u = Inr v" if "(k, v) \<in> set t" for k v
  proof -
    have "(k, v) \<in> set kvs" using that foldl_insert_set [of "[]" kvs] by (auto simp: t)
    then obtain s u where "(s, u) \<in> set es" "bind_res (key s) (\<lambda>k. map_res (Pair k) (de u)) = Inr (k, v)"
      using kvs unfolding traverse_Inr list_all2_conv_all_nth in_set_conv_nth
      by (metis (no_types, lifting) case_prod_conv surj_pair)
    then show ?thesis by (auto simp: res_simps)
  qed
  moreover have "bt_ok t" unfolding t by (rule foldl_insert_ok) (simp add: bt_ok_def)
  ultimately show ?thesis using Wire_map that by blast
qed (use assms in simp_all)

lemma de_seq_Inr:
  assumes "de_seq de w = Inr xs"
  obtains ws where "w = Wire_seq ws" and "list_all2 (\<lambda>u x. de u = Inr x) ws xs"
  using assms by (cases w) (auto simp: traverse_Inr)

lemma de_struct_Inr: "de_struct names n visit_map w = Inr v \<Longrightarrow> \<exists>es. visit_map es = Inr v"
  by (cases w) (auto split: if_splits)

lemma de_flat_struct_Inr: "de_flat_struct visit_map w = Inr v \<Longrightarrow> \<exists>es. visit_map es = Inr v"
  by (cases w) auto

text \<open>The element a field is read from in the positional form is the one at its place.\<close>

lemma occurrences_zip:
  assumes "distinct names" and "length ws \<le> length names" and "i < length names"
  shows "occurrences (names ! i) (zip names ws) = (if i < length ws then [ws ! i] else [])"
  using assms
proof (induction names arbitrary: ws i)
  case (Cons n names)
  have skip: "occurrences m (zip names us) = []" if "m \<notin> set names" for m us
    using that by (auto simp: occurrences_def filter_empty_conv dest: set_zip_leftD)
  show ?case
  proof (cases ws)
    case (Cons w us)
    then show ?thesis
      using Cons.IH [of us "i - 1"] Cons.prems skip [of n us]
      by (cases i) (auto simp: occurrences_def)
  qed (simp add: occurrences_def)
qed simp

lemma field_positional:
  assumes "distinct names" and "length ws \<le> length names" and "i < length names"
  shows "field de missing (names ! i) (zip names ws) = (if i < length ws then de (ws ! i) else missing)"
  by (simp add: field_def occurrences_zip [OF assms])

lemma required_Inr:
  "required de name es = Inr v \<longleftrightarrow> (\<exists>w. occurrences name es = [w] \<and> de w = Inr v)"
  by (auto simp: field_defs split: list.splits)

lemma optional_Inr:
  "optional de name es = Inr v \<longleftrightarrow>
     (occurrences name es = [] \<and> v = None) \<or> (\<exists>w. occurrences name es = [w] \<and> de_opt de w = Inr v)"
  by (auto simp: field_defs split: list.splits)

lemma optional_Some: "optional de name es = Inr (Some v) \<Longrightarrow> \<exists>w. de w = Inr v"
  by (auto simp: optional_Inr de_opt_def res_simps split: if_splits)

end
