(* ===== verification/Units.thy ===== *)
theory Units
  imports Network_Values Complex_Main
begin

text \<open>
  \<open>src/src/model/units.rs\<close>, the \<open>f32\<close> visitor of \<open>src/src/model.rs\<close> and the carrier bandwidth of
  \<open>src/src/model/mobile.rs\<close>: numeric readings the router reports as numbers or as text.

  An \<open>f32\<close> (\<open>f64\<close>) is its bit pattern. Rust's conversions to \<open>f32\<close> (the \<open>as\<close> casts and
  \<open>str::parse\<close>) all round the exact value to the nearest \<open>f32\<close>, ties to even; \<open>f32_round\<close> is
  that function on the rational \<open>p / q\<close>, and \<open>f32_value\<close> the number a bit pattern stands for.
\<close>

section \<open>f32\<close>

type_synonym f32 = u32

definition f32_mantissa :: "f32 \<Rightarrow> nat" where
  "f32_mantissa f = unat f mod 2 ^ 23"

definition f32_exponent :: "f32 \<Rightarrow> nat" where
  "f32_exponent f = unat f div 2 ^ 23 mod 2 ^ 8"

definition f32_negative :: "f32 \<Rightarrow> bool" where
  "f32_negative f \<longleftrightarrow> 2 ^ 31 \<le> unat f"

definition f32_is_finite :: "f32 \<Rightarrow> bool" where
  "f32_is_finite f \<longleftrightarrow> f32_exponent f \<noteq> 255"

text \<open>\<open>f > 0.0\<close> on finite values: the sign bit is clear and the value is not zero.\<close>

definition f32_positive :: "f32 \<Rightarrow> bool" where
  "f32_positive f \<longleftrightarrow> \<not> f32_negative f \<and> f \<noteq> 0"

definition f32_value :: "f32 \<Rightarrow> real" where
  "f32_value f =
     (if f32_negative f then -1 else 1)
     * (if f32_exponent f = 0 then real (f32_mantissa f) * 2 powi -149
        else real (2 ^ 23 + f32_mantissa f) * 2 powi (int (f32_exponent f) - 150))"

definition f32_infinity :: f32 where "f32_infinity = 0x7f800000"

definition f32_nan :: f32 where "f32_nan = 0x7fc00000"

definition f32_sign :: "bool \<Rightarrow> f32 \<Rightarrow> f32" where
  "f32_sign neg f = (if neg then f + 0x80000000 else f)"

text \<open>The fraction \<open>p / q\<close> in units of \<open>2 ^ e\<close>, as numerator and denominator, and the rounding of
  a fraction to the nearest integer, ties to even.\<close>

definition f32_scaled :: "nat \<Rightarrow> nat \<Rightarrow> int \<Rightarrow> nat \<times> nat" where
  "f32_scaled p q e = (p * 2 ^ nat (- e), q * 2 ^ nat e)"

definition round_even :: "nat \<Rightarrow> nat \<Rightarrow> nat" where
  "round_even n d =
     (let k = n div d; r = n mod d in if d < 2 * r \<or> (2 * r = d \<and> odd k) then Suc k else k)"

text \<open>The least exponent whose unit leaves fewer than 24 bits; none, when the value is too large.\<close>

definition f32_min_unit :: int where "f32_min_unit = - 149"

definition f32_max_unit :: int where "f32_max_unit = 104"

definition f32_unit :: "nat \<Rightarrow> nat \<Rightarrow> int option" where
  "f32_unit p q = List.find (\<lambda>e. let (n, d) = f32_scaled p q e in n div d < 2 ^ 24)
     [f32_min_unit..f32_max_unit]"

definition f32_round :: "bool \<Rightarrow> nat \<Rightarrow> nat \<Rightarrow> f32" where
  "f32_round neg p q = f32_sign neg
     (case f32_unit p q of
        None \<Rightarrow> f32_infinity
      | Some e \<Rightarrow> (let (n, d) = f32_scaled p q e in of_nat (nat (e + 149) * 2 ^ 23 + round_even n d)))"

definition f32_from_u32 :: "u32 \<Rightarrow> f32" where
  "f32_from_u32 v = f32_round False (unat v) 1"

definition f32_from_i32 :: "32 word \<Rightarrow> f32" where
  "f32_from_i32 v = f32_round (sint v < 0) (nat \<bar>sint v\<bar>) 1"

definition f32_from_f64 :: "u64 \<Rightarrow> f32" where
  "f32_from_f64 v =
     (let neg = (2 ^ 63 \<le> unat v); ex = unat v div 2 ^ 52 mod 2 ^ 11; m = unat v mod 2 ^ 52 in
      if ex = 2047 then (if m = 0 then f32_sign neg f32_infinity else f32_nan)
      else if ex = 0 then f32_round neg m (2 ^ 1074)
      else f32_round neg ((2 ^ 52 + m) * 2 ^ (ex - 1075)) (2 ^ (1075 - ex)))"

text \<open>\<open>str::parse::<f32>\<close>: an optional sign, then \<open>inf\<close>, \<open>infinity\<close> or \<open>nan\<close> in any case, or
  digits with an optional point (at least one digit in all) and an optional decimal exponent.\<close>

definition split_sign :: "string \<Rightarrow> bool \<times> string" where
  "split_sign s = (case s of [] \<Rightarrow> (False, [])
     | b # r \<Rightarrow> if b = CHR ''-'' then (True, r) else if b = CHR ''+'' then (False, r) else (False, s))"

definition parse_exponent :: "string \<Rightarrow> int option" where
  "parse_exponent s = (case s of [] \<Rightarrow> Some 0
     | b # r \<Rightarrow>
         if b = CHR ''e'' \<or> b = CHR ''E'' then
           (let (neg, t) = split_sign r in
            if t = [] then None
            else map_option (\<lambda>n. if neg then - int n else int n) (dec_val 0 t))
         else None)"

definition parse_decimal :: "string \<Rightarrow> (nat \<times> int) option" where
  "parse_decimal s =
     (let whole = takeWhile is_ascii_digit s; r1 = dropWhile is_ascii_digit s;
          (fraction, r2) = (case r1 of [] \<Rightarrow> ([], [])
             | b # r \<Rightarrow> if b = CHR ''.'' then (takeWhile is_ascii_digit r, dropWhile is_ascii_digit r)
                       else ([], r1)) in
      if whole @ fraction = [] then None
      else Option.bind (dec_val 0 (whole @ fraction)) (\<lambda>n.
           map_option (\<lambda>e. (n, e - int (length fraction))) (parse_exponent r2)))"

definition f32_from_str :: "string \<Rightarrow> f32 option" where
  "f32_from_str s =
     (let (neg, t) = split_sign s; word = map ascii_lower t in
      if word = ''nan'' then Some (f32_sign neg f32_nan)
      else if word = ''inf'' \<or> word = ''infinity'' then Some (f32_sign neg f32_infinity)
      else map_option (\<lambda>(n, e). f32_round neg (n * 10 ^ nat e) (10 ^ nat (- e))) (parse_decimal t))"

section \<open>Measurements\<close>

datatype InvalidMeasurement = InvalidMeasurement

datatype Dbm = Dbm (Dbm_get: f32)
datatype Db = Db (Db_get: f32)
datatype Celsius = Celsius (Celsius_get: f32)

definition Dbm_new :: "f32 \<Rightarrow> InvalidMeasurement + Dbm" where
  "Dbm_new value = (if f32_is_finite value then Inr (Dbm value) else Inl InvalidMeasurement)"

definition Db_new :: "f32 \<Rightarrow> InvalidMeasurement + Db" where
  "Db_new value = (if f32_is_finite value then Inr (Db value) else Inl InvalidMeasurement)"

definition Celsius_new :: "f32 \<Rightarrow> InvalidMeasurement + Celsius" where
  "Celsius_new value = (if f32_is_finite value then Inr (Celsius value) else Inl InvalidMeasurement)"

datatype InvalidCarrierBandwidth = InvalidCarrierBandwidth

datatype CarrierBandwidth = CarrierBandwidth (as_megahertz: f32)

definition from_megahertz :: "f32 \<Rightarrow> InvalidCarrierBandwidth + CarrierBandwidth" where
  "from_megahertz value =
     (if f32_is_finite value \<and> f32_positive value then Inr (CarrierBandwidth value)
      else Inl InvalidCarrierBandwidth)"

section \<open>The visitors\<close>

datatype 'e reading_error = Integer_range | Parse_float | Missing_measurement | Refused 'e

definition i32_try_from :: "64 word \<Rightarrow> 'e reading_error + 32 word" where
  "i32_try_from v =
     (if - (2 ^ 31) \<le> sint v \<and> sint v < 2 ^ 31 then Inr (ucast v) else Inl Integer_range)"

definition u32_try_from :: "u64 \<Rightarrow> 'e reading_error + u32" where
  "u32_try_from v = (if unat v < 2 ^ 32 then Inr (ucast v) else Inl Integer_range)"

definition reading_text :: "string \<Rightarrow> 'e reading_error de_error + f32 option" where
  "reading_text value =
     (if value = [] then Inr None
      else map_err Custom (map_res Some (ok_or Parse_float (f32_from_str value))))"

fun OptionalF32Visitor :: "('e reading_error, f32 option) visitor" where
  "OptionalF32Visitor Visit_none = Inr None"
| "OptionalF32Visitor Visit_unit = Inr None"
| "OptionalF32Visitor (Visit_f64 value) = Inr (Some (f32_from_f64 value))"
| "OptionalF32Visitor (Visit_i64 value) =
     map_err Custom (map_res Some (map_res f32_from_i32 (i32_try_from value)))"
| "OptionalF32Visitor (Visit_u64 value) =
     map_err Custom (map_res Some (map_res f32_from_u32 (u32_try_from value)))"
| "OptionalF32Visitor (Visit_str value) = reading_text value"
| "OptionalF32Visitor (Visit_string value) = reading_text value"
| "OptionalF32Visitor _ = Inl Invalid_type"

definition optional_measurement :: "(f32 \<Rightarrow> 'e + 't) \<Rightarrow> ('e reading_error, 't option) visitor" where
  "optional_measurement try_from ev =
     bind_res (OptionalF32Visitor ev) (\<lambda>value. case value of
       None \<Rightarrow> Inr None
     | Some f \<Rightarrow> map_err (\<lambda>e. Custom (Refused e)) (map_res Some (try_from f)))"

definition measurement :: "(f32 \<Rightarrow> 'e + 't) \<Rightarrow> ('e reading_error, 't) visitor" where
  "measurement try_from ev =
     bind_res (OptionalF32Visitor ev) (\<lambda>value.
     bind_res (ok_or (Custom Missing_measurement) value) (\<lambda>f.
     map_err (\<lambda>e. Custom (Refused e)) (try_from f)))"

section \<open>Rounding\<close>

lemma round_even_error:
  assumes "0 < d"
  shows "\<bar>real (round_even n d) - real n / real d\<bar> \<le> 1 / 2"
proof -
  let ?k = "n div d" and ?r = "n mod d"
  have n: "real n = real ?k * real d + real ?r" by (metis of_nat_add of_nat_mult div_mult_mod_eq)
  have r: "?r < d" using assms by simp
  have "2 * \<bar>real (round_even n d) * real d - real n\<bar> \<le> real d"
    using r by (auto simp: round_even_def Let_def n algebra_simps)
  moreover have "\<bar>real (round_even n d) * real d - real n\<bar> = \<bar>real (round_even n d) - real n / real d\<bar> * real d"
    using assms by (simp add: abs_mult [symmetric] field_simps)
  ultimately show ?thesis using assms by (simp add: field_simps)
qed

lemma round_even_bounds: "n div d \<le> round_even n d \<and> round_even n d \<le> Suc (n div d)"
  by (simp add: round_even_def Let_def)

lemma scaled_ratio:
  assumes "0 < q" and "f32_scaled p q e = (n, d)"
  shows "0 < d" and "real n / real d * 2 powi e = real p / real q"
proof -
  have "real n / real d = real p / real q * (2 ^ nat (- e) / 2 ^ nat e)"
    using assms by (auto simp: f32_scaled_def)
  moreover have "2 ^ nat (- e) / 2 ^ nat e * 2 powi e = (1 :: real)"
    by (cases "0 \<le> e") (simp_all add: power_int_def field_simps)
  ultimately show "real n / real d * 2 powi e = real p / real q" by simp
  show "0 < d" using assms by (auto simp: f32_scaled_def)
qed

lemma f32_unit_Some:
  assumes "f32_unit p q = Some e" and "f32_scaled p q e = (n, d)" and "0 < q"
  shows "- 149 \<le> e" and "e \<le> 104" and "n div d < 2 ^ 24" and "e = - 149 \<or> 2 ^ 23 \<le> n div d"
    and "- 149 \<le> x \<Longrightarrow> x < e \<Longrightarrow> \<not> (let (n, d) = f32_scaled p q x in n div d < 2 ^ 24)"
proof -
  let ?ok = "\<lambda>e. let (n, d) = f32_scaled p q e in n div d < (2 ^ 24 :: nat)"
  let ?l = "[f32_min_unit..f32_max_unit]"
  from assms(1) obtain i where i: "i < length ?l" "?ok e" "e = ?l ! i" "\<forall>j < i. \<not> ?ok (?l ! j)"
    unfolding f32_unit_def find_Some_iff by blast
  then have "i < 254" by (simp add: f32_min_unit_def f32_max_unit_def)
  have nth: "?l ! j = int j - 149" if "j < 254" for j
    using that by (simp add: f32_min_unit_def f32_max_unit_def del: upto_rec_numeral)
  from i(3) nth \<open>i < 254\<close> have e: "e = int i - 149" by simp
  with \<open>i < 254\<close> show "- 149 \<le> e" "e \<le> 104" by simp_all
  have least: "\<not> ?ok x" if "- 149 \<le> x" "x < e" for x
    using i(4) nth [of "nat (x + 149)"] e that \<open>i < 254\<close> by (auto dest: spec [of _ "nat (x + 149)"])
  then show "- 149 \<le> x \<Longrightarrow> x < e \<Longrightarrow> \<not> ?ok x" .
  show "n div d < 2 ^ 24" using i(2) assms(2) by simp
  show "e = - 149 \<or> 2 ^ 23 \<le> n div d"
  proof (cases i)
    case (Suc j)
    then have no: "\<not> ?ok (e - 1)" using e by (intro least) simp_all
    have d: "0 < d" using scaled_ratio(1) [OF assms(3,2)] .
    have "2 ^ 23 * d \<le> n"
    proof (cases "0 < e")
      case True
      then have h: "nat e = Suc (nat (e - 1))" by simp
      from True assms(2) have nd: "n = p" "d = 2 * (q * 2 ^ nat (e - 1))"
        by (auto simp: f32_scaled_def h)
      from no True have "2 ^ 24 \<le> n div (q * 2 ^ nat (e - 1))" by (simp add: f32_scaled_def nd)
      then have "2 ^ 24 * (q * 2 ^ nat (e - 1)) \<le> n"
        using assms(3) by (simp add: less_eq_div_iff_mult_less_eq)
      then show ?thesis using nd by simp
    next
      case False
      then have h: "nat (1 - e) = Suc (nat (- e))" by simp
      from False assms(2) have nd: "n = p * 2 ^ nat (- e)" "d = q" by (auto simp: f32_scaled_def)
      from no False have "2 ^ 24 \<le> (2 * n) div d" by (simp add: f32_scaled_def nd h algebra_simps)
      then have "2 ^ 24 * d \<le> 2 * n" using d by (simp add: less_eq_div_iff_mult_less_eq)
      then show ?thesis by simp
    qed
    with d show ?thesis by (simp add: less_eq_div_iff_mult_less_eq)
  qed (use e in simp)
qed

text \<open>The bits the rounding assembles stand for \<open>k\<close> units, a carry out of the mantissa included.\<close>

lemma f32_bits_value:
  assumes "- 149 \<le> e" and "e \<le> 104" and "k \<le> 2 ^ 24" and "e = - 149 \<or> 2 ^ 23 \<le> k"
    and "f = of_nat (nat (e + 149) * 2 ^ 23 + k)" and "f32_is_finite f"
  shows "f32_value f = real k * 2 powi e" and "\<not> f32_negative f"
proof -
  let ?i = "nat (e + 149)"
  have i: "?i \<le> 253" "e = int ?i - 149" using assms by simp_all
  have "?i * 2 ^ 23 + k < 2 ^ LENGTH(32)" using assms(3) i(1) by simp
  then have f: "unat f = ?i * 2 ^ 23 + k"
    unfolding assms(5) unsigned_of_nat of_nat_id by (rule take_bit_nat_eq_self)
  consider "?i = 0" "k < 2 ^ 23" | "2 ^ 23 \<le> k" "k < 2 ^ 24" | "k = 2 ^ 24"
    using assms i by fastforce
  then have "f32_value f = real k * 2 powi e \<and> \<not> f32_negative f"
  proof cases
    case 1
    then show ?thesis
      using f i by (simp add: f32_value_def f32_negative_def f32_exponent_def f32_mantissa_def)
  next
    case 2
    then obtain m where m: "k = 2 ^ 23 + m" using le_Suc_ex by blast
    then have "m < 2 ^ 23" using 2 by simp
    note m = m this
    have ex: "f32_exponent f = ?i + 1" and ma: "f32_mantissa f = m"
      using f i m by (simp_all add: f32_exponent_def f32_mantissa_def)
    have "\<not> f32_negative f" using f i m by (simp add: f32_negative_def)
    then show ?thesis using i m by (simp add: f32_value_def ex ma algebra_simps)
  next
    case 3
    have u: "unat f = (?i + 2) * 2 ^ 23" using f 3 by simp
    have "?i \<noteq> 253"
      using assms(6) u by (auto simp: f32_is_finite_def f32_exponent_def)
    then have ex: "f32_exponent f = ?i + 2" and ma: "f32_mantissa f = 0"
      using u i by (simp_all add: f32_exponent_def f32_mantissa_def)
    have "\<not> f32_negative f" using u i \<open>?i \<noteq> 253\<close> by (simp add: f32_negative_def)
    moreover have "2 powi (int ?i + 2 - 150) = 2 * (2 powi e :: real)"
      using power_int_add_1' [of "2 :: real" e] i(2) by (simp add: algebra_simps)
    ultimately show ?thesis using 3 by (simp add: f32_value_def ex ma)
  qed
  then show "f32_value f = real k * 2 powi e" "\<not> f32_negative f" by simp_all
qed

lemma f32_sign_facts:
  assumes "\<not> f32_negative f"
  shows "f32_is_finite (f32_sign neg f) = f32_is_finite f"
    and "f32_value (f32_sign neg f) = (if neg then -1 else 1) * f32_value f"
proof -
  have f: "unat f < 2 ^ 31" using assms by (simp add: f32_negative_def)
  then have u: "unat (f + 0x80000000) = unat f + 2 ^ 31"
    using unat_add_exact [of f "0x80000000"] by simp
  have "(a + 256 * c) mod c = a mod c" "(a + 256 * c) div c mod 256 = a div c mod 256" if "0 < c" for a c :: nat
    using that by simp_all
  from this [of "2 ^ 23" "unat f"]
  have "(unat f + 2 ^ 31) mod 2 ^ 23 = unat f mod 2 ^ 23"
    "(unat f + 2 ^ 31) div 2 ^ 23 mod 2 ^ 8 = unat f div 2 ^ 23 mod 2 ^ 8"
    by simp_all
  then have "f32_exponent (f + 0x80000000) = f32_exponent f"
      "f32_mantissa (f + 0x80000000) = f32_mantissa f" "f32_negative (f + 0x80000000)"
    using u by (simp_all only: f32_exponent_def f32_mantissa_def f32_negative_def)
  then show "f32_is_finite (f32_sign neg f) = f32_is_finite f"
    "f32_value (f32_sign neg f) = (if neg then -1 else 1) * f32_value f"
    using assms by (simp_all add: f32_sign_def f32_is_finite_def f32_value_def)
qed

lemma f32_round_cases:
  assumes "0 < q" and "f32_is_finite (f32_round neg p q)"
  obtains e n d where "f32_unit p q = Some e" and "f32_scaled p q e = (n, d)"
    and "f32_value (f32_round neg p q) = (if neg then -1 else 1) * (real (round_even n d) * 2 powi e)"
proof (cases "f32_unit p q")
  case None
  have "\<not> f32_negative f32_infinity" "\<not> f32_is_finite f32_infinity"
    by (simp_all add: f32_negative_def f32_infinity_def f32_is_finite_def f32_exponent_def)
  then show ?thesis using assms(2) None f32_sign_facts(1) by (simp add: f32_round_def)
next
  case (Some e)
  obtain n d where nd: "f32_scaled p q e = (n, d)" by fastforce
  note u = f32_unit_Some [OF Some nd assms(1)]
  have k: "round_even n d \<le> 2 ^ 24" "e = - 149 \<or> 2 ^ 23 \<le> round_even n d"
    using u(3,4) round_even_bounds [of n d] by auto
  let ?f = "of_nat (nat (e + 149) * 2 ^ 23 + round_even n d) :: f32"
  have r: "f32_round neg p q = f32_sign neg ?f" by (simp add: f32_round_def Some nd)
  have "nat (e + 149) * 2 ^ 23 + round_even n d \<le> 255 * 2 ^ 23" using u(2) k(1) by simp
  then have neg: "\<not> f32_negative ?f"
    unfolding f32_negative_def unsigned_of_nat of_nat_id
    by (simp add: take_bit_nat_eq_self del: of_nat_add of_nat_mult)
  have "f32_is_finite ?f" using assms(2) by (simp only: r f32_sign_facts(1) [OF neg])
  moreover have "f32_value (f32_round neg p q) = (if neg then -1 else 1) * f32_value ?f"
    by (simp only: r f32_sign_facts(2) [OF neg])
  ultimately have "f32_value (f32_round neg p q) = (if neg then -1 else 1) * (real (round_even n d) * 2 powi e)"
    using f32_bits_value(1) [OF u(1,2) k refl] by simp
  with Some nd show ?thesis by (rule that)
qed

lemma f32_round_error:
  assumes "0 < q" and "f32_is_finite (f32_round neg p q)"
  shows "\<bar>f32_value (f32_round neg p q) - (if neg then -1 else 1) * (real p / real q)\<bar>
         \<le> max (real p / real q / 2 ^ 24) (2 powi -150)"
proof -
  from assms obtain e n d where u: "f32_unit p q = Some e" and nd: "f32_scaled p q e = (n, d)"
    and v: "f32_value (f32_round neg p q) = (if neg then -1 else 1) * (real (round_even n d) * 2 powi e)"
    by (rule f32_round_cases)
  note ratio = scaled_ratio [OF assms(1) nd]
  have pos: "(0 :: real) < 2 powi e" by simp
  have sign: "\<bar>(if neg then -1 else 1) * x - (if neg then -1 else 1) * y\<bar> = \<bar>x - y\<bar>" for x y :: real
    by auto
  have "\<bar>f32_value (f32_round neg p q) - (if neg then -1 else 1) * (real p / real q)\<bar>
      = \<bar>real (round_even n d) - real n / real d\<bar> * 2 powi e"
    unfolding v ratio(2) [symmetric] sign left_diff_distrib [symmetric] abs_mult by simp
  also have "\<dots> \<le> 1 / 2 * 2 powi e"
    using round_even_error [OF ratio(1)] pos by (intro mult_right_mono) simp_all
  also have "\<dots> \<le> max (real p / real q / 2 ^ 24) (2 powi -150)"
  proof (cases "e = - 149")
    case True
    have "1 / 2 * 2 powi - 149 = (2 powi - 150 :: real)"
      using power_int_add_1' [of "2 :: real" "- 150"] by (simp del: power_int_minus power_int_numeral power_int_numeral_neg_numeral)
    with True show ?thesis by (simp only: max.cobounded2)
  next
    case False
    with f32_unit_Some(4) [OF u nd assms(1)] have "2 ^ 23 \<le> n div d" by simp
    then have "2 ^ 23 * d \<le> n" using ratio(1) by (simp add: less_eq_div_iff_mult_less_eq)
    then have "2 ^ 23 * real d \<le> real n"
      by (metis of_nat_le_iff of_nat_mult of_nat_numeral of_nat_power)
    then have "2 ^ 23 \<le> real n / real d" using ratio(1) by (simp add: field_simps)
    then have "2 ^ 23 * 2 powi e \<le> real p / real q"
      unfolding ratio(2) [symmetric] using pos by (intro mult_right_mono) simp_all
    then show ?thesis by (simp add: le_max_iff_disj)
  qed
  finally show ?thesis .
qed

subsection \<open>The nearest \<open>f32\<close>\<close>

definition f32_nearest :: "f32 \<Rightarrow> real \<Rightarrow> bool" where
  "f32_nearest f x \<longleftrightarrow> f32_is_finite f
     \<and> (\<forall>g. f32_is_finite g \<longrightarrow> \<bar>f32_value f - x\<bar> \<le> \<bar>f32_value g - x\<bar>)"

lemma round_even_nearest:
  assumes "0 < d"
  shows "\<bar>real (round_even n d) - real n / real d\<bar> \<le> \<bar>of_int j - real n / real d\<bar>"
proof (cases "j = int (round_even n d)")
  case False
  then have "1 \<le> \<bar>j - int (round_even n d)\<bar>" by simp
  then have "1 \<le> \<bar>of_int j - real (round_even n d)\<bar>"
    by (metis of_int_1_le_iff of_int_abs of_int_diff of_int_of_nat_eq)
  then show ?thesis using round_even_error [OF assms, of n] by linarith
qed simp

text \<open>A finite \<open>f32\<close> is a multiple of the unit \<open>2 ^ e\<close>, or smaller than \<open>2 ^ 23\<close> of them.\<close>

lemma f32_value_units:
  assumes "f32_is_finite g"
  obtains k u where "k < (2 ^ 24 :: nat)" and "- 149 \<le> u"
    and "f32_value g = (if f32_negative g then -1 else 1) * (real k * 2 powi u)"
proof (cases "f32_exponent g = 0")
  case True
  have "f32_mantissa g < 2 ^ 24" by (simp add: f32_mantissa_def less_trans [OF mod_less_divisor])
  then show ?thesis by (rule that [of _ "- 149"]) (simp_all add: f32_value_def True)
next
  case False
  have "f32_mantissa g < 2 ^ 23" by (simp add: f32_mantissa_def)
  then have "2 ^ 23 + f32_mantissa g < 2 ^ 24" by simp
  then show ?thesis
    by (rule that [of _ "int (f32_exponent g) - 150"]) (use False in \<open>simp_all add: f32_value_def\<close>)
qed

lemma f32_value_multiple:
  assumes "f32_is_finite g" and "s = 1 \<or> s = - 1"
  shows "(\<exists>j. s * f32_value g = of_int j * 2 powi e) \<or> - 149 < e \<and> s * f32_value g \<le> 2 ^ 23 * 2 powi e"
proof -
  from assms(1) obtain k u where k: "k < (2 ^ 24 :: nat)" "- 149 \<le> u"
    and v: "f32_value g = (if f32_negative g then -1 else 1) * (real k * 2 powi u)"
    by (rule f32_value_units)
  obtain z :: int where z: "z = 1 \<or> z = - 1" "s * f32_value g = of_int z * (real k * 2 powi u)"
    using assms(2) by (cases "f32_negative g") (auto simp: v intro: that [of 1] that [of "- 1"])
  show ?thesis
  proof (cases "e \<le> u")
    case True
    then obtain m where "u = e + int m" using zle_iff_zadd by blast
    then have "2 powi u = 2 ^ m * (2 powi e :: real)" by (simp add: power_int_add)
    then have "s * f32_value g = of_int (z * int k * 2 ^ m) * 2 powi e" by (simp add: z(2))
    then show ?thesis by blast
  next
    case False
    have "real k * 2 powi u \<le> 2 ^ 24 * 2 powi u" using k(1) by (intro mult_right_mono) simp_all
    also have "\<dots> = 2 ^ 23 * 2 powi (u + 1)" by (simp add: power_int_add_1)
    also have "\<dots> \<le> 2 ^ 23 * 2 powi e" using False by (intro mult_left_mono power_int_increasing) simp_all
    finally have "real k * 2 powi u \<le> 2 ^ 23 * 2 powi e" .
    moreover have "of_int z * (real k * 2 powi u) \<le> real k * (2 powi u :: real)"
      using z(1) by (elim disjE) simp_all
    ultimately have "s * f32_value g \<le> 2 ^ 23 * 2 powi e" unfolding z(2) by linarith
    then show ?thesis using False k(2) by simp
  qed
qed

lemma f32_round_nearest:
  assumes "0 < q" and "f32_is_finite (f32_round neg p q)"
  shows "f32_nearest (f32_round neg p q) ((if neg then -1 else 1) * (real p / real q))"
  unfolding f32_nearest_def
proof (intro conjI allI impI)
  fix g :: f32
  assume g: "f32_is_finite g"
  from assms obtain e n d where u: "f32_unit p q = Some e" and nd: "f32_scaled p q e = (n, d)"
    and v: "f32_value (f32_round neg p q) = (if neg then -1 else 1) * (real (round_even n d) * 2 powi e)"
    by (rule f32_round_cases)
  note ratio = scaled_ratio [OF assms(1) nd]
  let ?s = "if neg then -1 else 1 :: real" and ?y = "real n / real d"
  have one: "?s = 1 \<or> ?s = - 1" by simp
  have sign: "\<bar>?s * a - ?s * b\<bar> = \<bar>a - b\<bar>" "\<bar>c - ?s * b\<bar> = \<bar>?s * c - b\<bar>" for a b c by auto
  have scale: "\<bar>a * 2 powi e - b * 2 powi e\<bar> = \<bar>a - b\<bar> * 2 powi e" for a b :: real
    by (simp add: left_diff_distrib [symmetric] abs_mult)
  have "\<bar>f32_value (f32_round neg p q) - ?s * (real p / real q)\<bar> = \<bar>real (round_even n d) - ?y\<bar> * 2 powi e"
    unfolding v ratio(2) [symmetric] sign(1) scale ..
  also have "\<dots> \<le> \<bar>?s * f32_value g - ?y * 2 powi e\<bar>"
    using f32_value_multiple [OF g one, of e]
  proof (elim disjE conjE exE)
    fix j
    assume j: "?s * f32_value g = of_int j * 2 powi e"
    show ?thesis unfolding j scale by (intro mult_right_mono round_even_nearest ratio(1)) simp
  next
    assume small: "- 149 < e" "?s * f32_value g \<le> 2 ^ 23 * 2 powi e"
    with f32_unit_Some(4) [OF u nd assms(1)] have "2 ^ 23 \<le> n div d" by simp
    then have "2 ^ 23 * d \<le> n" using ratio(1) by (simp add: less_eq_div_iff_mult_less_eq)
    then have "2 ^ 23 * real d \<le> real n"
      by (metis of_nat_le_iff of_nat_mult of_nat_numeral of_nat_power)
    then have y: "2 ^ 23 \<le> ?y" using ratio(1) by (simp add: field_simps)
    have "\<bar>real (round_even n d) - ?y\<bar> * 2 powi e \<le> \<bar>of_int (2 ^ 23) - ?y\<bar> * 2 powi e"
      by (intro mult_right_mono round_even_nearest ratio(1)) simp
    also have "\<dots> = ?y * 2 powi e - 2 ^ 23 * 2 powi e" using y by (simp add: left_diff_distrib)
    also have "\<dots> \<le> \<bar>?s * f32_value g - ?y * 2 powi e\<bar>" using small(2) by linarith
    finally show ?thesis .
  qed
  also have "\<dots> = \<bar>f32_value g - ?s * (real p / real q)\<bar>" unfolding ratio(2) sign(2) ..
  finally show "\<bar>f32_value (f32_round neg p q) - ?s * (real p / real q)\<bar>
      \<le> \<bar>f32_value g - ?s * (real p / real q)\<bar>" .
qed (rule assms(2))

lemma f32_round_int:
  assumes "n < 2 ^ 24"
  shows "f32_is_finite (f32_round neg n 1)" and "f32_value (f32_round neg n 1) = (if neg then -1 else 1) * real n"
proof -
  have ok: "let (n, d) = f32_scaled n 1 0 in n div d < 2 ^ 24" using assms by (simp add: f32_scaled_def)
  have "0 \<in> set [f32_min_unit..f32_max_unit]"
    by (simp add: f32_min_unit_def f32_max_unit_def del: upto_rec_numeral set_upto [symmetric])
  with ok have "f32_unit n 1 \<noteq> None" unfolding f32_unit_def find_None_iff by blast
  then obtain e where e: "f32_unit n 1 = Some e" by blast
  obtain m d where md: "f32_scaled n 1 e = (m, d)" by fastforce
  note u = f32_unit_Some [OF e md zero_less_one]
  from u(5) [of 0] ok have "e \<le> 0" by fastforce
  with md have m: "d = 1" "m = n * 2 ^ nat (- e)" by (auto simp: f32_scaled_def)
  let ?f = "of_nat (nat (e + 149) * 2 ^ 23 + m) :: f32"
  have r: "f32_round neg n 1 = f32_sign neg ?f"
    unfolding f32_round_def e md option.case Let_def prod.case using m(1) by (simp add: round_even_def)
  have "nat (e + 149) * 2 ^ 23 + m < 2 ^ 24 + 149 * 2 ^ 23"
    using u(1,3) m \<open>e \<le> 0\<close> by simp
  then have "\<not> f32_negative ?f" and fin: "f32_is_finite ?f"
    unfolding f32_negative_def f32_is_finite_def f32_exponent_def unsigned_of_nat of_nat_id
    by (simp_all add: take_bit_nat_eq_self del: of_nat_add of_nat_mult)
  note neg = this(1)
  show fin': "f32_is_finite (f32_round neg n 1)"
    using fin by (simp only: r f32_sign_facts(1) [OF neg])
  obtain e' m' d' where c: "f32_unit n 1 = Some e'" "f32_scaled n 1 e' = (m', d')"
    "f32_value (f32_round neg n 1) = (if neg then -1 else 1) * (real (round_even m' d') * 2 powi e')"
    using fin' by (rule f32_round_cases [OF zero_less_one])
  then have "e' = e" "m' = m" "d' = d" using e md by auto
  with scaled_ratio(2) [OF zero_less_one md] c(3) m(1)
  show "f32_value (f32_round neg n 1) = (if neg then -1 else 1) * real n"
    by (simp add: round_even_def)
qed

section \<open>Properties\<close>

lemmas reading_simps = optional_measurement_def measurement_def reading_text_def
  i32_try_from_def u32_try_from_def

lemma sint_ucast_i32:
  fixes v :: "64 word"
  assumes "- (2 ^ 31) \<le> sint v" and "sint v < 2 ^ 31"
  shows "sint (ucast v :: 32 word) = sint v"
proof -
  have "sint (ucast v :: 32 word) = signed_take_bit 31 (signed_take_bit 63 (uint v))"
    by (simp add: signed_ucast_eq)
  also have "signed_take_bit 63 (uint v) = sint v" by (simp add: sint_uint)
  also have "signed_take_bit 31 (sint v) = sint v"
    using assms by (simp add: signed_take_bit_int_eq_self)
  finally show ?thesis .
qed

lemma unat_ucast_u32: "unat v < 2 ^ 32 \<Longrightarrow> unat (ucast v :: u32) = unat v" for v :: u64
  by (simp add: unsigned_ucast_eq take_bit_nat_eq_self)

lemma f32_from_i32_exact:
  assumes "\<bar>sint v\<bar> < 2 ^ 24"
  shows "f32_is_finite (f32_from_i32 v)" and "f32_value (f32_from_i32 v) = of_int (sint v)"
proof -
  have n: "nat \<bar>sint v\<bar> < 2 ^ 24" using assms by (simp add: nat_less_iff)
  have sign: "(if z < 0 then -1 else 1) * real (nat \<bar>z\<bar>) = of_int z" for z by (cases "z < 0") simp_all
  show "f32_is_finite (f32_from_i32 v)" "f32_value (f32_from_i32 v) = of_int (sint v)"
    unfolding f32_from_i32_def by (rule f32_round_int(1) [OF n]) (simp only: f32_round_int(2) [OF n] sign)
qed

lemma lower_digit: "is_ascii_digit b \<or> b = CHR ''.'' \<Longrightarrow> ascii_lower b = b"
  by (auto simp: ascii_lower_def is_ascii_digit_def is_ascii_uppercase_def)

lemma parse_decimal_word:
  assumes "map ascii_lower t = c # w" and "\<not> is_ascii_digit c" and "c \<noteq> CHR ''.''"
  shows "parse_decimal t = None"
proof -
  from assms(1) obtain b r where t: "t = b # r" "ascii_lower b = c" by (cases t) auto
  with assms lower_digit [of b] have "\<not> is_ascii_digit b" "b \<noteq> CHR ''.''" by metis+
  then show ?thesis by (simp add: parse_decimal_def t)
qed

lemma f32_from_str_decimal:
  assumes "split_sign s = (neg, t)" and "parse_decimal t = Some (n, e)"
  shows "f32_from_str s = Some (f32_round neg (n * 10 ^ nat e) (10 ^ nat (- e)))"
proof -
  have "map ascii_lower t \<noteq> c # w" if "c = CHR ''n'' \<or> c = CHR ''i''" for c w
    using parse_decimal_word [of t c w] that assms(2) by (auto simp: is_ascii_digit_def)
  with assms show ?thesis by (simp add: f32_from_str_def)
qed

lemma decimal_ratio: "real (n * 10 ^ nat e) / real (10 ^ nat (- e)) = real n * 10 powi e"
  by (cases "0 \<le> e") (simp_all add: power_int_def field_simps)

lemma measurement_Dbm:
  "measurement Dbm_new ev = Inr m \<longleftrightarrow>
     (OptionalF32Visitor ev :: InvalidMeasurement reading_error de_error + f32 option)
       = Inr (Some (Dbm_get m)) \<and> f32_is_finite (Dbm_get m)"
  by (cases m) (auto simp: measurement_def Dbm_new_def res_simps split: if_splits)

definition f64_value :: "u64 \<Rightarrow> real" where
  "f64_value v =
     (let ex = unat v div 2 ^ 52 mod 2 ^ 11; m = unat v mod 2 ^ 52 in
      (if 2 ^ 63 \<le> unat v then -1 else 1)
      * (if ex = 0 then real m * 2 powi -1074 else real (2 ^ 52 + m) * 2 powi (int ex - 1075)))"

definition f64_is_finite :: "u64 \<Rightarrow> bool" where
  "f64_is_finite v \<longleftrightarrow> unat v div 2 ^ 52 mod 2 ^ 11 \<noteq> 2047"

text \<open>The number that a reading on the wire stands for.\<close>

definition decimal_number :: "string \<Rightarrow> real \<Rightarrow> bool" where
  "decimal_number s x \<longleftrightarrow> (\<exists>neg t n e. split_sign s = (neg, t) \<and> parse_decimal t = Some (n, e)
     \<and> x = (if neg then -1 else 1) * (real n * 10 powi e))"

fun wire_number :: "visit \<Rightarrow> real \<Rightarrow> bool" where
  "wire_number (Visit_i64 v) x \<longleftrightarrow> x = of_int (sint v)"
| "wire_number (Visit_u64 v) x \<longleftrightarrow> x = real (unat v)"
| "wire_number (Visit_f64 v) x \<longleftrightarrow> f64_is_finite v \<and> x = f64_value v"
| "wire_number (Visit_str s) x \<longleftrightarrow> decimal_number s x"
| "wire_number (Visit_string s) x \<longleftrightarrow> decimal_number s x"
| "wire_number _ x \<longleftrightarrow> False"

lemma f32_round_dyadic:
  assumes "f32_is_finite (f32_round neg (p * 2 ^ a) (2 ^ b))"
  shows "f32_nearest (f32_round neg (p * 2 ^ a) (2 ^ b)) ((if neg then -1 else 1) * (real p * 2 powi (int a - int b)))"
proof -
  have "real (p * 2 ^ a) / real (2 ^ b) = real p * 2 powi (int a - int b)"
    by (simp add: power_int_diff)
  from this [symmetric] show ?thesis by (simp only:) (rule f32_round_nearest [OF _ assms], simp)
qed

lemma f32_from_f64_nearest:
  assumes "f64_is_finite v" and "f32_is_finite (f32_from_f64 v)"
  shows "f32_nearest (f32_from_f64 v) (f64_value v)"
proof -
  let ?neg = "2 ^ 63 \<le> unat v" and ?ex = "unat v div 2 ^ 52 mod 2 ^ 11" and ?m = "unat v mod 2 ^ 52"
  show ?thesis
  proof (cases "?ex = 0")
    case True
    then have f: "f32_from_f64 v = f32_round ?neg (?m * 2 ^ 0) (2 ^ 1074)"
      unfolding f32_from_f64_def Let_def by (simp only: power_0 mult_1_right if_True zero_neq_numeral if_False refl)
    have "f64_value v = (if ?neg then -1 else 1) * (real ?m * 2 powi (int 0 - int 1074))"
      using True unfolding f64_value_def Let_def by (simp only: if_True refl semiring_1_class.of_nat_0 of_nat_numeral diff_0)
    with f32_round_dyadic [of ?neg ?m 0 1074] assms(2) show ?thesis unfolding f by (simp only:)
  next
    case False
    then have f: "f32_from_f64 v = f32_round ?neg ((2 ^ 52 + ?m) * 2 ^ (?ex - 1075)) (2 ^ (1075 - ?ex))"
      using assms(1) unfolding f32_from_f64_def Let_def f64_is_finite_def by (simp only: if_False)
    have "int (?ex - 1075) - int (1075 - ?ex) = int ?ex - 1075" by linarith
    then have "f64_value v = (if ?neg then -1 else 1)
        * (real (2 ^ 52 + ?m) * 2 powi (int (?ex - 1075) - int (1075 - ?ex)))"
      using False unfolding f64_value_def Let_def by (simp only: if_False)
    with f32_round_dyadic [of ?neg "2 ^ 52 + ?m" "?ex - 1075" "1075 - ?ex"] assms(2)
    show ?thesis unfolding f by (simp only:)
  qed
qed

lemma signed_magnitude: "(if z < 0 then -1 else 1) * (real (nat \<bar>z\<bar>) / real 1) = of_int z"
  by (cases "z < 0") simp_all

lemma reading_nearest:
  assumes "measurement Dbm_new ev = Inr m" and "wire_number ev x"
  shows "f32_nearest (Dbm_get m) x"
proof -
  have ok: "(OptionalF32Visitor ev :: InvalidMeasurement reading_error de_error + f32 option) = Inr (Some (Dbm_get m))"
    and fin: "f32_is_finite (Dbm_get m)"
    using assms(1) by (simp_all add: measurement_Dbm)
  have decimal: "f32_nearest (Dbm_get m) x"
    if "(reading_text s :: InvalidMeasurement reading_error de_error + f32 option) = Inr (Some (Dbm_get m))"
      and "decimal_number s x" for s
  proof -
    from that(2) obtain neg t n e where d: "split_sign s = (neg, t)" "parse_decimal t = Some (n, e)"
      and x: "x = (if neg then -1 else 1) * (real n * 10 powi e)"
      by (auto simp: decimal_number_def)
    have "s \<noteq> []" using d by (auto simp: split_sign_def parse_decimal_def)
    with that(1) have "Dbm_get m = f32_round neg (n * 10 ^ nat e) (10 ^ nat (- e))"
      using f32_from_str_decimal [OF d] by (auto simp: reading_text_def res_simps)
    with f32_round_nearest [of "10 ^ nat (- e)" neg "n * 10 ^ nat e"] fin
    show ?thesis unfolding x decimal_ratio [symmetric] by simp
  qed
  show ?thesis
  proof (cases ev)
    case (Visit_i64 v)
    then have range: "- (2 ^ 31) \<le> sint v" "sint v < 2 ^ 31" and g: "Dbm_get m = f32_from_i32 (ucast v)"
      using ok by (auto simp: i32_try_from_def res_simps split: if_splits)
    have "Dbm_get m = f32_round (sint v < 0) (nat \<bar>sint v\<bar>) 1"
      unfolding g f32_from_i32_def by (simp only: sint_ucast_i32 [OF range])
    with f32_round_nearest [of 1 "sint v < 0" "nat \<bar>sint v\<bar>"] fin assms(2) Visit_i64
    show ?thesis unfolding signed_magnitude by simp
  next
    case (Visit_u64 v)
    then have range: "unat v < 2 ^ 32" and g: "Dbm_get m = f32_from_u32 (ucast v)"
      using ok by (auto simp: u32_try_from_def res_simps split: if_splits)
    have "Dbm_get m = f32_round False (unat v) 1"
      unfolding g f32_from_u32_def by (simp only: unat_ucast_u32 [OF range])
    with f32_round_nearest [of 1 False "unat v"] fin assms(2) Visit_u64 show ?thesis by simp
  next
    case (Visit_f64 v)
    with ok fin assms(2) f32_from_f64_nearest [of v] show ?thesis by simp
  qed (use ok assms(2) decimal in auto)
qed



end
