(* ===== verification/Open_Enums.thy ===== *)
theory Open_Enums
  imports Serde
begin

text \<open>
  The router-defined classifiers: every type the macro \<open>open_string_enum!\<close> of \<open>src/src/model.rs\<close>
  is applied to, with the wire strings of its variants in the order the source lists them. The
  macro's \<open>as_str\<close> is written out per type; its \<open>From<&str>\<close> is the lookup
  \<open>open_enum_from\<close> in the type's table, with \<open>Other\<close> for a string no arm matches.

  The locale \<open>open_enum\<close> is the contract of the macro: reading a classifier and printing it gives
  back what the router sent, and the values that survive printing and reading are the ones whose
  \<open>Other\<close> text is not a known wire string. It is interpreted for each of the types.
\<close>

section \<open>The macro\<close>

definition open_enum_from :: "(string \<times> 'a) list \<Rightarrow> (string \<Rightarrow> 'a) \<Rightarrow> string \<Rightarrow> 'a" where
  "open_enum_from table other value =
     (case map_of table value of Some variant \<Rightarrow> variant | None \<Rightarrow> other value)"

text \<open>The visitor accepts borrowed and owned strings and nothing else; serialization emits
  \<open>as_str\<close>.\<close>

definition open_enum_visit :: "(string \<Rightarrow> 'a) \<Rightarrow> ('e, 'a) visitor" where
  "open_enum_visit from = str_visitor (\<lambda>value. Inr (from value))"

definition open_enum_serialize :: "('a \<Rightarrow> string) \<Rightarrow> 'a \<Rightarrow> visit" where
  "open_enum_serialize as_str v = Visit_str (as_str v)"

section \<open>Its contract\<close>

locale open_enum =
  fixes table :: "(string \<times> 'a) list"
    and other :: "string \<Rightarrow> 'a"
    and as_str :: "'a \<Rightarrow> string"
    and "from" :: "string \<Rightarrow> 'a"
  assumes from_def: "from s = open_enum_from table other s"
    and as_str_variant: "(w, v) \<in> set table \<Longrightarrow> as_str v = w"
    and as_str_other: "as_str (other s) = s"
    and variant_not_other: "(w, v) \<in> set table \<Longrightarrow> v \<noteq> other s"
    and variant_or_other: "v \<in> snd ` set table \<union> range other"
    and wires_distinct: "distinct (map fst table)"
begin

lemma from_known: "(w, v) \<in> set table \<Longrightarrow> from w = v"
  by (simp add: from_def open_enum_from_def map_of_eq_Some_iff [OF wires_distinct, THEN iffD2])

lemma from_unknown: "s \<notin> fst ` set table \<Longrightarrow> from s = other s"
  by (simp add: from_def open_enum_from_def map_of_eq_None_iff [THEN iffD2])

lemma as_str_from: "as_str (from s) = s"
proof (cases "s \<in> fst ` set table")
  case True
  then show ?thesis by (auto simp: from_known as_str_variant)
qed (simp add: from_unknown as_str_other)

lemma from_inj: "from s = from t \<longleftrightarrow> s = t"
  by (metis as_str_from)

lemma from_eq_other: "from s = other t \<longleftrightarrow> s = t \<and> s \<notin> fst ` set table"
proof (cases "s \<in> fst ` set table")
  case True
  then show ?thesis by (auto simp: from_known dest: variant_not_other)
next
  case False
  then show ?thesis by (metis as_str_other from_unknown)
qed

lemma from_as_str: "from (as_str v) = v \<longleftrightarrow> (\<forall>s. v = other s \<longrightarrow> s \<notin> fst ` set table)"
proof (cases "\<exists>w. (w, v) \<in> set table")
  case True
  then show ?thesis by (auto simp: from_known as_str_variant dest: variant_not_other)
next
  case False
  then have "v \<notin> snd ` set table" by force
  with variant_or_other [of v] obtain s where "v = other s" by blast
  then show ?thesis by (metis as_str_other from_eq_other)
qed

lemma deserialize_serialized:
  "open_enum_visit from (open_enum_serialize as_str (from s)) = Inr (from s)"
  by (simp add: open_enum_visit_def open_enum_serialize_def as_str_from)

lemma deserialize_exact:
  "open_enum_visit from ev = Inr v \<longleftrightarrow>
     ((ev = Visit_str (as_str v) \<or> ev = Visit_string (as_str v)) \<and> from (as_str v) = v)"
  by (cases ev) (auto simp: open_enum_visit_def as_str_from)

end

text \<open>What the interpretations are used for, as one statement about a classifier.\<close>

definition lossless :: "(string \<Rightarrow> 'a) \<Rightarrow> ('a \<Rightarrow> string) \<Rightarrow> (string \<Rightarrow> 'a) \<Rightarrow> string set \<Rightarrow> bool" where
  "lossless other as_str from wires \<longleftrightarrow>
     (\<forall>s. as_str (from s) = s)
     \<and> (\<forall>s. from s = other s \<longleftrightarrow> s \<notin> wires)
     \<and> (\<forall>v. from (as_str v) = v \<longleftrightarrow> (\<forall>w \<in> wires. v \<noteq> other w))"

lemma open_enum_lossless:
  assumes "open_enum table other as_str from" and "wires = fst ` set table"
  shows "lossless other as_str from wires"
  using assms(2) open_enum.as_str_from [OF assms(1)] open_enum.from_eq_other [OF assms(1)]
    open_enum.from_as_str [OF assms(1)]
  unfolding lossless_def by metis

section \<open>The classifiers\<close>


text \<open>\<open>LinkState\<close> in \<open>src/src/model.rs\<close>.\<close>

datatype LinkState =
    LinkState_Up | LinkState_Down | LinkState_Other string

definition LinkState_table :: "(string \<times> LinkState) list" where
  "LinkState_table =
     [(''up'', LinkState_Up), (''down'', LinkState_Down)]"

fun LinkState_as_str :: "LinkState \<Rightarrow> string" where
  "LinkState_as_str LinkState_Up = ''up''"
| "LinkState_as_str LinkState_Down = ''down''"
| "LinkState_as_str (LinkState_Other value) = value"

definition LinkState_from :: "string \<Rightarrow> LinkState" where
  "LinkState_from value = open_enum_from LinkState_table LinkState_Other value"

interpretation LinkState_enum:
  open_enum LinkState_table LinkState_Other LinkState_as_str LinkState_from
proof
  show "v \<in> snd ` set LinkState_table \<union> range LinkState_Other" for v
    by (cases v) (simp_all add: LinkState_table_def)
qed (auto simp: LinkState_table_def LinkState_from_def)

text \<open>\<open>InterfaceState\<close> in \<open>src/src/model.rs\<close>.\<close>

datatype InterfaceState =
    InterfaceState_Up | InterfaceState_Down | InterfaceState_Other string

definition InterfaceState_table :: "(string \<times> InterfaceState) list" where
  "InterfaceState_table =
     [(''up'', InterfaceState_Up), (''down'', InterfaceState_Down)]"

fun InterfaceState_as_str :: "InterfaceState \<Rightarrow> string" where
  "InterfaceState_as_str InterfaceState_Up = ''up''"
| "InterfaceState_as_str InterfaceState_Down = ''down''"
| "InterfaceState_as_str (InterfaceState_Other value) = value"

definition InterfaceState_from :: "string \<Rightarrow> InterfaceState" where
  "InterfaceState_from value = open_enum_from InterfaceState_table InterfaceState_Other value"

interpretation InterfaceState_enum:
  open_enum InterfaceState_table InterfaceState_Other InterfaceState_as_str InterfaceState_from
proof
  show "v \<in> snd ` set InterfaceState_table \<union> range InterfaceState_Other" for v
    by (cases v) (simp_all add: InterfaceState_table_def)
qed (auto simp: InterfaceState_table_def InterfaceState_from_def)

text \<open>\<open>InterfaceLayerState\<close> in \<open>src/src/model.rs\<close>.\<close>

datatype InterfaceLayerState =
    InterfaceLayerState_Running | InterfaceLayerState_Pending | InterfaceLayerState_Disabled |
    InterfaceLayerState_Other string

definition InterfaceLayerState_table :: "(string \<times> InterfaceLayerState) list" where
  "InterfaceLayerState_table =
     [(''running'', InterfaceLayerState_Running), (''pending'', InterfaceLayerState_Pending),
      (''disabled'', InterfaceLayerState_Disabled)]"

fun InterfaceLayerState_as_str :: "InterfaceLayerState \<Rightarrow> string" where
  "InterfaceLayerState_as_str InterfaceLayerState_Running = ''running''"
| "InterfaceLayerState_as_str InterfaceLayerState_Pending = ''pending''"
| "InterfaceLayerState_as_str InterfaceLayerState_Disabled = ''disabled''"
| "InterfaceLayerState_as_str (InterfaceLayerState_Other value) = value"

definition InterfaceLayerState_from :: "string \<Rightarrow> InterfaceLayerState" where
  "InterfaceLayerState_from value = open_enum_from InterfaceLayerState_table InterfaceLayerState_Other value"

interpretation InterfaceLayerState_enum:
  open_enum InterfaceLayerState_table InterfaceLayerState_Other InterfaceLayerState_as_str InterfaceLayerState_from
proof
  show "v \<in> snd ` set InterfaceLayerState_table \<union> range InterfaceLayerState_Other" for v
    by (cases v) (simp_all add: InterfaceLayerState_table_def)
qed (auto simp: InterfaceLayerState_table_def InterfaceLayerState_from_def)

text \<open>\<open>InterfaceKind\<close> in \<open>src/src/model.rs\<close>.\<close>

datatype InterfaceKind =
    InterfaceKind_Bridge | InterfaceKind_Port | InterfaceKind_GigabitEthernet |
    InterfaceKind_Wifi | InterfaceKind_UsbLte | InterfaceKind_UsbQmi |
    InterfaceKind_Other string

definition InterfaceKind_table :: "(string \<times> InterfaceKind) list" where
  "InterfaceKind_table =
     [(''Bridge'', InterfaceKind_Bridge), (''Port'', InterfaceKind_Port),
      (''GigabitEthernet'', InterfaceKind_GigabitEthernet), (''Wifi'', InterfaceKind_Wifi),
      (''UsbLte'', InterfaceKind_UsbLte), (''UsbQmi'', InterfaceKind_UsbQmi)]"

fun InterfaceKind_as_str :: "InterfaceKind \<Rightarrow> string" where
  "InterfaceKind_as_str InterfaceKind_Bridge = ''Bridge''"
| "InterfaceKind_as_str InterfaceKind_Port = ''Port''"
| "InterfaceKind_as_str InterfaceKind_GigabitEthernet = ''GigabitEthernet''"
| "InterfaceKind_as_str InterfaceKind_Wifi = ''Wifi''"
| "InterfaceKind_as_str InterfaceKind_UsbLte = ''UsbLte''"
| "InterfaceKind_as_str InterfaceKind_UsbQmi = ''UsbQmi''"
| "InterfaceKind_as_str (InterfaceKind_Other value) = value"

definition InterfaceKind_from :: "string \<Rightarrow> InterfaceKind" where
  "InterfaceKind_from value = open_enum_from InterfaceKind_table InterfaceKind_Other value"

interpretation InterfaceKind_enum:
  open_enum InterfaceKind_table InterfaceKind_Other InterfaceKind_as_str InterfaceKind_from
proof
  show "v \<in> snd ` set InterfaceKind_table \<union> range InterfaceKind_Other" for v
    by (cases v) (simp_all add: InterfaceKind_table_def)
qed (auto simp: InterfaceKind_table_def InterfaceKind_from_def)

text \<open>\<open>InterfaceTrait\<close> in \<open>src/src/model.rs\<close>.\<close>

datatype InterfaceTrait =
    InterfaceTrait_Mobile | InterfaceTrait_UsbLte | InterfaceTrait_UsbQmi | InterfaceTrait_Ip |
    InterfaceTrait_Ip6 | InterfaceTrait_Other string

definition InterfaceTrait_table :: "(string \<times> InterfaceTrait) list" where
  "InterfaceTrait_table =
     [(''Mobile'', InterfaceTrait_Mobile), (''UsbLte'', InterfaceTrait_UsbLte),
      (''UsbQmi'', InterfaceTrait_UsbQmi), (''Ip'', InterfaceTrait_Ip),
      (''Ip6'', InterfaceTrait_Ip6)]"

fun InterfaceTrait_as_str :: "InterfaceTrait \<Rightarrow> string" where
  "InterfaceTrait_as_str InterfaceTrait_Mobile = ''Mobile''"
| "InterfaceTrait_as_str InterfaceTrait_UsbLte = ''UsbLte''"
| "InterfaceTrait_as_str InterfaceTrait_UsbQmi = ''UsbQmi''"
| "InterfaceTrait_as_str InterfaceTrait_Ip = ''Ip''"
| "InterfaceTrait_as_str InterfaceTrait_Ip6 = ''Ip6''"
| "InterfaceTrait_as_str (InterfaceTrait_Other value) = value"

definition InterfaceTrait_from :: "string \<Rightarrow> InterfaceTrait" where
  "InterfaceTrait_from value = open_enum_from InterfaceTrait_table InterfaceTrait_Other value"

interpretation InterfaceTrait_enum:
  open_enum InterfaceTrait_table InterfaceTrait_Other InterfaceTrait_as_str InterfaceTrait_from
proof
  show "v \<in> snd ` set InterfaceTrait_table \<union> range InterfaceTrait_Other" for v
    by (cases v) (simp_all add: InterfaceTrait_table_def)
qed (auto simp: InterfaceTrait_table_def InterfaceTrait_from_def)

text \<open>\<open>WifiMode\<close> in \<open>src/src/model/wifi.rs\<close>.\<close>

datatype WifiMode =
    WifiMode_B | WifiMode_G | WifiMode_N | WifiMode_Ac | WifiMode_Ax | WifiMode_Other string

definition WifiMode_table :: "(string \<times> WifiMode) list" where
  "WifiMode_table =
     [(''11b'', WifiMode_B), (''11g'', WifiMode_G), (''11n'', WifiMode_N),
      (''11ac'', WifiMode_Ac), (''11ax'', WifiMode_Ax)]"

fun WifiMode_as_str :: "WifiMode \<Rightarrow> string" where
  "WifiMode_as_str WifiMode_B = ''11b''"
| "WifiMode_as_str WifiMode_G = ''11g''"
| "WifiMode_as_str WifiMode_N = ''11n''"
| "WifiMode_as_str WifiMode_Ac = ''11ac''"
| "WifiMode_as_str WifiMode_Ax = ''11ax''"
| "WifiMode_as_str (WifiMode_Other value) = value"

definition WifiMode_from :: "string \<Rightarrow> WifiMode" where
  "WifiMode_from value = open_enum_from WifiMode_table WifiMode_Other value"

interpretation WifiMode_enum:
  open_enum WifiMode_table WifiMode_Other WifiMode_as_str WifiMode_from
proof
  show "v \<in> snd ` set WifiMode_table \<union> range WifiMode_Other" for v
    by (cases v) (simp_all add: WifiMode_table_def)
qed (auto simp: WifiMode_table_def WifiMode_from_def)

text \<open>\<open>WifiSecurity\<close> in \<open>src/src/model/wifi.rs\<close>.\<close>

datatype WifiSecurity =
    WifiSecurity_Open | WifiSecurity_Wpa2Psk | WifiSecurity_Wpa3Psk | WifiSecurity_Wpa2Wpa3Psk |
    WifiSecurity_Other string

definition WifiSecurity_table :: "(string \<times> WifiSecurity) list" where
  "WifiSecurity_table =
     [(''open'', WifiSecurity_Open), (''wpa2-psk'', WifiSecurity_Wpa2Psk),
      (''wpa3-psk'', WifiSecurity_Wpa3Psk), (''wpa2-wpa3-psk'', WifiSecurity_Wpa2Wpa3Psk)]"

fun WifiSecurity_as_str :: "WifiSecurity \<Rightarrow> string" where
  "WifiSecurity_as_str WifiSecurity_Open = ''open''"
| "WifiSecurity_as_str WifiSecurity_Wpa2Psk = ''wpa2-psk''"
| "WifiSecurity_as_str WifiSecurity_Wpa3Psk = ''wpa3-psk''"
| "WifiSecurity_as_str WifiSecurity_Wpa2Wpa3Psk = ''wpa2-wpa3-psk''"
| "WifiSecurity_as_str (WifiSecurity_Other value) = value"

definition WifiSecurity_from :: "string \<Rightarrow> WifiSecurity" where
  "WifiSecurity_from value = open_enum_from WifiSecurity_table WifiSecurity_Other value"

interpretation WifiSecurity_enum:
  open_enum WifiSecurity_table WifiSecurity_Other WifiSecurity_as_str WifiSecurity_from
proof
  show "v \<in> snd ` set WifiSecurity_table \<union> range WifiSecurity_Other" for v
    by (cases v) (simp_all add: WifiSecurity_table_def)
qed (auto simp: WifiSecurity_table_def WifiSecurity_from_def)

text \<open>\<open>Architecture\<close> in \<open>src/src/model/version.rs\<close>.\<close>

datatype Architecture =
    Architecture_Mips | Architecture_Aarch64 | Architecture_Other string

definition Architecture_table :: "(string \<times> Architecture) list" where
  "Architecture_table =
     [(''mips'', Architecture_Mips), (''aarch64'', Architecture_Aarch64)]"

fun Architecture_as_str :: "Architecture \<Rightarrow> string" where
  "Architecture_as_str Architecture_Mips = ''mips''"
| "Architecture_as_str Architecture_Aarch64 = ''aarch64''"
| "Architecture_as_str (Architecture_Other value) = value"

definition Architecture_from :: "string \<Rightarrow> Architecture" where
  "Architecture_from value = open_enum_from Architecture_table Architecture_Other value"

interpretation Architecture_enum:
  open_enum Architecture_table Architecture_Other Architecture_as_str Architecture_from
proof
  show "v \<in> snd ` set Architecture_table \<union> range Architecture_Other" for v
    by (cases v) (simp_all add: Architecture_table_def)
qed (auto simp: Architecture_table_def Architecture_from_def)

text \<open>\<open>FirmwareChannel\<close> in \<open>src/src/model/version.rs\<close>.\<close>

datatype FirmwareChannel =
    FirmwareChannel_Stable | FirmwareChannel_Other string

definition FirmwareChannel_table :: "(string \<times> FirmwareChannel) list" where
  "FirmwareChannel_table =
     [(''stable'', FirmwareChannel_Stable)]"

fun FirmwareChannel_as_str :: "FirmwareChannel \<Rightarrow> string" where
  "FirmwareChannel_as_str FirmwareChannel_Stable = ''stable''"
| "FirmwareChannel_as_str (FirmwareChannel_Other value) = value"

definition FirmwareChannel_from :: "string \<Rightarrow> FirmwareChannel" where
  "FirmwareChannel_from value = open_enum_from FirmwareChannel_table FirmwareChannel_Other value"

interpretation FirmwareChannel_enum:
  open_enum FirmwareChannel_table FirmwareChannel_Other FirmwareChannel_as_str FirmwareChannel_from
proof
  show "v \<in> snd ` set FirmwareChannel_table \<union> range FirmwareChannel_Other" for v
    by (cases v) (simp_all add: FirmwareChannel_table_def)
qed (auto simp: FirmwareChannel_table_def FirmwareChannel_from_def)

text \<open>\<open>HardwareType\<close> in \<open>src/src/model/version.rs\<close>.\<close>

datatype HardwareType =
    HardwareType_Router | HardwareType_Extender | HardwareType_Other string

definition HardwareType_table :: "(string \<times> HardwareType) list" where
  "HardwareType_table =
     [(''router'', HardwareType_Router), (''extender'', HardwareType_Extender)]"

fun HardwareType_as_str :: "HardwareType \<Rightarrow> string" where
  "HardwareType_as_str HardwareType_Router = ''router''"
| "HardwareType_as_str HardwareType_Extender = ''extender''"
| "HardwareType_as_str (HardwareType_Other value) = value"

definition HardwareType_from :: "string \<Rightarrow> HardwareType" where
  "HardwareType_from value = open_enum_from HardwareType_table HardwareType_Other value"

interpretation HardwareType_enum:
  open_enum HardwareType_table HardwareType_Other HardwareType_as_str HardwareType_from
proof
  show "v \<in> snd ` set HardwareType_table \<union> range HardwareType_Other" for v
    by (cases v) (simp_all add: HardwareType_table_def)
qed (auto simp: HardwareType_table_def HardwareType_from_def)

text \<open>\<open>UsbSubsystem\<close> in \<open>src/src/model/storage.rs\<close>.\<close>

datatype UsbSubsystem =
    UsbSubsystem_Network | UsbSubsystem_Storage | UsbSubsystem_Printer |
    UsbSubsystem_Other string

definition UsbSubsystem_table :: "(string \<times> UsbSubsystem) list" where
  "UsbSubsystem_table =
     [(''network'', UsbSubsystem_Network), (''storage'', UsbSubsystem_Storage),
      (''printer'', UsbSubsystem_Printer)]"

fun UsbSubsystem_as_str :: "UsbSubsystem \<Rightarrow> string" where
  "UsbSubsystem_as_str UsbSubsystem_Network = ''network''"
| "UsbSubsystem_as_str UsbSubsystem_Storage = ''storage''"
| "UsbSubsystem_as_str UsbSubsystem_Printer = ''printer''"
| "UsbSubsystem_as_str (UsbSubsystem_Other value) = value"

definition UsbSubsystem_from :: "string \<Rightarrow> UsbSubsystem" where
  "UsbSubsystem_from value = open_enum_from UsbSubsystem_table UsbSubsystem_Other value"

interpretation UsbSubsystem_enum:
  open_enum UsbSubsystem_table UsbSubsystem_Other UsbSubsystem_as_str UsbSubsystem_from
proof
  show "v \<in> snd ` set UsbSubsystem_table \<union> range UsbSubsystem_Other" for v
    by (cases v) (simp_all add: UsbSubsystem_table_def)
qed (auto simp: UsbSubsystem_table_def UsbSubsystem_from_def)

text \<open>\<open>UsbVersion\<close> in \<open>src/src/model/storage.rs\<close>.\<close>

datatype UsbVersion =
    UsbVersion_V1_0 | UsbVersion_V1_1 | UsbVersion_V2_0 | UsbVersion_V2_01 | UsbVersion_V3_0 |
    UsbVersion_V3_1 | UsbVersion_V3_2 | UsbVersion_Other string

definition UsbVersion_table :: "(string \<times> UsbVersion) list" where
  "UsbVersion_table =
     [(''1.00'', UsbVersion_V1_0), (''1.10'', UsbVersion_V1_1), (''2.00'', UsbVersion_V2_0),
      (''2.01'', UsbVersion_V2_01), (''3.00'', UsbVersion_V3_0), (''3.10'', UsbVersion_V3_1),
      (''3.20'', UsbVersion_V3_2)]"

fun UsbVersion_as_str :: "UsbVersion \<Rightarrow> string" where
  "UsbVersion_as_str UsbVersion_V1_0 = ''1.00''"
| "UsbVersion_as_str UsbVersion_V1_1 = ''1.10''"
| "UsbVersion_as_str UsbVersion_V2_0 = ''2.00''"
| "UsbVersion_as_str UsbVersion_V2_01 = ''2.01''"
| "UsbVersion_as_str UsbVersion_V3_0 = ''3.00''"
| "UsbVersion_as_str UsbVersion_V3_1 = ''3.10''"
| "UsbVersion_as_str UsbVersion_V3_2 = ''3.20''"
| "UsbVersion_as_str (UsbVersion_Other value) = value"

definition UsbVersion_from :: "string \<Rightarrow> UsbVersion" where
  "UsbVersion_from value = open_enum_from UsbVersion_table UsbVersion_Other value"

interpretation UsbVersion_enum:
  open_enum UsbVersion_table UsbVersion_Other UsbVersion_as_str UsbVersion_from
proof
  show "v \<in> snd ` set UsbVersion_table \<union> range UsbVersion_Other" for v
    by (cases v) (simp_all add: UsbVersion_table_def)
qed (auto simp: UsbVersion_table_def UsbVersion_from_def)

text \<open>\<open>UsbPowerControl\<close> in \<open>src/src/model/storage.rs\<close>.\<close>

datatype UsbPowerControl =
    UsbPowerControl_Enabled | UsbPowerControl_Disabled | UsbPowerControl_Other string

definition UsbPowerControl_table :: "(string \<times> UsbPowerControl) list" where
  "UsbPowerControl_table =
     [(''yes'', UsbPowerControl_Enabled), (''no'', UsbPowerControl_Disabled)]"

fun UsbPowerControl_as_str :: "UsbPowerControl \<Rightarrow> string" where
  "UsbPowerControl_as_str UsbPowerControl_Enabled = ''yes''"
| "UsbPowerControl_as_str UsbPowerControl_Disabled = ''no''"
| "UsbPowerControl_as_str (UsbPowerControl_Other value) = value"

definition UsbPowerControl_from :: "string \<Rightarrow> UsbPowerControl" where
  "UsbPowerControl_from value = open_enum_from UsbPowerControl_table UsbPowerControl_Other value"

interpretation UsbPowerControl_enum:
  open_enum UsbPowerControl_table UsbPowerControl_Other UsbPowerControl_as_str UsbPowerControl_from
proof
  show "v \<in> snd ` set UsbPowerControl_table \<union> range UsbPowerControl_Other" for v
    by (cases v) (simp_all add: UsbPowerControl_table_def)
qed (auto simp: UsbPowerControl_table_def UsbPowerControl_from_def)

text \<open>\<open>MediaBus\<close> in \<open>src/src/model/storage.rs\<close>.\<close>

datatype MediaBus =
    MediaBus_Usb | MediaBus_Mtd | MediaBus_Other string

definition MediaBus_table :: "(string \<times> MediaBus) list" where
  "MediaBus_table =
     [(''usb'', MediaBus_Usb), (''mtd'', MediaBus_Mtd)]"

fun MediaBus_as_str :: "MediaBus \<Rightarrow> string" where
  "MediaBus_as_str MediaBus_Usb = ''usb''"
| "MediaBus_as_str MediaBus_Mtd = ''mtd''"
| "MediaBus_as_str (MediaBus_Other value) = value"

definition MediaBus_from :: "string \<Rightarrow> MediaBus" where
  "MediaBus_from value = open_enum_from MediaBus_table MediaBus_Other value"

interpretation MediaBus_enum:
  open_enum MediaBus_table MediaBus_Other MediaBus_as_str MediaBus_from
proof
  show "v \<in> snd ` set MediaBus_table \<union> range MediaBus_Other" for v
    by (cases v) (simp_all add: MediaBus_table_def)
qed (auto simp: MediaBus_table_def MediaBus_from_def)

text \<open>\<open>MediaState\<close> in \<open>src/src/model/storage.rs\<close>.\<close>

datatype MediaState =
    MediaState_Active | MediaState_Mounted | MediaState_Unmounted | MediaState_Error |
    MediaState_Other string

definition MediaState_table :: "(string \<times> MediaState) list" where
  "MediaState_table =
     [(''ACTIVE'', MediaState_Active), (''MOUNTED'', MediaState_Mounted),
      (''UNMOUNTED'', MediaState_Unmounted), (''ERROR'', MediaState_Error)]"

fun MediaState_as_str :: "MediaState \<Rightarrow> string" where
  "MediaState_as_str MediaState_Active = ''ACTIVE''"
| "MediaState_as_str MediaState_Mounted = ''MOUNTED''"
| "MediaState_as_str MediaState_Unmounted = ''UNMOUNTED''"
| "MediaState_as_str MediaState_Error = ''ERROR''"
| "MediaState_as_str (MediaState_Other value) = value"

definition MediaState_from :: "string \<Rightarrow> MediaState" where
  "MediaState_from value = open_enum_from MediaState_table MediaState_Other value"

interpretation MediaState_enum:
  open_enum MediaState_table MediaState_Other MediaState_as_str MediaState_from
proof
  show "v \<in> snd ` set MediaState_table \<union> range MediaState_Other" for v
    by (cases v) (simp_all add: MediaState_table_def)
qed (auto simp: MediaState_table_def MediaState_from_def)

text \<open>\<open>FileSystemType\<close> in \<open>src/src/model/storage.rs\<close>.\<close>

datatype FileSystemType =
    FileSystemType_Ext4 | FileSystemType_Ntfs | FileSystemType_Fat32 | FileSystemType_ExFat |
    FileSystemType_Ubifs | FileSystemType_Swap | FileSystemType_Other string

definition FileSystemType_table :: "(string \<times> FileSystemType) list" where
  "FileSystemType_table =
     [(''ext4'', FileSystemType_Ext4), (''ntfs'', FileSystemType_Ntfs),
      (''fat32'', FileSystemType_Fat32), (''exfat'', FileSystemType_ExFat),
      (''ubifs'', FileSystemType_Ubifs), (''swap'', FileSystemType_Swap)]"

fun FileSystemType_as_str :: "FileSystemType \<Rightarrow> string" where
  "FileSystemType_as_str FileSystemType_Ext4 = ''ext4''"
| "FileSystemType_as_str FileSystemType_Ntfs = ''ntfs''"
| "FileSystemType_as_str FileSystemType_Fat32 = ''fat32''"
| "FileSystemType_as_str FileSystemType_ExFat = ''exfat''"
| "FileSystemType_as_str FileSystemType_Ubifs = ''ubifs''"
| "FileSystemType_as_str FileSystemType_Swap = ''swap''"
| "FileSystemType_as_str (FileSystemType_Other value) = value"

definition FileSystemType_from :: "string \<Rightarrow> FileSystemType" where
  "FileSystemType_from value = open_enum_from FileSystemType_table FileSystemType_Other value"

interpretation FileSystemType_enum:
  open_enum FileSystemType_table FileSystemType_Other FileSystemType_as_str FileSystemType_from
proof
  show "v \<in> snd ` set FileSystemType_table \<union> range FileSystemType_Other" for v
    by (cases v) (simp_all add: FileSystemType_table_def)
qed (auto simp: FileSystemType_table_def FileSystemType_from_def)

text \<open>\<open>PingCheckMode\<close> in \<open>src/src/model/connectivity.rs\<close>.\<close>

datatype PingCheckMode =
    PingCheckMode_Icmp | PingCheckMode_Connect | PingCheckMode_Other string

definition PingCheckMode_table :: "(string \<times> PingCheckMode) list" where
  "PingCheckMode_table =
     [(''icmp'', PingCheckMode_Icmp), (''connect'', PingCheckMode_Connect)]"

fun PingCheckMode_as_str :: "PingCheckMode \<Rightarrow> string" where
  "PingCheckMode_as_str PingCheckMode_Icmp = ''icmp''"
| "PingCheckMode_as_str PingCheckMode_Connect = ''connect''"
| "PingCheckMode_as_str (PingCheckMode_Other value) = value"

definition PingCheckMode_from :: "string \<Rightarrow> PingCheckMode" where
  "PingCheckMode_from value = open_enum_from PingCheckMode_table PingCheckMode_Other value"

interpretation PingCheckMode_enum:
  open_enum PingCheckMode_table PingCheckMode_Other PingCheckMode_as_str PingCheckMode_from
proof
  show "v \<in> snd ` set PingCheckMode_table \<union> range PingCheckMode_Other" for v
    by (cases v) (simp_all add: PingCheckMode_table_def)
qed (auto simp: PingCheckMode_table_def PingCheckMode_from_def)

text \<open>\<open>PingCheckStatus\<close> in \<open>src/src/model/connectivity.rs\<close>.\<close>

datatype PingCheckStatus =
    PingCheckStatus_Pass | PingCheckStatus_Fail | PingCheckStatus_NotReady |
    PingCheckStatus_Other string

definition PingCheckStatus_table :: "(string \<times> PingCheckStatus) list" where
  "PingCheckStatus_table =
     [(''pass'', PingCheckStatus_Pass), (''fail'', PingCheckStatus_Fail),
      (''not ready'', PingCheckStatus_NotReady)]"

fun PingCheckStatus_as_str :: "PingCheckStatus \<Rightarrow> string" where
  "PingCheckStatus_as_str PingCheckStatus_Pass = ''pass''"
| "PingCheckStatus_as_str PingCheckStatus_Fail = ''fail''"
| "PingCheckStatus_as_str PingCheckStatus_NotReady = ''not ready''"
| "PingCheckStatus_as_str (PingCheckStatus_Other value) = value"

definition PingCheckStatus_from :: "string \<Rightarrow> PingCheckStatus" where
  "PingCheckStatus_from value = open_enum_from PingCheckStatus_table PingCheckStatus_Other value"

interpretation PingCheckStatus_enum:
  open_enum PingCheckStatus_table PingCheckStatus_Other PingCheckStatus_as_str PingCheckStatus_from
proof
  show "v \<in> snd ` set PingCheckStatus_table \<union> range PingCheckStatus_Other" for v
    by (cases v) (simp_all add: PingCheckStatus_table_def)
qed (auto simp: PingCheckStatus_table_def PingCheckStatus_from_def)

text \<open>\<open>RadioAccessTechnology\<close> in \<open>src/src/model/mobile.rs\<close>.\<close>

datatype RadioAccessTechnology =
    RadioAccessTechnology_G2 | RadioAccessTechnology_G3 | RadioAccessTechnology_G4 |
    RadioAccessTechnology_G4Plus | RadioAccessTechnology_G5 | RadioAccessTechnology_Other string

definition RadioAccessTechnology_table :: "(string \<times> RadioAccessTechnology) list" where
  "RadioAccessTechnology_table =
     [(''2G'', RadioAccessTechnology_G2), (''3G'', RadioAccessTechnology_G3),
      (''4G'', RadioAccessTechnology_G4), (''4G+'', RadioAccessTechnology_G4Plus),
      (''5G'', RadioAccessTechnology_G5)]"

fun RadioAccessTechnology_as_str :: "RadioAccessTechnology \<Rightarrow> string" where
  "RadioAccessTechnology_as_str RadioAccessTechnology_G2 = ''2G''"
| "RadioAccessTechnology_as_str RadioAccessTechnology_G3 = ''3G''"
| "RadioAccessTechnology_as_str RadioAccessTechnology_G4 = ''4G''"
| "RadioAccessTechnology_as_str RadioAccessTechnology_G4Plus = ''4G+''"
| "RadioAccessTechnology_as_str RadioAccessTechnology_G5 = ''5G''"
| "RadioAccessTechnology_as_str (RadioAccessTechnology_Other value) = value"

definition RadioAccessTechnology_from :: "string \<Rightarrow> RadioAccessTechnology" where
  "RadioAccessTechnology_from value = open_enum_from RadioAccessTechnology_table RadioAccessTechnology_Other value"

interpretation RadioAccessTechnology_enum:
  open_enum RadioAccessTechnology_table RadioAccessTechnology_Other RadioAccessTechnology_as_str RadioAccessTechnology_from
proof
  show "v \<in> snd ` set RadioAccessTechnology_table \<union> range RadioAccessTechnology_Other" for v
    by (cases v) (simp_all add: RadioAccessTechnology_table_def)
qed (auto simp: RadioAccessTechnology_table_def RadioAccessTechnology_from_def)

text \<open>\<open>SystemOperatingMode\<close> in \<open>src/src/model/system_mode.rs\<close>.\<close>

datatype SystemOperatingMode =
    SystemOperatingMode_Router | SystemOperatingMode_Extender | SystemOperatingMode_AccessPoint |
    SystemOperatingMode_Adapter | SystemOperatingMode_Other string

definition SystemOperatingMode_table :: "(string \<times> SystemOperatingMode) list" where
  "SystemOperatingMode_table =
     [(''router'', SystemOperatingMode_Router), (''extender'', SystemOperatingMode_Extender),
      (''access-point'', SystemOperatingMode_AccessPoint),
      (''adapter'', SystemOperatingMode_Adapter)]"

fun SystemOperatingMode_as_str :: "SystemOperatingMode \<Rightarrow> string" where
  "SystemOperatingMode_as_str SystemOperatingMode_Router = ''router''"
| "SystemOperatingMode_as_str SystemOperatingMode_Extender = ''extender''"
| "SystemOperatingMode_as_str SystemOperatingMode_AccessPoint = ''access-point''"
| "SystemOperatingMode_as_str SystemOperatingMode_Adapter = ''adapter''"
| "SystemOperatingMode_as_str (SystemOperatingMode_Other value) = value"

definition SystemOperatingMode_from :: "string \<Rightarrow> SystemOperatingMode" where
  "SystemOperatingMode_from value = open_enum_from SystemOperatingMode_table SystemOperatingMode_Other value"

interpretation SystemOperatingMode_enum:
  open_enum SystemOperatingMode_table SystemOperatingMode_Other SystemOperatingMode_as_str SystemOperatingMode_from
proof
  show "v \<in> snd ` set SystemOperatingMode_table \<union> range SystemOperatingMode_Other" for v
    by (cases v) (simp_all add: SystemOperatingMode_table_def)
qed (auto simp: SystemOperatingMode_table_def SystemOperatingMode_from_def)

text \<open>\<open>ArpState\<close> in \<open>src/src/model/ip.rs\<close>.\<close>

datatype ArpState =
    ArpState_Incomplete | ArpState_Reachable | ArpState_Stale | ArpState_Delay | ArpState_Probe |
    ArpState_Failed | ArpState_Permanent | ArpState_Other string

definition ArpState_table :: "(string \<times> ArpState) list" where
  "ArpState_table =
     [(''INCOMPLETE'', ArpState_Incomplete), (''REACHABLE'', ArpState_Reachable),
      (''STALE'', ArpState_Stale), (''DELAY'', ArpState_Delay), (''PROBE'', ArpState_Probe),
      (''FAILED'', ArpState_Failed), (''PERMANENT'', ArpState_Permanent)]"

fun ArpState_as_str :: "ArpState \<Rightarrow> string" where
  "ArpState_as_str ArpState_Incomplete = ''INCOMPLETE''"
| "ArpState_as_str ArpState_Reachable = ''REACHABLE''"
| "ArpState_as_str ArpState_Stale = ''STALE''"
| "ArpState_as_str ArpState_Delay = ''DELAY''"
| "ArpState_as_str ArpState_Probe = ''PROBE''"
| "ArpState_as_str ArpState_Failed = ''FAILED''"
| "ArpState_as_str ArpState_Permanent = ''PERMANENT''"
| "ArpState_as_str (ArpState_Other value) = value"

definition ArpState_from :: "string \<Rightarrow> ArpState" where
  "ArpState_from value = open_enum_from ArpState_table ArpState_Other value"

interpretation ArpState_enum:
  open_enum ArpState_table ArpState_Other ArpState_as_str ArpState_from
proof
  show "v \<in> snd ` set ArpState_table \<union> range ArpState_Other" for v
    by (cases v) (simp_all add: ArpState_table_def)
qed (auto simp: ArpState_table_def ArpState_from_def)

text \<open>\<open>DhcpBindingMode\<close> in \<open>src/src/model/ip.rs\<close>.\<close>

datatype DhcpBindingMode =
    DhcpBindingMode_Extender | DhcpBindingMode_Other string

definition DhcpBindingMode_table :: "(string \<times> DhcpBindingMode) list" where
  "DhcpBindingMode_table =
     [(''extender'', DhcpBindingMode_Extender)]"

fun DhcpBindingMode_as_str :: "DhcpBindingMode \<Rightarrow> string" where
  "DhcpBindingMode_as_str DhcpBindingMode_Extender = ''extender''"
| "DhcpBindingMode_as_str (DhcpBindingMode_Other value) = value"

definition DhcpBindingMode_from :: "string \<Rightarrow> DhcpBindingMode" where
  "DhcpBindingMode_from value = open_enum_from DhcpBindingMode_table DhcpBindingMode_Other value"

interpretation DhcpBindingMode_enum:
  open_enum DhcpBindingMode_table DhcpBindingMode_Other DhcpBindingMode_as_str DhcpBindingMode_from
proof
  show "v \<in> snd ` set DhcpBindingMode_table \<union> range DhcpBindingMode_Other" for v
    by (cases v) (simp_all add: DhcpBindingMode_table_def)
qed (auto simp: DhcpBindingMode_table_def DhcpBindingMode_from_def)

text \<open>\<open>RouteProtocol\<close> in \<open>src/src/model/routing.rs\<close>.\<close>

datatype RouteProtocol =
    RouteProtocol_Boot | RouteProtocol_Kernel | RouteProtocol_Static |
    RouteProtocol_Other string

definition RouteProtocol_table :: "(string \<times> RouteProtocol) list" where
  "RouteProtocol_table =
     [(''boot'', RouteProtocol_Boot), (''kernel'', RouteProtocol_Kernel),
      (''static'', RouteProtocol_Static)]"

fun RouteProtocol_as_str :: "RouteProtocol \<Rightarrow> string" where
  "RouteProtocol_as_str RouteProtocol_Boot = ''boot''"
| "RouteProtocol_as_str RouteProtocol_Kernel = ''kernel''"
| "RouteProtocol_as_str RouteProtocol_Static = ''static''"
| "RouteProtocol_as_str (RouteProtocol_Other value) = value"

definition RouteProtocol_from :: "string \<Rightarrow> RouteProtocol" where
  "RouteProtocol_from value = open_enum_from RouteProtocol_table RouteProtocol_Other value"

interpretation RouteProtocol_enum:
  open_enum RouteProtocol_table RouteProtocol_Other RouteProtocol_as_str RouteProtocol_from
proof
  show "v \<in> snd ` set RouteProtocol_table \<union> range RouteProtocol_Other" for v
    by (cases v) (simp_all add: RouteProtocol_table_def)
qed (auto simp: RouteProtocol_table_def RouteProtocol_from_def)

text \<open>\<open>HotspotAccess\<close> in \<open>src/src/model/hotspot.rs\<close>.\<close>

datatype HotspotAccess =
    HotspotAccess_Permit | HotspotAccess_Deny | HotspotAccess_Other string

definition HotspotAccess_table :: "(string \<times> HotspotAccess) list" where
  "HotspotAccess_table =
     [(''permit'', HotspotAccess_Permit), (''deny'', HotspotAccess_Deny)]"

fun HotspotAccess_as_str :: "HotspotAccess \<Rightarrow> string" where
  "HotspotAccess_as_str HotspotAccess_Permit = ''permit''"
| "HotspotAccess_as_str HotspotAccess_Deny = ''deny''"
| "HotspotAccess_as_str (HotspotAccess_Other value) = value"

definition HotspotAccess_from :: "string \<Rightarrow> HotspotAccess" where
  "HotspotAccess_from value = open_enum_from HotspotAccess_table HotspotAccess_Other value"

interpretation HotspotAccess_enum:
  open_enum HotspotAccess_table HotspotAccess_Other HotspotAccess_as_str HotspotAccess_from
proof
  show "v \<in> snd ` set HotspotAccess_table \<union> range HotspotAccess_Other" for v
    by (cases v) (simp_all add: HotspotAccess_table_def)
qed (auto simp: HotspotAccess_table_def HotspotAccess_from_def)

text \<open>\<open>TrafficShapeMode\<close> in \<open>src/src/model/hotspot.rs\<close>.\<close>

datatype TrafficShapeMode =
    TrafficShapeMode_Mac | TrafficShapeMode_Other string

definition TrafficShapeMode_table :: "(string \<times> TrafficShapeMode) list" where
  "TrafficShapeMode_table =
     [(''mac'', TrafficShapeMode_Mac)]"

fun TrafficShapeMode_as_str :: "TrafficShapeMode \<Rightarrow> string" where
  "TrafficShapeMode_as_str TrafficShapeMode_Mac = ''mac''"
| "TrafficShapeMode_as_str (TrafficShapeMode_Other value) = value"

definition TrafficShapeMode_from :: "string \<Rightarrow> TrafficShapeMode" where
  "TrafficShapeMode_from value = open_enum_from TrafficShapeMode_table TrafficShapeMode_Other value"

interpretation TrafficShapeMode_enum:
  open_enum TrafficShapeMode_table TrafficShapeMode_Other TrafficShapeMode_as_str TrafficShapeMode_from
proof
  show "v \<in> snd ` set TrafficShapeMode_table \<union> range TrafficShapeMode_Other" for v
    by (cases v) (simp_all add: TrafficShapeMode_table_def)
qed (auto simp: TrafficShapeMode_table_def TrafficShapeMode_from_def)

section \<open>Properties\<close>

lemmas open_enum_tables =
  LinkState_table_def
  InterfaceState_table_def
  InterfaceLayerState_table_def
  InterfaceKind_table_def
  InterfaceTrait_table_def
  WifiMode_table_def
  WifiSecurity_table_def
  Architecture_table_def
  FirmwareChannel_table_def
  HardwareType_table_def
  UsbSubsystem_table_def
  UsbVersion_table_def
  UsbPowerControl_table_def
  MediaBus_table_def
  MediaState_table_def
  FileSystemType_table_def
  PingCheckMode_table_def
  PingCheckStatus_table_def
  RadioAccessTechnology_table_def
  SystemOperatingMode_table_def
  ArpState_table_def
  DhcpBindingMode_table_def
  RouteProtocol_table_def
  HotspotAccess_table_def
  TrafficShapeMode_table_def

lemmas open_enum_laws =
  LinkState_enum.open_enum_axioms
  InterfaceState_enum.open_enum_axioms
  InterfaceLayerState_enum.open_enum_axioms
  InterfaceKind_enum.open_enum_axioms
  InterfaceTrait_enum.open_enum_axioms
  WifiMode_enum.open_enum_axioms
  WifiSecurity_enum.open_enum_axioms
  Architecture_enum.open_enum_axioms
  FirmwareChannel_enum.open_enum_axioms
  HardwareType_enum.open_enum_axioms
  UsbSubsystem_enum.open_enum_axioms
  UsbVersion_enum.open_enum_axioms
  UsbPowerControl_enum.open_enum_axioms
  MediaBus_enum.open_enum_axioms
  MediaState_enum.open_enum_axioms
  FileSystemType_enum.open_enum_axioms
  PingCheckMode_enum.open_enum_axioms
  PingCheckStatus_enum.open_enum_axioms
  RadioAccessTechnology_enum.open_enum_axioms
  SystemOperatingMode_enum.open_enum_axioms
  ArpState_enum.open_enum_axioms
  DhcpBindingMode_enum.open_enum_axioms
  RouteProtocol_enum.open_enum_axioms
  HotspotAccess_enum.open_enum_axioms
  TrafficShapeMode_enum.open_enum_axioms

text \<open>C33: every router-defined classifier keeps the router's text: printing what was read gives back
  the wire string, a string is read as \<open>Other\<close> exactly when it is none of the type's known
  wire strings, and the only values that printing and reading changes are \<open>Other\<close> values that
  spell a known string.\<close>

theorem open_enums_lossless:
  "lossless LinkState_Other LinkState_as_str LinkState_from
        {''up'', ''down''}
   \<and> lossless InterfaceState_Other InterfaceState_as_str InterfaceState_from
        {''up'', ''down''}
   \<and> lossless InterfaceLayerState_Other InterfaceLayerState_as_str InterfaceLayerState_from
        {''running'', ''pending'', ''disabled''}
   \<and> lossless InterfaceKind_Other InterfaceKind_as_str InterfaceKind_from
        {''Bridge'', ''Port'', ''GigabitEthernet'', ''Wifi'', ''UsbLte'', ''UsbQmi''}
   \<and> lossless InterfaceTrait_Other InterfaceTrait_as_str InterfaceTrait_from
        {''Mobile'', ''UsbLte'', ''UsbQmi'', ''Ip'', ''Ip6''}
   \<and> lossless WifiMode_Other WifiMode_as_str WifiMode_from
        {''11b'', ''11g'', ''11n'', ''11ac'', ''11ax''}
   \<and> lossless WifiSecurity_Other WifiSecurity_as_str WifiSecurity_from
        {''open'', ''wpa2-psk'', ''wpa3-psk'', ''wpa2-wpa3-psk''}
   \<and> lossless Architecture_Other Architecture_as_str Architecture_from
        {''mips'', ''aarch64''}
   \<and> lossless FirmwareChannel_Other FirmwareChannel_as_str FirmwareChannel_from
        {''stable''}
   \<and> lossless HardwareType_Other HardwareType_as_str HardwareType_from
        {''router'', ''extender''}
   \<and> lossless UsbSubsystem_Other UsbSubsystem_as_str UsbSubsystem_from
        {''network'', ''storage'', ''printer''}
   \<and> lossless UsbVersion_Other UsbVersion_as_str UsbVersion_from
        {''1.00'', ''1.10'', ''2.00'', ''2.01'', ''3.00'', ''3.10'', ''3.20''}
   \<and> lossless UsbPowerControl_Other UsbPowerControl_as_str UsbPowerControl_from
        {''yes'', ''no''}
   \<and> lossless MediaBus_Other MediaBus_as_str MediaBus_from
        {''usb'', ''mtd''}
   \<and> lossless MediaState_Other MediaState_as_str MediaState_from
        {''ACTIVE'', ''MOUNTED'', ''UNMOUNTED'', ''ERROR''}
   \<and> lossless FileSystemType_Other FileSystemType_as_str FileSystemType_from
        {''ext4'', ''ntfs'', ''fat32'', ''exfat'', ''ubifs'', ''swap''}
   \<and> lossless PingCheckMode_Other PingCheckMode_as_str PingCheckMode_from
        {''icmp'', ''connect''}
   \<and> lossless PingCheckStatus_Other PingCheckStatus_as_str PingCheckStatus_from
        {''pass'', ''fail'', ''not ready''}
   \<and> lossless RadioAccessTechnology_Other RadioAccessTechnology_as_str RadioAccessTechnology_from
        {''2G'', ''3G'', ''4G'', ''4G+'', ''5G''}
   \<and> lossless SystemOperatingMode_Other SystemOperatingMode_as_str SystemOperatingMode_from
        {''router'', ''extender'', ''access-point'', ''adapter''}
   \<and> lossless ArpState_Other ArpState_as_str ArpState_from
        {''INCOMPLETE'', ''REACHABLE'', ''STALE'', ''DELAY'', ''PROBE'', ''FAILED'',
         ''PERMANENT''}
   \<and> lossless DhcpBindingMode_Other DhcpBindingMode_as_str DhcpBindingMode_from
        {''extender''}
   \<and> lossless RouteProtocol_Other RouteProtocol_as_str RouteProtocol_from
        {''boot'', ''kernel'', ''static''}
   \<and> lossless HotspotAccess_Other HotspotAccess_as_str HotspotAccess_from
        {''permit'', ''deny''}
   \<and> lossless TrafficShapeMode_Other TrafficShapeMode_as_str TrafficShapeMode_from
        {''mac''}"
  by (intro conjI; rule open_enum_lossless, rule open_enum_laws, simp only: open_enum_tables list.set image_insert image_empty fst_conv)

end
