(* ===== verification/Wire_Types.thy ===== *)
theory Wire_Types
  imports Wire Units Open_Enums String_Identifiers Reported
begin

text \<open>
  The field types of the response structs: the order of the map keys, the deserializers of the
  domain types on the wire, and the \<open>deserialize_with\<close> helpers of \<open>src/src/model.rs\<close>. The text
  forms that come from other crates or from \<open>std::net\<close> are the record \<open>formats\<close>.
\<close>

section \<open>Keys\<close>

text \<open>The newtypes derive \<open>Ord\<close>: their order is the order of what they wrap.\<close>

instantiation InterfaceId :: linorder
begin

definition less_eq_InterfaceId :: "InterfaceId \<Rightarrow> InterfaceId \<Rightarrow> bool" where
  "less_eq_InterfaceId a b \<longleftrightarrow> InterfaceId_as_str a \<le> InterfaceId_as_str b"

definition less_InterfaceId :: "InterfaceId \<Rightarrow> InterfaceId \<Rightarrow> bool" where
  "less_InterfaceId a b \<longleftrightarrow> InterfaceId_as_str a < InterfaceId_as_str b"

instance
  by standard (auto simp: less_eq_InterfaceId_def less_InterfaceId_def InterfaceId.expand)

end

instantiation UsbDeviceId :: linorder
begin

definition less_eq_UsbDeviceId :: "UsbDeviceId \<Rightarrow> UsbDeviceId \<Rightarrow> bool" where
  "less_eq_UsbDeviceId a b \<longleftrightarrow> UsbDeviceId_as_str a \<le> UsbDeviceId_as_str b"

definition less_UsbDeviceId :: "UsbDeviceId \<Rightarrow> UsbDeviceId \<Rightarrow> bool" where
  "less_UsbDeviceId a b \<longleftrightarrow> UsbDeviceId_as_str a < UsbDeviceId_as_str b"

instance
  by standard (auto simp: less_eq_UsbDeviceId_def less_UsbDeviceId_def UsbDeviceId.expand)

end

instantiation MediaId :: linorder
begin

definition less_eq_MediaId :: "MediaId \<Rightarrow> MediaId \<Rightarrow> bool" where
  "less_eq_MediaId a b \<longleftrightarrow> MediaId_as_str a \<le> MediaId_as_str b"

definition less_MediaId :: "MediaId \<Rightarrow> MediaId \<Rightarrow> bool" where
  "less_MediaId a b \<longleftrightarrow> MediaId_as_str a < MediaId_as_str b"

instance
  by standard (auto simp: less_eq_MediaId_def less_MediaId_def MediaId.expand)

end

instantiation PartitionId :: linorder
begin

definition less_eq_PartitionId :: "PartitionId \<Rightarrow> PartitionId \<Rightarrow> bool" where
  "less_eq_PartitionId a b \<longleftrightarrow> PartitionId_as_str a \<le> PartitionId_as_str b"

definition less_PartitionId :: "PartitionId \<Rightarrow> PartitionId \<Rightarrow> bool" where
  "less_PartitionId a b \<longleftrightarrow> PartitionId_as_str a < PartitionId_as_str b"

instance
  by standard (auto simp: less_eq_PartitionId_def less_PartitionId_def PartitionId.expand)

end

instantiation MacAddress :: linorder
begin

definition less_eq_MacAddress :: "MacAddress \<Rightarrow> MacAddress \<Rightarrow> bool" where
  "less_eq_MacAddress a b \<longleftrightarrow> octets a \<le> octets b"

definition less_MacAddress :: "MacAddress \<Rightarrow> MacAddress \<Rightarrow> bool" where
  "less_MacAddress a b \<longleftrightarrow> octets a < octets b"

instance
  by standard (auto simp: less_eq_MacAddress_def less_MacAddress_def MacAddress.expand)

end

section \<open>Text forms of other crates\<close>

text \<open>\<open>Ipv4Net\<close> and \<open>Ipv6Net\<close> of \<open>ipnet\<close> are an address and a prefix length.\<close>

type_synonym Ipv4Net = "Ipv4Addr \<times> u8"

type_synonym Ipv6Net = "Ipv6Addr \<times> u8"

record formats =
  parse_ip :: "string \<Rightarrow> IpAddr option"
  parse_ipv4 :: "string \<Rightarrow> Ipv4Addr option"
  parse_ipv6 :: "string \<Rightarrow> Ipv6Addr option"
  parse_ipv4net :: "string \<Rightarrow> Ipv4Net option"
  parse_ipv6net :: "string \<Rightarrow> Ipv6Net option"
  key_event :: "string \<Rightarrow> visit"

section \<open>Domain types\<close>

definition de_enum :: "(string \<Rightarrow> 'a) \<Rightarrow> 'a decode" where
  "de_enum from = visiting (open_enum_visit from :: (unit, 'a) visitor)"

definition de_identifier :: "(string \<Rightarrow> 'e + 't) \<Rightarrow> 't decode" where
  "de_identifier try_from = visiting (string_identifier_deserialize try_from)"

definition de_mac :: "MacAddress decode" where
  "de_mac = visiting MacAddress_visit"

definition de_host :: "formats \<Rightarrow> NetworkHost decode" where
  "de_host fm = visiting (NetworkHost_visit (parse_ip fm))"

definition de_uptime :: "Uptime decode" where
  "de_uptime = visiting Uptime_visit"

definition de_lease :: "LeaseExpiration decode" where
  "de_lease = visiting LeaseExpiration_visit"

definition de_newtype :: "('a \<Rightarrow> 'b) \<Rightarrow> 'a decode \<Rightarrow> 'b decode" where
  "de_newtype con de w = map_res con (de w)"

definition de_try_from :: "'a decode \<Rightarrow> ('a \<Rightarrow> 'e + 'b) \<Rightarrow> 'b decode" where
  "de_try_from de try_from w = bind_res (de w) (\<lambda>v. erase (map_err Custom (try_from v)))"

definition de_reported :: "(string \<Rightarrow> 'e + 't) \<Rightarrow> 't Reported decode" where
  "de_reported from_str = visiting (ReportedVisitor_visit from_str)"

section \<open>deserialize_with\<close>

definition optional_nonempty_string :: "string option decode" where
  "optional_nonempty_string w =
     map_res (\<lambda>value. case value of None \<Rightarrow> None | Some text \<Rightarrow> if text \<noteq> [] then Some text else None)
       (de_opt de_str w)"

definition optional_from_str :: "(string \<Rightarrow> 'e + 'a) \<Rightarrow> 'a option decode" where
  "optional_from_str from_str = visiting_option (OptionalFromStrVisitor_visit from_str)"

definition optional_reported :: "(string \<Rightarrow> 'e + 't) \<Rightarrow> 't Reported option decode" where
  "optional_reported from_str = visiting_option (OptionalReportedVisitor_visit from_str)"

definition de_optional_measurement :: "(f32 \<Rightarrow> 'e + 't) \<Rightarrow> 't option decode" where
  "de_optional_measurement try_from = visiting (optional_measurement try_from)"

definition de_measurement :: "(f32 \<Rightarrow> 'e + 't) \<Rightarrow> 't decode" where
  "de_measurement try_from = visiting (measurement try_from)"

definition de_mbps :: "DataRate decode" where
  "de_mbps = visiting (deserialize_mbps uint_visit)"

definition de_kbps :: "DataRate decode" where
  "de_kbps = visiting (deserialize_kbps uint_visit)"

definition de_optional_mbps :: "DataRate option decode" where
  "de_optional_mbps = visiting_option (deserialize_optional_mbps (option_visit uint_visit))"

definition de_optional_ipv4 :: "formats \<Rightarrow> Ipv4Addr option decode" where
  "de_optional_ipv4 fm w = map_res (\<lambda>address. if \<not> is_unspecified address then Some address else None)
     (de_text (parse_ipv4 fm) w)"

definition de_seconds :: "duration decode" where
  "de_seconds = visiting (deserialize_seconds uint_visit)"

definition de_optional_seconds :: "duration option decode" where
  "de_optional_seconds = visiting_option (deserialize_optional_seconds (option_visit uint_visit))"

definition de_decimal_duration :: "duration decode" where
  "de_decimal_duration = de_from_str parse_decimal_duration"

definition de_u64_string_or_number :: "u64 decode" where
  "de_u64_string_or_number = visiting U64Visitor"

definition de_optional_u8_string_or_number :: "u8 option decode" where
  "de_optional_u8_string_or_number = visiting_option OptionalU8Visitor"

definition parse_str :: "(string \<Rightarrow> 'a option) \<Rightarrow> string \<Rightarrow> unit + 'a" where
  "parse_str parse s = ok_or () (parse s)"

text \<open>What the string helpers do with each kind of input.\<close>

lemma optional_nonempty_string_str:
  "optional_nonempty_string (Scalar (Visit_str s)) = Inr (if s = [] then None else Some s)"
  by (simp add: optional_nonempty_string_def de_opt_def de_str_def visiting_def string_visit_def)

lemma optional_nonempty_string_null: "optional_nonempty_string (Scalar Visit_unit) = Inr None"
  by (simp add: optional_nonempty_string_def de_opt_def)

lemma optional_nonempty_string_nonempty: "optional_nonempty_string w = Inr (Some s) \<Longrightarrow> s \<noteq> []"
  by (auto simp: optional_nonempty_string_def res_simps split: option.splits if_splits)

end
