(* ===== verification/Interfaces.thy ===== *)
theory Interfaces
  imports Wire_Types
begin

text \<open>
  The interface responses of \<open>src/src/model.rs\<close>, with the constrained numbers of
  \<open>src/src/model/system.rs\<close> they use. Every struct is a record, the list of the entries it names and
  the \<open>visit_map\<close> that reads it; the interpretation of \<open>entry_decoder\<close> after it shows that nothing
  else of the response is read.
\<close>

lemmas decoder_simps = same_entries_def field_defs

section \<open>Constrained numbers\<close>

datatype CpuLoad = CpuLoad (percent: u8)

datatype InvalidCpuLoad = InvalidCpuLoad u8

definition CpuLoad_new :: "u8 \<Rightarrow> InvalidCpuLoad + CpuLoad" where
  "CpuLoad_new value = (if value \<le> 100 then Inr (CpuLoad value) else Inl (InvalidCpuLoad value))"

datatype Mtu = Mtu (Mtu_get: u16)

datatype InvalidMtu = InvalidMtu u16

definition Mtu_MIN :: u16 where "Mtu_MIN = 64"

definition Mtu_new :: "u16 \<Rightarrow> InvalidMtu + Mtu" where
  "Mtu_new value =
     (if value \<noteq> 0 \<and> Mtu_MIN \<le> value then Inr (Mtu value) else Inl (InvalidMtu value))"

section \<open>Interfaces\<close>

record InterfaceLayerSummary =
  ils_conf :: InterfaceLayerState
  ils_link :: "InterfaceLayerState option"
  ils_ctrl :: "InterfaceLayerState option"
  ils_ipv4 :: "InterfaceLayerState option"
  ils_ipv6 :: "InterfaceLayerState option"

definition InterfaceLayerSummary_fields :: "string list" where
  "InterfaceLayerSummary_fields =
     [''conf'', ''link'', ''ctrl'', ''ipv4'', ''ipv6'']"

definition InterfaceLayerSummary_visit_map :: "entries \<Rightarrow> InterfaceLayerSummary decoded" where
  "InterfaceLayerSummary_visit_map es =
     bind_res (required (de_enum InterfaceLayerState_from) ''conf'' es) (\<lambda>conf'.
     bind_res (optional (de_enum InterfaceLayerState_from) ''link'' es) (\<lambda>link'.
     bind_res (optional (de_enum InterfaceLayerState_from) ''ctrl'' es) (\<lambda>ctrl'.
     bind_res (optional (de_enum InterfaceLayerState_from) ''ipv4'' es) (\<lambda>ipv4'.
     bind_res (optional (de_enum InterfaceLayerState_from) ''ipv6'' es) (\<lambda>ipv6'.
     Inr \<lparr>ils_conf = conf', ils_link = link', ils_ctrl = ctrl', ils_ipv4 = ipv4',
       ils_ipv6 = ipv6'\<rparr>)))))"

interpretation InterfaceLayerSummary_entries: entry_decoder InterfaceLayerSummary_fields "InterfaceLayerSummary_visit_map"
  by unfold_locales (simp add: InterfaceLayerSummary_fields_def InterfaceLayerSummary_visit_map_def decoder_simps)

record InterfaceSummary =
  isu_layer :: InterfaceLayerSummary

definition InterfaceSummary_fields :: "string list" where
  "InterfaceSummary_fields =
     [''layer'']"

definition InterfaceSummary_visit_map :: "entries \<Rightarrow> InterfaceSummary decoded" where
  "InterfaceSummary_visit_map es =
     bind_res (required (de_struct InterfaceLayerSummary_fields 5 InterfaceLayerSummary_visit_map) ''layer'' es) (\<lambda>layer'.
     Inr \<lparr>isu_layer = layer'\<rparr>)"

interpretation InterfaceSummary_entries: entry_decoder InterfaceSummary_fields "InterfaceSummary_visit_map"
  by unfold_locales (simp add: InterfaceSummary_fields_def InterfaceSummary_visit_map_def decoder_simps)

record Interface =
  if_id :: InterfaceId
  if_index :: u64
  if_interface_name :: InterfaceId
  if_kind :: InterfaceKind
  if_traits :: "InterfaceTrait list"
  if_link :: LinkState
  if_admin_only :: bool
  if_summary :: InterfaceSummary
  if_description :: "string option"
  if_state :: "InterfaceState option"
  if_mtu :: "Mtu option"

definition Interface_fields :: "string list" where
  "Interface_fields =
     [''id'', ''index'', ''interface-name'', ''type'', ''traits'', ''link'', ''admin-only'',
      ''summary'', ''description'', ''state'', ''mtu'']"

definition Interface_visit_map :: "entries \<Rightarrow> Interface decoded" where
  "Interface_visit_map es =
     bind_res (required (de_identifier InterfaceId_try_from) ''id'' es) (\<lambda>id'.
     bind_res (required de_uint ''index'' es) (\<lambda>index'.
     bind_res (required (de_identifier InterfaceId_try_from) ''interface-name'' es) (\<lambda>interface_name'.
     bind_res (required (de_enum InterfaceKind_from) ''type'' es) (\<lambda>kind'.
     bind_res (required (de_seq (de_enum InterfaceTrait_from)) ''traits'' es) (\<lambda>traits'.
     bind_res (required (de_enum LinkState_from) ''link'' es) (\<lambda>link'.
     bind_res (required de_bool ''admin-only'' es) (\<lambda>admin_only'.
     bind_res (required (de_struct InterfaceSummary_fields 1 InterfaceSummary_visit_map) ''summary'' es) (\<lambda>summary'.
     bind_res (optional de_str ''description'' es) (\<lambda>description'.
     bind_res (optional (de_enum InterfaceState_from) ''state'' es) (\<lambda>state'.
     bind_res (optional (de_try_from de_uint Mtu_new) ''mtu'' es) (\<lambda>mtu'.
     Inr \<lparr>if_id = id', if_index = index', if_interface_name = interface_name',
       if_kind = kind', if_traits = traits', if_link = link', if_admin_only = admin_only',
       if_summary = summary', if_description = description', if_state = state',
       if_mtu = mtu'\<rparr>)))))))))))"

interpretation Interface_entries: entry_decoder Interface_fields "Interface_visit_map"
  by unfold_locales (simp add: Interface_fields_def Interface_visit_map_def decoder_simps)

text \<open>\<open>Interface::is_mobile_broadband\<close>: decided by the traits, not by the name.\<close>

fun mobile_trait :: "InterfaceTrait \<Rightarrow> bool" where
  "mobile_trait InterfaceTrait_Mobile = True"
| "mobile_trait InterfaceTrait_UsbLte = True"
| "mobile_trait InterfaceTrait_UsbQmi = True"
| "mobile_trait _ = False"

definition is_mobile_broadband :: "Interface \<Rightarrow> bool" where
  "is_mobile_broadband i = list_ex mobile_trait (if_traits i)"

type_synonym Interfaces = "(InterfaceId, Interface) btree"

definition Interfaces_deserialize :: "Interfaces decode" where
  "Interfaces_deserialize = de_map (de_key InterfaceId_try_from) (de_struct Interface_fields 11 Interface_visit_map)"

definition Interfaces_get :: "Interfaces \<Rightarrow> string \<Rightarrow> Interface option" where
  "Interfaces_get m key = bt_get m (InterfaceId key)"

definition Interfaces_iter :: "Interfaces \<Rightarrow> (string \<times> Interface) list" where
  "Interfaces_iter m = map (\<lambda>(name, i). (InterfaceId_as_str name, i)) m"

definition Interfaces_lte :: "Interfaces \<Rightarrow> (string \<times> Interface) list" where
  "Interfaces_lte m = filter (\<lambda>(_, i). is_mobile_broadband i) (Interfaces_iter m)"

section \<open>Replies of \<open>show interface\<close>\<close>

datatype 'a ShowInterfaceResult = ShowInterfaceResult (result_interface: 'a)

datatype 'a ShowInterfaceReply = ShowInterfaceReply (reply_show: "'a ShowInterfaceResult")

definition reply_interface :: "'a ShowInterfaceReply \<Rightarrow> 'a" where
  "reply_interface reply = result_interface (reply_show reply)"

definition ShowInterfaceReply_visit_map ::
  "'a decode \<Rightarrow> entries \<Rightarrow> 'a ShowInterfaceReply decoded" where
  "ShowInterfaceReply_visit_map de es =
     map_res ShowInterfaceReply
       (required (de_struct [''interface''] 1 (\<lambda>es. map_res ShowInterfaceResult (required de ''interface'' es))) ''show'' es)"

section \<open>Internet status\<close>

text \<open>The date formats belong to the \<open>time\<close> crate; \<open>router_time\<close> and \<open>rfc3339_time\<close> are its
  parsers for the two formats the code tries in turn, the second already without its offset.\<close>

definition router_datetime :: "(string \<Rightarrow> 't option) \<Rightarrow> (string \<Rightarrow> 't option) \<Rightarrow> 't decode" where
  "router_datetime router_time rfc3339_time =
     de_text (\<lambda>value. case router_time value of Some t \<Rightarrow> Some t | None \<Rightarrow> rfc3339_time value)"

record 't InternetStatus =
  ist_enabled :: bool
  ist_internet :: bool
  ist_reliable :: bool
  ist_checked :: 't
  ist_gateway_accessible :: bool
  ist_dns_accessible :: bool
  ist_captive_accessible :: bool

definition InternetStatus_fields :: "string list" where
  "InternetStatus_fields =
     [''enabled'', ''internet'', ''reliable'', ''checked'', ''gateway-accessible'',
      ''dns-accessible'', ''captive-accessible'']"

definition InternetStatus_visit_map :: "'t decode \<Rightarrow> entries \<Rightarrow> 't InternetStatus decoded" where
  "InternetStatus_visit_map datetime es =
     bind_res (required de_bool ''enabled'' es) (\<lambda>enabled'.
     bind_res (required de_bool ''internet'' es) (\<lambda>internet'.
     bind_res (required de_bool ''reliable'' es) (\<lambda>reliable'.
     bind_res (required datetime ''checked'' es) (\<lambda>checked'.
     bind_res (required de_bool ''gateway-accessible'' es) (\<lambda>gateway_accessible'.
     bind_res (required de_bool ''dns-accessible'' es) (\<lambda>dns_accessible'.
     bind_res (required de_bool ''captive-accessible'' es) (\<lambda>captive_accessible'.
     Inr \<lparr>ist_enabled = enabled', ist_internet = internet', ist_reliable = reliable',
       ist_checked = checked', ist_gateway_accessible = gateway_accessible',
       ist_dns_accessible = dns_accessible',
       ist_captive_accessible = captive_accessible'\<rparr>)))))))"

interpretation InternetStatus_entries: entry_decoder InternetStatus_fields "InternetStatus_visit_map de" for de
  by unfold_locales (simp add: InternetStatus_fields_def InternetStatus_visit_map_def decoder_simps)

section \<open>Well-formed interfaces\<close>

text \<open>What the types of an interface's fields promise: identifiers are plain text, an MTU is at least
  \<open>Mtu::MIN\<close>, and a classifier that carries text carries none of its known wire strings.\<close>

definition canonical :: "('a \<Rightarrow> string) \<Rightarrow> (string \<Rightarrow> 'a) \<Rightarrow> 'a \<Rightarrow> bool" where
  "canonical wire_str from v \<longleftrightarrow> from (wire_str v) = v"

definition layer_summary_ok :: "InterfaceLayerSummary \<Rightarrow> bool" where
  "layer_summary_ok s \<longleftrightarrow>
     (\<forall>v \<in> {ils_conf s} \<union> set_option (ils_link s) \<union> set_option (ils_ctrl s)
          \<union> set_option (ils_ipv4 s) \<union> set_option (ils_ipv6 s).
        canonical InterfaceLayerState_as_str InterfaceLayerState_from v)"

definition interface_ok :: "Interface \<Rightarrow> bool" where
  "interface_ok i \<longleftrightarrow>
     plain_text (InterfaceId_as_str (if_id i)) \<and> plain_text (InterfaceId_as_str (if_interface_name i))
     \<and> canonical InterfaceKind_as_str InterfaceKind_from (if_kind i)
     \<and> list_all (canonical InterfaceTrait_as_str InterfaceTrait_from) (if_traits i)
     \<and> canonical LinkState_as_str LinkState_from (if_link i)
     \<and> pred_option (canonical InterfaceState_as_str InterfaceState_from) (if_state i)
     \<and> layer_summary_ok (isu_layer (if_summary i))
     \<and> pred_option (\<lambda>m. Mtu_MIN \<le> Mtu_get m) (if_mtu i)"

lemma de_identifier_plain:
  "de_identifier InterfaceId_try_from w = Inr v \<Longrightarrow> plain_text (InterfaceId_as_str v)"
  by (cases "any_event w")
    (auto simp: de_identifier_def visiting_def string_identifier_deserialize_def res_simps
      dest: interface_id.parse_valid)

lemma de_enum_from: "de_enum from w = Inr v \<Longrightarrow> \<exists>s. v = from s"
  by (cases "any_event w") (auto simp: de_enum_def visiting_def open_enum_visit_def)

lemma de_classifier_canonical:
  assumes "de_enum from w = Inr v" and "\<And>s. wire_str (from s) = s"
  shows "canonical wire_str from v"
  using de_enum_from [OF assms(1)] assms(2) by (auto simp: canonical_def)

lemma Mtu_new_min: "Mtu_new v = Inr m \<Longrightarrow> Mtu_MIN \<le> Mtu_get m"
  by (auto simp: Mtu_new_def split: if_splits)

lemma optional_classifier:
  assumes "optional (de_enum from) name es = Inr v" and "\<And>s. wire_str (from s) = s"
  shows "pred_option (canonical wire_str from) v"
  using assms by (cases v) (auto dest!: optional_Some intro: de_classifier_canonical)

lemma layer_summary_wellformed:
  assumes "InterfaceLayerSummary_visit_map es = Inr s"
  shows "layer_summary_ok s"
proof -
  note canon = optional_classifier [where wire_str = InterfaceLayerState_as_str,
      OF _ InterfaceLayerState_enum.as_str_from]
  from assms have "\<exists>w. de_enum InterfaceLayerState_from w = Inr (ils_conf s)"
    "optional (de_enum InterfaceLayerState_from) ''link'' es = Inr (ils_link s)"
    "optional (de_enum InterfaceLayerState_from) ''ctrl'' es = Inr (ils_ctrl s)"
    "optional (de_enum InterfaceLayerState_from) ''ipv4'' es = Inr (ils_ipv4 s)"
    "optional (de_enum InterfaceLayerState_from) ''ipv6'' es = Inr (ils_ipv6 s)"
    by (auto simp: InterfaceLayerSummary_visit_map_def res_simps required_Inr)
  then show ?thesis
    by (auto simp: layer_summary_ok_def option.pred_set dest!: canon
        intro: de_classifier_canonical InterfaceLayerState_enum.as_str_from)
qed

lemma interface_wellformed:
  assumes "Interface_visit_map es = Inr i"
  shows "interface_ok i"
proof -
  from assms have f: "\<exists>w. de_identifier InterfaceId_try_from w = Inr (if_id i)"
    "\<exists>w. de_identifier InterfaceId_try_from w = Inr (if_interface_name i)"
    "\<exists>w. de_enum InterfaceKind_from w = Inr (if_kind i)"
    "\<exists>w. de_seq (de_enum InterfaceTrait_from) w = Inr (if_traits i)"
    "\<exists>w. de_enum LinkState_from w = Inr (if_link i)"
    "\<exists>w. de_struct InterfaceSummary_fields 1 InterfaceSummary_visit_map w = Inr (if_summary i)"
    "optional (de_enum InterfaceState_from) ''state'' es = Inr (if_state i)"
    "optional (de_try_from de_uint Mtu_new) ''mtu'' es = Inr (if_mtu i)"
    by (auto simp: Interface_visit_map_def res_simps required_Inr)
  from f(4) obtain ws where "list_all2 (\<lambda>w v. de_enum InterfaceTrait_from w = Inr v) ws (if_traits i)"
    by (auto elim: de_seq_Inr)
  then have "\<forall>v \<in> set (if_traits i). \<exists>w. de_enum InterfaceTrait_from w = Inr v"
    by (induction rule: list_all2_induct) auto
  then have traits: "list_all (canonical InterfaceTrait_as_str InterfaceTrait_from) (if_traits i)"
    by (auto simp: list_all_iff intro: de_classifier_canonical InterfaceTrait_enum.as_str_from)
  from f(6) obtain u where "InterfaceSummary_visit_map u = Inr (if_summary i)"
    by (blast dest: de_struct_Inr)
  then have "required (de_struct InterfaceLayerSummary_fields 5 InterfaceLayerSummary_visit_map) ''layer'' u
      = Inr (isu_layer (if_summary i))"
    by (cases "if_summary i") (auto simp: InterfaceSummary_visit_map_def res_simps)
  then have layer: "layer_summary_ok (isu_layer (if_summary i))"
    by (auto simp: required_Inr dest!: de_struct_Inr intro: layer_summary_wellformed)
  have mtu: "pred_option (\<lambda>m. Mtu_MIN \<le> Mtu_get m) (if_mtu i)"
    using f(8) by (cases "if_mtu i") (auto dest!: optional_Some simp: de_try_from_def res_simps intro: Mtu_new_min)
  show ?thesis
    unfolding interface_ok_def
    using f(1,2,3,5) traits layer mtu optional_classifier [OF f(7) InterfaceState_enum.as_str_from]
    by (auto intro: de_identifier_plain de_classifier_canonical InterfaceKind_enum.as_str_from
        LinkState_enum.as_str_from)
qed

section \<open>Properties\<close>

text \<open>A decoded interface map is well-formed: its keys are distinct and in lexical order and, like
  the identifiers inside, non-empty text without control characters; MTUs are at least 64; and no
  classifier hides a known wire string in its open variant. Its mobile interfaces are exactly the
  entries whose traits name a mobile capability, in the same order.\<close>

theorem interfaces_wellformed:
  assumes "Interfaces_deserialize w = Inr m"
  shows "sorted_wrt (<) (map fst m)
    \<and> (\<forall>(name, i) \<in> set m. plain_text (InterfaceId_as_str name) \<and> interface_ok i)
    \<and> (\<forall>name i. (name, i) \<in> set (Interfaces_lte m) \<longleftrightarrow>
          Interfaces_get m name = Some i \<and> (\<exists>t \<in> set (if_traits i).
            t \<in> {InterfaceTrait_Mobile, InterfaceTrait_UsbLte, InterfaceTrait_UsbQmi}))"
proof -
  from assms obtain es where "w = Wire_map es" and ok: "bt_ok m" and read: "\<forall>k v. (k, v) \<in> set m \<longrightarrow>
      (\<exists>s u. (s, u) \<in> set es \<and> de_key InterfaceId_try_from s = Inr k \<and> de_struct Interface_fields 11 Interface_visit_map u = Inr v)"
    unfolding Interfaces_deserialize_def by (rule de_map_Inr)
  have "plain_text (InterfaceId_as_str k) \<and> interface_ok v" if "(k, v) \<in> set m" for k v
  proof -
    from read that obtain s u where "InterfaceId_try_from s = Inr k" "de_struct Interface_fields 11 Interface_visit_map u = Inr v"
      by (fastforce simp: de_key_def res_simps)
    then show ?thesis
      by (auto dest!: de_struct_Inr intro: interface_wellformed dest: interface_id.parse_valid)
  qed
  moreover have "mobile_trait t \<longleftrightarrow> t \<in> {InterfaceTrait_Mobile, InterfaceTrait_UsbLte, InterfaceTrait_UsbQmi}" for t
    by (cases t) simp_all
  then have "(name, i) \<in> set (Interfaces_lte m) \<longleftrightarrow>
      Interfaces_get m name = Some i \<and> (\<exists>t \<in> set (if_traits i).
        t \<in> {InterfaceTrait_Mobile, InterfaceTrait_UsbLte, InterfaceTrait_UsbQmi})" for name i
    using bt_ok_distinct [OF ok]
    by (force simp: Interfaces_lte_def Interfaces_iter_def Interfaces_get_def bt_get_def
        is_mobile_broadband_def list_ex_iff)
  ultimately show ?thesis using ok unfolding bt_ok_def by blast
qed

definition bridge_entry :: wire where
  "bridge_entry = Wire_map
     [(''id'', Scalar (Visit_str ''Bridge0'')), (''index'', Scalar (Visit_u64 0)),
      (''interface-name'', Scalar (Visit_str ''Bridge0'')), (''type'', Scalar (Visit_str ''Bridge'')),
      (''traits'', Wire_seq [Scalar (Visit_str ''Ip'')]), (''link'', Scalar (Visit_str ''up'')),
      (''admin-only'', Scalar (Visit_bool False)), (''mtu'', Scalar (Visit_u64 1500)),
      (''summary'', Wire_map [(''layer'', Wire_map [(''conf'', Scalar (Visit_str ''running''))])]),
      (''future-field'', Scalar (Visit_bool True))]"

theorem interfaces_wellformed_witness:
  "\<exists>i. Interfaces_deserialize (Wire_map [(''Bridge0'', bridge_entry)]) = Inr [(InterfaceId ''Bridge0'', i)]
     \<and> interface_ok i \<and> Interfaces_lte [(InterfaceId ''Bridge0'', i)] = []"
proof -
  have id: "InterfaceId_try_from ''Bridge0'' = Inr (InterfaceId ''Bridge0'')"
    by (simp add: interface_id.parse_iff plain_text_def) code_simp
  have m: "Mtu_new 1500 = Inr (Mtu 1500)" by (simp add: Mtu_new_def Mtu_MIN_def)
  obtain i where i: "de_struct Interface_fields 11 Interface_visit_map bridge_entry = Inr i" and t: "if_traits i = [InterfaceTrait_Ip]"
    by (simp add: bridge_entry_def Interface_visit_map_def field_defs occurrences_def de_identifier_def
        visiting_def string_identifier_deserialize_def id de_uint_def de_enum_def open_enum_visit_def
        de_bool_def de_opt_def de_try_from_def m InterfaceSummary_visit_map_def
        InterfaceLayerSummary_visit_map_def InterfaceTrait_from_def open_enum_from_def InterfaceTrait_table_def)
  then have "Interfaces_deserialize (Wire_map [(''Bridge0'', bridge_entry)]) = Inr [(InterfaceId ''Bridge0'', i)]"
    by (simp add: Interfaces_deserialize_def de_key_def id)
  with interfaces_wellformed [OF this] t show ?thesis
    by (auto simp: Interfaces_lte_def Interfaces_iter_def is_mobile_broadband_def)
qed
end
