(* ===== verification/Mobile.thy ===== *)
theory Mobile
  imports Interfaces
begin

text \<open>
  \<open>src/src/model/mobile.rs\<close>: modem states, bands and bandwidths, the serving cell and its E-UTRAN
  cell identity, component carriers, and the mobile view of an interface. The router puts the interface and
  the modem fields in one object; \<open>MobileInterfaceWire\<close> is the flat struct the code reads it into,
  and the last property relates it to the two structs a caller sees.
\<close>

section \<open>States\<close>

text \<open>\<open>eq_ignore_ascii_case\<close>.\<close>

definition eq_ignore_ascii_case :: "string \<Rightarrow> string \<Rightarrow> bool" where
  "eq_ignore_ascii_case a b \<longleftrightarrow> map ascii_lower a = map ascii_lower b"

definition enum_from_str :: "(string \<Rightarrow> 'a) \<Rightarrow> string \<Rightarrow> unit + 'a" where
  "enum_from_str from s = Inr (from s)"

datatype MobileConnectionState =
    MobileConnectionState_Initializing | MobileConnectionState_Connected
  | MobileConnectionState_Other string

fun MobileConnectionState_as_str :: "MobileConnectionState \<Rightarrow> string" where
  "MobileConnectionState_as_str MobileConnectionState_Initializing = ''Initializing''"
| "MobileConnectionState_as_str MobileConnectionState_Connected = ''Connected''"
| "MobileConnectionState_as_str (MobileConnectionState_Other value) = value"

definition MobileConnectionState_from_str :: "string \<Rightarrow> unit + MobileConnectionState" where
  "MobileConnectionState_from_str value = Inr
     (if eq_ignore_ascii_case value ''Initializing'' then MobileConnectionState_Initializing
      else if eq_ignore_ascii_case value ''Connected'' then MobileConnectionState_Connected
      else MobileConnectionState_Other value)"

datatype SimState =
    SimState_Ready | SimState_PinRequired | SimState_PukRequired | SimState_Invalid
  | SimState_Other string

fun SimState_as_str :: "SimState \<Rightarrow> string" where
  "SimState_as_str SimState_Ready = ''READY''"
| "SimState_as_str SimState_PinRequired = ''SIM PIN''"
| "SimState_as_str SimState_PukRequired = ''SIM PUK''"
| "SimState_as_str SimState_Invalid = ''INVALID''"
| "SimState_as_str (SimState_Other value) = value"

definition SimState_from_str :: "string \<Rightarrow> unit + SimState" where
  "SimState_from_str value = Inr
     (if eq_ignore_ascii_case value ''READY'' then SimState_Ready
      else if eq_ignore_ascii_case value ''SIM PIN'' then SimState_PinRequired
      else if eq_ignore_ascii_case value ''SIM PUK'' then SimState_PukRequired
      else if eq_ignore_ascii_case value ''INVALID'' then SimState_Invalid
      else SimState_Other value)"

section \<open>Bands and carriers\<close>

datatype RadioBand = RadioBand_Number u16 | RadioBand_Nr u16 | RadioBand_Other string

definition RadioBand_from_str :: "string \<Rightarrow> unit + RadioBand" where
  "RadioBand_from_str value = Inr
     (case parse_u16 value of
        Some number \<Rightarrow> RadioBand_Number number
      | None \<Rightarrow>
         (case (case value of [] \<Rightarrow> None
                | b # rest \<Rightarrow> if b = CHR ''n'' \<or> b = CHR ''N'' then parse_u16 rest else None) of
            Some number \<Rightarrow> RadioBand_Nr number
          | None \<Rightarrow> RadioBand_Other value))"

fun RadioBand_display :: "RadioBand \<Rightarrow> string" where
  "RadioBand_display (RadioBand_Number number) = show_nat (unat number)"
| "RadioBand_display (RadioBand_Nr number) = CHR ''n'' # show_nat (unat number)"
| "RadioBand_display (RadioBand_Other value) = value"

datatype ComponentCarrierId = ComponentCarrierId (ComponentCarrierId_get: u16)

definition ComponentCarrierId_PRIMARY :: ComponentCarrierId where
  "ComponentCarrierId_PRIMARY = ComponentCarrierId 1"

definition ComponentCarrierId_new :: "u16 \<Rightarrow> ComponentCarrierId option" where
  "ComponentCarrierId_new value = (if value \<noteq> 0 then Some (ComponentCarrierId value) else None)"

instantiation ComponentCarrierId :: linorder
begin

definition less_eq_ComponentCarrierId :: "ComponentCarrierId \<Rightarrow> ComponentCarrierId \<Rightarrow> bool" where
  "less_eq_ComponentCarrierId a b \<longleftrightarrow> ComponentCarrierId_get a \<le> ComponentCarrierId_get b"

definition less_ComponentCarrierId :: "ComponentCarrierId \<Rightarrow> ComponentCarrierId \<Rightarrow> bool" where
  "less_ComponentCarrierId a b \<longleftrightarrow> ComponentCarrierId_get a < ComponentCarrierId_get b"

instance
  by standard
    (auto simp: less_eq_ComponentCarrierId_def less_ComponentCarrierId_def ComponentCarrierId.expand)

end

text \<open>A map key is text; \<open>key_event\<close> is what the deserializer makes of it when a number is asked
  for.\<close>

definition ComponentCarrierId_key :: "formats \<Rightarrow> string \<Rightarrow> ComponentCarrierId decoded" where
  "ComponentCarrierId_key fm s =
     map_res ComponentCarrierId (erase (nonzero_visit (key_event fm s) :: unit de_error + u16))"

record ComponentCarrier =
  cc_active :: "bool option"
  cc_network :: "RadioAccessTechnology option"
  cc_band :: "RadioBand option"
  cc_earfcn :: "u64 option"
  cc_downlink_frequency :: "u64 option"
  cc_uplink_frequency :: "u64 option"
  cc_bandwidth :: "CarrierBandwidth option"
  cc_physical_cell_id :: "u16 option"

definition ComponentCarrier_fields :: "string list" where
  "ComponentCarrier_fields =
     [''active'', ''mobile'', ''band'', ''earfcn'', ''dl-freq'', ''ul-freq'', ''bandwidth'',
      ''phy-cell-id'']"

definition ComponentCarrier_visit_map :: "entries \<Rightarrow> ComponentCarrier decoded" where
  "ComponentCarrier_visit_map es =
     bind_res (optional de_bool ''active'' es) (\<lambda>active'.
     bind_res (defaulted None (optional_from_str (enum_from_str RadioAccessTechnology_from)) ''mobile'' es) (\<lambda>network'.
     bind_res (defaulted None (optional_from_str RadioBand_from_str) ''band'' es) (\<lambda>band'.
     bind_res (optional de_uint ''earfcn'' es) (\<lambda>earfcn'.
     bind_res (optional de_uint ''dl-freq'' es) (\<lambda>downlink_frequency'.
     bind_res (optional de_uint ''ul-freq'' es) (\<lambda>uplink_frequency'.
     bind_res (defaulted None (de_optional_measurement from_megahertz) ''bandwidth'' es) (\<lambda>bandwidth'.
     bind_res (defaulted None (optional_from_str (parse_str parse_u16)) ''phy-cell-id'' es) (\<lambda>physical_cell_id'.
     Inr \<lparr>cc_active = active', cc_network = network', cc_band = band',
       cc_earfcn = earfcn', cc_downlink_frequency = downlink_frequency',
       cc_uplink_frequency = uplink_frequency', cc_bandwidth = bandwidth',
       cc_physical_cell_id = physical_cell_id'\<rparr>))))))))"

interpretation ComponentCarrier_entries: entry_decoder ComponentCarrier_fields "ComponentCarrier_visit_map"
  by unfold_locales (simp add: ComponentCarrier_fields_def ComponentCarrier_visit_map_def decoder_simps)

definition conflicting :: "'a option \<Rightarrow> 'a option \<Rightarrow> bool" where
  "conflicting left right = (case (left, right) of (Some l, Some r) \<Rightarrow> l \<noteq> r | _ \<Rightarrow> False)"

definition has_radio_identity_conflict :: "ComponentCarrier \<Rightarrow> ComponentCarrier \<Rightarrow> bool" where
  "has_radio_identity_conflict self other \<longleftrightarrow>
     conflicting (cc_band self) (cc_band other)
     \<or> conflicting (cc_earfcn self) (cc_earfcn other)
     \<or> conflicting (cc_physical_cell_id self) (cc_physical_cell_id other)"

section \<open>Serving cell\<close>

record ServingCell =
  sc_plmn :: "Plmn option"
  sc_enb_id :: "u32 option"
  sc_sector_id :: "u16 option"
  sc_tac :: "u32 option"

definition ServingCell_fields :: "string list" where
  "ServingCell_fields =
     [''plmn'', ''enb-id'', ''sector-id'', ''tac'']"

definition ServingCell_visit_map :: "entries \<Rightarrow> ServingCell decoded" where
  "ServingCell_visit_map es =
     bind_res (defaulted None (optional_from_str Plmn_from_str) ''plmn'' es) (\<lambda>plmn'.
     bind_res (defaulted None (optional_from_str (parse_str parse_u32)) ''enb-id'' es) (\<lambda>enb_id'.
     bind_res (defaulted None (optional_from_str (parse_str parse_u16)) ''sector-id'' es) (\<lambda>sector_id'.
     bind_res (defaulted None (optional_from_str (parse_str parse_u32)) ''tac'' es) (\<lambda>tac'.
     Inr \<lparr>sc_plmn = plmn', sc_enb_id = enb_id', sc_sector_id = sector_id',
       sc_tac = tac'\<rparr>))))"

interpretation ServingCell_entries: entry_decoder ServingCell_fields "ServingCell_visit_map"
  by unfold_locales (simp add: ServingCell_fields_def ServingCell_visit_map_def decoder_simps)

definition ServingCell_eci :: "ServingCell \<Rightarrow> u32 option" where
  "ServingCell_eci cell =
     (case (sc_enb_id cell, sc_sector_id cell) of
        (Some enb_id, Some sector_id) \<Rightarrow>
          if enb_id \<le> 0x000fffff \<and> sector_id \<le> 0x00ff
          then Some (or (push_bit 8 enb_id) (ucast sector_id)) else None
      | _ \<Rightarrow> None)"

section \<open>Modem status\<close>

record MobileSignal =
  msg_level :: "64 word option"
  msg_rssi :: "Dbm option"
  msg_rsrp :: "Dbm option"
  msg_rsrq :: "Db option"
  msg_cinr :: "Db option"

definition MobileSignal_fields :: "string list" where
  "MobileSignal_fields =
     [''signal-level'', ''rssi'', ''rsrp'', ''rsrq'', ''cinr'']"

definition MobileSignal_visit_map :: "entries \<Rightarrow> MobileSignal decoded" where
  "MobileSignal_visit_map es =
     bind_res (optional de_i64 ''signal-level'' es) (\<lambda>level'.
     bind_res (defaulted None (de_optional_measurement Dbm_new) ''rssi'' es) (\<lambda>rssi'.
     bind_res (defaulted None (de_optional_measurement Dbm_new) ''rsrp'' es) (\<lambda>rsrp'.
     bind_res (defaulted None (de_optional_measurement Db_new) ''rsrq'' es) (\<lambda>rsrq'.
     bind_res (defaulted None (de_optional_measurement Db_new) ''cinr'' es) (\<lambda>cinr'.
     Inr \<lparr>msg_level = level', msg_rssi = rssi', msg_rsrp = rsrp', msg_rsrq = rsrq',
       msg_cinr = cinr'\<rparr>)))))"

interpretation MobileSignal_entries: entry_decoder MobileSignal_fields "MobileSignal_visit_map"
  by unfold_locales (simp add: MobileSignal_fields_def MobileSignal_visit_map_def decoder_simps)

record LteModem =
  lm_manufacturer :: "string option"
  lm_model :: "string option"
  lm_revision :: "string option"

definition LteModem_fields :: "string list" where
  "LteModem_fields =
     [''manufacturer'', ''model'', ''revision'']"

definition LteModem_visit_map :: "entries \<Rightarrow> LteModem decoded" where
  "LteModem_visit_map es =
     bind_res (defaulted None optional_nonempty_string ''manufacturer'' es) (\<lambda>manufacturer'.
     bind_res (defaulted None optional_nonempty_string ''model'' es) (\<lambda>model'.
     bind_res (defaulted None optional_nonempty_string ''revision'' es) (\<lambda>revision'.
     Inr \<lparr>lm_manufacturer = manufacturer', lm_model = model',
       lm_revision = revision'\<rparr>)))"

interpretation LteModem_entries: entry_decoder LteModem_fields "LteModem_visit_map"
  by unfold_locales (simp add: LteModem_fields_def LteModem_visit_map_def decoder_simps)

record LteSim =
  ls_service_provider :: "string option"

definition LteSim_fields :: "string list" where
  "LteSim_fields =
     [''spn'']"

definition LteSim_visit_map :: "entries \<Rightarrow> LteSim decoded" where
  "LteSim_visit_map es =
     bind_res (defaulted None optional_nonempty_string ''spn'' es) (\<lambda>service_provider'.
     Inr \<lparr>ls_service_provider = service_provider'\<rparr>)"

interpretation LteSim_entries: entry_decoder LteSim_fields "LteSim_visit_map"
  by unfold_locales (simp add: LteSim_fields_def LteSim_visit_map_def decoder_simps)

record MobileStatus =
  ms_plugged :: "string option"
  ms_connection_state :: "MobileConnectionState option"
  ms_operator :: "string option"
  ms_apn :: "string option"
  ms_sim_state :: "SimState option"
  ms_pin_attempts :: "u8 option"
  ms_embedded :: "bool option"
  ms_roaming :: "bool option"
  ms_imei :: "Imei Reported option"
  ms_imsi :: "Imsi Reported option"
  ms_iccid :: "Iccid Reported option"
  ms_phone_number :: "string option"
  ms_signal :: MobileSignal
  ms_modem_temperature :: "Celsius option"
  ms_cell :: ServingCell
  ms_primary_carrier :: ComponentCarrier
  ms_reported_carriers :: "(ComponentCarrierId, ComponentCarrier) btree"
  ms_modem :: "LteModem option"
  ms_sim :: "LteSim option"

definition MobileStatus_own_fields :: "string list" where
  "MobileStatus_own_fields =
     [''plugged'', ''connection-state'', ''operator'', ''apn'', ''sim'', ''pin-attempts'',
      ''embedded'', ''roaming'', ''imei'', ''imsi'', ''iccid'', ''phone-number'',
      ''temperature'', ''carrier'', ''ati'', ''uim'']"

definition MobileStatus_fields :: "string list" where
  "MobileStatus_fields = MobileStatus_own_fields @ MobileSignal_fields @ ServingCell_fields @ ComponentCarrier_fields"

definition MobileStatus_visit_map :: "formats \<Rightarrow> entries \<Rightarrow> MobileStatus decoded" where
  "MobileStatus_visit_map fm es =
     bind_res (defaulted None optional_nonempty_string ''plugged'' es) (\<lambda>plugged'.
     bind_res (defaulted None (optional_from_str MobileConnectionState_from_str) ''connection-state'' es) (\<lambda>connection_state'.
     bind_res (defaulted None optional_nonempty_string ''operator'' es) (\<lambda>operator'.
     bind_res (defaulted None optional_nonempty_string ''apn'' es) (\<lambda>apn'.
     bind_res (defaulted None (optional_from_str SimState_from_str) ''sim'' es) (\<lambda>sim_state'.
     bind_res (optional de_uint ''pin-attempts'' es) (\<lambda>pin_attempts'.
     bind_res (optional de_bool ''embedded'' es) (\<lambda>embedded'.
     bind_res (optional de_bool ''roaming'' es) (\<lambda>roaming'.
     bind_res (defaulted None (optional_reported Imei_from_str) ''imei'' es) (\<lambda>imei'.
     bind_res (defaulted None (optional_reported Imsi_from_str) ''imsi'' es) (\<lambda>imsi'.
     bind_res (defaulted None (optional_reported Iccid_from_str) ''iccid'' es) (\<lambda>iccid'.
     bind_res (defaulted None optional_nonempty_string ''phone-number'' es) (\<lambda>phone_number'.
     bind_res (MobileSignal_visit_map (remaining MobileStatus_own_fields es)) (\<lambda>signal'.
     bind_res (defaulted None (de_optional_measurement Celsius_new) ''temperature'' es) (\<lambda>modem_temperature'.
     bind_res (ServingCell_visit_map (remaining MobileStatus_own_fields es)) (\<lambda>cell'.
     bind_res (ComponentCarrier_visit_map (remaining MobileStatus_own_fields es)) (\<lambda>primary_carrier'.
     bind_res (defaulted [] (de_map (ComponentCarrierId_key fm) (de_struct ComponentCarrier_fields 6 ComponentCarrier_visit_map)) ''carrier'' es) (\<lambda>reported_carriers'.
     bind_res (optional (de_struct LteModem_fields 0 LteModem_visit_map) ''ati'' es) (\<lambda>modem'.
     bind_res (optional (de_struct LteSim_fields 0 LteSim_visit_map) ''uim'' es) (\<lambda>sim'.
     Inr \<lparr>ms_plugged = plugged', ms_connection_state = connection_state',
       ms_operator = operator', ms_apn = apn', ms_sim_state = sim_state',
       ms_pin_attempts = pin_attempts', ms_embedded = embedded', ms_roaming = roaming',
       ms_imei = imei', ms_imsi = imsi', ms_iccid = iccid', ms_phone_number = phone_number',
       ms_signal = signal', ms_modem_temperature = modem_temperature', ms_cell = cell',
       ms_primary_carrier = primary_carrier', ms_reported_carriers = reported_carriers',
       ms_modem = modem', ms_sim = sim'\<rparr>)))))))))))))))))))"

interpretation MobileStatus_entries: entry_decoder MobileStatus_fields "MobileStatus_visit_map fm" for fm
proof
  fix es es'
  assume same: "same_entries MobileStatus_fields es es'"
  then have rest: "same_entries names (remaining MobileStatus_own_fields es) (remaining MobileStatus_own_fields es')"
    if "set names \<subseteq> set MobileStatus_fields" for names
    using that by (auto simp: same_entries_def occurrences_remaining)
  have flat0: "MobileSignal_visit_map (remaining MobileStatus_own_fields es) = MobileSignal_visit_map (remaining MobileStatus_own_fields es')"
    by (rule MobileSignal_entries.reads_names, rule rest) (auto simp: MobileStatus_fields_def)
  have flat1: "ServingCell_visit_map (remaining MobileStatus_own_fields es) = ServingCell_visit_map (remaining MobileStatus_own_fields es')"
    by (rule ServingCell_entries.reads_names, rule rest) (auto simp: MobileStatus_fields_def)
  have flat2: "ComponentCarrier_visit_map (remaining MobileStatus_own_fields es) = ComponentCarrier_visit_map (remaining MobileStatus_own_fields es')"
    by (rule ComponentCarrier_entries.reads_names, rule rest) (auto simp: MobileStatus_fields_def)
  show "MobileStatus_visit_map fm es = MobileStatus_visit_map fm es'"
    unfolding MobileStatus_visit_map_def flat0 flat1 flat2
    using same by (simp add: MobileStatus_fields_def MobileStatus_own_fields_def decoder_simps)
qed

definition MobileStatus_eci :: "MobileStatus \<Rightarrow> u32 option" where
  "MobileStatus_eci status = ServingCell_eci (ms_cell status)"

section \<open>Mobile interfaces\<close>

record MobileInterfaceWire =
  mw_id :: InterfaceId
  mw_index :: u64
  mw_interface_name :: InterfaceId
  mw_kind :: InterfaceKind
  mw_traits :: "InterfaceTrait list"
  mw_link :: LinkState
  mw_admin_only :: bool
  mw_summary :: InterfaceSummary
  mw_description :: "string option"
  mw_state :: "InterfaceState option"
  mw_mtu :: "Mtu option"
  mw_plugged :: "string option"
  mw_connection_state :: "MobileConnectionState option"
  mw_operator :: "string option"
  mw_apn :: "string option"
  mw_sim_state :: "SimState option"
  mw_pin_attempts :: "u8 option"
  mw_embedded :: "bool option"
  mw_roaming :: "bool option"
  mw_imei :: "Imei Reported option"
  mw_imsi :: "Imsi Reported option"
  mw_iccid :: "Iccid Reported option"
  mw_phone_number :: "string option"
  mw_signal_level :: "64 word option"
  mw_rssi :: "Dbm option"
  mw_rsrp :: "Dbm option"
  mw_rsrq :: "Db option"
  mw_cinr :: "Db option"
  mw_modem_temperature :: "Celsius option"
  mw_plmn :: "Plmn option"
  mw_enb_id :: "u32 option"
  mw_sector_id :: "u16 option"
  mw_tac :: "u32 option"
  mw_active :: "bool option"
  mw_network :: "RadioAccessTechnology option"
  mw_band :: "RadioBand option"
  mw_earfcn :: "u64 option"
  mw_downlink_frequency :: "u64 option"
  mw_uplink_frequency :: "u64 option"
  mw_bandwidth :: "CarrierBandwidth option"
  mw_physical_cell_id :: "u16 option"
  mw_reported_carriers :: "(ComponentCarrierId, ComponentCarrier) btree"
  mw_modem :: "LteModem option"
  mw_sim :: "LteSim option"

definition MobileInterfaceWire_fields :: "string list" where
  "MobileInterfaceWire_fields =
     [''id'', ''index'', ''interface-name'', ''type'', ''traits'', ''link'', ''admin-only'',
      ''summary'', ''description'', ''state'', ''mtu'', ''plugged'', ''connection-state'',
      ''operator'', ''apn'', ''sim'', ''pin-attempts'', ''embedded'', ''roaming'', ''imei'',
      ''imsi'', ''iccid'', ''phone-number'', ''signal-level'', ''rssi'', ''rsrp'', ''rsrq'',
      ''cinr'', ''temperature'', ''plmn'', ''enb-id'', ''sector-id'', ''tac'', ''active'',
      ''mobile'', ''band'', ''earfcn'', ''dl-freq'', ''ul-freq'', ''bandwidth'',
      ''phy-cell-id'', ''carrier'', ''ati'', ''uim'']"

definition MobileInterfaceWire_visit_map :: "formats \<Rightarrow> entries \<Rightarrow> MobileInterfaceWire decoded" where
  "MobileInterfaceWire_visit_map fm es =
     bind_res (required (de_identifier InterfaceId_try_from) ''id'' es) (\<lambda>id'.
     bind_res (required de_uint ''index'' es) (\<lambda>index'.
     bind_res (required (de_identifier InterfaceId_try_from) ''interface-name'' es) (\<lambda>interface_name'.
     bind_res (required (de_enum InterfaceKind_from) ''type'' es) (\<lambda>kind'.
     bind_res (required (de_seq (de_enum InterfaceTrait_from)) ''traits'' es) (\<lambda>traits'.
     bind_res (required (de_enum LinkState_from) ''link'' es) (\<lambda>link'.
     bind_res (required de_bool ''admin-only'' es) (\<lambda>admin_only'.
     bind_res (required (de_struct InterfaceSummary_fields 1 InterfaceSummary_visit_map) ''summary'' es) (\<lambda>summary'.
     bind_res (optional de_str ''description'' es) (\<lambda>description'.
     bind_res (optional (de_enum InterfaceState_from) ''state'' es) (\<lambda>state'.
     bind_res (optional (de_try_from de_uint Mtu_new) ''mtu'' es) (\<lambda>mtu'.
     bind_res (defaulted None optional_nonempty_string ''plugged'' es) (\<lambda>plugged'.
     bind_res (defaulted None (optional_from_str MobileConnectionState_from_str) ''connection-state'' es) (\<lambda>connection_state'.
     bind_res (defaulted None optional_nonempty_string ''operator'' es) (\<lambda>operator'.
     bind_res (defaulted None optional_nonempty_string ''apn'' es) (\<lambda>apn'.
     bind_res (defaulted None (optional_from_str SimState_from_str) ''sim'' es) (\<lambda>sim_state'.
     bind_res (optional de_uint ''pin-attempts'' es) (\<lambda>pin_attempts'.
     bind_res (optional de_bool ''embedded'' es) (\<lambda>embedded'.
     bind_res (optional de_bool ''roaming'' es) (\<lambda>roaming'.
     bind_res (defaulted None (optional_reported Imei_from_str) ''imei'' es) (\<lambda>imei'.
     bind_res (defaulted None (optional_reported Imsi_from_str) ''imsi'' es) (\<lambda>imsi'.
     bind_res (defaulted None (optional_reported Iccid_from_str) ''iccid'' es) (\<lambda>iccid'.
     bind_res (defaulted None optional_nonempty_string ''phone-number'' es) (\<lambda>phone_number'.
     bind_res (optional de_i64 ''signal-level'' es) (\<lambda>signal_level'.
     bind_res (defaulted None (de_optional_measurement Dbm_new) ''rssi'' es) (\<lambda>rssi'.
     bind_res (defaulted None (de_optional_measurement Dbm_new) ''rsrp'' es) (\<lambda>rsrp'.
     bind_res (defaulted None (de_optional_measurement Db_new) ''rsrq'' es) (\<lambda>rsrq'.
     bind_res (defaulted None (de_optional_measurement Db_new) ''cinr'' es) (\<lambda>cinr'.
     bind_res (defaulted None (de_optional_measurement Celsius_new) ''temperature'' es) (\<lambda>modem_temperature'.
     bind_res (defaulted None (optional_from_str Plmn_from_str) ''plmn'' es) (\<lambda>plmn'.
     bind_res (defaulted None (optional_from_str (parse_str parse_u32)) ''enb-id'' es) (\<lambda>enb_id'.
     bind_res (defaulted None (optional_from_str (parse_str parse_u16)) ''sector-id'' es) (\<lambda>sector_id'.
     bind_res (defaulted None (optional_from_str (parse_str parse_u32)) ''tac'' es) (\<lambda>tac'.
     bind_res (optional de_bool ''active'' es) (\<lambda>active'.
     bind_res (defaulted None (optional_from_str (enum_from_str RadioAccessTechnology_from)) ''mobile'' es) (\<lambda>network'.
     bind_res (defaulted None (optional_from_str RadioBand_from_str) ''band'' es) (\<lambda>band'.
     bind_res (optional de_uint ''earfcn'' es) (\<lambda>earfcn'.
     bind_res (optional de_uint ''dl-freq'' es) (\<lambda>downlink_frequency'.
     bind_res (optional de_uint ''ul-freq'' es) (\<lambda>uplink_frequency'.
     bind_res (defaulted None (de_optional_measurement from_megahertz) ''bandwidth'' es) (\<lambda>bandwidth'.
     bind_res (defaulted None (optional_from_str (parse_str parse_u16)) ''phy-cell-id'' es) (\<lambda>physical_cell_id'.
     bind_res (defaulted [] (de_map (ComponentCarrierId_key fm) (de_struct ComponentCarrier_fields 6 ComponentCarrier_visit_map)) ''carrier'' es) (\<lambda>reported_carriers'.
     bind_res (optional (de_struct LteModem_fields 0 LteModem_visit_map) ''ati'' es) (\<lambda>modem'.
     bind_res (optional (de_struct LteSim_fields 0 LteSim_visit_map) ''uim'' es) (\<lambda>sim'.
     Inr \<lparr>mw_id = id', mw_index = index', mw_interface_name = interface_name',
       mw_kind = kind', mw_traits = traits', mw_link = link', mw_admin_only = admin_only',
       mw_summary = summary', mw_description = description', mw_state = state', mw_mtu = mtu',
       mw_plugged = plugged', mw_connection_state = connection_state', mw_operator = operator',
       mw_apn = apn', mw_sim_state = sim_state', mw_pin_attempts = pin_attempts',
       mw_embedded = embedded', mw_roaming = roaming', mw_imei = imei', mw_imsi = imsi',
       mw_iccid = iccid', mw_phone_number = phone_number', mw_signal_level = signal_level',
       mw_rssi = rssi', mw_rsrp = rsrp', mw_rsrq = rsrq', mw_cinr = cinr',
       mw_modem_temperature = modem_temperature', mw_plmn = plmn', mw_enb_id = enb_id',
       mw_sector_id = sector_id', mw_tac = tac', mw_active = active', mw_network = network',
       mw_band = band', mw_earfcn = earfcn', mw_downlink_frequency = downlink_frequency',
       mw_uplink_frequency = uplink_frequency', mw_bandwidth = bandwidth',
       mw_physical_cell_id = physical_cell_id', mw_reported_carriers = reported_carriers',
       mw_modem = modem', mw_sim = sim'\<rparr>))))))))))))))))))))))))))))))))))))))))))))"

interpretation MobileInterfaceWire_entries: entry_decoder MobileInterfaceWire_fields "MobileInterfaceWire_visit_map fm" for fm
  by unfold_locales (simp add: MobileInterfaceWire_fields_def MobileInterfaceWire_visit_map_def decoder_simps)

definition MobileInterfaceWire_into_parts :: "MobileInterfaceWire \<Rightarrow> Interface \<times> MobileStatus" where
  "MobileInterfaceWire_into_parts w =
     (\<lparr>if_id = mw_id w, if_index = mw_index w, if_interface_name = mw_interface_name w,
       if_kind = mw_kind w, if_traits = mw_traits w, if_link = mw_link w,
       if_admin_only = mw_admin_only w, if_summary = mw_summary w,
       if_description = mw_description w, if_state = mw_state w, if_mtu = mw_mtu w\<rparr>,
      \<lparr>ms_plugged = mw_plugged w, ms_connection_state = mw_connection_state w,
       ms_operator = mw_operator w, ms_apn = mw_apn w, ms_sim_state = mw_sim_state w,
       ms_pin_attempts = mw_pin_attempts w, ms_embedded = mw_embedded w,
       ms_roaming = mw_roaming w, ms_imei = mw_imei w, ms_imsi = mw_imsi w,
       ms_iccid = mw_iccid w, ms_phone_number = mw_phone_number w,
       ms_signal = \<lparr>msg_level = mw_signal_level w, msg_rssi = mw_rssi w, msg_rsrp = mw_rsrp w,
         msg_rsrq = mw_rsrq w, msg_cinr = mw_cinr w\<rparr>,
       ms_modem_temperature = mw_modem_temperature w,
       ms_cell = \<lparr>sc_plmn = mw_plmn w, sc_enb_id = mw_enb_id w, sc_sector_id = mw_sector_id w,
         sc_tac = mw_tac w\<rparr>,
       ms_primary_carrier = \<lparr>cc_active = mw_active w, cc_network = mw_network w,
         cc_band = mw_band w, cc_earfcn = mw_earfcn w,
         cc_downlink_frequency = mw_downlink_frequency w,
         cc_uplink_frequency = mw_uplink_frequency w, cc_bandwidth = mw_bandwidth w,
         cc_physical_cell_id = mw_physical_cell_id w\<rparr>,
       ms_reported_carriers = mw_reported_carriers w, ms_modem = mw_modem w,
       ms_sim = mw_sim w\<rparr>)"

record MobileInterface =
  mi_interface :: Interface
  mi_status :: MobileStatus

definition MobileInterface_deserialize :: "formats \<Rightarrow> MobileInterface decode" where
  "MobileInterface_deserialize fm w =
     bind_res (de_struct MobileInterfaceWire_fields 44 (MobileInterfaceWire_visit_map fm) w) (\<lambda>flat.
     let (interface, status) = MobileInterfaceWire_into_parts flat in
     if \<not> is_mobile_broadband interface then Inl (Custom ())
     else Inr \<lparr>mi_interface = interface, mi_status = status\<rparr>)"

definition MobileInterface_into_parts :: "MobileInterface \<Rightarrow> Interface \<times> MobileStatus" where
  "MobileInterface_into_parts m = (mi_interface m, mi_status m)"

definition MobileInterface_eci :: "MobileInterface \<Rightarrow> u32 option" where
  "MobileInterface_eci m = MobileStatus_eci (mi_status m)"

definition show_lte_interface :: "formats \<Rightarrow> entries \<Rightarrow> MobileInterface ShowInterfaceReply decoded" where
  "show_lte_interface fm = ShowInterfaceReply_visit_map (MobileInterface_deserialize fm)"

section \<open>Lemmas\<close>

lemma bind_res_assoc: "bind_res (bind_res m f) g = bind_res m (\<lambda>x. bind_res (f x) g)"
  by (cases m) auto

lemma flattened:
  "MobileSignal_visit_map (remaining MobileStatus_own_fields es) = MobileSignal_visit_map es"
  "ServingCell_visit_map (remaining MobileStatus_own_fields es) = ServingCell_visit_map es"
  "ComponentCarrier_visit_map (remaining MobileStatus_own_fields es) = ComponentCarrier_visit_map es"
  by (rule MobileSignal_entries.reads_names ServingCell_entries.reads_names ComponentCarrier_entries.reads_names,
      simp add: same_entries_def occurrences_remaining MobileStatus_own_fields_def
        MobileSignal_fields_def ServingCell_fields_def ComponentCarrier_fields_def)+

text \<open>The flat struct and the two structs a caller sees are chains over the same fields in the same
  order; unfolding both leaves the same list of conditions.\<close>

lemma mobile_interface_chain:
  "MobileInterface_deserialize fm (Wire_map es) = Inr m \<longleftrightarrow>
     Interface_visit_map es = Inr (mi_interface m) \<and> MobileStatus_visit_map fm es = Inr (mi_status m)
     \<and> is_mobile_broadband (mi_interface m)"
proof -
  obtain i s where m: "m = \<lparr>mi_interface = i, mi_status = s\<rparr>" by (cases m)
  have last: "(if \<not> is_mobile_broadband i' then Inl (Custom ())
      else Inr \<lparr>mi_interface = i', mi_status = s'\<rparr>) = (Inr \<lparr>mi_interface = i, mi_status = s\<rparr> :: MobileInterface decoded)
      \<longleftrightarrow> Inr i' = (Inr i :: Interface decoded) \<and> Inr s' = (Inr s :: MobileStatus decoded) \<and> is_mobile_broadband i"
    for i' s' by auto
  show ?thesis
    unfolding MobileInterface_deserialize_def MobileInterfaceWire_visit_map_def de_struct.simps
      MobileStatus_visit_map_def flattened
    unfolding MobileSignal_visit_map_def ServingCell_visit_map_def ComponentCarrier_visit_map_def
      Interface_visit_map_def bind_res_assoc bind_res.simps bind_ok
      MobileInterfaceWire_into_parts_def MobileInterfaceWire.simps MobileInterface.simps Let_def prod.case m last conj_assoc
    by (rule iffI; elim conjE; intro conjI; assumption)
qed

lemma eq_ignore_ascii_case_refl [simp]: "eq_ignore_ascii_case s s"
  by (simp add: eq_ignore_ascii_case_def)

lemma eq_ignore_ascii_case_sym: "eq_ignore_ascii_case s t \<longleftrightarrow> eq_ignore_ascii_case t s"
  by (auto simp: eq_ignore_ascii_case_def)

lemma parse_u16_n: "parse_u16 (CHR ''n'' # s) = None"
  by (simp add: parse_uint_def parse_nat_def is_ascii_digit_def)

lemma parse_u16_show: "parse_u16 (show_nat (unat w)) = Some (w :: u16)"
  using unsigned_less [of w, where 'a = nat] by (simp add: parse_uint_show)

lemma RadioBand_from_display:
  assumes "RadioBand_from_str s = Inr b"
  shows "RadioBand_from_str (RadioBand_display b) = Inr b"
proof (cases b)
  case (RadioBand_Other t)
  with assms have "t = s"
    by (auto simp: RadioBand_from_str_def split: option.splits list.splits if_splits)
  with assms RadioBand_Other show ?thesis by simp
qed (simp_all add: RadioBand_from_str_def parse_u16_show parse_u16_n)

lemma eci_word:
  fixes enb :: u32 and sector :: u16
  assumes "unat enb < 2 ^ 20" and "unat sector < 2 ^ 8"
  shows "unat (or (push_bit 8 enb) (ucast sector)) = unat enb * 256 + unat sector"
proof -
  have s: "unat (ucast sector :: u32) = unat sector"
    using assms(2) by (simp add: unsigned_ucast_eq take_bit_nat_eq_self)
  have p: "unat (push_bit 8 enb) = unat enb * 256"
    using unat_mult_exact [of enb 256] assms(1) by (simp add: push_bit_eq_mult)
  have "and (push_bit 8 enb) (ucast sector :: u32) = 0"
  proof (rule bit_eqI)
    fix n
    have "\<not> bit sector n" if "8 \<le> n"
    proof -
      have "\<not> bit (unat sector) n"
        using assms(2) that by (metis bit_take_bit_iff leD take_bit_nat_eq_self)
      then show ?thesis by (simp add: bit_unsigned_iff)
    qed
    then show "bit (and (push_bit 8 enb) (ucast sector :: u32)) n = bit (0 :: u32) n"
      by (auto simp: bit_simps)
  qed
  then have "or (push_bit 8 enb) (ucast sector :: u32) = push_bit 8 enb + ucast sector"
    by (rule disjunctive_add_eq_or [symmetric])
  moreover have "unat (push_bit 8 enb) + unat (ucast sector :: u32) < 2 ^ LENGTH(32)"
    using assms by (simp add: s p)
  ultimately show ?thesis using unat_add_exact [of "push_bit 8 enb" "ucast sector"] by (simp add: s p)
qed

section \<open>Properties\<close>

text \<open>C40: the E-UTRAN cell identity is reported exactly when the cell has an eNodeB identifier of at
  most 20 bits and a sector identifier of at most 8, and it then is the 28-bit number made of the
  two, so that both can be read back from it.\<close>

theorem eci_exact:
  "ServingCell_eci cell = Some e \<longleftrightarrow>
     (\<exists>enb sector. sc_enb_id cell = Some enb \<and> sc_sector_id cell = Some sector
       \<and> unat enb < 2 ^ 20 \<and> unat sector < 2 ^ 8
       \<and> unat e < 2 ^ 28 \<and> unat enb = unat e div 256 \<and> unat sector = unat e mod 256)"
  (is "_ \<longleftrightarrow> (\<exists>enb sector. ?fits enb sector)")
proof
  assume eci: "ServingCell_eci cell = Some e"
  then obtain enb sector where ids: "sc_enb_id cell = Some enb" "sc_sector_id cell = Some sector"
    and le: "enb \<le> 0x000fffff" "sector \<le> 0x00ff" and e: "e = or (push_bit 8 enb) (ucast sector)"
    by (auto simp: ServingCell_eci_def split: option.splits if_splits)
  from le have small: "unat enb < 2 ^ 20" "unat sector < 2 ^ 8" by (simp_all add: word_le_nat_alt)
  then have "unat e = unat enb * 256 + unat sector" unfolding e by (rule eci_word)
  with ids small have "?fits enb sector" by simp
  then show "\<exists>enb sector. ?fits enb sector" by blast
next
  assume "\<exists>enb sector. ?fits enb sector"
  then obtain enb sector where f: "?fits enb sector" by blast
  then have le: "enb \<le> 0x000fffff" "sector \<le> 0x00ff" by (simp_all add: word_le_nat_alt)
  from f have "unat (or (push_bit 8 enb) (ucast sector)) = unat enb * 256 + unat sector"
    by (intro eci_word) simp_all
  also have "\<dots> = unat e" using f by simp
  finally have "or (push_bit 8 enb) (ucast sector) = e" by (simp only: word_eq_iff_unsigned [where 'a = nat])
  with f le show "ServingCell_eci cell = Some e" by (simp add: ServingCell_eci_def)
qed

text \<open>Reading an LTE interface from the flat struct is reading the common interface fields and the
  modem status of the same object, and it succeeds exactly when both do and the interface carries
  a mobile trait.\<close>

theorem mobile_interface_parts:
  "MobileInterface_deserialize fm (Wire_map es) = Inr m \<longleftrightarrow>
     Interface_visit_map es = Inr (fst (MobileInterface_into_parts m))
     \<and> MobileStatus_visit_map fm es = Inr (snd (MobileInterface_into_parts m))
     \<and> is_mobile_broadband (fst (MobileInterface_into_parts m))"
  by (simp add: mobile_interface_chain MobileInterface_into_parts_def)

text \<open>The modem's classifiers: the connection and SIM states are recognized in any letter case and
  keep other texts verbatim, so the text is lost only up to case; a band is a number, an \<open>n\<close> or
  \<open>N\<close> with a number, or the text itself, and what it prints is read back as the same band.\<close>

theorem modem_classifiers:
  "(\<exists>v. MobileConnectionState_from_str s = Inr v \<and> eq_ignore_ascii_case (MobileConnectionState_as_str v) s
        \<and> (\<forall>t. v = MobileConnectionState_Other t \<longrightarrow> t = s
            \<and> \<not> eq_ignore_ascii_case s ''Initializing'' \<and> \<not> eq_ignore_ascii_case s ''Connected''))
   \<and> (\<exists>v. SimState_from_str s = Inr v \<and> eq_ignore_ascii_case (SimState_as_str v) s
        \<and> (\<forall>t. v = SimState_Other t \<longrightarrow> t = s
            \<and> (\<forall>k \<in> {''READY'', ''SIM PIN'', ''SIM PUK'', ''INVALID''}. \<not> eq_ignore_ascii_case s k)))
   \<and> (\<exists>b. RadioBand_from_str s = Inr b \<and> RadioBand_from_str (RadioBand_display b) = Inr b
        \<and> (\<forall>t. b = RadioBand_Other t \<longrightarrow> t = s \<and> parse_u16 s = None))"
proof (intro conjI)
  show "\<exists>v. MobileConnectionState_from_str s = Inr v \<and> eq_ignore_ascii_case (MobileConnectionState_as_str v) s
        \<and> (\<forall>t. v = MobileConnectionState_Other t \<longrightarrow> t = s
            \<and> \<not> eq_ignore_ascii_case s ''Initializing'' \<and> \<not> eq_ignore_ascii_case s ''Connected'')"
    by (simp add: MobileConnectionState_from_str_def eq_ignore_ascii_case_sym [of s])
  show "\<exists>v. SimState_from_str s = Inr v \<and> eq_ignore_ascii_case (SimState_as_str v) s
        \<and> (\<forall>t. v = SimState_Other t \<longrightarrow> t = s
            \<and> (\<forall>k \<in> {''READY'', ''SIM PIN'', ''SIM PUK'', ''INVALID''}. \<not> eq_ignore_ascii_case s k))"
    by (simp add: SimState_from_str_def eq_ignore_ascii_case_sym [of s])
  obtain b where b: "RadioBand_from_str s = Inr b" by (simp add: RadioBand_from_str_def)
  then have "\<forall>t. b = RadioBand_Other t \<longrightarrow> t = s \<and> parse_u16 s = None"
    by (auto simp: RadioBand_from_str_def split: option.splits list.splits if_splits)
  with b RadioBand_from_display [OF b]
  show "\<exists>b. RadioBand_from_str s = Inr b \<and> RadioBand_from_str (RadioBand_display b) = Inr b
        \<and> (\<forall>t. b = RadioBand_Other t \<longrightarrow> t = s \<and> parse_u16 s = None)"
    by blast
qed

end
