(* ===== verification/Stations.thy ===== *)
theory Stations
  imports Interfaces
begin

text \<open>
  The records a client of the router appears in: wireless associations (\<open>src/src/model/wifi.rs\<close>), ARP
  and DHCP entries (\<open>src/src/model/ip.rs\<close>) and hotspot hosts (\<open>src/src/model/hotspot.rs\<close>). The
  collections are slices in router order.
\<close>

section \<open>Wireless associations\<close>

record WifiPeerLink =
  wl_ap :: InterfaceId
  wl_authenticated :: bool
  wl_transmit_rate :: DataRate
  wl_uptime :: Uptime
  wl_channel_width :: ChannelWidth
  wl_mode :: WifiMode
  wl_guard_interval :: GuardInterval
  wl_rssi :: Dbm
  wl_mcs :: McsIndex
  wl_transmit_spatial_streams :: SpatialStreams
  wl_security :: WifiSecurity

definition WifiPeerLink_fields :: "string list" where
  "WifiPeerLink_fields =
     [''ap'', ''authenticated'', ''txrate'', ''uptime'', ''ht'', ''mode'', ''gi'', ''rssi'',
      ''mcs'', ''txss'', ''security'']"

definition WifiPeerLink_visit_map :: "entries \<Rightarrow> WifiPeerLink decoded" where
  "WifiPeerLink_visit_map es =
     bind_res (required (de_identifier InterfaceId_try_from) ''ap'' es) (\<lambda>ap'.
     bind_res (required de_bool ''authenticated'' es) (\<lambda>authenticated'.
     bind_res (required de_mbps ''txrate'' es) (\<lambda>transmit_rate'.
     bind_res (required de_uptime ''uptime'' es) (\<lambda>uptime'.
     bind_res (required (de_newtype ChannelWidth de_uint) ''ht'' es) (\<lambda>channel_width'.
     bind_res (required (de_enum WifiMode_from) ''mode'' es) (\<lambda>mode'.
     bind_res (required (de_newtype GuardInterval de_uint) ''gi'' es) (\<lambda>guard_interval'.
     bind_res (required (de_measurement Dbm_new) ''rssi'' es) (\<lambda>rssi'.
     bind_res (required (de_newtype McsIndex de_uint) ''mcs'' es) (\<lambda>mcs'.
     bind_res (required (de_newtype SpatialStreams de_nonzero) ''txss'' es) (\<lambda>transmit_spatial_streams'.
     bind_res (required (de_enum WifiSecurity_from) ''security'' es) (\<lambda>security'.
     Inr \<lparr>wl_ap = ap', wl_authenticated = authenticated',
       wl_transmit_rate = transmit_rate', wl_uptime = uptime',
       wl_channel_width = channel_width', wl_mode = mode', wl_guard_interval = guard_interval',
       wl_rssi = rssi', wl_mcs = mcs', wl_transmit_spatial_streams = transmit_spatial_streams',
       wl_security = security'\<rparr>)))))))))))"

interpretation WifiPeerLink_entries: entry_decoder WifiPeerLink_fields "WifiPeerLink_visit_map"
  by unfold_locales (simp add: WifiPeerLink_fields_def WifiPeerLink_visit_map_def decoder_simps)

record Association =
  as_mac :: MacAddress
  as_link :: WifiPeerLink
  as_psm :: "bool option"
  as_transmitted :: ByteCount
  as_received :: ByteCount
  as_ebf :: "bool option"
  as_downlink_multi_user :: "bool option"
  as_uplink_multi_user :: "bool option"
  as_downlink_ofdma :: "bool option"
  as_uplink_ofdma :: "bool option"

definition Association_own_fields :: "string list" where
  "Association_own_fields =
     [''mac'', ''psm'', ''txbytes'', ''rxbytes'', ''ebf'', ''dl-mu'', ''ul-mu'', ''dl-ofdma'',
      ''ul-ofdma'']"

definition Association_fields :: "string list" where
  "Association_fields = Association_own_fields @ WifiPeerLink_fields"

definition Association_visit_map :: "entries \<Rightarrow> Association decoded" where
  "Association_visit_map es =
     bind_res (required de_mac ''mac'' es) (\<lambda>mac'.
     bind_res (WifiPeerLink_visit_map (remaining Association_own_fields es)) (\<lambda>link'.
     bind_res (optional de_bool ''psm'' es) (\<lambda>psm'.
     bind_res (required (de_newtype ByteCount de_uint) ''txbytes'' es) (\<lambda>transmitted'.
     bind_res (required (de_newtype ByteCount de_uint) ''rxbytes'' es) (\<lambda>received'.
     bind_res (optional de_bool ''ebf'' es) (\<lambda>ebf'.
     bind_res (optional de_bool ''dl-mu'' es) (\<lambda>downlink_multi_user'.
     bind_res (optional de_bool ''ul-mu'' es) (\<lambda>uplink_multi_user'.
     bind_res (optional de_bool ''dl-ofdma'' es) (\<lambda>downlink_ofdma'.
     bind_res (optional de_bool ''ul-ofdma'' es) (\<lambda>uplink_ofdma'.
     Inr \<lparr>as_mac = mac', as_link = link', as_psm = psm', as_transmitted = transmitted',
       as_received = received', as_ebf = ebf', as_downlink_multi_user = downlink_multi_user',
       as_uplink_multi_user = uplink_multi_user', as_downlink_ofdma = downlink_ofdma',
       as_uplink_ofdma = uplink_ofdma'\<rparr>))))))))))"

interpretation Association_entries: entry_decoder Association_fields "Association_visit_map"
proof
  fix es es'
  assume same: "same_entries Association_fields es es'"
  then have rest: "same_entries names (remaining Association_own_fields es) (remaining Association_own_fields es')"
    if "set names \<subseteq> set Association_fields" for names
    using that by (auto simp: same_entries_def occurrences_remaining)
  have flat0: "WifiPeerLink_visit_map (remaining Association_own_fields es) = WifiPeerLink_visit_map (remaining Association_own_fields es')"
    by (rule WifiPeerLink_entries.reads_names, rule rest) (auto simp: Association_fields_def)
  show "Association_visit_map es = Association_visit_map es'"
    unfolding Association_visit_map_def flat0
    using same by (simp add: Association_fields_def Association_own_fields_def decoder_simps)
qed

datatype Associations = Associations (stations: "Association list")

definition Associations_visit_map :: "entries \<Rightarrow> Associations decoded" where
  "Associations_visit_map es =
     map_res Associations (required (de_seq (de_flat_struct Association_visit_map)) ''station'' es)"

section \<open>ARP and DHCP\<close>

record ArpEntry =
  arp_ip :: Ipv4Addr
  arp_mac :: MacAddress
  arp_interface :: InterfaceId
  arp_name :: "string option"
  arp_state :: ArpState

definition ArpEntry_fields :: "string list" where
  "ArpEntry_fields =
     [''ip'', ''mac'', ''interface'', ''name'', ''state'']"

definition ArpEntry_visit_map :: "formats \<Rightarrow> entries \<Rightarrow> ArpEntry decoded" where
  "ArpEntry_visit_map fm es =
     bind_res (required (de_text (parse_ipv4 fm)) ''ip'' es) (\<lambda>ip'.
     bind_res (required de_mac ''mac'' es) (\<lambda>mac'.
     bind_res (required (de_identifier InterfaceId_try_from) ''interface'' es) (\<lambda>interface'.
     bind_res (defaulted None optional_nonempty_string ''name'' es) (\<lambda>name'.
     bind_res (required (de_enum ArpState_from) ''state'' es) (\<lambda>state'.
     Inr \<lparr>arp_ip = ip', arp_mac = mac', arp_interface = interface', arp_name = name',
       arp_state = state'\<rparr>)))))"

interpretation ArpEntry_entries: entry_decoder ArpEntry_fields "ArpEntry_visit_map fm" for fm
  by unfold_locales (simp add: ArpEntry_fields_def ArpEntry_visit_map_def decoder_simps)

datatype IpArp = IpArp (IpArp_entries: "ArpEntry list")

definition IpArp_deserialize :: "formats \<Rightarrow> IpArp decode" where
  "IpArp_deserialize fm = de_newtype IpArp (de_seq (de_struct ArpEntry_fields 5 (ArpEntry_visit_map fm)))"

record DhcpBinding =
  dhcp_ip :: Ipv4Addr
  dhcp_mac :: MacAddress
  dhcp_via :: MacAddress
  dhcp_hostname :: "string option"
  dhcp_name :: "string option"
  dhcp_device :: "InterfaceId option"
  dhcp_mode :: "DhcpBindingMode option"
  dhcp_expires :: LeaseExpiration

definition DhcpBinding_fields :: "string list" where
  "DhcpBinding_fields =
     [''ip'', ''mac'', ''via'', ''hostname'', ''name'', ''device'', ''mode'', ''expires'']"

definition DhcpBinding_visit_map :: "formats \<Rightarrow> entries \<Rightarrow> DhcpBinding decoded" where
  "DhcpBinding_visit_map fm es =
     bind_res (required (de_text (parse_ipv4 fm)) ''ip'' es) (\<lambda>ip'.
     bind_res (required de_mac ''mac'' es) (\<lambda>mac'.
     bind_res (required de_mac ''via'' es) (\<lambda>via'.
     bind_res (defaulted None optional_nonempty_string ''hostname'' es) (\<lambda>hostname'.
     bind_res (defaulted None optional_nonempty_string ''name'' es) (\<lambda>name'.
     bind_res (optional (de_identifier InterfaceId_try_from) ''device'' es) (\<lambda>device'.
     bind_res (optional (de_enum DhcpBindingMode_from) ''mode'' es) (\<lambda>mode'.
     bind_res (required de_lease ''expires'' es) (\<lambda>expires'.
     Inr \<lparr>dhcp_ip = ip', dhcp_mac = mac', dhcp_via = via', dhcp_hostname = hostname',
       dhcp_name = name', dhcp_device = device', dhcp_mode = mode',
       dhcp_expires = expires'\<rparr>))))))))"

interpretation DhcpBinding_entries: entry_decoder DhcpBinding_fields "DhcpBinding_visit_map fm" for fm
  by unfold_locales (simp add: DhcpBinding_fields_def DhcpBinding_visit_map_def decoder_simps)

datatype IpDhcpBindings = IpDhcpBindings (leases: "DhcpBinding list")

definition IpDhcpBindings_visit_map :: "formats \<Rightarrow> entries \<Rightarrow> IpDhcpBindings decoded" where
  "IpDhcpBindings_visit_map fm es =
     map_res IpDhcpBindings (required (de_seq (de_struct DhcpBinding_fields 8 (DhcpBinding_visit_map fm))) ''lease'' es)"

section \<open>Hotspot hosts\<close>

record InterfaceReference =
  ir_id :: InterfaceId
  ir_name :: string
  ir_description :: string

definition InterfaceReference_fields :: "string list" where
  "InterfaceReference_fields =
     [''id'', ''name'', ''description'']"

definition InterfaceReference_visit_map :: "entries \<Rightarrow> InterfaceReference decoded" where
  "InterfaceReference_visit_map es =
     bind_res (required (de_identifier InterfaceId_try_from) ''id'' es) (\<lambda>id'.
     bind_res (required de_str ''name'' es) (\<lambda>name'.
     bind_res (required de_str ''description'' es) (\<lambda>description'.
     Inr \<lparr>ir_id = id', ir_name = name', ir_description = description'\<rparr>)))"

interpretation InterfaceReference_entries: entry_decoder InterfaceReference_fields "InterfaceReference_visit_map"
  by unfold_locales (simp add: InterfaceReference_fields_def InterfaceReference_visit_map_def decoder_simps)

record HotspotDhcp =
  hd_expires :: LeaseExpiration

definition HotspotDhcp_fields :: "string list" where
  "HotspotDhcp_fields =
     [''expires'']"

definition HotspotDhcp_visit_map :: "entries \<Rightarrow> HotspotDhcp decoded" where
  "HotspotDhcp_visit_map es =
     bind_res (required de_lease ''expires'' es) (\<lambda>expires'.
     Inr \<lparr>hd_expires = expires'\<rparr>)"

interpretation HotspotDhcp_entries: entry_decoder HotspotDhcp_fields "HotspotDhcp_visit_map"
  by unfold_locales (simp add: HotspotDhcp_fields_def HotspotDhcp_visit_map_def decoder_simps)

record TrafficShape =
  ts_receive :: DataRate
  ts_transmit :: DataRate
  ts_mode :: TrafficShapeMode
  ts_schedule :: "string option"

definition TrafficShape_fields :: "string list" where
  "TrafficShape_fields =
     [''rx'', ''tx'', ''mode'', ''schedule'']"

definition TrafficShape_visit_map :: "entries \<Rightarrow> TrafficShape decoded" where
  "TrafficShape_visit_map es =
     bind_res (required de_kbps ''rx'' es) (\<lambda>receive'.
     bind_res (required de_kbps ''tx'' es) (\<lambda>transmit'.
     bind_res (required (de_enum TrafficShapeMode_from) ''mode'' es) (\<lambda>mode'.
     bind_res (defaulted None optional_nonempty_string ''schedule'' es) (\<lambda>schedule'.
     Inr \<lparr>ts_receive = receive', ts_transmit = transmit', ts_mode = mode',
       ts_schedule = schedule'\<rparr>))))"

interpretation TrafficShape_entries: entry_decoder TrafficShape_fields "TrafficShape_visit_map"
  by unfold_locales (simp add: TrafficShape_fields_def TrafficShape_visit_map_def decoder_simps)

record HotspotHost =
  hh_mac :: MacAddress
  hh_via :: MacAddress
  hh_ip :: "Ipv4Addr option"
  hh_ip6 :: "Ipv6Addr list"
  hh_hostname :: "string option"
  hh_name :: "string option"
  hh_interface :: "InterfaceReference option"
  hh_dhcp :: "HotspotDhcp option"
  hh_registered :: bool
  hh_access :: HotspotAccess
  hh_schedule :: "string option"
  hh_policy :: "string option"
  hh_priority :: u8
  hh_active :: bool
  hh_received :: ByteCount
  hh_transmitted :: ByteCount
  hh_uptime :: Uptime
  hh_first_seen :: "duration option"
  hh_last_seen :: "duration option"
  hh_link :: "LinkState option"
  hh_auto_negotiation :: "bool option"
  hh_duplex :: "bool option"
  hh_port :: "u8 option"
  hh_speed :: "DataRate option"
  hh_ssid :: "string option"
  hh_ap :: "InterfaceId option"
  hh_psm :: "bool option"
  hh_authenticated :: "bool option"
  hh_transmit_rate :: "DataRate option"
  hh_channel_width :: "ChannelWidth option"
  hh_mode :: "WifiMode option"
  hh_guard_interval :: "GuardInterval option"
  hh_rssi :: "Dbm option"
  hh_mcs :: "McsIndex option"
  hh_transmit_spatial_streams :: "SpatialStreams option"
  hh_ebf :: "bool option"
  hh_security :: "WifiSecurity option"
  hh_traffic_shape :: TrafficShape

definition HotspotHost_fields :: "string list" where
  "HotspotHost_fields =
     [''mac'', ''via'', ''ip'', ''ip6'', ''hostname'', ''name'', ''interface'', ''dhcp'',
      ''registered'', ''access'', ''schedule'', ''policy'', ''priority'', ''active'',
      ''rxbytes'', ''txbytes'', ''uptime'', ''first-seen'', ''last-seen'', ''link'',
      ''auto-negotiation'', ''duplex'', ''port'', ''speed'', ''ssid'', ''ap'', ''psm'',
      ''authenticated'', ''txrate'', ''ht'', ''mode'', ''gi'', ''rssi'', ''mcs'', ''txss'',
      ''ebf'', ''security'', ''traffic-shape'']"

definition HotspotHost_visit_map :: "formats \<Rightarrow> entries \<Rightarrow> HotspotHost decoded" where
  "HotspotHost_visit_map fm es =
     bind_res (required de_mac ''mac'' es) (\<lambda>mac'.
     bind_res (required de_mac ''via'' es) (\<lambda>via'.
     bind_res (required (de_optional_ipv4 fm) ''ip'' es) (\<lambda>ip'.
     bind_res (defaulted [] (de_seq (de_text (parse_ipv6 fm))) ''ip6'' es) (\<lambda>ip6'.
     bind_res (defaulted None optional_nonempty_string ''hostname'' es) (\<lambda>hostname'.
     bind_res (defaulted None optional_nonempty_string ''name'' es) (\<lambda>name'.
     bind_res (optional (de_struct InterfaceReference_fields 3 InterfaceReference_visit_map) ''interface'' es) (\<lambda>interface'.
     bind_res (optional (de_struct HotspotDhcp_fields 1 HotspotDhcp_visit_map) ''dhcp'' es) (\<lambda>dhcp'.
     bind_res (required de_bool ''registered'' es) (\<lambda>registered'.
     bind_res (required (de_enum HotspotAccess_from) ''access'' es) (\<lambda>access'.
     bind_res (defaulted None optional_nonempty_string ''schedule'' es) (\<lambda>schedule'.
     bind_res (defaulted None optional_nonempty_string ''policy'' es) (\<lambda>policy'.
     bind_res (required de_uint ''priority'' es) (\<lambda>priority'.
     bind_res (defaulted False de_bool ''active'' es) (\<lambda>active'.
     bind_res (required (de_newtype ByteCount de_uint) ''rxbytes'' es) (\<lambda>received'.
     bind_res (required (de_newtype ByteCount de_uint) ''txbytes'' es) (\<lambda>transmitted'.
     bind_res (required de_uptime ''uptime'' es) (\<lambda>uptime'.
     bind_res (defaulted None de_optional_seconds ''first-seen'' es) (\<lambda>first_seen'.
     bind_res (defaulted None de_optional_seconds ''last-seen'' es) (\<lambda>last_seen'.
     bind_res (optional (de_enum LinkState_from) ''link'' es) (\<lambda>link'.
     bind_res (optional de_bool ''auto-negotiation'' es) (\<lambda>auto_negotiation'.
     bind_res (optional de_bool ''duplex'' es) (\<lambda>duplex'.
     bind_res (defaulted None de_optional_u8_string_or_number ''port'' es) (\<lambda>port'.
     bind_res (defaulted None de_optional_mbps ''speed'' es) (\<lambda>speed'.
     bind_res (defaulted None optional_nonempty_string ''ssid'' es) (\<lambda>ssid'.
     bind_res (optional (de_identifier InterfaceId_try_from) ''ap'' es) (\<lambda>ap'.
     bind_res (optional de_bool ''psm'' es) (\<lambda>psm'.
     bind_res (optional de_bool ''authenticated'' es) (\<lambda>authenticated'.
     bind_res (defaulted None de_optional_mbps ''txrate'' es) (\<lambda>transmit_rate'.
     bind_res (optional (de_newtype ChannelWidth de_uint) ''ht'' es) (\<lambda>channel_width'.
     bind_res (optional (de_enum WifiMode_from) ''mode'' es) (\<lambda>mode'.
     bind_res (optional (de_newtype GuardInterval de_uint) ''gi'' es) (\<lambda>guard_interval'.
     bind_res (defaulted None (de_optional_measurement Dbm_new) ''rssi'' es) (\<lambda>rssi'.
     bind_res (optional (de_newtype McsIndex de_uint) ''mcs'' es) (\<lambda>mcs'.
     bind_res (optional (de_newtype SpatialStreams de_nonzero) ''txss'' es) (\<lambda>transmit_spatial_streams'.
     bind_res (optional de_bool ''ebf'' es) (\<lambda>ebf'.
     bind_res (optional (de_enum WifiSecurity_from) ''security'' es) (\<lambda>security'.
     bind_res (required (de_struct TrafficShape_fields 3 TrafficShape_visit_map) ''traffic-shape'' es) (\<lambda>traffic_shape'.
     Inr \<lparr>hh_mac = mac', hh_via = via', hh_ip = ip', hh_ip6 = ip6',
       hh_hostname = hostname', hh_name = name', hh_interface = interface', hh_dhcp = dhcp',
       hh_registered = registered', hh_access = access', hh_schedule = schedule',
       hh_policy = policy', hh_priority = priority', hh_active = active',
       hh_received = received', hh_transmitted = transmitted', hh_uptime = uptime',
       hh_first_seen = first_seen', hh_last_seen = last_seen', hh_link = link',
       hh_auto_negotiation = auto_negotiation', hh_duplex = duplex', hh_port = port',
       hh_speed = speed', hh_ssid = ssid', hh_ap = ap', hh_psm = psm',
       hh_authenticated = authenticated', hh_transmit_rate = transmit_rate',
       hh_channel_width = channel_width', hh_mode = mode', hh_guard_interval = guard_interval',
       hh_rssi = rssi', hh_mcs = mcs', hh_transmit_spatial_streams = transmit_spatial_streams',
       hh_ebf = ebf', hh_security = security', hh_traffic_shape = traffic_shape'\<rparr>))))))))))))))))))))))))))))))))))))))"

interpretation HotspotHost_entries: entry_decoder HotspotHost_fields "HotspotHost_visit_map fm" for fm
  by unfold_locales (simp add: HotspotHost_fields_def HotspotHost_visit_map_def decoder_simps)

datatype IpHotspotHosts = IpHotspotHosts (hosts: "HotspotHost list")

definition IpHotspotHosts_visit_map :: "formats \<Rightarrow> entries \<Rightarrow> IpHotspotHosts decoded" where
  "IpHotspotHosts_visit_map fm es =
     map_res IpHotspotHosts (required (de_seq (de_struct HotspotHost_fields 38 (HotspotHost_visit_map fm))) ''host'' es)"

end
