(* ===== verification/Clients.thy ===== *)
theory Clients
  imports Stations
begin

text \<open>
  \<open>src/src/model/clients.rs\<close>: the index that joins the records of four responses by MAC address.
  The code keeps a \<open>BTreeMap\<close> and updates the entry of each record's address in place;
  \<open>ordered_map\<close> is what it relies on from the map, and the lemma \<open>get_folded\<close> inside it says that a fold of
  such updates changes the value at a key by the records with that key alone, in their order. The index
  is then its specification \<open>client_spec\<close> key by key.
\<close>

section \<open>Clients\<close>

datatype ClientActivity = Active | Inactive | Unknown

record ConnectedClient =
  cl_mac :: MacAddress
  cl_association :: "Association option"
  cl_hotspot :: "HotspotHost option"
  cl_arp :: "ArpEntry list"
  cl_dhcp :: "DhcpBinding list"

definition activity :: "ConnectedClient \<Rightarrow> ClientActivity" where
  "activity c =
     (if cl_association c \<noteq> None \<or> (case cl_hotspot c of Some host \<Rightarrow> hh_active host | None \<Rightarrow> False)
      then Active
      else if cl_hotspot c \<noteq> None then Inactive
      else Unknown)"

definition ipv4_addresses :: "ConnectedClient \<Rightarrow> Ipv4Addr list" where
  "ipv4_addresses c =
     (case Option.bind (cl_hotspot c) hh_ip of Some ip \<Rightarrow> [ip] | None \<Rightarrow> [])
     @ map arp_ip (cl_arp c) @ map dhcp_ip (cl_dhcp c)"

definition ipv6_addresses :: "ConnectedClient \<Rightarrow> Ipv6Addr list" where
  "ipv6_addresses c = (case cl_hotspot c of Some host \<Rightarrow> hh_ip6 host | None \<Rightarrow> [])"

fun flatten_opts :: "'a option list \<Rightarrow> 'a list" where
  "flatten_opts [] = []"
| "flatten_opts (None # xs) = flatten_opts xs"
| "flatten_opts (Some x # xs) = x # flatten_opts xs"

definition names :: "ConnectedClient \<Rightarrow> string list" where
  "names c =
     flatten_opts (case cl_hotspot c of Some host \<Rightarrow> [hh_name host, hh_hostname host] | None \<Rightarrow> [])
     @ flatten_opts (map arp_name (cl_arp c))
     @ flatten_opts (concat (map (\<lambda>lease. [dhcp_name lease, dhcp_hostname lease]) (cl_dhcp c)))"

definition hotspot_interface :: "ConnectedClient \<Rightarrow> InterfaceReference option" where
  "hotspot_interface c = Option.bind (cl_hotspot c) hh_interface"

definition interface_ids :: "ConnectedClient \<Rightarrow> InterfaceId list" where
  "interface_ids c =
     flatten_opts [map_option (\<lambda>association. wl_ap (as_link association)) (cl_association c),
       map_option ir_id (Option.bind (cl_hotspot c) hh_interface),
       Option.bind (cl_hotspot c) hh_ap]
     @ map arp_interface (cl_arp c)
     @ flatten_opts (map dhcp_device (cl_dhcp c))"

section \<open>The index\<close>

datatype ClientIndex = ClientIndex (clients: "(MacAddress, ConnectedClient) btree")

definition fresh_client :: "MacAddress \<Rightarrow> ConnectedClient" where
  "fresh_client mac =
     \<lparr>cl_mac = mac, cl_association = None, cl_hotspot = None, cl_arp = [], cl_dhcp = []\<rparr>"

text \<open>\<open>entry(&mut clients, mac)\<close> and the assignment through the reference it returns.\<close>

definition entry ::
  "(ConnectedClient \<Rightarrow> ConnectedClient) \<Rightarrow> MacAddress \<Rightarrow> (MacAddress, ConnectedClient) btree \<Rightarrow>
   (MacAddress, ConnectedClient) btree" where
  "entry change mac m =
     bt_insert mac (change (case bt_get m mac of Some c \<Rightarrow> c | None \<Rightarrow> fresh_client mac)) m"

definition ClientIndex_new ::
  "Associations \<Rightarrow> IpHotspotHosts \<Rightarrow> IpArp \<Rightarrow> IpDhcpBindings \<Rightarrow> ClientIndex" where
  "ClientIndex_new associations hotspot arp dhcp =
     (let c0 = [];
          c1 = foldl (\<lambda>c a. entry (\<lambda>e. e\<lparr>cl_association := Some a\<rparr>) (as_mac a) c) c0 (stations associations);
          c2 = foldl (\<lambda>c h. entry (\<lambda>e. e\<lparr>cl_hotspot := Some h\<rparr>) (hh_mac h) c) c1 (hosts hotspot);
          c3 = foldl (\<lambda>c a. entry (\<lambda>e. e\<lparr>cl_arp := cl_arp e @ [a]\<rparr>) (arp_mac a) c) c2 (IpArp_entries arp);
          c4 = foldl (\<lambda>c l. entry (\<lambda>e. e\<lparr>cl_dhcp := cl_dhcp e @ [l]\<rparr>) (dhcp_mac l) c) c3 (leases dhcp)
      in ClientIndex c4)"

definition ClientIndex_get :: "ClientIndex \<Rightarrow> MacAddress \<Rightarrow> ConnectedClient option" where
  "ClientIndex_get index mac = bt_get (clients index) mac"

definition ClientIndex_iter :: "ClientIndex \<Rightarrow> ConnectedClient list" where
  "ClientIndex_iter index = map snd (clients index)"

definition ClientIndex_len :: "ClientIndex \<Rightarrow> nat" where
  "ClientIndex_len index = length (clients index)"

definition ClientIndex_is_empty :: "ClientIndex \<Rightarrow> bool" where
  "ClientIndex_is_empty index \<longleftrightarrow> clients index = []"

section \<open>What the index relies on\<close>

locale ordered_map =
  fixes empty :: 'm
    and get :: "'m \<Rightarrow> 'k \<Rightarrow> 'v option"
    and insert :: "'k \<Rightarrow> 'v \<Rightarrow> 'm \<Rightarrow> 'm"
    and ok :: "'m \<Rightarrow> bool"
  assumes ok_empty: "ok empty"
    and get_empty: "get empty k = None"
    and ok_insert: "ok m \<Longrightarrow> ok (insert k v m)"
    and get_insert: "ok m \<Longrightarrow> get (insert k v m) = (get m)(k \<mapsto> v)"
begin

lemma ok_folded: "ok m \<Longrightarrow> ok (foldl (\<lambda>m x. insert (key x) (f x (get m (key x))) m) m xs)"
  by (induction xs arbitrary: m) (simp_all add: ok_insert)

lemma get_folded:
  assumes "ok m"
  shows "get (foldl (\<lambda>m x. insert (key x) (f x (get m (key x))) m) m xs) k
       = foldl (\<lambda>v x. Some (f x v)) (get m k) (filter (\<lambda>x. key x = k) xs)"
  using assms by (induction xs arbitrary: m) (simp_all add: ok_insert get_insert)

end

interpretation client_map: ordered_map "[]" bt_get bt_insert
  "bt_ok :: (MacAddress, ConnectedClient) btree \<Rightarrow> bool"
  by unfold_locales (simp_all add: bt_insert_ok bt_get_insert, simp_all add: bt_ok_def bt_get_def)

section \<open>The specification\<close>

definition last_with :: "('a \<Rightarrow> MacAddress) \<Rightarrow> MacAddress \<Rightarrow> 'a list \<Rightarrow> 'a option" where
  "last_with key mac xs = List.find (\<lambda>x. key x = mac) (rev xs)"

definition all_with :: "('a \<Rightarrow> MacAddress) \<Rightarrow> MacAddress \<Rightarrow> 'a list \<Rightarrow> 'a list" where
  "all_with key mac xs = filter (\<lambda>x. key x = mac) xs"

definition client_spec ::
  "Associations \<Rightarrow> IpHotspotHosts \<Rightarrow> IpArp \<Rightarrow> IpDhcpBindings \<Rightarrow> MacAddress \<Rightarrow> ConnectedClient" where
  "client_spec associations hotspot arp dhcp mac =
     \<lparr>cl_mac = mac,
      cl_association = last_with as_mac mac (stations associations),
      cl_hotspot = last_with hh_mac mac (hosts hotspot),
      cl_arp = all_with arp_mac mac (IpArp_entries arp),
      cl_dhcp = all_with dhcp_mac mac (leases dhcp)\<rparr>"

definition known_macs ::
  "Associations \<Rightarrow> IpHotspotHosts \<Rightarrow> IpArp \<Rightarrow> IpDhcpBindings \<Rightarrow> MacAddress set" where
  "known_macs associations hotspot arp dhcp =
     as_mac ` set (stations associations) \<union> hh_mac ` set (hosts hotspot)
     \<union> arp_mac ` set (IpArp_entries arp) \<union> dhcp_mac ` set (leases dhcp)"

section \<open>Lemmas\<close>

abbreviation known :: "MacAddress \<Rightarrow> ConnectedClient option \<Rightarrow> ConnectedClient" where
  "known mac v \<equiv> (case v of Some c \<Rightarrow> c | None \<Rightarrow> fresh_client mac)"

lemma entry_fold:
  "foldl (\<lambda>c x. entry (change x) (key x) c) m xs
   = foldl (\<lambda>m x. bt_insert (key x) (change x (known (key x) (bt_get m (key x)))) m) m xs"
  by (simp add: entry_def)

lemma entries_ok: "bt_ok m \<Longrightarrow> bt_ok (foldl (\<lambda>c x. entry (change x) (key x) c) m xs)"
  unfolding entry_fold
  using client_map.ok_folded [where f = "\<lambda>x v. change x (known (key x) v)" and key = key] by simp

text \<open>What the fold does at one key.\<close>

lemma entries_get:
  assumes "bt_ok m"
  shows "bt_get (foldl (\<lambda>c x. entry (change x) (key x) c) m xs) mac
       = foldl (\<lambda>v x. Some (change x (known mac v))) (bt_get m mac) (all_with key mac xs)"
proof -
  have "foldl (\<lambda>v x. Some (change x (known (key x) v))) v (all_with key mac xs)
      = foldl (\<lambda>v x. Some (change x (known mac v))) v (all_with key mac xs)" for v
    by (rule foldl_cong) (auto simp: all_with_def)
  then show ?thesis
    unfolding entry_fold using assms
    by (simp add: client_map.get_folded [where f = "\<lambda>x v. change x (known (key x) v)"] all_with_def)
qed

lemma find_rev_filter: "List.find P (rev xs) = (if filter P xs = [] then None else Some (last (filter P xs)))"
  by (induction xs rule: rev_induct) (auto simp: filter_empty_conv)

lemma overwrite_fold:
  "foldl (\<lambda>v x. Some (put x (known mac v))) v xs
   = (if xs = [] then v else Some (put (last xs) (known mac v)))"
  if "\<And>x y c. put x (put y c) = put x c"
  by (induction xs rule: rev_induct) (auto simp: that)

lemma append_fold:
  "foldl (\<lambda>v x. Some (add [x] (known mac v))) v xs
   = (if xs = [] then v else Some (add xs (known mac v)))"
  if "\<And>xs ys c. add ys (add xs c) = add (xs @ ys) c"
  by (induction xs rule: rev_induct) (auto simp: that)


lemma client_index_get:
  "ClientIndex_get (ClientIndex_new associations hotspot arp dhcp) mac
   = (if mac \<in> known_macs associations hotspot arp dhcp
      then Some (client_spec associations hotspot arp dhcp mac) else None)"
  (is "ClientIndex_get ?i mac = _")
proof -
  let ?assoc = "all_with as_mac mac (stations associations)"
  let ?host = "all_with hh_mac mac (hosts hotspot)"
  let ?arp = "all_with arp_mac mac (IpArp_entries arp)"
  let ?dhcp = "all_with dhcp_mac mac (leases dhcp)"
  have ok: "bt_ok ([] :: (MacAddress, ConnectedClient) btree)" by (rule client_map.ok_empty)
  have "mac \<in> known_macs associations hotspot arp dhcp \<longleftrightarrow>
      \<not> (?assoc = [] \<and> ?host = [] \<and> ?arp = [] \<and> ?dhcp = [])"
    by (force simp: known_macs_def all_with_def filter_empty_conv)
  moreover have "ClientIndex_get ?i mac =
      (if ?assoc = [] \<and> ?host = [] \<and> ?arp = [] \<and> ?dhcp = [] then None
       else Some (client_spec associations hotspot arp dhcp mac))"
    unfolding ClientIndex_get_def ClientIndex_new_def Let_def ClientIndex.sel
    by (simp add: entries_get entries_ok ok client_map.get_empty
        overwrite_fold [where put = "\<lambda>a e. e\<lparr>cl_association := Some a\<rparr>"]
        overwrite_fold [where put = "\<lambda>h e. e\<lparr>cl_hotspot := Some h\<rparr>"]
        append_fold [where add = "\<lambda>xs e. e\<lparr>cl_arp := cl_arp e @ xs\<rparr>"]
        append_fold [where add = "\<lambda>xs e. e\<lparr>cl_dhcp := cl_dhcp e @ xs\<rparr>"]
        client_spec_def last_with_def find_rev_filter all_with_def fresh_client_def)
  ultimately show ?thesis by simp
qed

lemma client_index_ok: "bt_ok (clients (ClientIndex_new associations hotspot arp dhcp))"
  unfolding ClientIndex_new_def Let_def ClientIndex.sel
  by (intro entries_ok client_map.ok_empty)

lemma bt_get_entries: "bt_ok t \<Longrightarrow> (k, v) \<in> set t \<longleftrightarrow> bt_get t k = Some v"
  by (simp add: bt_get_def bt_ok_distinct)

lemma bt_keys: "fst ` set t = {k. bt_get t k \<noteq> None}"
  by (auto simp: bt_get_def map_of_eq_None_iff)

lemma last_with_None: "last_with key mac xs = None \<longleftrightarrow> mac \<notin> key ` set xs"
  by (auto simp: last_with_def find_None_iff)

lemma flatten_opts_map: "x \<in> set (flatten_opts (map f xs)) \<longleftrightarrow> (\<exists>y \<in> set xs. f y = Some x)"
proof (induction xs)
  case (Cons y xs)
  then show ?case by (cases "f y") auto
qed simp

lemma flatten_opts_three:
  "x \<in> set (flatten_opts [u, v, w]) \<longleftrightarrow> u = Some x \<or> v = Some x \<or> w = Some x"
  by (cases u; cases v; cases w) auto

lemma interface_ids_iff:
  "i \<in> set (interface_ids c) \<longleftrightarrow>
     (\<exists>a. cl_association c = Some a \<and> i = wl_ap (as_link a))
     \<or> (\<exists>h. cl_hotspot c = Some h \<and> (hh_ap h = Some i \<or> (\<exists>r. hh_interface h = Some r \<and> i = ir_id r)))
     \<or> (\<exists>e \<in> set (cl_arp c). i = arp_interface e)
     \<or> (\<exists>l \<in> set (cl_dhcp c). dhcp_device l = Some i)"
proof -
  have "map_option ir_id (Option.bind (cl_hotspot c) hh_interface) = Some i \<or> Option.bind (cl_hotspot c) hh_ap = Some i
      \<longleftrightarrow> (\<exists>h. cl_hotspot c = Some h \<and> (hh_ap h = Some i \<or> (\<exists>r. hh_interface h = Some r \<and> i = ir_id r)))"
    by (cases "cl_hotspot c") auto
  then show ?thesis
    by (auto simp: interface_ids_def flatten_opts_map flatten_opts_three simp del: flatten_opts.simps)
qed

lemma ipv4_addresses_iff:
  "ip \<in> set (ipv4_addresses c) \<longleftrightarrow>
     (\<exists>h. cl_hotspot c = Some h \<and> hh_ip h = Some ip)
     \<or> (\<exists>e \<in> set (cl_arp c). ip = arp_ip e) \<or> (\<exists>l \<in> set (cl_dhcp c). ip = dhcp_ip l)"
  by (auto simp: ipv4_addresses_def Option.bind_eq_Some_conv split: option.splits)

section \<open>Properties\<close>

text \<open>C18: the index is the union of the four responses: it has one client for each MAC address that
  occurs in any of them and no other, in address order; a client carries the last association and the
  last hotspot host with its address and every ARP and DHCP record with it, in response order.\<close>

theorem client_index_union:
  fixes associations hotspot arp dhcp
  defines "index \<equiv> ClientIndex_new associations hotspot arp dhcp"
  shows "(\<forall>mac. ClientIndex_get index mac =
      (if mac \<in> known_macs associations hotspot arp dhcp
       then Some (client_spec associations hotspot arp dhcp mac) else None))
    \<and> sorted_wrt (<) (map cl_mac (ClientIndex_iter index))
    \<and> set (map cl_mac (ClientIndex_iter index)) = known_macs associations hotspot arp dhcp
    \<and> ClientIndex_len index = card (known_macs associations hotspot arp dhcp)"
proof -
  let ?t = "clients index"
  have get: "bt_get ?t mac = (if mac \<in> known_macs associations hotspot arp dhcp
       then Some (client_spec associations hotspot arp dhcp mac) else None)" for mac
    using client_index_get [of associations hotspot arp dhcp mac] by (simp add: index_def ClientIndex_get_def)
  have ok: "bt_ok ?t" unfolding index_def by (rule client_index_ok)
  have "cl_mac v = k" if "(k, v) \<in> set ?t" for k v
  proof -
    from that ok have "v = client_spec associations hotspot arp dhcp k"
      by (simp add: bt_get_entries get split: if_splits)
    then show ?thesis by (simp add: client_spec_def)
  qed
  then have keys: "map cl_mac (ClientIndex_iter index) = map fst ?t"
    by (auto simp: ClientIndex_iter_def)
  have sorted: "sorted_wrt (<) (map fst ?t)" using ok by (simp add: bt_ok_def)
  have set: "set (map fst ?t) = known_macs associations hotspot arp dhcp"
    by (simp add: bt_keys get)
  have "ClientIndex_len index = card (set (map fst ?t))"
    using bt_ok_distinct [OF ok] by (simp add: ClientIndex_len_def distinct_card del: set_map)
  with sorted set show ?thesis by (simp only: keys) (simp add: ClientIndex_get_def get)
qed

text \<open>C25: what a client of the index reports is derived from the records with its address: it is active
  exactly when a station is associated under the address or its hotspot host is active, unknown
  exactly when neither list mentions the address (an ARP or DHCP entry alone proves nothing), and
  its IPv4 addresses and interfaces are those of its records, none lost and none added.\<close>

theorem client_views:
  assumes "ClientIndex_get (ClientIndex_new associations hotspot arp dhcp) mac = Some c"
  shows "(activity c = Active \<longleftrightarrow> mac \<in> as_mac ` set (stations associations)
           \<or> (\<exists>h. last_with hh_mac mac (hosts hotspot) = Some h \<and> hh_active h))
    \<and> (activity c = Unknown \<longleftrightarrow>
         mac \<notin> as_mac ` set (stations associations) \<and> mac \<notin> hh_mac ` set (hosts hotspot))
    \<and> set (ipv4_addresses c) = {ip. \<exists>h. last_with hh_mac mac (hosts hotspot) = Some h \<and> hh_ip h = Some ip}
        \<union> {arp_ip e | e. e \<in> set (IpArp_entries arp) \<and> arp_mac e = mac}
        \<union> {dhcp_ip l | l. l \<in> set (leases dhcp) \<and> dhcp_mac l = mac}
    \<and> set (interface_ids c) =
        {wl_ap (as_link a) | a. last_with as_mac mac (stations associations) = Some a}
        \<union> {i. \<exists>h. last_with hh_mac mac (hosts hotspot) = Some h
                \<and> (hh_ap h = Some i \<or> (\<exists>r. hh_interface h = Some r \<and> i = ir_id r))}
        \<union> {arp_interface e | e. e \<in> set (IpArp_entries arp) \<and> arp_mac e = mac}
        \<union> {i. \<exists>l. l \<in> set (leases dhcp) \<and> dhcp_mac l = mac \<and> dhcp_device l = Some i}"
proof -
  from assms have c: "c = client_spec associations hotspot arp dhcp mac"
    by (simp add: client_index_get split: if_splits)
  have some: "mac \<in> as_mac ` set (stations associations) \<longleftrightarrow> last_with as_mac mac (stations associations) \<noteq> None"
    "mac \<in> hh_mac ` set (hosts hotspot) \<longleftrightarrow> last_with hh_mac mac (hosts hotspot) \<noteq> None"
    by (simp_all add: last_with_None)
  show ?thesis
    unfolding some set_eq_iff interface_ids_iff ipv4_addresses_iff
    by (intro conjI) (auto simp: c activity_def client_spec_def all_with_def split: option.splits)
qed

definition one_arp_entry :: ArpEntry where
  "one_arp_entry =
     \<lparr>arp_ip = Ipv4Addr 192 0 2 40, arp_mac = MacAddress [2, 0, 0, 0, 0, 0x40],
      arp_interface = InterfaceId ''Bridge0'', arp_name = None, arp_state = ArpState_Stale\<rparr>"

theorem client_views_witness:
  "\<exists>c. ClientIndex_get (ClientIndex_new (Associations []) (IpHotspotHosts []) (IpArp [one_arp_entry])
        (IpDhcpBindings [])) (MacAddress [2, 0, 0, 0, 0, 0x40]) = Some c
     \<and> activity c = Unknown \<and> set (ipv4_addresses c) = {Ipv4Addr 192 0 2 40}"
proof -
  let ?i = "ClientIndex_new (Associations []) (IpHotspotHosts []) (IpArp [one_arp_entry]) (IpDhcpBindings [])"
  let ?m = "MacAddress [2, 0, 0, 0, 0, 0x40]"
  obtain c where c: "ClientIndex_get ?i ?m = Some c"
    by (simp add: client_index_get known_macs_def one_arp_entry_def)
  from client_views [OF c] have "activity c = Unknown" "set (ipv4_addresses c) = {Ipv4Addr 192 0 2 40}"
    by (auto simp: one_arp_entry_def last_with_def)
  with c show ?thesis by blast
qed

end
