(* ===== verification/Inventory.thy ===== *)
theory Inventory
  imports Interfaces
begin

text \<open>
  What a router says about itself: runtime metrics (\<open>src/src/model/system.rs\<close>), operating modes
  (\<open>src/src/model/system_mode.rs\<close>), firmware and hardware (\<open>version.rs\<close>, \<open>identification.rs\<close>),
  interface counters (\<open>interface_stat.rs\<close>) and the USB and storage inventory (\<open>storage.rs\<close>).
\<close>

section \<open>System\<close>

record System =
  sys_hostname :: string
  sys_domain_name :: string
  sys_uptime :: Uptime
  sys_cpu_load :: CpuLoad
  sys_memory_total :: ByteCount
  sys_memory_free :: ByteCount
  sys_connection_capacity :: u64
  sys_connections_available :: u64

definition System_fields :: "string list" where
  "System_fields =
     [''hostname'', ''domainname'', ''uptime'', ''cpuload'', ''memtotal'', ''memfree'',
      ''conntotal'', ''connfree'']"

definition System_visit_map :: "entries \<Rightarrow> System decoded" where
  "System_visit_map es =
     bind_res (required de_str ''hostname'' es) (\<lambda>hostname'.
     bind_res (required de_str ''domainname'' es) (\<lambda>domain_name'.
     bind_res (required de_uptime ''uptime'' es) (\<lambda>uptime'.
     bind_res (required (de_try_from de_uint CpuLoad_new) ''cpuload'' es) (\<lambda>cpu_load'.
     bind_res (required (de_newtype ByteCount de_uint) ''memtotal'' es) (\<lambda>memory_total'.
     bind_res (required (de_newtype ByteCount de_uint) ''memfree'' es) (\<lambda>memory_free'.
     bind_res (required de_uint ''conntotal'' es) (\<lambda>connection_capacity'.
     bind_res (required de_uint ''connfree'' es) (\<lambda>connections_available'.
     Inr \<lparr>sys_hostname = hostname', sys_domain_name = domain_name', sys_uptime = uptime',
       sys_cpu_load = cpu_load', sys_memory_total = memory_total',
       sys_memory_free = memory_free', sys_connection_capacity = connection_capacity',
       sys_connections_available = connections_available'\<rparr>))))))))"

interpretation System_entries: entry_decoder System_fields "System_visit_map"
  by unfold_locales (simp add: System_fields_def System_visit_map_def decoder_simps)

section \<open>Operating modes\<close>

datatype mode_error = Mode_empty

text \<open>The iterator chain of the visitor: split at commas, trim, refuse an empty mode; \<open>collect\<close> into a
  \<open>Result\<close> stops at the first error.\<close>

definition supported_modes :: "string \<Rightarrow> mode_error de_error + SystemOperatingMode list" where
  "supported_modes value =
     traverse (\<lambda>mode. if mode = [] then Inl (Custom Mode_empty) else Inr (SystemOperatingMode_from mode))
       (map trim (split_on CHR '','' value))"

definition deserialize_supported_modes :: "SystemOperatingMode list decode" where
  "deserialize_supported_modes = visiting (str_visitor supported_modes)"

record SystemModeStatus =
  sms_active :: SystemOperatingMode
  sms_selected :: SystemOperatingMode
  sms_supported :: "SystemOperatingMode list"
  sms_hardware_controlled :: bool
  sms_hardware_locked :: bool

definition SystemModeStatus_fields :: "string list" where
  "SystemModeStatus_fields =
     [''active'', ''selected'', ''supported'', ''hw_controlled'', ''hw_locked'']"

definition SystemModeStatus_visit_map :: "entries \<Rightarrow> SystemModeStatus decoded" where
  "SystemModeStatus_visit_map es =
     bind_res (required (de_enum SystemOperatingMode_from) ''active'' es) (\<lambda>active'.
     bind_res (required (de_enum SystemOperatingMode_from) ''selected'' es) (\<lambda>selected'.
     bind_res (required deserialize_supported_modes ''supported'' es) (\<lambda>supported'.
     bind_res (required de_bool ''hw_controlled'' es) (\<lambda>hardware_controlled'.
     bind_res (required de_bool ''hw_locked'' es) (\<lambda>hardware_locked'.
     Inr \<lparr>sms_active = active', sms_selected = selected', sms_supported = supported',
       sms_hardware_controlled = hardware_controlled',
       sms_hardware_locked = hardware_locked'\<rparr>)))))"

interpretation SystemModeStatus_entries: entry_decoder SystemModeStatus_fields "SystemModeStatus_visit_map"
  by unfold_locales (simp add: SystemModeStatus_fields_def SystemModeStatus_visit_map_def decoder_simps)

section \<open>Version and identification\<close>

record VersionBuild =
  vb_exact :: string
  vb_cdate :: string

definition VersionBuild_fields :: "string list" where
  "VersionBuild_fields =
     [''exact'', ''cdate'']"

definition VersionBuild_visit_map :: "entries \<Rightarrow> VersionBuild decoded" where
  "VersionBuild_visit_map es =
     bind_res (required de_str ''exact'' es) (\<lambda>exact'.
     bind_res (required de_str ''cdate'' es) (\<lambda>cdate'.
     Inr \<lparr>vb_exact = exact', vb_cdate = cdate'\<rparr>))"

interpretation VersionBuild_entries: entry_decoder VersionBuild_fields "VersionBuild_visit_map"
  by unfold_locales (simp add: VersionBuild_fields_def VersionBuild_visit_map_def decoder_simps)

record VersionCapabilities =
  vc_components :: string
  vc_features :: string

definition VersionCapabilities_fields :: "string list" where
  "VersionCapabilities_fields =
     [''components'', ''features'']"

definition VersionCapabilities_visit_map :: "entries \<Rightarrow> VersionCapabilities decoded" where
  "VersionCapabilities_visit_map es =
     bind_res (required de_str ''components'' es) (\<lambda>components'.
     bind_res (required de_str ''features'' es) (\<lambda>features'.
     Inr \<lparr>vc_components = components', vc_features = features'\<rparr>))"

interpretation VersionCapabilities_entries: entry_decoder VersionCapabilities_fields "VersionCapabilities_visit_map"
  by unfold_locales (simp add: VersionCapabilities_fields_def VersionCapabilities_visit_map_def decoder_simps)

record Version =
  ver_title :: string
  ver_release :: string
  ver_arch :: Architecture
  ver_sandbox :: "FirmwareChannel option"
  ver_manufacturer :: string
  ver_series :: HardwareVendor
  ver_model :: string
  ver_hw_version :: HardwareVersion
  ver_hw_type :: "HardwareType option"
  ver_hw_id :: HardwareId
  ver_region :: RegionCode
  ver_ndm :: VersionBuild
  ver_ndw :: VersionCapabilities

definition Version_fields :: "string list" where
  "Version_fields =
     [''title'', ''release'', ''arch'', ''sandbox'', ''manufacturer'', ''series'', ''model'',
      ''hw_version'', ''hw_type'', ''hw_id'', ''region'', ''ndm'', ''ndw'']"

definition Version_visit_map :: "entries \<Rightarrow> Version decoded" where
  "Version_visit_map es =
     bind_res (required de_str ''title'' es) (\<lambda>title'.
     bind_res (required de_str ''release'' es) (\<lambda>release'.
     bind_res (required (de_enum Architecture_from) ''arch'' es) (\<lambda>arch'.
     bind_res (optional (de_enum FirmwareChannel_from) ''sandbox'' es) (\<lambda>sandbox'.
     bind_res (required de_str ''manufacturer'' es) (\<lambda>manufacturer'.
     bind_res (required (de_from_str HardwareVendor_from_str) ''series'' es) (\<lambda>series'.
     bind_res (required de_str ''model'' es) (\<lambda>model'.
     bind_res (required (de_from_str HardwareVersion_from_str) ''hw_version'' es) (\<lambda>hw_version'.
     bind_res (optional (de_enum HardwareType_from) ''hw_type'' es) (\<lambda>hw_type'.
     bind_res (required (de_from_str HardwareId_from_str) ''hw_id'' es) (\<lambda>hw_id'.
     bind_res (required (de_from_str RegionCode_from_str) ''region'' es) (\<lambda>region'.
     bind_res (required (de_struct VersionBuild_fields 2 VersionBuild_visit_map) ''ndm'' es) (\<lambda>ndm'.
     bind_res (required (de_struct VersionCapabilities_fields 2 VersionCapabilities_visit_map) ''ndw'' es) (\<lambda>ndw'.
     Inr \<lparr>ver_title = title', ver_release = release', ver_arch = arch',
       ver_sandbox = sandbox', ver_manufacturer = manufacturer', ver_series = series',
       ver_model = model', ver_hw_version = hw_version', ver_hw_type = hw_type',
       ver_hw_id = hw_id', ver_region = region', ver_ndm = ndm', ver_ndw = ndw'\<rparr>)))))))))))))"

interpretation Version_entries: entry_decoder Version_fields "Version_visit_map"
  by unfold_locales (simp add: Version_fields_def Version_visit_map_def decoder_simps)

record Identification =
  idn_service_tag :: ServiceTag
  idn_serial :: SerialNumber
  idn_mac :: MacAddress
  idn_hardware_id :: HardwareId
  idn_customer_id :: CustomerId

definition Identification_fields :: "string list" where
  "Identification_fields =
     [''servicetag'', ''serial'', ''mac'', ''hwid'', ''cid'']"

definition Identification_visit_map :: "entries \<Rightarrow> Identification decoded" where
  "Identification_visit_map es =
     bind_res (required (de_identifier ServiceTag_try_from) ''servicetag'' es) (\<lambda>service_tag'.
     bind_res (required (de_identifier SerialNumber_try_from) ''serial'' es) (\<lambda>serial'.
     bind_res (required de_mac ''mac'' es) (\<lambda>mac'.
     bind_res (required (de_from_str HardwareId_from_str) ''hwid'' es) (\<lambda>hardware_id'.
     bind_res (required (de_identifier CustomerId_try_from) ''cid'' es) (\<lambda>customer_id'.
     Inr \<lparr>idn_service_tag = service_tag', idn_serial = serial', idn_mac = mac',
       idn_hardware_id = hardware_id', idn_customer_id = customer_id'\<rparr>)))))"

interpretation Identification_entries: entry_decoder Identification_fields "Identification_visit_map"
  by unfold_locales (simp add: Identification_fields_def Identification_visit_map_def decoder_simps)

section \<open>Interface statistics\<close>

record InterfaceStat =
  ist_received_packets :: u64
  ist_received_multicast_packets :: u64
  ist_received_broadcast_packets :: u64
  ist_received :: ByteCount
  ist_receive_errors :: u64
  ist_receive_dropped :: u64
  ist_transmitted_packets :: u64
  ist_transmitted_multicast_packets :: u64
  ist_transmitted_broadcast_packets :: u64
  ist_transmitted :: ByteCount
  ist_transmit_errors :: u64
  ist_transmit_dropped :: u64
  ist_timestamp :: duration
  ist_last_overflow :: duration
  ist_receive_rate :: "DataRate option"
  ist_transmit_rate :: "DataRate option"

definition InterfaceStat_fields :: "string list" where
  "InterfaceStat_fields =
     [''rxpackets'', ''rx-multicast-packets'', ''rx-broadcast-packets'', ''rxbytes'',
      ''rxerrors'', ''rxdropped'', ''txpackets'', ''tx-multicast-packets'',
      ''tx-broadcast-packets'', ''txbytes'', ''txerrors'', ''txdropped'', ''timestamp'',
      ''last-overflow'', ''rxspeed'', ''txspeed'']"

definition InterfaceStat_visit_map :: "entries \<Rightarrow> InterfaceStat decoded" where
  "InterfaceStat_visit_map es =
     bind_res (required de_uint ''rxpackets'' es) (\<lambda>received_packets'.
     bind_res (required de_uint ''rx-multicast-packets'' es) (\<lambda>received_multicast_packets'.
     bind_res (required de_uint ''rx-broadcast-packets'' es) (\<lambda>received_broadcast_packets'.
     bind_res (required (de_newtype ByteCount de_uint) ''rxbytes'' es) (\<lambda>received'.
     bind_res (required de_uint ''rxerrors'' es) (\<lambda>receive_errors'.
     bind_res (required de_uint ''rxdropped'' es) (\<lambda>receive_dropped'.
     bind_res (required de_uint ''txpackets'' es) (\<lambda>transmitted_packets'.
     bind_res (required de_uint ''tx-multicast-packets'' es) (\<lambda>transmitted_multicast_packets'.
     bind_res (required de_uint ''tx-broadcast-packets'' es) (\<lambda>transmitted_broadcast_packets'.
     bind_res (required (de_newtype ByteCount de_uint) ''txbytes'' es) (\<lambda>transmitted'.
     bind_res (required de_uint ''txerrors'' es) (\<lambda>transmit_errors'.
     bind_res (required de_uint ''txdropped'' es) (\<lambda>transmit_dropped'.
     bind_res (required de_decimal_duration ''timestamp'' es) (\<lambda>timestamp'.
     bind_res (required de_decimal_duration ''last-overflow'' es) (\<lambda>last_overflow'.
     bind_res (defaulted None (de_opt (de_newtype DataRate de_uint)) ''rxspeed'' es) (\<lambda>receive_rate'.
     bind_res (defaulted None (de_opt (de_newtype DataRate de_uint)) ''txspeed'' es) (\<lambda>transmit_rate'.
     Inr \<lparr>ist_received_packets = received_packets',
       ist_received_multicast_packets = received_multicast_packets',
       ist_received_broadcast_packets = received_broadcast_packets', ist_received = received',
       ist_receive_errors = receive_errors', ist_receive_dropped = receive_dropped',
       ist_transmitted_packets = transmitted_packets',
       ist_transmitted_multicast_packets = transmitted_multicast_packets',
       ist_transmitted_broadcast_packets = transmitted_broadcast_packets',
       ist_transmitted = transmitted', ist_transmit_errors = transmit_errors',
       ist_transmit_dropped = transmit_dropped', ist_timestamp = timestamp',
       ist_last_overflow = last_overflow', ist_receive_rate = receive_rate',
       ist_transmit_rate = transmit_rate'\<rparr>))))))))))))))))"

interpretation InterfaceStat_entries: entry_decoder InterfaceStat_fields "InterfaceStat_visit_map"
  by unfold_locales (simp add: InterfaceStat_fields_def InterfaceStat_visit_map_def decoder_simps)

section \<open>USB devices and media\<close>

definition deserialize_byte_count :: "ByteCount decode" where
  "deserialize_byte_count = de_newtype ByteCount de_u64_string_or_number"

definition deserialize_optional_volume_id :: "VolumeId option decode" where
  "deserialize_optional_volume_id w =
     bind_res (optional_nonempty_string w) (\<lambda>value. case value of
       None \<Rightarrow> Inr None
     | Some text \<Rightarrow> erase (map_err Custom (map_res Some (VolumeId_try_from text))))"

definition deserialize_presence_marker :: "bool decode" where
  "deserialize_presence_marker =
     visiting (str_visitor (\<lambda>value. if value = [] then Inr True else (Inl Invalid_value :: unit de_error + bool)))"

record UsbDevice =
  usb_device_path :: "string option"
  usb_dev_path :: "string option"
  usb_alias :: "string option"
  usb_label :: "string option"
  usb_no_led :: bool
  usb_port :: "u8 option"
  usb_power_control :: "UsbPowerControl option"
  usb_subsystem :: UsbSubsystem
  usb_usb_version :: "UsbVersion option"

definition UsbDevice_fields :: "string list" where
  "UsbDevice_fields =
     [''DEVICE'', ''DEVPATH'', ''alias'', ''label'', ''no-led'', ''port'', ''power-control'',
      ''subsystem'', ''usb-version'']"

definition UsbDevice_visit_map :: "entries \<Rightarrow> UsbDevice decoded" where
  "UsbDevice_visit_map es =
     bind_res (optional de_str ''DEVICE'' es) (\<lambda>device_path'.
     bind_res (optional de_str ''DEVPATH'' es) (\<lambda>dev_path'.
     bind_res (optional de_str ''alias'' es) (\<lambda>alias'.
     bind_res (defaulted None optional_nonempty_string ''label'' es) (\<lambda>label'.
     bind_res (defaulted False deserialize_presence_marker ''no-led'' es) (\<lambda>no_led'.
     bind_res (defaulted None de_optional_u8_string_or_number ''port'' es) (\<lambda>port'.
     bind_res (optional (de_enum UsbPowerControl_from) ''power-control'' es) (\<lambda>power_control'.
     bind_res (required (de_enum UsbSubsystem_from) ''subsystem'' es) (\<lambda>subsystem'.
     bind_res (optional (de_enum UsbVersion_from) ''usb-version'' es) (\<lambda>usb_version'.
     Inr \<lparr>usb_device_path = device_path', usb_dev_path = dev_path', usb_alias = alias',
       usb_label = label', usb_no_led = no_led', usb_port = port',
       usb_power_control = power_control', usb_subsystem = subsystem',
       usb_usb_version = usb_version'\<rparr>)))))))))"

interpretation UsbDevice_entries: entry_decoder UsbDevice_fields "UsbDevice_visit_map"
  by unfold_locales (simp add: UsbDevice_fields_def UsbDevice_visit_map_def decoder_simps)

datatype UsbDevices = UsbDevices (devices: "(UsbDeviceId, UsbDevice) btree")

definition UsbDevices_visit_map :: "entries \<Rightarrow> UsbDevices decoded" where
  "UsbDevices_visit_map es = map_res UsbDevices
     (defaulted [] (de_map (de_key UsbDeviceId_try_from) (de_struct UsbDevice_fields 9 UsbDevice_visit_map)) ''device'' es)"

definition UsbDevices_get :: "UsbDevices \<Rightarrow> string \<Rightarrow> UsbDevice option" where
  "UsbDevices_get u key = bt_get (devices u) (UsbDeviceId key)"

record MediaPartition =
  mp_id :: "PartitionId option"
  mp_uuid :: "VolumeId option"
  mp_label :: "string option"
  mp_file_system :: FileSystemType
  mp_check_supported :: "bool option"
  mp_format_supported :: "FileSystemType list"
  mp_state :: MediaState
  mp_total :: ByteCount
  mp_free :: ByteCount
  mp_used_by :: "string list"

definition MediaPartition_fields :: "string list" where
  "MediaPartition_fields =
     [''id'', ''uuid'', ''label'', ''fstype'', ''check-supported'', ''format-supported'',
      ''state'', ''total'', ''free'', ''used-by'']"

definition MediaPartition_visit_map :: "entries \<Rightarrow> MediaPartition decoded" where
  "MediaPartition_visit_map es =
     bind_res (optional (de_identifier PartitionId_try_from) ''id'' es) (\<lambda>id'.
     bind_res (defaulted None deserialize_optional_volume_id ''uuid'' es) (\<lambda>uuid'.
     bind_res (defaulted None optional_nonempty_string ''label'' es) (\<lambda>label'.
     bind_res (required (de_enum FileSystemType_from) ''fstype'' es) (\<lambda>file_system'.
     bind_res (optional de_bool ''check-supported'' es) (\<lambda>check_supported'.
     bind_res (defaulted [] (de_seq (de_enum FileSystemType_from)) ''format-supported'' es) (\<lambda>format_supported'.
     bind_res (required (de_enum MediaState_from) ''state'' es) (\<lambda>state'.
     bind_res (required deserialize_byte_count ''total'' es) (\<lambda>total'.
     bind_res (required deserialize_byte_count ''free'' es) (\<lambda>free'.
     bind_res (defaulted [] (de_seq de_str) ''used-by'' es) (\<lambda>used_by'.
     Inr \<lparr>mp_id = id', mp_uuid = uuid', mp_label = label', mp_file_system = file_system',
       mp_check_supported = check_supported', mp_format_supported = format_supported',
       mp_state = state', mp_total = total', mp_free = free', mp_used_by = used_by'\<rparr>))))))))))"

interpretation MediaPartition_entries: entry_decoder MediaPartition_fields "MediaPartition_visit_map"
  by unfold_locales (simp add: MediaPartition_fields_def MediaPartition_visit_map_def decoder_simps)

record MediaDevice =
  md_bus :: "MediaBus option"
  md_port :: "u8 option"
  md_ejectable :: "bool option"
  md_removable :: "bool option"
  md_state :: MediaState
  md_manufacturer :: "string option"
  md_product :: "string option"
  md_serial :: "string option"
  md_initialize_supported :: "FileSystemType list"
  md_size :: ByteCount
  md_partitions :: "(PartitionId, MediaPartition) btree"

definition MediaDevice_fields :: "string list" where
  "MediaDevice_fields =
     [''bus'', ''port'', ''ejectable'', ''removable'', ''state'', ''manufacturer'', ''product'',
      ''serial'', ''initialize-supported'', ''size'', ''partition'']"

definition MediaDevice_visit_map :: "entries \<Rightarrow> MediaDevice decoded" where
  "MediaDevice_visit_map es =
     bind_res (optional (de_enum MediaBus_from) ''bus'' es) (\<lambda>bus'.
     bind_res (defaulted None de_optional_u8_string_or_number ''port'' es) (\<lambda>port'.
     bind_res (optional de_bool ''ejectable'' es) (\<lambda>ejectable'.
     bind_res (optional de_bool ''removable'' es) (\<lambda>removable'.
     bind_res (required (de_enum MediaState_from) ''state'' es) (\<lambda>state'.
     bind_res (defaulted None optional_nonempty_string ''manufacturer'' es) (\<lambda>manufacturer'.
     bind_res (defaulted None optional_nonempty_string ''product'' es) (\<lambda>product'.
     bind_res (defaulted None optional_nonempty_string ''serial'' es) (\<lambda>serial'.
     bind_res (defaulted [] (de_seq (de_enum FileSystemType_from)) ''initialize-supported'' es) (\<lambda>initialize_supported'.
     bind_res (required deserialize_byte_count ''size'' es) (\<lambda>size'.
     bind_res (defaulted [] (de_map (de_key PartitionId_try_from) (de_struct MediaPartition_fields 9 MediaPartition_visit_map)) ''partition'' es) (\<lambda>partitions'.
     Inr \<lparr>md_bus = bus', md_port = port', md_ejectable = ejectable',
       md_removable = removable', md_state = state', md_manufacturer = manufacturer',
       md_product = product', md_serial = serial',
       md_initialize_supported = initialize_supported', md_size = size',
       md_partitions = partitions'\<rparr>)))))))))))"

interpretation MediaDevice_entries: entry_decoder MediaDevice_fields "MediaDevice_visit_map"
  by unfold_locales (simp add: MediaDevice_fields_def MediaDevice_visit_map_def decoder_simps)

datatype MediaInventory = MediaInventory (media: "(MediaId, MediaDevice) btree")

definition MediaInventory_deserialize :: "MediaInventory decode" where
  "MediaInventory_deserialize = de_newtype MediaInventory
     (de_map (de_key MediaId_try_from) (de_struct MediaDevice_fields 10 MediaDevice_visit_map))"

definition MediaInventory_get :: "MediaInventory \<Rightarrow> string \<Rightarrow> MediaDevice option" where
  "MediaInventory_get m key = bt_get (media m) (MediaId key)"

section \<open>Lemmas\<close>

lemma traverse_nonempty:
  "traverse (\<lambda>x. if x = [] then Inl e else Inr (g x)) xs = Inr ys \<longleftrightarrow> ys = map g xs \<and> [] \<notin> set xs"
  by (induction xs arbitrary: ys) (auto simp: res_simps)

section \<open>Properties\<close>

text \<open>The supported modes are the comma-separated parts of the text with white space trimmed off both
  ends; a part that is empty after trimming fails the whole list, and otherwise the modes print as the
  trimmed parts, in order.\<close>

theorem supported_modes_exact:
  "supported_modes value = Inr modes \<longleftrightarrow>
     map SystemOperatingMode_as_str modes = map trim (split_on CHR '','' value)
     \<and> (\<forall>mode \<in> set modes. SystemOperatingMode_as_str mode \<noteq> []
          \<and> SystemOperatingMode_from (SystemOperatingMode_as_str mode) = mode)"
proof -
  let ?from = SystemOperatingMode_from and ?str = SystemOperatingMode_as_str
  let ?parts = "map trim (split_on CHR '','' value)"
  note str_from = SystemOperatingMode_enum.as_str_from
  have "supported_modes value = Inr modes \<longleftrightarrow> modes = map ?from ?parts \<and> [] \<notin> set ?parts"
    unfolding supported_modes_def by (rule traverse_nonempty)
  also have "\<dots> \<longleftrightarrow> map ?str modes = ?parts \<and> (\<forall>mode \<in> set modes. ?str mode \<noteq> [] \<and> ?from (?str mode) = mode)"
  proof
    assume "modes = map ?from ?parts \<and> [] \<notin> set ?parts"
    then show "map ?str modes = ?parts \<and> (\<forall>mode \<in> set modes. ?str mode \<noteq> [] \<and> ?from (?str mode) = mode)"
      by (auto simp: str_from comp_def) (metis image_eqI)
  next
    assume a: "map ?str modes = ?parts \<and> (\<forall>mode \<in> set modes. ?str mode \<noteq> [] \<and> ?from (?str mode) = mode)"
    then have "map ?from (map ?str modes) = modes" unfolding map_map by (intro map_idI) simp
    with a show "modes = map ?from ?parts \<and> [] \<notin> set ?parts" by (metis image_iff list.set_map)
  qed
  finally show ?thesis .
qed

end
