(* ===== verification/Topology.thy ===== *)
theory Topology
  imports Stations
begin

text \<open>
  Routing tables (\<open>src/src/model/routing.rs\<close>), Ping Check, name servers and NTP
  (\<open>src/src/model/connectivity.rs\<close>) and the mesh extenders (\<open>src/src/model/mesh.rs\<close>).
\<close>

section \<open>Routes\<close>

datatype RouteFlags = RouteFlags (RouteFlags_as_str: string)

definition is_unspecified6 :: "Ipv6Addr \<Rightarrow> bool" where
  "is_unspecified6 a \<longleftrightarrow> a = Ipv6Addr 0 0 0 0 0 0 0 0"

definition optional_ipv4_gateway :: "formats \<Rightarrow> Ipv4Addr option decode" where
  "optional_ipv4_gateway fm w = map_res (\<lambda>address. if \<not> is_unspecified address then Some address else None)
     (de_text (parse_ipv4 fm) w)"

definition optional_ipv6_gateway :: "formats \<Rightarrow> Ipv6Addr option decode" where
  "optional_ipv6_gateway fm w = map_res (\<lambda>address. if \<not> is_unspecified6 address then Some address else None)
     (de_text (parse_ipv6 fm) w)"

record Ipv4Route =
  r4_destination :: Ipv4Net
  r4_gateway :: "Ipv4Addr option"
  r4_interface :: InterfaceId
  r4_metric :: u32
  r4_flags :: RouteFlags
  r4_rejecting :: bool
  r4_proto :: RouteProtocol
  r4_floating :: bool
  r4_static_route :: bool

definition Ipv4Route_fields :: "string list" where
  "Ipv4Route_fields =
     [''destination'', ''gateway'', ''interface'', ''metric'', ''flags'', ''rejecting'',
      ''proto'', ''floating'', ''static'']"

definition Ipv4Route_visit_map :: "formats \<Rightarrow> entries \<Rightarrow> Ipv4Route decoded" where
  "Ipv4Route_visit_map fm es =
     bind_res (required (de_text (parse_ipv4net fm)) ''destination'' es) (\<lambda>destination'.
     bind_res (required (optional_ipv4_gateway fm) ''gateway'' es) (\<lambda>gateway'.
     bind_res (required (de_identifier InterfaceId_try_from) ''interface'' es) (\<lambda>interface'.
     bind_res (required de_uint ''metric'' es) (\<lambda>metric'.
     bind_res (required (de_newtype RouteFlags de_str) ''flags'' es) (\<lambda>flags'.
     bind_res (required de_bool ''rejecting'' es) (\<lambda>rejecting'.
     bind_res (required (de_enum RouteProtocol_from) ''proto'' es) (\<lambda>proto'.
     bind_res (required de_bool ''floating'' es) (\<lambda>floating'.
     bind_res (required de_bool ''static'' es) (\<lambda>static_route'.
     Inr \<lparr>r4_destination = destination', r4_gateway = gateway',
       r4_interface = interface', r4_metric = metric', r4_flags = flags',
       r4_rejecting = rejecting', r4_proto = proto', r4_floating = floating',
       r4_static_route = static_route'\<rparr>)))))))))"

interpretation Ipv4Route_entries: entry_decoder Ipv4Route_fields "Ipv4Route_visit_map fm" for fm
  by unfold_locales (simp add: Ipv4Route_fields_def Ipv4Route_visit_map_def decoder_simps)

record Ipv6Route =
  r6_destination :: Ipv6Net
  r6_gateway :: "Ipv6Addr option"
  r6_interface :: InterfaceId
  r6_metric :: u32
  r6_flags :: RouteFlags
  r6_rejecting :: bool
  r6_proto :: RouteProtocol
  r6_floating :: bool
  r6_static_route :: bool

definition Ipv6Route_fields :: "string list" where
  "Ipv6Route_fields =
     [''destination'', ''gateway'', ''interface'', ''metric'', ''flags'', ''rejecting'',
      ''proto'', ''floating'', ''static'']"

definition Ipv6Route_visit_map :: "formats \<Rightarrow> entries \<Rightarrow> Ipv6Route decoded" where
  "Ipv6Route_visit_map fm es =
     bind_res (required (de_text (parse_ipv6net fm)) ''destination'' es) (\<lambda>destination'.
     bind_res (required (optional_ipv6_gateway fm) ''gateway'' es) (\<lambda>gateway'.
     bind_res (required (de_identifier InterfaceId_try_from) ''interface'' es) (\<lambda>interface'.
     bind_res (required de_uint ''metric'' es) (\<lambda>metric'.
     bind_res (required (de_newtype RouteFlags de_str) ''flags'' es) (\<lambda>flags'.
     bind_res (required de_bool ''rejecting'' es) (\<lambda>rejecting'.
     bind_res (required (de_enum RouteProtocol_from) ''proto'' es) (\<lambda>proto'.
     bind_res (required de_bool ''floating'' es) (\<lambda>floating'.
     bind_res (required de_bool ''static'' es) (\<lambda>static_route'.
     Inr \<lparr>r6_destination = destination', r6_gateway = gateway',
       r6_interface = interface', r6_metric = metric', r6_flags = flags',
       r6_rejecting = rejecting', r6_proto = proto', r6_floating = floating',
       r6_static_route = static_route'\<rparr>)))))))))"

interpretation Ipv6Route_entries: entry_decoder Ipv6Route_fields "Ipv6Route_visit_map fm" for fm
  by unfold_locales (simp add: Ipv6Route_fields_def Ipv6Route_visit_map_def decoder_simps)

datatype IpRoutes = IpRoutes (IpRoutes_routes: "Ipv4Route list")

definition IpRoutes_deserialize :: "formats \<Rightarrow> IpRoutes decode" where
  "IpRoutes_deserialize fm = de_newtype IpRoutes (de_seq (de_struct Ipv4Route_fields 9 (Ipv4Route_visit_map fm)))"

datatype Ipv6Routes = Ipv6Routes (Ipv6Routes_routes: "Ipv6Route list")

text \<open>The \<open>Wire\<close> struct denies unknown fields.\<close>

definition Ipv6Routes_visit_map :: "formats \<Rightarrow> entries \<Rightarrow> Ipv6Routes decoded" where
  "Ipv6Routes_visit_map fm es =
     (case List.find (\<lambda>e. fst e \<noteq> ''route6'') es of
        Some e \<Rightarrow> Inl (Unknown_field (fst e))
      | None \<Rightarrow> map_res Ipv6Routes
          (defaulted [] (de_seq (de_struct Ipv6Route_fields 9 (Ipv6Route_visit_map fm))) ''route6'' es))"

section \<open>Connectivity\<close>

record PingCheckCacheEntry =
  pce_host :: NetworkHost
  pce_addresses :: "IpAddr list"

definition PingCheckCacheEntry_fields :: "string list" where
  "PingCheckCacheEntry_fields =
     [''host'', ''addresses'']"

definition PingCheckCacheEntry_visit_map :: "formats \<Rightarrow> entries \<Rightarrow> PingCheckCacheEntry decoded" where
  "PingCheckCacheEntry_visit_map fm es =
     bind_res (required (de_host fm) ''host'' es) (\<lambda>host'.
     bind_res (required (de_seq (de_text (parse_ip fm))) ''addresses'' es) (\<lambda>addresses'.
     Inr \<lparr>pce_host = host', pce_addresses = addresses'\<rparr>))"

interpretation PingCheckCacheEntry_entries: entry_decoder PingCheckCacheEntry_fields "PingCheckCacheEntry_visit_map fm" for fm
  by unfold_locales (simp add: PingCheckCacheEntry_fields_def PingCheckCacheEntry_visit_map_def decoder_simps)

record PingCheckInterface =
  pci_ignore_failure :: bool
  pci_success_count :: u64
  pci_failure_count :: u64
  pci_status :: PingCheckStatus
  pci_ip_cache :: "PingCheckCacheEntry list"

definition PingCheckInterface_fields :: "string list" where
  "PingCheckInterface_fields =
     [''ignore-fail'', ''successcount'', ''failcount'', ''status'', ''ipcache'']"

definition PingCheckInterface_visit_map :: "formats \<Rightarrow> entries \<Rightarrow> PingCheckInterface decoded" where
  "PingCheckInterface_visit_map fm es =
     bind_res (required de_bool ''ignore-fail'' es) (\<lambda>ignore_failure'.
     bind_res (required de_uint ''successcount'' es) (\<lambda>success_count'.
     bind_res (required de_uint ''failcount'' es) (\<lambda>failure_count'.
     bind_res (required (de_enum PingCheckStatus_from) ''status'' es) (\<lambda>status'.
     bind_res (defaulted [] (de_seq (de_struct PingCheckCacheEntry_fields 2 (PingCheckCacheEntry_visit_map fm))) ''ipcache'' es) (\<lambda>ip_cache'.
     Inr \<lparr>pci_ignore_failure = ignore_failure', pci_success_count = success_count',
       pci_failure_count = failure_count', pci_status = status', pci_ip_cache = ip_cache'\<rparr>)))))"

interpretation PingCheckInterface_entries: entry_decoder PingCheckInterface_fields "PingCheckInterface_visit_map fm" for fm
  by unfold_locales (simp add: PingCheckInterface_fields_def PingCheckInterface_visit_map_def decoder_simps)

record PingCheckProfile =
  pcp_profile :: string
  pcp_targets :: "NetworkHost list"
  pcp_port :: "u16 option"
  pcp_update_interval :: "duration option"
  pcp_timeout :: "duration option"
  pcp_max_failures :: "u32 option"
  pcp_mode :: "PingCheckMode option"
  pcp_interfaces :: "(InterfaceId, PingCheckInterface) btree"

definition PingCheckProfile_fields :: "string list" where
  "PingCheckProfile_fields =
     [''profile'', ''host'', ''port'', ''update-interval'', ''timeout'', ''max-fails'',
      ''mode'', ''interface'']"

definition PingCheckProfile_visit_map :: "formats \<Rightarrow> entries \<Rightarrow> PingCheckProfile decoded" where
  "PingCheckProfile_visit_map fm es =
     bind_res (required de_str ''profile'' es) (\<lambda>profile'.
     bind_res (defaulted [] (de_seq (de_host fm)) ''host'' es) (\<lambda>targets'.
     bind_res (optional de_nonzero ''port'' es) (\<lambda>port'.
     bind_res (defaulted None de_optional_seconds ''update-interval'' es) (\<lambda>update_interval'.
     bind_res (defaulted None de_optional_seconds ''timeout'' es) (\<lambda>timeout'.
     bind_res (optional de_uint ''max-fails'' es) (\<lambda>max_failures'.
     bind_res (optional (de_enum PingCheckMode_from) ''mode'' es) (\<lambda>mode'.
     bind_res (defaulted [] (de_map (de_key InterfaceId_try_from) (de_struct PingCheckInterface_fields 4 (PingCheckInterface_visit_map fm))) ''interface'' es) (\<lambda>interfaces'.
     Inr \<lparr>pcp_profile = profile', pcp_targets = targets', pcp_port = port',
       pcp_update_interval = update_interval', pcp_timeout = timeout',
       pcp_max_failures = max_failures', pcp_mode = mode', pcp_interfaces = interfaces'\<rparr>))))))))"

interpretation PingCheckProfile_entries: entry_decoder PingCheckProfile_fields "PingCheckProfile_visit_map fm" for fm
  by unfold_locales (simp add: PingCheckProfile_fields_def PingCheckProfile_visit_map_def decoder_simps)

datatype PingCheckProfiles = PingCheckProfiles (profiles: "PingCheckProfile list")

definition PingCheckProfiles_visit_map :: "formats \<Rightarrow> entries \<Rightarrow> PingCheckProfiles decoded" where
  "PingCheckProfiles_visit_map fm es = map_res PingCheckProfiles
     (defaulted [] (de_seq (de_struct PingCheckProfile_fields 7 (PingCheckProfile_visit_map fm))) ''pingcheck'' es)"

definition optional_nonzero_u16 :: "u16 option decode" where
  "optional_nonzero_u16 w = map_res (\<lambda>v. if v \<noteq> 0 then Some v else None) (de_uint w)"

definition optional_interface_id :: "InterfaceId option decode" where
  "optional_interface_id w =
     bind_res (de_opt de_str w) (\<lambda>value.
     case (case value of Some text \<Rightarrow> if text \<noteq> [] then Some text else None | None \<Rightarrow> None) of
       None \<Rightarrow> Inr None
     | Some text \<Rightarrow> erase (map_err Custom (map_res Some (InterfaceId_try_from text))))"

record IpNameServer =
  ns_address :: IpAddr
  ns_domain :: "string option"
  ns_global_priority :: "u16 option"
  ns_service :: "string option"
  ns_interface :: "InterfaceId option"

definition IpNameServer_fields :: "string list" where
  "IpNameServer_fields =
     [''address'', ''domain'', ''global'', ''service'', ''interface'']"

definition IpNameServer_visit_map :: "formats \<Rightarrow> entries \<Rightarrow> IpNameServer decoded" where
  "IpNameServer_visit_map fm es =
     bind_res (required (de_text (parse_ip fm)) ''address'' es) (\<lambda>address'.
     bind_res (defaulted None optional_nonempty_string ''domain'' es) (\<lambda>domain'.
     bind_res (required optional_nonzero_u16 ''global'' es) (\<lambda>global_priority'.
     bind_res (defaulted None optional_nonempty_string ''service'' es) (\<lambda>service'.
     bind_res (defaulted None optional_interface_id ''interface'' es) (\<lambda>interface'.
     Inr \<lparr>ns_address = address', ns_domain = domain',
       ns_global_priority = global_priority', ns_service = service',
       ns_interface = interface'\<rparr>)))))"

interpretation IpNameServer_entries: entry_decoder IpNameServer_fields "IpNameServer_visit_map fm" for fm
  by unfold_locales (simp add: IpNameServer_fields_def IpNameServer_visit_map_def decoder_simps)

datatype IpNameServers = IpNameServers (servers: "IpNameServer list")

definition IpNameServers_visit_map :: "formats \<Rightarrow> entries \<Rightarrow> IpNameServers decoded" where
  "IpNameServers_visit_map fm es = map_res IpNameServers
     (defaulted [] (de_seq (de_struct IpNameServer_fields 3 (IpNameServer_visit_map fm))) ''server'' es)"

record NtpStatus =
  ntp_elapsed :: duration
  ntp_server :: NetworkHost
  ntp_accurate :: bool
  ntp_synchronized :: bool
  ntp_ndss_time :: bool
  ntp_user_time :: bool

definition NtpStatus_fields :: "string list" where
  "NtpStatus_fields =
     [''elapsed'', ''server'', ''accurate'', ''synchronized'', ''ndsstime'', ''usertime'']"

definition NtpStatus_visit_map :: "formats \<Rightarrow> entries \<Rightarrow> NtpStatus decoded" where
  "NtpStatus_visit_map fm es =
     bind_res (required de_seconds ''elapsed'' es) (\<lambda>elapsed'.
     bind_res (required (de_host fm) ''server'' es) (\<lambda>server'.
     bind_res (required de_bool ''accurate'' es) (\<lambda>accurate'.
     bind_res (required de_bool ''synchronized'' es) (\<lambda>synchronized'.
     bind_res (required de_bool ''ndsstime'' es) (\<lambda>ndss_time'.
     bind_res (required de_bool ''usertime'' es) (\<lambda>user_time'.
     Inr \<lparr>ntp_elapsed = elapsed', ntp_server = server', ntp_accurate = accurate',
       ntp_synchronized = synchronized', ntp_ndss_time = ndss_time',
       ntp_user_time = user_time'\<rparr>))))))"

interpretation NtpStatus_entries: entry_decoder NtpStatus_fields "NtpStatus_visit_map fm" for fm
  by unfold_locales (simp add: NtpStatus_fields_def NtpStatus_visit_map_def decoder_simps)

section \<open>Mesh\<close>

record MwsControllerStatus =
  mcs_update_pending :: bool

definition MwsControllerStatus_fields :: "string list" where
  "MwsControllerStatus_fields =
     [''update-pending'']"

definition MwsControllerStatus_visit_map :: "entries \<Rightarrow> MwsControllerStatus decoded" where
  "MwsControllerStatus_visit_map es =
     bind_res (required de_bool ''update-pending'' es) (\<lambda>update_pending'.
     Inr \<lparr>mcs_update_pending = update_pending'\<rparr>)"

interpretation MwsControllerStatus_entries: entry_decoder MwsControllerStatus_fields "MwsControllerStatus_visit_map"
  by unfold_locales (simp add: MwsControllerStatus_fields_def MwsControllerStatus_visit_map_def decoder_simps)

record MwsStatus =
  mst_auto_update :: bool
  mst_controller :: MwsControllerStatus

definition MwsStatus_fields :: "string list" where
  "MwsStatus_fields =
     [''auto-update'', ''controller'']"

definition MwsStatus_visit_map :: "entries \<Rightarrow> MwsStatus decoded" where
  "MwsStatus_visit_map es =
     bind_res (required de_bool ''auto-update'' es) (\<lambda>auto_update'.
     bind_res (required (de_struct MwsControllerStatus_fields 1 MwsControllerStatus_visit_map) ''controller'' es) (\<lambda>controller'.
     Inr \<lparr>mst_auto_update = auto_update', mst_controller = controller'\<rparr>))"

interpretation MwsStatus_entries: entry_decoder MwsStatus_fields "MwsStatus_visit_map"
  by unfold_locales (simp add: MwsStatus_fields_def MwsStatus_visit_map_def decoder_simps)

record MwsPort =
  mpo_label :: string
  mpo_appearance :: "string option"
  mpo_link :: LinkState

definition MwsPort_fields :: "string list" where
  "MwsPort_fields =
     [''label'', ''appearance'', ''link'']"

definition MwsPort_visit_map :: "entries \<Rightarrow> MwsPort decoded" where
  "MwsPort_visit_map es =
     bind_res (required de_str ''label'' es) (\<lambda>label'.
     bind_res (defaulted None optional_nonempty_string ''appearance'' es) (\<lambda>appearance'.
     bind_res (required (de_enum LinkState_from) ''link'' es) (\<lambda>link'.
     Inr \<lparr>mpo_label = label', mpo_appearance = appearance', mpo_link = link'\<rparr>)))"

interpretation MwsPort_entries: entry_decoder MwsPort_fields "MwsPort_visit_map"
  by unfold_locales (simp add: MwsPort_fields_def MwsPort_visit_map_def decoder_simps)

fun U8StringVisitor :: "(value_error, u8) visitor" where
  "U8StringVisitor (Visit_u64 value) = map_err Custom (u8_try_from_u64 value)"
| "U8StringVisitor (Visit_str value) = ok_or (Custom ParseInt) (parse_u8 value)"
| "U8StringVisitor (Visit_string value) = ok_or (Custom ParseInt) (parse_u8 value)"
| "U8StringVisitor _ = Inl Invalid_type"

definition deserialize_u8_string :: "u8 decode" where
  "deserialize_u8_string = visiting U8StringVisitor"

record MwsBand =
  mba_index :: u8

definition MwsBand_fields :: "string list" where
  "MwsBand_fields =
     [''index'']"

definition MwsBand_visit_map :: "entries \<Rightarrow> MwsBand decoded" where
  "MwsBand_visit_map es =
     bind_res (required deserialize_u8_string ''index'' es) (\<lambda>index'.
     Inr \<lparr>mba_index = index'\<rparr>)"

interpretation MwsBand_entries: entry_decoder MwsBand_fields "MwsBand_visit_map"
  by unfold_locales (simp add: MwsBand_fields_def MwsBand_visit_map_def decoder_simps)

record MwsWireless =
  mwi_bands :: "MwsBand list"

definition MwsWireless_fields :: "string list" where
  "MwsWireless_fields =
     [''band'']"

definition MwsWireless_visit_map :: "entries \<Rightarrow> MwsWireless decoded" where
  "MwsWireless_visit_map es =
     bind_res (defaulted [] (de_seq (de_struct MwsBand_fields 1 MwsBand_visit_map)) ''band'' es) (\<lambda>bands'.
     Inr \<lparr>mwi_bands = bands'\<rparr>)"

interpretation MwsWireless_entries: entry_decoder MwsWireless_fields "MwsWireless_visit_map"
  by unfold_locales (simp add: MwsWireless_fields_def MwsWireless_visit_map_def decoder_simps)

record MwsMemoryUsage =
  free_kib :: u64
  total_kib :: u64

datatype InvalidMwsMemoryUsage = InvalidMwsMemoryUsage

definition MwsMemoryUsage_from_str :: "string \<Rightarrow> InvalidMwsMemoryUsage + MwsMemoryUsage" where
  "MwsMemoryUsage_from_str value =
     bind_res (ok_or InvalidMwsMemoryUsage (split_once ''/'' value)) (\<lambda>(free, total).
     bind_res (ok_or InvalidMwsMemoryUsage (parse_u64 free)) (\<lambda>free'.
     bind_res (ok_or InvalidMwsMemoryUsage (parse_u64 total)) (\<lambda>total'.
     if total' < free' then Inl InvalidMwsMemoryUsage
     else Inr \<lparr>free_kib = free', total_kib = total'\<rparr>)))"

definition MwsMemoryUsage_display :: "MwsMemoryUsage \<Rightarrow> string" where
  "MwsMemoryUsage_display m = show_nat (unat (free_kib m)) @ ''/'' @ show_nat (unat (total_kib m))"

record MwsMemberSystem =
  mms_cpu_load :: CpuLoad
  mms_memory :: MwsMemoryUsage
  mms_uptime :: Uptime

definition MwsMemberSystem_fields :: "string list" where
  "MwsMemberSystem_fields =
     [''cpuload'', ''memory'', ''uptime'']"

definition MwsMemberSystem_visit_map :: "entries \<Rightarrow> MwsMemberSystem decoded" where
  "MwsMemberSystem_visit_map es =
     bind_res (required (de_try_from de_uint CpuLoad_new) ''cpuload'' es) (\<lambda>cpu_load'.
     bind_res (required (de_from_str MwsMemoryUsage_from_str) ''memory'' es) (\<lambda>memory'.
     bind_res (required de_uptime ''uptime'' es) (\<lambda>uptime'.
     Inr \<lparr>mms_cpu_load = cpu_load', mms_memory = memory', mms_uptime = uptime'\<rparr>)))"

interpretation MwsMemberSystem_entries: entry_decoder MwsMemberSystem_fields "MwsMemberSystem_visit_map"
  by unfold_locales (simp add: MwsMemberSystem_fields_def MwsMemberSystem_visit_map_def decoder_simps)

record MwsBackhaul =
  mbh_uplink :: InterfaceId
  mbh_root :: string
  mbh_bridge :: string
  mbh_cost :: u32
  mbh_link :: WifiPeerLink
  mbh_psm :: bool
  mbh_mld :: bool
  mbh_ebf :: bool
  mbh_downlink_multi_user :: bool
  mbh_uplink_multi_user :: bool
  mbh_downlink_ofdma :: bool
  mbh_pmf :: bool

definition MwsBackhaul_own_fields :: "string list" where
  "MwsBackhaul_own_fields =
     [''uplink'', ''root'', ''bridge'', ''cost'', ''psm'', ''mld'', ''ebf'', ''dl-mu'',
      ''ul-mu'', ''dl-ofdma'', ''pmf'']"

definition MwsBackhaul_fields :: "string list" where
  "MwsBackhaul_fields = MwsBackhaul_own_fields @ WifiPeerLink_fields"

definition MwsBackhaul_visit_map :: "entries \<Rightarrow> MwsBackhaul decoded" where
  "MwsBackhaul_visit_map es =
     bind_res (required (de_identifier InterfaceId_try_from) ''uplink'' es) (\<lambda>uplink'.
     bind_res (required de_str ''root'' es) (\<lambda>root'.
     bind_res (required de_str ''bridge'' es) (\<lambda>bridge'.
     bind_res (required de_uint ''cost'' es) (\<lambda>cost'.
     bind_res (WifiPeerLink_visit_map (remaining MwsBackhaul_own_fields es)) (\<lambda>link'.
     bind_res (required de_bool ''psm'' es) (\<lambda>psm'.
     bind_res (required de_bool ''mld'' es) (\<lambda>mld'.
     bind_res (required de_bool ''ebf'' es) (\<lambda>ebf'.
     bind_res (required de_bool ''dl-mu'' es) (\<lambda>downlink_multi_user'.
     bind_res (required de_bool ''ul-mu'' es) (\<lambda>uplink_multi_user'.
     bind_res (required de_bool ''dl-ofdma'' es) (\<lambda>downlink_ofdma'.
     bind_res (required de_bool ''pmf'' es) (\<lambda>pmf'.
     Inr \<lparr>mbh_uplink = uplink', mbh_root = root', mbh_bridge = bridge', mbh_cost = cost',
       mbh_link = link', mbh_psm = psm', mbh_mld = mld', mbh_ebf = ebf',
       mbh_downlink_multi_user = downlink_multi_user',
       mbh_uplink_multi_user = uplink_multi_user', mbh_downlink_ofdma = downlink_ofdma',
       mbh_pmf = pmf'\<rparr>))))))))))))"

interpretation MwsBackhaul_entries: entry_decoder MwsBackhaul_fields "MwsBackhaul_visit_map"
proof
  fix es es'
  assume same: "same_entries MwsBackhaul_fields es es'"
  then have rest: "same_entries names (remaining MwsBackhaul_own_fields es) (remaining MwsBackhaul_own_fields es')"
    if "set names \<subseteq> set MwsBackhaul_fields" for names
    using that by (auto simp: same_entries_def occurrences_remaining)
  have flat0: "WifiPeerLink_visit_map (remaining MwsBackhaul_own_fields es) = WifiPeerLink_visit_map (remaining MwsBackhaul_own_fields es')"
    by (rule WifiPeerLink_entries.reads_names, rule rest) (auto simp: MwsBackhaul_fields_def)
  show "MwsBackhaul_visit_map es = MwsBackhaul_visit_map es'"
    unfolding MwsBackhaul_visit_map_def flat0
    using same by (simp add: MwsBackhaul_fields_def MwsBackhaul_own_fields_def decoder_simps)
qed

record MwsRciStatus =
  mrs_errors :: u64

definition MwsRciStatus_fields :: "string list" where
  "MwsRciStatus_fields =
     [''errors'']"

definition MwsRciStatus_visit_map :: "entries \<Rightarrow> MwsRciStatus decoded" where
  "MwsRciStatus_visit_map es =
     bind_res (required de_uint ''errors'' es) (\<lambda>errors'.
     Inr \<lparr>mrs_errors = errors'\<rparr>)"

interpretation MwsRciStatus_entries: entry_decoder MwsRciStatus_fields "MwsRciStatus_visit_map"
  by unfold_locales (simp add: MwsRciStatus_fields_def MwsRciStatus_visit_map_def decoder_simps)

record MwsMember =
  mem_cid :: string
  mem_model :: string
  mem_mac :: MacAddress
  mem_known_host :: "string option"
  mem_ports :: "MwsPort list"
  mem_wireless :: "MwsWireless option"
  mem_ip :: Ipv4Addr
  mem_mode :: SystemOperatingMode
  mem_hw_type :: "HardwareType option"
  mem_hw_id :: "HardwareId Reported option"
  mem_firmware :: "string option"
  mem_firmware_available :: "string option"
  mem_firmware_release :: "string option"
  mem_firmware_release_available :: "string option"
  mem_firmware_channel :: "FirmwareChannel option"
  mem_region :: "RegionCode Reported option"
  mem_associations :: "u32 option"
  mem_internet_available :: "bool option"
  mem_system :: "MwsMemberSystem option"
  mem_backhaul :: "MwsBackhaul option"
  mem_rci :: "MwsRciStatus option"

definition MwsMember_fields :: "string list" where
  "MwsMember_fields =
     [''cid'', ''model'', ''mac'', ''known-host'', ''port'', ''wireless'', ''ip'', ''mode'',
      ''hw_type'', ''hw_id'', ''fw'', ''fw-available'', ''fw-release'',
      ''fw-release-available'', ''fw-update-sandbox'', ''region'', ''associations'',
      ''internet-available'', ''system'', ''backhaul'', ''rci'']"

definition MwsMember_visit_map :: "formats \<Rightarrow> entries \<Rightarrow> MwsMember decoded" where
  "MwsMember_visit_map fm es =
     bind_res (required de_str ''cid'' es) (\<lambda>cid'.
     bind_res (required de_str ''model'' es) (\<lambda>model'.
     bind_res (required de_mac ''mac'' es) (\<lambda>mac'.
     bind_res (defaulted None optional_nonempty_string ''known-host'' es) (\<lambda>known_host'.
     bind_res (defaulted [] (de_seq (de_struct MwsPort_fields 3 MwsPort_visit_map)) ''port'' es) (\<lambda>ports'.
     bind_res (optional (de_struct MwsWireless_fields 0 MwsWireless_visit_map) ''wireless'' es) (\<lambda>wireless'.
     bind_res (required (de_text (parse_ipv4 fm)) ''ip'' es) (\<lambda>ip'.
     bind_res (required (de_enum SystemOperatingMode_from) ''mode'' es) (\<lambda>mode'.
     bind_res (optional (de_enum HardwareType_from) ''hw_type'' es) (\<lambda>hw_type'.
     bind_res (defaulted None (de_opt (de_reported HardwareId_from_str)) ''hw_id'' es) (\<lambda>hw_id'.
     bind_res (defaulted None optional_nonempty_string ''fw'' es) (\<lambda>firmware'.
     bind_res (defaulted None optional_nonempty_string ''fw-available'' es) (\<lambda>firmware_available'.
     bind_res (defaulted None optional_nonempty_string ''fw-release'' es) (\<lambda>firmware_release'.
     bind_res (defaulted None optional_nonempty_string ''fw-release-available'' es) (\<lambda>firmware_release_available'.
     bind_res (optional (de_enum FirmwareChannel_from) ''fw-update-sandbox'' es) (\<lambda>firmware_channel'.
     bind_res (defaulted None (de_opt (de_reported RegionCode_from_str)) ''region'' es) (\<lambda>region'.
     bind_res (optional de_uint ''associations'' es) (\<lambda>associations'.
     bind_res (optional de_bool ''internet-available'' es) (\<lambda>internet_available'.
     bind_res (optional (de_struct MwsMemberSystem_fields 3 MwsMemberSystem_visit_map) ''system'' es) (\<lambda>system'.
     bind_res (optional (de_flat_struct MwsBackhaul_visit_map) ''backhaul'' es) (\<lambda>backhaul'.
     bind_res (optional (de_struct MwsRciStatus_fields 1 MwsRciStatus_visit_map) ''rci'' es) (\<lambda>rci'.
     Inr \<lparr>mem_cid = cid', mem_model = model', mem_mac = mac',
       mem_known_host = known_host', mem_ports = ports', mem_wireless = wireless', mem_ip = ip',
       mem_mode = mode', mem_hw_type = hw_type', mem_hw_id = hw_id', mem_firmware = firmware',
       mem_firmware_available = firmware_available', mem_firmware_release = firmware_release',
       mem_firmware_release_available = firmware_release_available',
       mem_firmware_channel = firmware_channel', mem_region = region',
       mem_associations = associations', mem_internet_available = internet_available',
       mem_system = system', mem_backhaul = backhaul', mem_rci = rci'\<rparr>)))))))))))))))))))))"

interpretation MwsMember_entries: entry_decoder MwsMember_fields "MwsMember_visit_map fm" for fm
  by unfold_locales (simp add: MwsMember_fields_def MwsMember_visit_map_def decoder_simps)

datatype MwsMembers = MwsMembers (members: "MwsMember list")

text \<open>An array of members, or an object without any entry.\<close>

fun MwsMembers_deserialize :: "formats \<Rightarrow> MwsMembers decode" where
  "MwsMembers_deserialize fm (Wire_seq ws) = map_res MwsMembers (traverse (de_struct MwsMember_fields 21 (MwsMember_visit_map fm)) ws)"
| "MwsMembers_deserialize fm (Wire_map es) = (if es \<noteq> [] then Inl (Custom ()) else Inr (MwsMembers []))"
| "MwsMembers_deserialize fm (Scalar _) = Inl Invalid_type"

section \<open>Lemmas\<close>

text \<open>The memory text meets the wire contract: what parses is a pair with free at most total, and such
  a pair is read back from what it prints.\<close>

definition memory_ok :: "MwsMemoryUsage \<Rightarrow> bool" where
  "memory_ok m \<longleftrightarrow> free_kib m \<le> total_kib m"

lemma parse_u64_shown: "parse_u64 (show_nat (unat w)) = Some (w :: u64)"
  using unsigned_less [of w, where 'a = nat] by (simp add: parse_uint_show)

interpretation memory_usage: wire_value MwsMemoryUsage_from_str MwsMemoryUsage_display memory_ok
proof
  fix s m
  assume "MwsMemoryUsage_from_str s = Inr m"
  then show "memory_ok m"
    by (auto simp: MwsMemoryUsage_from_str_def memory_ok_def res_simps not_less split: if_splits prod.splits)
next
  fix m
  assume ok: "memory_ok m"
  have "CHR ''/'' \<notin> set (show_nat n)" for n using show_nat_digits by (fastforce simp: is_ascii_digit_def)
  then have "split_once ''/'' (MwsMemoryUsage_display m) = Some (show_nat (unat (free_kib m)), show_nat (unat (total_kib m)))"
    unfolding MwsMemoryUsage_display_def by (intro split_once_first) simp_all
  then show "MwsMemoryUsage_from_str (MwsMemoryUsage_display m) = Inr m"
    using ok by (simp add: MwsMemoryUsage_from_str_def parse_u64_shown memory_ok_def not_less [symmetric])
next
  fix m
  assume "memory_ok m"
  show "MwsMemoryUsage_display m \<noteq> []" by (simp add: MwsMemoryUsage_display_def)
qed

section \<open>Properties\<close>

text \<open>A member's memory text is accepted exactly when it is two \<open>u64\<close> numbers around the first
  slash with free at most total; a well-formed pair is read back from its text, also as a JSON
  string, and equal texts come from equal pairs.\<close>

theorem memory_usage_exact:
  "(MwsMemoryUsage_from_str s = Inr m \<longleftrightarrow>
      (\<exists>a b. s = a @ ''/'' @ b \<and> CHR ''/'' \<notin> set a \<and> parse_u64 a = Some (free_kib m)
         \<and> parse_u64 b = Some (total_kib m) \<and> free_kib m \<le> total_kib m))
   \<and> (free_kib m \<le> total_kib m \<longrightarrow>
        MwsMemoryUsage_from_str (MwsMemoryUsage_display m) = Inr m
        \<and> de_from_str MwsMemoryUsage_from_str (Scalar (Visit_str (MwsMemoryUsage_display m))) = Inr m)"
proof (intro conjI impI)
  have first: "CHR ''/'' \<notin> set a" if "split_once ''/'' t = Some (a, b)" for t a b
    using that by (induction t arbitrary: a) (auto simp: starts_with_def split: if_splits)
  show "MwsMemoryUsage_from_str s = Inr m \<longleftrightarrow>
      (\<exists>a b. s = a @ ''/'' @ b \<and> CHR ''/'' \<notin> set a \<and> parse_u64 a = Some (free_kib m)
         \<and> parse_u64 b = Some (total_kib m) \<and> free_kib m \<le> total_kib m)"
    (is "_ \<longleftrightarrow> (\<exists>a b. ?reads a b)")
  proof
    assume "MwsMemoryUsage_from_str s = Inr m"
    then obtain a b where "split_once ''/'' s = Some (a, b)" "parse_u64 a = Some (free_kib m)"
        "parse_u64 b = Some (total_kib m)" "free_kib m \<le> total_kib m"
      by (auto simp: MwsMemoryUsage_from_str_def res_simps not_less split: if_splits prod.splits)
    with first split_once_Some show "\<exists>a b. ?reads a b" by blast
  next
    assume "\<exists>a b. ?reads a b"
    then obtain a b where r: "?reads a b" by blast
    then have "split_once ''/'' s = Some (a, b)" using split_once_first [of "''/''" a b] by simp
    with r show "MwsMemoryUsage_from_str s = Inr m"
      by (simp add: MwsMemoryUsage_from_str_def not_less [symmetric])
  qed
next
  assume "free_kib m \<le> total_kib m"
  then have ok: "memory_ok m" by (simp add: memory_ok_def)
  then show "MwsMemoryUsage_from_str (MwsMemoryUsage_display m) = Inr m" by (rule memory_usage.valid_parse)
  from memory_usage.deserialize_serialized [OF ok]
  show "de_from_str MwsMemoryUsage_from_str (Scalar (Visit_str (MwsMemoryUsage_display m))) = Inr m"
    by (simp add: de_from_str_def visiting_def)
qed

theorem memory_usage_exact_witness:
  "MwsMemoryUsage_from_str ''7/12'' = Inr \<lparr>free_kib = 7, total_kib = 12\<rparr>"
proof -
  let ?m = "\<lparr>free_kib = 7, total_kib = 12\<rparr>"
  have "MwsMemoryUsage_display ?m = ''7/12''"
    by (simp add: MwsMemoryUsage_display_def show_nat.simps digit_char_def) code_simp
  with memory_usage_exact [of "''7/12''" ?m] show ?thesis by simp
qed

end
