(* ===== verification/Wellformed.thy ===== *)
theory Wellformed
  imports Mobile Clients Inventory Topology
begin

text \<open>
  What a decoded response guarantees. \<open>yields P m\<close> says that a result, when there is one, satisfies
  \<open>P\<close>; \<open>decodes P de\<close> says it of a deserializer on every input. Each combinator of theory \<open>Wire\<close> and
  each leaf type has one rule, so that the invariant of a struct follows by going down its fields;
  the invariants themselves (\<open>version_ok\<close>, \<open>hotspot_host_ok\<close>, ...) are what the Rust types promise
  their users: validated identifiers, percentages, finite measurements, ordered maps, durations
  that fit, and optional texts that are never empty.
\<close>

section \<open>Rules\<close>

definition yields :: "('a \<Rightarrow> bool) \<Rightarrow> 'e + 'a \<Rightarrow> bool" where
  "yields P m \<longleftrightarrow> (\<forall>v. m = Inr v \<longrightarrow> P v)"

definition decodes :: "('a \<Rightarrow> bool) \<Rightarrow> 'a decode \<Rightarrow> bool" where
  "decodes P de \<longleftrightarrow> (\<forall>w. yields P (de w))"

lemma yieldsD: "yields P m \<Longrightarrow> m = Inr v \<Longrightarrow> P v"
  by (simp add: yields_def)

lemma decodesD: "decodes P de \<Longrightarrow> de w = Inr v \<Longrightarrow> P v"
  by (simp add: decodes_def yields_def)

lemma yields_bind:
  assumes "yields P m" and "\<And>x. P x \<Longrightarrow> yields Q (f x)"
  shows "yields Q (bind_res m f)"
  using assms by (cases m) (auto simp: yields_def)

lemma yields_Inr: "Q v \<Longrightarrow> yields Q (Inr v)"
  by (simp add: yields_def)

lemma yields_map: "yields P m \<Longrightarrow> (\<And>x. P x \<Longrightarrow> Q (f x)) \<Longrightarrow> yields Q (map_res f m)"
  by (cases m) (auto simp: yields_def)

lemma yields_any: "yields (\<lambda>_. True) m"
  by (simp add: yields_def)

lemma yields_field:
  assumes "decodes P de" and "yields P missing"
  shows "yields P (field de missing name es)"
  using assms by (auto simp: field_def yields_def decodes_def split: list.splits)

lemma yields_required: "decodes P de \<Longrightarrow> yields P (required de name es)"
  unfolding required_def by (rule yields_field) (simp_all add: yields_def)

lemma decodes_opt: "decodes P de \<Longrightarrow> decodes (pred_option P) (de_opt de)"
  by (auto simp: decodes_def yields_def de_opt_def res_simps split: if_splits)

lemma yields_optional: "decodes P de \<Longrightarrow> yields (pred_option P) (optional de name es)"
  unfolding optional_def by (rule yields_field [OF decodes_opt]) (simp_all add: yields_def)

lemma yields_defaulted_None:
  "decodes (pred_option P) de \<Longrightarrow> yields (pred_option P) (defaulted None de name es)"
  unfolding defaulted_def by (rule yields_field) (simp_all add: yields_def)

lemma decodes_struct: "(\<And>es. yields P (visit_map es)) \<Longrightarrow> decodes P (de_struct ns n visit_map)"
  by (auto simp: decodes_def yields_def dest: de_struct_Inr)

lemma decodes_flat_struct: "(\<And>es. yields P (visit_map es)) \<Longrightarrow> decodes P (de_flat_struct visit_map)"
  by (auto simp: decodes_def yields_def dest: de_flat_struct_Inr)

lemma decodes_seq:
  assumes "decodes P de"
  shows "decodes (list_all P) (de_seq de)"
proof -
  have "list_all P xs" if "list_all2 (\<lambda>u x. de u = Inr x) ws xs" for ws xs
    using that by induction (use assms in \<open>auto dest: decodesD\<close>)
  then show ?thesis by (auto simp: decodes_def yields_def elim!: de_seq_Inr)
qed

lemma yields_defaulted_Nil:
  "decodes P de \<Longrightarrow> yields (list_all P) (defaulted [] (de_seq de) name es)"
  unfolding defaulted_def by (rule yields_field [OF decodes_seq]) (simp_all add: yields_def)

text \<open>An ordered map with a property of its keys and one of its values.\<close>

definition map_ok :: "('k::linorder \<Rightarrow> bool) \<Rightarrow> ('v \<Rightarrow> bool) \<Rightarrow> ('k, 'v) btree \<Rightarrow> bool" where
  "map_ok K P t \<longleftrightarrow> bt_ok t \<and> list_all (\<lambda>(k, v). K k \<and> P v) t"

lemma decodes_map:
  assumes "\<And>s k. key s = Inr k \<Longrightarrow> K k" and "decodes P de"
  shows "decodes (map_ok K P) (de_map key de)"
  unfolding decodes_def yields_def map_ok_def list_all_iff
proof (intro allI impI)
  fix w t
  assume "de_map key de w = Inr t"
  then obtain es where "bt_ok t"
    and "\<forall>k v. (k, v) \<in> set t \<longrightarrow> (\<exists>s u. (s, u) \<in> set es \<and> key s = Inr k \<and> de u = Inr v)"
    by (rule de_map_Inr)
  with assms show "bt_ok t \<and> (\<forall>(k, v) \<in> set t. K k \<and> P v)" by (blast dest: decodesD)
qed

lemma yields_defaulted_map:
  assumes "\<And>s k. key s = Inr k \<Longrightarrow> K k" and "decodes P de"
  shows "yields (map_ok K P) (defaulted [] (de_map key de) name es)"
  unfolding defaulted_def
  by (rule yields_field [OF decodes_map [OF assms]]) (simp_all add: yields_def map_ok_def bt_ok_def)

lemma decodes_newtype: "decodes P de \<Longrightarrow> (\<And>v. P v \<Longrightarrow> Q (con v)) \<Longrightarrow> decodes Q (de_newtype con de)"
  by (auto simp: decodes_def yields_def de_newtype_def res_simps)

lemma decodes_any: "decodes (\<lambda>_. True) de"
  by (simp add: decodes_def yields_def)

text \<open>A map whose key type is a checked newtype of a string.\<close>

lemma de_key_Inr: "de_key from_str s = Inr k \<longleftrightarrow> from_str s = Inr k"
  by (auto simp: de_key_def res_simps)

section \<open>Leaf types\<close>

text \<open>\<open>std::time::Duration\<close> holds at most \<open>u64\<close> seconds; durations are natural numbers here, so
  that every duration a response carries fits is something to prove; those read as a number of
  seconds are whole.\<close>

definition duration_ok :: "duration \<Rightarrow> bool" where
  "duration_ok d \<longleftrightarrow> d < 2 ^ 64 * 1000000000"

definition seconds_ok :: "duration \<Rightarrow> bool" where
  "seconds_ok d \<longleftrightarrow> duration_ok d \<and> 1000000000 dvd d"

definition uptime_ok :: "Uptime \<Rightarrow> bool" where
  "uptime_ok u \<longleftrightarrow> seconds_ok (Uptime_get u)"

fun lease_ok :: "LeaseExpiration \<Rightarrow> bool" where
  "lease_ok (Finite d) \<longleftrightarrow> seconds_ok d"
| "lease_ok Infinite \<longleftrightarrow> True"

definition cpu_load_ok :: "CpuLoad \<Rightarrow> bool" where
  "cpu_load_ok c \<longleftrightarrow> unat (percent c) \<le> 100"

definition mtu_ok :: "Mtu \<Rightarrow> bool" where
  "mtu_ok m \<longleftrightarrow> 64 \<le> unat (Mtu_get m)"

definition dbm_ok :: "Dbm \<Rightarrow> bool" where
  "dbm_ok m \<longleftrightarrow> f32_is_finite (Dbm_get m)"

definition db_ok :: "Db \<Rightarrow> bool" where
  "db_ok m \<longleftrightarrow> f32_is_finite (Db_get m)"

definition celsius_ok :: "Celsius \<Rightarrow> bool" where
  "celsius_ok m \<longleftrightarrow> f32_is_finite (Celsius_get m)"

definition bandwidth_ok :: "CarrierBandwidth \<Rightarrow> bool" where
  "bandwidth_ok b \<longleftrightarrow> f32_is_finite (as_megahertz b) \<and> f32_positive (as_megahertz b)"

text \<open>Rates are normalized to bits per second without wrapping.\<close>

definition rate_in :: "nat \<Rightarrow> DataRate \<Rightarrow> bool" where
  "rate_in unit r \<longleftrightarrow> unit dvd unat (bits_per_second r)"

abbreviation id_ok :: "InterfaceId \<Rightarrow> bool" where
  "id_ok i \<equiv> plain_text (InterfaceId_as_str i)"

text \<open>An optional text is never the empty string.\<close>

abbreviation text_ok :: "string option \<Rightarrow> bool" where
  "text_ok \<equiv> pred_option (\<lambda>s. s \<noteq> [])"

subsection \<open>Visitors\<close>

lemma yields_map_err: "yields P m \<Longrightarrow> yields P (map_err f m)"
  by (cases m) (auto simp: yields_def)

lemma yields_Inl: "yields P (Inl e)"
  by (simp add: yields_def)

lemma yields_if: "(c \<Longrightarrow> yields P a) \<Longrightarrow> (\<not> c \<Longrightarrow> yields P b) \<Longrightarrow> yields P (if c then a else b)"
  by simp

lemma yields_some: "yields P m \<Longrightarrow> yields (pred_option P) (map_res Some m)"
  by (erule yields_map) simp

lemma yields_ok_or: "pred_option P m \<Longrightarrow> yields P (ok_or e m)"
  by (cases m) (simp_all add: yields_def)

lemma yields_str_visitor: "(\<And>s. yields P (f s)) \<Longrightarrow> yields P (str_visitor f ev)"
  by (cases ev) (simp_all add: yields_Inl)

lemma yields_option_visitor:
  "(\<And>ev. yields (pred_option P) (inner ev)) \<Longrightarrow> yields (pred_option P) (option_visitor inner ev)"
  by (cases ev) (simp_all add: yields_Inl yields_Inr)

lemma yields_erase: "yields P m \<Longrightarrow> yields P (erase m)"
  unfolding erase_def by (rule yields_map_err)

lemma decodes_visiting: "(\<And>ev. yields P (visitor ev)) \<Longrightarrow> decodes P (visiting visitor)"
  by (simp add: decodes_def visiting_def yields_erase)

lemma decodes_visiting_option: "(\<And>ev. yields P (visitor ev)) \<Longrightarrow> decodes P (visiting_option visitor)"
  by (simp add: decodes_def visiting_option_def yields_erase)

lemmas visitor_rules = decodes_visiting decodes_visiting_option yields_option_visitor
  yields_str_visitor yields_some yields_map_err yields_if

subsection \<open>Texts\<close>

lemma decodes_optional_parse:
  assumes "\<And>s. yields P (from_str s)"
  shows "decodes (pred_option P) (optional_from_str from_str)"
  unfolding optional_from_str_def OptionalFromStrVisitor_visit_def OptionalFromStrStringVisitor_visit_def
  by (rule visitor_rules assms)+ (simp add: yields_Inr, (rule visitor_rules assms)+)

context open_enum
begin

lemma decodes_enum: "decodes (canonical as_str from) (de_enum from)"
  unfolding decodes_def yields_def using as_str_from by (auto dest: de_classifier_canonical)

lemma decodes_optional_enum: "decodes (pred_option (canonical as_str from)) (optional_from_str (enum_from_str from))"
  by (rule decodes_optional_parse) (simp add: enum_from_str_def yields_def canonical_def as_str_from)

end

context wire_value
begin

lemma parse_yields: "yields valid (parse s)"
  by (auto simp: yields_def parse_valid)

lemma key_valid: "de_key parse s = Inr k \<Longrightarrow> valid k"
  by (simp add: de_key_Inr parse_valid)

lemma decodes_from_str: "decodes valid (de_from_str parse)"
  unfolding de_from_str_def FromStrVisitor_visit_def by (rule visitor_rules parse_yields)+

lemma decodes_optional_from_str: "decodes (pred_option valid) (optional_from_str parse)"
  by (rule decodes_optional_parse) (rule parse_yields)

lemma decodes_identifier: "decodes valid (de_identifier parse)"
  unfolding de_identifier_def string_identifier_deserialize_def by (rule visitor_rules parse_yields)+

end

context string_value
begin

lemma reported_yields: "yields (reported_ok parse valid) (Inr (Reported_from parse s))"
  by (rule yields_Inr) (rule reported_from_ok)

lemma decodes_reported: "decodes (reported_ok parse valid) (de_reported parse)"
  unfolding de_reported_def ReportedVisitor_visit_def by (rule visitor_rules reported_yields)+

lemma decodes_optional_reported: "decodes (pred_option (reported_ok parse valid)) (optional_reported parse)"
  unfolding optional_reported_def OptionalReportedVisitor_visit_def OptionalReportedStringVisitor_visit_def
    ReportedVisitor_visit_def str_visitor.simps
  by (rule visitor_rules reported_yields)+ (simp add: yields_Inr, (rule visitor_rules reported_yields)+)

end

lemma decodes_nonempty: "decodes (pred_option (\<lambda>s. s \<noteq> [])) optional_nonempty_string"
  by (auto simp: decodes_def yields_def option.pred_set dest: optional_nonempty_string_nonempty)

subsection \<open>Numbers\<close>

lemma decodes_cpu_load: "decodes cpu_load_ok (de_try_from de_uint CpuLoad_new)"
  by (auto simp: decodes_def yields_def de_try_from_def res_simps CpuLoad_new_def cpu_load_ok_def
      word_le_nat_alt split: if_splits)

lemma decodes_mtu: "decodes mtu_ok (de_try_from de_uint Mtu_new)"
  by (auto simp: decodes_def yields_def de_try_from_def res_simps Mtu_new_def mtu_ok_def Mtu_MIN_def
      word_le_nat_alt split: if_splits)

lemma decodes_nonzero: "decodes (\<lambda>v. v \<noteq> 0) de_nonzero"
  unfolding de_nonzero_def
  by (rule decodes_visiting) (auto simp: yields_def nonzero_visit_def res_simps split: if_splits)

lemma decodes_streams: "decodes (\<lambda>s. SpatialStreams_get s \<noteq> 0) (de_newtype SpatialStreams de_nonzero)"
  by (rule decodes_newtype [OF decodes_nonzero]) simp

lemma yields_measurement: "(\<And>f. yields P (try_from f)) \<Longrightarrow> yields P (measurement try_from ev)"
  unfolding measurement_def by (rule yields_bind [OF yields_any])+ (rule yields_map_err)

lemma yields_optional_measurement:
  "(\<And>f. yields P (try_from f)) \<Longrightarrow> yields (pred_option P) (optional_measurement try_from ev)"
  unfolding optional_measurement_def
  by (rule yields_bind [OF yields_any]) (auto intro: yields_Inr yields_map_err yields_some split: option.split)

lemma measurement_yields:
  "yields dbm_ok (Dbm_new f)" "yields db_ok (Db_new f)" "yields celsius_ok (Celsius_new f)"
  "yields bandwidth_ok (from_megahertz f)"
  by (simp_all add: yields_def Dbm_new_def dbm_ok_def Db_new_def db_ok_def Celsius_new_def celsius_ok_def
      from_megahertz_def bandwidth_ok_def)

lemma decodes_measurement: "(\<And>f. yields P (try_from f)) \<Longrightarrow> decodes P (de_measurement try_from)"
  unfolding de_measurement_def by (rule decodes_visiting) (rule yields_measurement)

lemma decodes_optional_measurement:
  "(\<And>f. yields P (try_from f)) \<Longrightarrow> decodes (pred_option P) (de_optional_measurement try_from)"
  unfolding de_optional_measurement_def by (rule decodes_visiting) (rule yields_optional_measurement)

lemma rate_yields:
  "yields (rate_in 1000000) (from_megabits_per_second v)" "yields (rate_in 1000) (from_kilobits_per_second v)"
  by (auto simp: yields_def from_megabits_per_second_def from_kilobits_per_second_def rate_in_def
      num_simps unat_mult_exact split: option.splits)

lemma decodes_mbps: "decodes (rate_in 1000000) de_mbps"
  unfolding de_mbps_def deserialize_mbps_def
  by (rule decodes_visiting) (rule yields_bind [OF yields_any], rule yields_map_err, rule rate_yields)

lemma decodes_kbps: "decodes (rate_in 1000) de_kbps"
  unfolding de_kbps_def deserialize_kbps_def
  by (rule decodes_visiting) (rule yields_bind [OF yields_any], rule yields_map_err, rule rate_yields)

lemma decodes_optional_mbps: "decodes (pred_option (rate_in 1000000)) de_optional_mbps"
  unfolding de_optional_mbps_def deserialize_optional_mbps_def
  by (rule decodes_visiting_option, rule yields_bind [OF yields_any])
    (auto intro: yields_Inr yields_map_err yields_some rate_yields split: option.split)

subsection \<open>Durations\<close>

lemma from_secs_ok: "seconds_ok (from_secs s)"
  using unsigned_less [of s] by (simp add: seconds_ok_def duration_ok_def from_secs_def)

text \<open>Such a duration is what its number of seconds gives back.\<close>

lemma seconds_ok_exact: "seconds_ok d \<Longrightarrow> from_secs (of_nat (as_secs d)) = d"
  by (auto simp: seconds_ok_def duration_ok_def from_secs_def as_secs_def unsigned_of_nat
      take_bit_nat_eq_self elim!: dvdE)

lemma pred_option_bind: "(\<And>x. pred_option P (f x)) \<Longrightarrow> pred_option P (Option.bind m f)"
  by (cases m) simp_all

lemma human_uptime_ok: "pred_option seconds_ok (parse_human_uptime value)"
proof -
  have split: "pred_option P (case xs of [] \<Rightarrow> None | y # ys \<Rightarrow> f y ys)"
    if "\<And>y ys. pred_option P (f y ys)" for P :: "duration \<Rightarrow> bool" and xs :: "string list" and f
    using that by (cases xs) simp_all
  have final: "pred_option P (if c then None else m)" if "pred_option P m" for P :: "duration \<Rightarrow> bool" and c m
    using that by simp
  have result: "pred_option seconds_ok (Some (from_secs s))" for s by (simp add: from_secs_ok)
  show ?thesis
    unfolding parse_human_uptime_def case_prod_beta by (rule pred_option_bind split final result)+
qed

lemma uptime_text_yields: "yields uptime_ok (uptime_text value)"
  unfolding uptime_text_def
  by (rule yields_ok_or)
    (auto simp: uptime_ok_def Uptime_from_secs_def from_secs_ok option.pred_map comp_def human_uptime_ok
      split: option.splits)

lemma decodes_uptime: "decodes uptime_ok de_uptime"
  unfolding de_uptime_def
proof (rule decodes_visiting)
  have secs: "uptime_ok (Uptime_from_secs s)" for s by (simp add: uptime_ok_def Uptime_from_secs_def from_secs_ok)
  then have "yields uptime_ok (map_err f (map_res Uptime_from_secs m))" for f m
    by (intro yields_map_err yields_map [OF yields_any])
  with secs show "yields uptime_ok (Uptime_visit ev)" for ev
    by (cases ev) (simp_all add: uptime_text_yields yields_Inr yields_Inl)
qed

lemma decodes_lease: "decodes lease_ok de_lease"
  unfolding de_lease_def
proof (rule decodes_visiting)
  show "yields lease_ok (LeaseExpiration_visit ev)" for ev
    by (cases ev) (auto simp: yields_def lease_word_def from_secs_ok res_simps)
qed

lemma decodes_seconds: "decodes seconds_ok de_seconds"
  unfolding de_seconds_def deserialize_seconds_def
  by (rule decodes_visiting, rule yields_map [OF yields_any]) (rule from_secs_ok)

lemma decodes_optional_seconds: "decodes (pred_option seconds_ok) de_optional_seconds"
  unfolding de_optional_seconds_def deserialize_optional_seconds_def
  by (rule decodes_visiting_option, rule yields_map [OF yields_any])
    (simp add: option.pred_map from_secs_ok comp_def option.pred_True)

lemma Duration_new_ok: "yields duration_ok (Duration_new secs nanos)"
proof -
  have "unat secs * 1000000000 + unat nanos < 2 ^ 64 * 1000000000"
    if "unat secs + unat nanos div 1000000000 < 2 ^ 64"
  proof -
    have "unat nanos < (unat nanos div 1000000000 + 1) * 1000000000"
      by (simp add: dividend_less_div_times)
    moreover have "(unat secs + unat nanos div 1000000000 + 1) * 1000000000 \<le> 2 ^ 64 * 1000000000"
      using that by (intro mult_le_mono1) simp
    ultimately show ?thesis unfolding add_mult_distrib by linarith
  qed
  then show ?thesis by (auto simp: yields_def Duration_new_def duration_ok_def)
qed

lemma decodes_decimal_duration: "decodes duration_ok de_decimal_duration"
  unfolding de_decimal_duration_def de_from_str_def FromStrVisitor_visit_def parse_decimal_duration_def Let_def
    case_prod_beta
  by (rule visitor_rules yields_bind [OF yields_any] yields_Inl Duration_new_ok)+

subsection \<open>Addresses and references\<close>

lemma decodes_mac: "decodes mac_ok de_mac"
  unfolding de_mac_def MacAddress_visit_def by (rule visitor_rules mac_address.parse_yields)+

lemma decodes_host: "decodes (host_ok (parse_ip fm)) (de_host fm)"
  unfolding de_host_def
proof (rule decodes_visiting)
  have "host_ok parse h" if "validate_network_host s = Inr ()"
    and "h = (case parse s of None \<Rightarrow> Name s | Some address \<Rightarrow> Address address)" for parse s h
    using that
    by (auto simp: host_ok_def validate_network_host_def plain_text_def split: option.splits if_splits)
  then show "yields (host_ok (parse_ip fm)) (NetworkHost_visit (parse_ip fm) ev)" for ev
    by (cases ev) (auto simp: yields_def NetworkHost_from_str_def NetworkHost_try_from_def res_simps)
qed

lemma decodes_specified:
  "decodes (pred_option (\<lambda>a. \<not> is_unspecified a)) (de_optional_ipv4 fm)"
  "decodes (pred_option (\<lambda>a. \<not> is_unspecified a)) (optional_ipv4_gateway fm)"
  "decodes (pred_option (\<lambda>a. \<not> is_unspecified6 a)) (optional_ipv6_gateway fm)"
  by (auto simp: decodes_def yields_def de_optional_ipv4_def optional_ipv4_gateway_def
      optional_ipv6_gateway_def res_simps)

lemma yields_option_case:
  "yields P m \<Longrightarrow> (\<And>x. yields P (f x)) \<Longrightarrow> yields P (case v of None \<Rightarrow> m | Some x \<Rightarrow> f x)"
  by (cases v) simp_all

lemma decodes_volume_id:
  "decodes (pred_option (\<lambda>v. plain_text (VolumeId_as_str v))) deserialize_optional_volume_id"
  unfolding decodes_def deserialize_optional_volume_id_def
  by (intro allI yields_bind [OF yields_any] yields_option_case yields_Inr)
    (simp, intro yields_erase yields_map_err yields_some volume_id.parse_yields)

lemma decodes_interface_ref: "decodes (pred_option id_ok) optional_interface_id"
  unfolding decodes_def optional_interface_id_def
  by (intro allI yields_bind [OF yields_any] yields_option_case yields_Inr)
    (simp, intro yields_erase yields_map_err yields_some interface_id.parse_yields)

lemma decodes_nonzero_u16: "decodes (pred_option (\<lambda>v. v \<noteq> 0)) optional_nonzero_u16"
  by (auto simp: decodes_def yields_def optional_nonzero_u16_def res_simps)

section \<open>Structs\<close>

text \<open>The rules for fields: combinators first, then the leaf types; a field without an invariant of
  its own falls through to \<open>any_rules\<close>.\<close>

lemmas field_rules = yields_required yields_optional yields_defaulted_None yields_defaulted_Nil
  decodes_struct decodes_flat_struct decodes_seq decodes_opt

lemmas leaf_rules = decodes_nonempty decodes_mac decodes_host decodes_specified decodes_volume_id
  decodes_interface_ref decodes_nonzero_u16 decodes_uptime decodes_lease decodes_seconds
  decodes_optional_seconds decodes_decimal_duration decodes_cpu_load decodes_mtu decodes_nonzero
  decodes_streams decodes_mbps decodes_kbps decodes_optional_mbps
  decodes_measurement [OF measurement_yields(1)] measurement_yields [THEN decodes_optional_measurement]
  memory_usage.decodes_from_str

lemmas identifier_rules =
  interface_id.decodes_identifier usb_device_id.decodes_identifier media_id.decodes_identifier
  partition_id.decodes_identifier service_tag.decodes_identifier serial_number.decodes_identifier
  customer_id.decodes_identifier hardware_vendor.decodes_from_str hardware_version.decodes_from_str
  hardware_id.decodes_from_str region_code.decodes_from_str plmn.decodes_optional_from_str
  imei.decodes_optional_reported imsi.decodes_optional_reported iccid.decodes_optional_reported
  hardware_id.decodes_reported region_code.decodes_reported

lemmas enum_rules =
  LinkState_enum.decodes_enum InterfaceState_enum.decodes_enum
  InterfaceLayerState_enum.decodes_enum InterfaceKind_enum.decodes_enum
  InterfaceTrait_enum.decodes_enum WifiMode_enum.decodes_enum WifiSecurity_enum.decodes_enum
  Architecture_enum.decodes_enum FirmwareChannel_enum.decodes_enum HardwareType_enum.decodes_enum
  UsbSubsystem_enum.decodes_enum UsbVersion_enum.decodes_enum UsbPowerControl_enum.decodes_enum
  MediaBus_enum.decodes_enum MediaState_enum.decodes_enum FileSystemType_enum.decodes_enum
  PingCheckMode_enum.decodes_enum PingCheckStatus_enum.decodes_enum
  RadioAccessTechnology_enum.decodes_enum SystemOperatingMode_enum.decodes_enum
  ArpState_enum.decodes_enum DhcpBindingMode_enum.decodes_enum RouteProtocol_enum.decodes_enum
  HotspotAccess_enum.decodes_enum TrafficShapeMode_enum.decodes_enum

lemma key_rules:
  assumes "decodes P de"
  shows "decodes (map_ok (\<lambda>k. plain_text (InterfaceId_as_str k)) P) (de_map (de_key InterfaceId_try_from) de)"
    and "yields (map_ok (\<lambda>k. plain_text (InterfaceId_as_str k)) P) (defaulted [] (de_map (de_key InterfaceId_try_from) de) name es)"
    and "decodes (map_ok (\<lambda>k. plain_text (UsbDeviceId_as_str k)) P) (de_map (de_key UsbDeviceId_try_from) de)"
    and "yields (map_ok (\<lambda>k. plain_text (UsbDeviceId_as_str k)) P) (defaulted [] (de_map (de_key UsbDeviceId_try_from) de) name es)"
    and "decodes (map_ok (\<lambda>k. plain_text (MediaId_as_str k)) P) (de_map (de_key MediaId_try_from) de)"
    and "yields (map_ok (\<lambda>k. plain_text (MediaId_as_str k)) P) (defaulted [] (de_map (de_key MediaId_try_from) de) name es)"
    and "decodes (map_ok (\<lambda>k. plain_text (PartitionId_as_str k)) P) (de_map (de_key PartitionId_try_from) de)"
    and "yields (map_ok (\<lambda>k. plain_text (PartitionId_as_str k)) P) (defaulted [] (de_map (de_key PartitionId_try_from) de) name es)"
  using assms
  by (auto intro!: decodes_map yields_defaulted_map dest: interface_id.key_valid usb_device_id.key_valid media_id.key_valid partition_id.key_valid)

lemma decodes_any_option: "decodes (pred_option (\<lambda>_. True)) de"
  by (simp add: decodes_def yields_def option.pred_True)

lemmas any_rules = decodes_any_option decodes_any yields_any

lemmas struct_rules = yields_bind yields_Inr field_rules key_rules leaf_rules identifier_rules enum_rules

subsection \<open>Mobile interfaces\<close>

definition band_ok :: "RadioBand \<Rightarrow> bool" where
  "band_ok b \<longleftrightarrow> RadioBand_from_str (RadioBand_display b) = Inr b"

lemma decodes_band: "decodes (pred_option band_ok) (optional_from_str RadioBand_from_str)"
  by (rule decodes_optional_parse) (simp add: yields_def band_ok_def RadioBand_from_display)

text \<open>A connection or SIM state is read without regard to case; \<open>Other\<close> never holds a spelling
  of a known state, in whatever case.\<close>

fun connection_state_ok :: "MobileConnectionState \<Rightarrow> bool" where
  "connection_state_ok (MobileConnectionState_Other t) \<longleftrightarrow>
     list_all (\<lambda>known. \<not> eq_ignore_ascii_case t known) [''Initializing'', ''Connected'']"
| "connection_state_ok _ \<longleftrightarrow> True"

fun sim_state_ok :: "SimState \<Rightarrow> bool" where
  "sim_state_ok (SimState_Other t) \<longleftrightarrow>
     list_all (\<lambda>known. \<not> eq_ignore_ascii_case t known) [''READY'', ''SIM PIN'', ''SIM PUK'', ''INVALID'']"
| "sim_state_ok _ \<longleftrightarrow> True"

lemma decodes_states:
  "decodes (pred_option connection_state_ok) (optional_from_str MobileConnectionState_from_str)"
  "decodes (pred_option sim_state_ok) (optional_from_str SimState_from_str)"
  by (rule decodes_optional_parse,
      simp add: yields_def MobileConnectionState_from_str_def SimState_from_str_def)+

lemmas mobile_rules = RadioAccessTechnology_enum.decodes_optional_enum decodes_band decodes_states

definition carrier_ok :: "ComponentCarrier \<Rightarrow> bool" where
  "carrier_ok c \<longleftrightarrow>
     pred_option (canonical RadioAccessTechnology_as_str RadioAccessTechnology_from) (cc_network c)
     \<and> pred_option band_ok (cc_band c) \<and> pred_option bandwidth_ok (cc_bandwidth c)"

lemma carrier_wf: "yields carrier_ok (ComponentCarrier_visit_map es)"
  unfolding ComponentCarrier_visit_map_def
  by (rule struct_rules mobile_rules any_rules)+ (simp add: carrier_ok_def)

definition signal_ok :: "MobileSignal \<Rightarrow> bool" where
  "signal_ok s \<longleftrightarrow> pred_option dbm_ok (msg_rssi s) \<and> pred_option dbm_ok (msg_rsrp s)
     \<and> pred_option db_ok (msg_rsrq s) \<and> pred_option db_ok (msg_cinr s)"

lemma signal_wf: "yields signal_ok (MobileSignal_visit_map es)"
  unfolding MobileSignal_visit_map_def by (rule struct_rules any_rules)+ (simp add: signal_ok_def)

definition cell_ok :: "ServingCell \<Rightarrow> bool" where
  "cell_ok c \<longleftrightarrow> pred_option plmn_ok (sc_plmn c)"

lemma cell_wf: "yields cell_ok (ServingCell_visit_map es)"
  unfolding ServingCell_visit_map_def by (rule struct_rules any_rules)+ (simp add: cell_ok_def)

definition modem_ok :: "LteModem \<Rightarrow> bool" where
  "modem_ok m \<longleftrightarrow> text_ok (lm_manufacturer m) \<and> text_ok (lm_model m) \<and> text_ok (lm_revision m)"

lemma modem_wf: "yields modem_ok (LteModem_visit_map es)"
  unfolding LteModem_visit_map_def by (rule struct_rules any_rules)+ (simp add: modem_ok_def)

definition sim_ok :: "LteSim \<Rightarrow> bool" where
  "sim_ok s \<longleftrightarrow> text_ok (ls_service_provider s)"

lemma sim_wf: "yields sim_ok (LteSim_visit_map es)"
  unfolding LteSim_visit_map_def by (rule struct_rules any_rules)+ (simp add: sim_ok_def)

text \<open>Carrier numbers come from map keys and are never zero.\<close>

lemma carriers_wf:
  assumes "decodes P de"
  shows "yields (map_ok (\<lambda>k. ComponentCarrierId_get k \<noteq> 0) P) (defaulted [] (de_map (ComponentCarrierId_key fm) de) name es)"
  using assms
  by (intro yields_defaulted_map)
    (auto simp: ComponentCarrierId_key_def res_simps nonzero_visit_def split: if_splits)

definition mobile_status_ok :: "MobileStatus \<Rightarrow> bool" where
  "mobile_status_ok s \<longleftrightarrow>
     list_all text_ok [ms_plugged s, ms_operator s, ms_apn s, ms_phone_number s]
     \<and> pred_option connection_state_ok (ms_connection_state s)
     \<and> pred_option sim_state_ok (ms_sim_state s)
     \<and> pred_option (reported_ok Imei_from_str imei_ok) (ms_imei s)
     \<and> pred_option (reported_ok Imsi_from_str imsi_ok) (ms_imsi s)
     \<and> pred_option (reported_ok Iccid_from_str iccid_ok) (ms_iccid s)
     \<and> signal_ok (ms_signal s) \<and> pred_option celsius_ok (ms_modem_temperature s)
     \<and> cell_ok (ms_cell s) \<and> carrier_ok (ms_primary_carrier s)
     \<and> map_ok (\<lambda>k. ComponentCarrierId_get k \<noteq> 0) carrier_ok (ms_reported_carriers s)
     \<and> pred_option modem_ok (ms_modem s) \<and> pred_option sim_ok (ms_sim s)"

lemma mobile_status_wf: "yields mobile_status_ok (MobileStatus_visit_map fm es)"
  unfolding MobileStatus_visit_map_def
  by (rule struct_rules mobile_rules carriers_wf signal_wf cell_wf carrier_wf modem_wf sim_wf any_rules)+
    (simp add: mobile_status_ok_def)

definition mobile_interface_ok :: "MobileInterface \<Rightarrow> bool" where
  "mobile_interface_ok m \<longleftrightarrow> interface_ok (mi_interface m) \<and> is_mobile_broadband (mi_interface m)
     \<and> mobile_status_ok (mi_status m)"

lemma interface_wf: "yields interface_ok (Interface_visit_map es)"
  by (simp add: yields_def interface_wellformed)

lemma mobile_interface_wf: "decodes mobile_interface_ok (MobileInterface_deserialize fm)"
  unfolding decodes_def yields_def
proof (intro allI impI)
  fix w m
  assume m: "MobileInterface_deserialize fm w = Inr m"
  then obtain es where "MobileInterface_deserialize fm (Wire_map es) = Inr m"
    by (cases w) (auto simp: MobileInterface_deserialize_def split: if_splits)
  then show "mobile_interface_ok m"
    using interface_wf mobile_status_wf unfolding mobile_interface_chain
    unfolding mobile_interface_ok_def by (blast dest: yieldsD)
qed

subsection \<open>Version, system, identification\<close>

definition version_ok :: "Version \<Rightarrow> bool" where
  "version_ok v \<longleftrightarrow>
     canonical Architecture_as_str Architecture_from (ver_arch v)
     \<and> pred_option (canonical FirmwareChannel_as_str FirmwareChannel_from) (ver_sandbox v)
     \<and> hardware_version_ok (ver_hw_version v)
     \<and> pred_option (canonical HardwareType_as_str HardwareType_from) (ver_hw_type v)
     \<and> hardware_id_ok (ver_hw_id v) \<and> region_code_ok (ver_region v)"

lemma version_wf: "yields version_ok (Version_visit_map es)"
  unfolding Version_visit_map_def by (rule struct_rules any_rules)+ (simp add: version_ok_def)

definition system_ok :: "System \<Rightarrow> bool" where
  "system_ok s \<longleftrightarrow> uptime_ok (sys_uptime s) \<and> cpu_load_ok (sys_cpu_load s)"

lemma system_wf: "yields system_ok (System_visit_map es)"
  unfolding System_visit_map_def by (rule struct_rules any_rules)+ (simp add: system_ok_def)

definition mode_ok :: "SystemOperatingMode \<Rightarrow> bool" where
  "mode_ok m \<longleftrightarrow> canonical SystemOperatingMode_as_str SystemOperatingMode_from m"

definition mode_status_ok :: "SystemModeStatus \<Rightarrow> bool" where
  "mode_status_ok s \<longleftrightarrow> mode_ok (sms_active s) \<and> mode_ok (sms_selected s) \<and> sms_supported s \<noteq> []
     \<and> list_all (\<lambda>m. mode_ok m \<and> SystemOperatingMode_as_str m \<noteq> []) (sms_supported s)"

lemma supported_yields:
  "yields (\<lambda>ms. ms \<noteq> [] \<and> list_all (\<lambda>m. mode_ok m \<and> SystemOperatingMode_as_str m \<noteq> []) ms) (supported_modes s)"
proof -
  have "ms \<noteq> [] \<and> list_all (\<lambda>m. mode_ok m \<and> SystemOperatingMode_as_str m \<noteq> []) ms"
    if "supported_modes s = Inr ms" for ms
  proof -
    have "map trim (split_on CHR '','' s) \<noteq> []" by simp
    with that show ?thesis
      by (auto simp: supported_modes_exact mode_ok_def canonical_def list_all_iff)
  qed
  then show ?thesis by (simp add: yields_def)
qed

lemma decodes_supported:
  "decodes (\<lambda>ms. ms \<noteq> [] \<and> list_all (\<lambda>m. mode_ok m \<and> SystemOperatingMode_as_str m \<noteq> []) ms) deserialize_supported_modes"
  unfolding deserialize_supported_modes_def by (rule visitor_rules supported_yields)+

lemma mode_status_wf: "yields mode_status_ok (SystemModeStatus_visit_map es)"
  unfolding SystemModeStatus_visit_map_def
  by (rule struct_rules decodes_supported any_rules)+ (simp add: mode_status_ok_def mode_ok_def)

definition identification_ok :: "Identification \<Rightarrow> bool" where
  "identification_ok i \<longleftrightarrow> plain_text (ServiceTag_as_str (idn_service_tag i))
     \<and> plain_text (SerialNumber_as_str (idn_serial i)) \<and> mac_ok (idn_mac i)
     \<and> hardware_id_ok (idn_hardware_id i) \<and> plain_text (CustomerId_as_str (idn_customer_id i))"

lemma identification_wf: "yields identification_ok (Identification_visit_map es)"
  unfolding Identification_visit_map_def by (rule struct_rules any_rules)+ (simp add: identification_ok_def)

definition stat_ok :: "InterfaceStat \<Rightarrow> bool" where
  "stat_ok s \<longleftrightarrow> duration_ok (ist_timestamp s) \<and> duration_ok (ist_last_overflow s)"

lemma stat_wf: "yields stat_ok (InterfaceStat_visit_map es)"
  unfolding InterfaceStat_visit_map_def by (rule struct_rules any_rules)+ (simp add: stat_ok_def)

subsection \<open>USB devices and media\<close>

definition usb_device_ok :: "UsbDevice \<Rightarrow> bool" where
  "usb_device_ok u \<longleftrightarrow>
     text_ok (usb_label u)
     \<and> pred_option (canonical UsbPowerControl_as_str UsbPowerControl_from) (usb_power_control u)
     \<and> canonical UsbSubsystem_as_str UsbSubsystem_from (usb_subsystem u)
     \<and> pred_option (canonical UsbVersion_as_str UsbVersion_from) (usb_usb_version u)"

lemma usb_device_wf: "yields usb_device_ok (UsbDevice_visit_map es)"
  unfolding UsbDevice_visit_map_def by (rule struct_rules any_rules)+ (simp add: usb_device_ok_def)

definition usb_devices_ok :: "UsbDevices \<Rightarrow> bool" where
  "usb_devices_ok u \<longleftrightarrow> map_ok (\<lambda>k. plain_text (UsbDeviceId_as_str k)) usb_device_ok (devices u)"

lemma usb_devices_wf: "yields usb_devices_ok (UsbDevices_visit_map es)"
  unfolding UsbDevices_visit_map_def
  by (rule yields_map, (rule struct_rules usb_device_wf)+) (simp add: usb_devices_ok_def)

definition partition_ok :: "MediaPartition \<Rightarrow> bool" where
  "partition_ok m \<longleftrightarrow>
     pred_option (\<lambda>i. plain_text (PartitionId_as_str i)) (mp_id m)
     \<and> pred_option (\<lambda>v. plain_text (VolumeId_as_str v)) (mp_uuid m)
     \<and> text_ok (mp_label m)
     \<and> canonical FileSystemType_as_str FileSystemType_from (mp_file_system m)
     \<and> list_all (canonical FileSystemType_as_str FileSystemType_from) (mp_format_supported m)
     \<and> canonical MediaState_as_str MediaState_from (mp_state m)"

lemma partition_wf: "yields partition_ok (MediaPartition_visit_map es)"
  unfolding MediaPartition_visit_map_def by (rule struct_rules any_rules)+ (simp add: partition_ok_def)

definition media_device_ok :: "MediaDevice \<Rightarrow> bool" where
  "media_device_ok m \<longleftrightarrow>
     pred_option (canonical MediaBus_as_str MediaBus_from) (md_bus m)
     \<and> canonical MediaState_as_str MediaState_from (md_state m)
     \<and> list_all text_ok [md_manufacturer m, md_product m, md_serial m]
     \<and> list_all (canonical FileSystemType_as_str FileSystemType_from) (md_initialize_supported m)
     \<and> map_ok (\<lambda>k. plain_text (PartitionId_as_str k)) partition_ok (md_partitions m)"

lemma media_device_wf: "yields media_device_ok (MediaDevice_visit_map es)"
  unfolding MediaDevice_visit_map_def by (rule struct_rules partition_wf any_rules)+ (simp add: media_device_ok_def)

definition media_ok :: "MediaInventory \<Rightarrow> bool" where
  "media_ok m \<longleftrightarrow> map_ok (\<lambda>k. plain_text (MediaId_as_str k)) media_device_ok (media m)"

lemma media_wf: "decodes media_ok MediaInventory_deserialize"
  unfolding MediaInventory_deserialize_def
  by (rule decodes_newtype, (rule struct_rules media_device_wf)+) (simp add: media_ok_def)

subsection \<open>Clients\<close>

definition peer_link_ok :: "WifiPeerLink \<Rightarrow> bool" where
  "peer_link_ok l \<longleftrightarrow>
     id_ok (wl_ap l)
     \<and> rate_in 1000000 (wl_transmit_rate l)
     \<and> uptime_ok (wl_uptime l)
     \<and> canonical WifiMode_as_str WifiMode_from (wl_mode l)
     \<and> dbm_ok (wl_rssi l)
     \<and> SpatialStreams_get (wl_transmit_spatial_streams l) \<noteq> 0
     \<and> canonical WifiSecurity_as_str WifiSecurity_from (wl_security l)"

lemma peer_link_wf: "yields peer_link_ok (WifiPeerLink_visit_map es)"
  unfolding WifiPeerLink_visit_map_def by (rule struct_rules any_rules)+ (simp add: peer_link_ok_def)

definition association_ok :: "Association \<Rightarrow> bool" where
  "association_ok a \<longleftrightarrow>
     mac_ok (as_mac a)
     \<and> peer_link_ok (as_link a)"

lemma association_wf: "yields association_ok (Association_visit_map es)"
  unfolding Association_visit_map_def by (rule struct_rules peer_link_wf any_rules)+ (simp add: association_ok_def)

definition associations_ok :: "Associations \<Rightarrow> bool" where
  "associations_ok a \<longleftrightarrow> list_all association_ok (stations a)"

lemma associations_wf: "yields associations_ok (Associations_visit_map es)"
  unfolding Associations_visit_map_def
  by (rule yields_map, (rule struct_rules association_wf)+) (simp add: associations_ok_def)

definition arp_entry_ok :: "ArpEntry \<Rightarrow> bool" where
  "arp_entry_ok a \<longleftrightarrow>
     mac_ok (arp_mac a)
     \<and> id_ok (arp_interface a)
     \<and> text_ok (arp_name a)
     \<and> canonical ArpState_as_str ArpState_from (arp_state a)"

lemma arp_entry_wf: "yields arp_entry_ok (ArpEntry_visit_map fm es)"
  unfolding ArpEntry_visit_map_def by (rule struct_rules any_rules)+ (simp add: arp_entry_ok_def)

definition arp_ok :: "IpArp \<Rightarrow> bool" where
  "arp_ok a \<longleftrightarrow> list_all arp_entry_ok (IpArp_entries a)"

lemma arp_wf: "decodes arp_ok (IpArp_deserialize fm)"
  unfolding IpArp_deserialize_def
  by (rule decodes_newtype, (rule struct_rules arp_entry_wf)+) (simp add: arp_ok_def)

definition binding_ok :: "DhcpBinding \<Rightarrow> bool" where
  "binding_ok b \<longleftrightarrow>
     mac_ok (dhcp_mac b)
     \<and> mac_ok (dhcp_via b)
     \<and> text_ok (dhcp_hostname b)
     \<and> text_ok (dhcp_name b)
     \<and> pred_option id_ok (dhcp_device b)
     \<and> pred_option (canonical DhcpBindingMode_as_str DhcpBindingMode_from) (dhcp_mode b)
     \<and> lease_ok (dhcp_expires b)"

lemma binding_wf: "yields binding_ok (DhcpBinding_visit_map fm es)"
  unfolding DhcpBinding_visit_map_def by (rule struct_rules any_rules)+ (simp add: binding_ok_def)

definition bindings_ok :: "IpDhcpBindings \<Rightarrow> bool" where
  "bindings_ok b \<longleftrightarrow> list_all binding_ok (leases b)"

lemma bindings_wf: "yields bindings_ok (IpDhcpBindings_visit_map fm es)"
  unfolding IpDhcpBindings_visit_map_def
  by (rule yields_map, (rule struct_rules binding_wf)+) (simp add: bindings_ok_def)

definition reference_ok :: "InterfaceReference \<Rightarrow> bool" where
  "reference_ok r \<longleftrightarrow>
     id_ok (ir_id r)"

lemma reference_wf: "yields reference_ok (InterfaceReference_visit_map es)"
  unfolding InterfaceReference_visit_map_def by (rule struct_rules any_rules)+ (simp add: reference_ok_def)

definition hotspot_dhcp_ok :: "HotspotDhcp \<Rightarrow> bool" where
  "hotspot_dhcp_ok h \<longleftrightarrow>
     lease_ok (hd_expires h)"

lemma hotspot_dhcp_wf: "yields hotspot_dhcp_ok (HotspotDhcp_visit_map es)"
  unfolding HotspotDhcp_visit_map_def by (rule struct_rules any_rules)+ (simp add: hotspot_dhcp_ok_def)

definition shape_ok :: "TrafficShape \<Rightarrow> bool" where
  "shape_ok s \<longleftrightarrow>
     rate_in 1000 (ts_receive s)
     \<and> rate_in 1000 (ts_transmit s)
     \<and> canonical TrafficShapeMode_as_str TrafficShapeMode_from (ts_mode s)
     \<and> text_ok (ts_schedule s)"

lemma shape_wf: "yields shape_ok (TrafficShape_visit_map es)"
  unfolding TrafficShape_visit_map_def by (rule struct_rules any_rules)+ (simp add: shape_ok_def)

definition host_record_ok :: "HotspotHost \<Rightarrow> bool" where
  "host_record_ok h \<longleftrightarrow>
     mac_ok (hh_mac h)
     \<and> mac_ok (hh_via h)
     \<and> pred_option (\<lambda>a. \<not> is_unspecified a) (hh_ip h)
     \<and> list_all text_ok [hh_hostname h, hh_name h, hh_schedule h, hh_policy h, hh_ssid h]
     \<and> pred_option reference_ok (hh_interface h)
     \<and> pred_option hotspot_dhcp_ok (hh_dhcp h)
     \<and> canonical HotspotAccess_as_str HotspotAccess_from (hh_access h)
     \<and> uptime_ok (hh_uptime h)
     \<and> list_all (pred_option seconds_ok) [hh_first_seen h, hh_last_seen h]
     \<and> pred_option (canonical LinkState_as_str LinkState_from) (hh_link h)
     \<and> list_all (pred_option (rate_in 1000000)) [hh_speed h, hh_transmit_rate h]
     \<and> pred_option id_ok (hh_ap h)
     \<and> pred_option (canonical WifiMode_as_str WifiMode_from) (hh_mode h)
     \<and> pred_option dbm_ok (hh_rssi h)
     \<and> pred_option (\<lambda>n. SpatialStreams_get n \<noteq> 0) (hh_transmit_spatial_streams h)
     \<and> pred_option (canonical WifiSecurity_as_str WifiSecurity_from) (hh_security h)
     \<and> shape_ok (hh_traffic_shape h)"

lemma host_record_wf: "yields host_record_ok (HotspotHost_visit_map fm es)"
  unfolding HotspotHost_visit_map_def by (rule struct_rules reference_wf hotspot_dhcp_wf shape_wf any_rules)+ (simp add: host_record_ok_def)

definition hotspot_ok :: "IpHotspotHosts \<Rightarrow> bool" where
  "hotspot_ok h \<longleftrightarrow> list_all host_record_ok (hosts h)"

lemma hotspot_wf: "yields hotspot_ok (IpHotspotHosts_visit_map fm es)"
  unfolding IpHotspotHosts_visit_map_def
  by (rule yields_map, (rule struct_rules host_record_wf)+) (simp add: hotspot_ok_def)

subsection \<open>Routing and connectivity\<close>

definition route4_ok :: "Ipv4Route \<Rightarrow> bool" where
  "route4_ok r \<longleftrightarrow>
     pred_option (\<lambda>a. \<not> is_unspecified a) (r4_gateway r)
     \<and> id_ok (r4_interface r)
     \<and> canonical RouteProtocol_as_str RouteProtocol_from (r4_proto r)"

lemma route4_wf: "yields route4_ok (Ipv4Route_visit_map fm es)"
  unfolding Ipv4Route_visit_map_def by (rule struct_rules any_rules)+ (simp add: route4_ok_def)

definition route6_ok :: "Ipv6Route \<Rightarrow> bool" where
  "route6_ok r \<longleftrightarrow>
     pred_option (\<lambda>a. \<not> is_unspecified6 a) (r6_gateway r)
     \<and> id_ok (r6_interface r)
     \<and> canonical RouteProtocol_as_str RouteProtocol_from (r6_proto r)"

lemma route6_wf: "yields route6_ok (Ipv6Route_visit_map fm es)"
  unfolding Ipv6Route_visit_map_def by (rule struct_rules any_rules)+ (simp add: route6_ok_def)

definition routes4_ok :: "IpRoutes \<Rightarrow> bool" where
  "routes4_ok r \<longleftrightarrow> list_all route4_ok (IpRoutes_routes r)"

lemma routes4_wf: "decodes routes4_ok (IpRoutes_deserialize fm)"
  unfolding IpRoutes_deserialize_def
  by (rule decodes_newtype, (rule struct_rules route4_wf)+) (simp add: routes4_ok_def)

definition routes6_ok :: "Ipv6Routes \<Rightarrow> bool" where
  "routes6_ok r \<longleftrightarrow> list_all route6_ok (Ipv6Routes_routes r)"

lemma routes6_wf: "yields routes6_ok (Ipv6Routes_visit_map fm es)"
proof (cases "List.find (\<lambda>e. fst e \<noteq> ''route6'') es")
  case None
  then show ?thesis
    unfolding Ipv6Routes_visit_map_def None option.case
    by (intro yields_map [OF yields_defaulted_Nil [OF decodes_struct [OF route6_wf]]]) (simp add: routes6_ok_def)
qed (simp add: Ipv6Routes_visit_map_def yields_Inl)

definition cache_entry_ok :: "formats \<Rightarrow> PingCheckCacheEntry \<Rightarrow> bool" where
  "cache_entry_ok fm e \<longleftrightarrow>
     host_ok (parse_ip fm) (pce_host e)"

lemma cache_entry_wf: "yields (cache_entry_ok fm) (PingCheckCacheEntry_visit_map fm es)"
  unfolding PingCheckCacheEntry_visit_map_def by (rule struct_rules any_rules)+ (simp add: cache_entry_ok_def)

definition check_interface_ok :: "formats \<Rightarrow> PingCheckInterface \<Rightarrow> bool" where
  "check_interface_ok fm i \<longleftrightarrow>
     canonical PingCheckStatus_as_str PingCheckStatus_from (pci_status i)
     \<and> list_all (cache_entry_ok fm) (pci_ip_cache i)"

lemma check_interface_wf: "yields (check_interface_ok fm) (PingCheckInterface_visit_map fm es)"
  unfolding PingCheckInterface_visit_map_def by (rule struct_rules cache_entry_wf any_rules)+ (simp add: check_interface_ok_def)

definition profile_ok :: "formats \<Rightarrow> PingCheckProfile \<Rightarrow> bool" where
  "profile_ok fm q \<longleftrightarrow>
     list_all (host_ok (parse_ip fm)) (pcp_targets q)
     \<and> pred_option (\<lambda>n. n \<noteq> 0) (pcp_port q)
     \<and> list_all (pred_option seconds_ok) [pcp_update_interval q, pcp_timeout q]
     \<and> pred_option (canonical PingCheckMode_as_str PingCheckMode_from) (pcp_mode q)
     \<and> map_ok id_ok (check_interface_ok fm) (pcp_interfaces q)"

lemma profile_wf: "yields (profile_ok fm) (PingCheckProfile_visit_map fm es)"
  unfolding PingCheckProfile_visit_map_def by (rule struct_rules check_interface_wf any_rules)+ (simp add: profile_ok_def)

definition profiles_ok :: "formats \<Rightarrow> PingCheckProfiles \<Rightarrow> bool" where
  "profiles_ok fm q \<longleftrightarrow> list_all (profile_ok fm) (profiles q)"

lemma profiles_wf: "yields (profiles_ok fm) (PingCheckProfiles_visit_map fm es)"
  unfolding PingCheckProfiles_visit_map_def
  by (rule yields_map, (rule struct_rules profile_wf)+) (simp add: profiles_ok_def)

definition name_server_ok :: "IpNameServer \<Rightarrow> bool" where
  "name_server_ok n \<longleftrightarrow>
     text_ok (ns_domain n)
     \<and> pred_option (\<lambda>g. g \<noteq> 0) (ns_global_priority n)
     \<and> text_ok (ns_service n)
     \<and> pred_option id_ok (ns_interface n)"

lemma name_server_wf: "yields name_server_ok (IpNameServer_visit_map fm es)"
  unfolding IpNameServer_visit_map_def by (rule struct_rules any_rules)+ (simp add: name_server_ok_def)

definition name_servers_ok :: "IpNameServers \<Rightarrow> bool" where
  "name_servers_ok n \<longleftrightarrow> list_all name_server_ok (servers n)"

lemma name_servers_wf: "yields name_servers_ok (IpNameServers_visit_map fm es)"
  unfolding IpNameServers_visit_map_def
  by (rule yields_map, (rule struct_rules name_server_wf)+) (simp add: name_servers_ok_def)

definition ntp_ok :: "formats \<Rightarrow> NtpStatus \<Rightarrow> bool" where
  "ntp_ok fm n \<longleftrightarrow>
     seconds_ok (ntp_elapsed n)
     \<and> host_ok (parse_ip fm) (ntp_server n)"

lemma ntp_wf: "yields (ntp_ok fm) (NtpStatus_visit_map fm es)"
  unfolding NtpStatus_visit_map_def by (rule struct_rules any_rules)+ (simp add: ntp_ok_def)

subsection \<open>Mesh\<close>

definition port_ok :: "MwsPort \<Rightarrow> bool" where
  "port_ok q \<longleftrightarrow>
     text_ok (mpo_appearance q)
     \<and> canonical LinkState_as_str LinkState_from (mpo_link q)"

lemma port_wf: "yields port_ok (MwsPort_visit_map es)"
  unfolding MwsPort_visit_map_def by (rule struct_rules any_rules)+ (simp add: port_ok_def)

definition member_system_ok :: "MwsMemberSystem \<Rightarrow> bool" where
  "member_system_ok s \<longleftrightarrow>
     cpu_load_ok (mms_cpu_load s)
     \<and> memory_ok (mms_memory s)
     \<and> uptime_ok (mms_uptime s)"

lemma member_system_wf: "yields member_system_ok (MwsMemberSystem_visit_map es)"
  unfolding MwsMemberSystem_visit_map_def by (rule struct_rules any_rules)+ (simp add: member_system_ok_def)

definition backhaul_ok :: "MwsBackhaul \<Rightarrow> bool" where
  "backhaul_ok b \<longleftrightarrow>
     id_ok (mbh_uplink b)
     \<and> peer_link_ok (mbh_link b)"

lemma backhaul_wf: "yields backhaul_ok (MwsBackhaul_visit_map es)"
  unfolding MwsBackhaul_visit_map_def by (rule struct_rules peer_link_wf any_rules)+ (simp add: backhaul_ok_def)

definition member_ok :: "MwsMember \<Rightarrow> bool" where
  "member_ok m \<longleftrightarrow>
     mac_ok (mem_mac m)
     \<and> list_all text_ok [mem_known_host m, mem_firmware m, mem_firmware_available m, mem_firmware_release m,
         mem_firmware_release_available m]
     \<and> list_all port_ok (mem_ports m)
     \<and> mode_ok (mem_mode m)
     \<and> pred_option (canonical HardwareType_as_str HardwareType_from) (mem_hw_type m)
     \<and> pred_option (reported_ok HardwareId_from_str hardware_id_ok) (mem_hw_id m)
     \<and> pred_option (canonical FirmwareChannel_as_str FirmwareChannel_from) (mem_firmware_channel m)
     \<and> pred_option (reported_ok RegionCode_from_str region_code_ok) (mem_region m)
     \<and> pred_option member_system_ok (mem_system m)
     \<and> pred_option backhaul_ok (mem_backhaul m)"

lemma member_wf: "yields member_ok (MwsMember_visit_map fm es)"
  unfolding MwsMember_visit_map_def by (rule struct_rules port_wf member_system_wf backhaul_wf any_rules)+ (simp add: member_ok_def mode_ok_def)

definition members_ok :: "MwsMembers \<Rightarrow> bool" where
  "members_ok m \<longleftrightarrow> list_all member_ok (members m)"

lemma members_wf: "decodes members_ok (MwsMembers_deserialize fm)"
proof -
  have "decodes (list_all member_ok) (de_seq (de_struct MwsMember_fields 21 (MwsMember_visit_map fm)))"
    by (rule decodes_seq decodes_struct member_wf)+
  then have "yields members_ok (map_res MwsMembers (traverse (de_struct MwsMember_fields 21 (MwsMember_visit_map fm)) ws))" for ws
    by (intro yields_map [where P = "list_all member_ok"])
      (auto simp: members_ok_def decodes_def dest: spec [of _ "Wire_seq ws"])
  then have "yields members_ok (MwsMembers_deserialize fm w)" for w
    by (cases w) (simp_all add: yields_Inl yields_Inr members_ok_def)
  then show ?thesis by (simp add: decodes_def)
qed

subsection \<open>Interface maps\<close>

lemma interfaces_wf: "decodes (map_ok id_ok interface_ok) Interfaces_deserialize"
  unfolding Interfaces_deserialize_def by (rule struct_rules interface_wf)+

lemma reply_wf:
  assumes "decodes P de"
  shows "yields (\<lambda>r. P (reply_interface r)) (ShowInterfaceReply_visit_map de es)"
  unfolding ShowInterfaceReply_visit_map_def
proof (rule yields_map [OF yields_required [OF decodes_struct]])
  show "yields (\<lambda>r. P (result_interface r)) (map_res ShowInterfaceResult (required de ''interface'' es))" for es
    by (rule yields_map [OF yields_required [OF assms]]) simp
qed (simp add: reply_interface_def)

end
