(* ===== verification/Network_Session.thy ===== *)
theory Network_Session
  imports Client
begin

text \<open>
  Network connection tests in \<open>src/src/client.rs\<close>: \<open>NetworkTestOutput\<close>, \<open>NetworkTestResponse\<close> and
  \<open>NetworkTestSession\<close> with \<open>next_chunk\<close>, \<open>collect\<close>, \<open>cancel\<close> and \<open>is_finished\<close>. The polling loop
  ends only when the router says so; \<open>next_chunk\<close> and \<open>collect\<close> are partial functions, and a
  theorem states when they return. Time is a field of the world: the record \<open>clock_ops\<close> has
  \<open>Instant::now\<close> and \<open>tokio::time::sleep_until\<close>. The fields \<open>received\<close> and \<open>poll_times\<close> of the
  session are ghost state: the responses read so far, and when each poll was sent, the ones that
  failed included.
\<close>

record NetworkTestOutput =
  lines :: "string list"

definition NetworkTestOutput_is_empty :: "NetworkTestOutput \<Rightarrow> bool" where
  "NetworkTestOutput_is_empty out \<longleftrightarrow> lines out = []"

definition NetworkTestOutput_len :: "NetworkTestOutput \<Rightarrow> nat" where
  "NetworkTestOutput_len out = length (lines out)"

definition append_to :: "NetworkTestOutput \<Rightarrow> string list \<Rightarrow> string list" where
  "append_to out target = target @ lines out"

text \<open>\<open>Display\<close>: the lines separated by newlines.\<close>

fun display_lines :: "string list \<Rightarrow> string" where
  "display_lines [] = []"
| "display_lines (first # rest) = first @ concat (map (\<lambda>line. CHR 0x0A # line) rest)"

definition NetworkTestOutput_display :: "NetworkTestOutput \<Rightarrow> string" where
  "NetworkTestOutput_display out = display_lines (lines out)"

record NetworkTestResponse =
  nr_message :: "string list"
  nr_continued :: bool

definition into_parts :: "NetworkTestResponse \<Rightarrow> NetworkTestOutput option \<times> bool" where
  "into_parts r =
     (if nr_message r \<noteq> [] then Some \<lparr>lines = nr_message r\<rparr> else None, nr_continued r)"

record 'w clock_ops =
  now :: "'w \<Rightarrow> duration"
  sleep_until :: "duration \<Rightarrow> 'w \<Rightarrow> 'w"

record NetworkTestSession =
  ns_endpoint :: string
  ns_pending :: "NetworkTestOutput option"
  ns_continued :: bool
  ns_next_poll :: duration
  received :: "NetworkTestResponse list"
  poll_times :: "duration list"

definition NetworkTestSession_new ::
  "'w clock_ops \<Rightarrow> string \<Rightarrow> NetworkTestResponse \<Rightarrow> ('u, 'h, 'j, 'w) session \<Rightarrow> NetworkTestSession" where
  "NetworkTestSession_new k ep response s =
     (let (pending, continued) = into_parts response in
      \<lparr>ns_endpoint = ep, ns_pending = pending, ns_continued = continued,
       ns_next_poll = now k (world s) + NETWORK_TEST_POLL_INTERVAL,
       received = [], poll_times = []\<rparr>)"

definition is_finished :: "NetworkTestSession \<Rightarrow> bool" where
  "is_finished n \<longleftrightarrow> ns_pending n = None \<and> \<not> ns_continued n"

text \<open>A poll is sent when \<open>sleep_until(next_poll)\<close> returns.\<close>

definition attempted :: "'w clock_ops \<Rightarrow> NetworkTestSession \<Rightarrow> ('u, 'h, 'j, 'w) session \<Rightarrow> NetworkTestSession" where
  "attempted k n s = n\<lparr>poll_times := poll_times n @ [now k (sleep_until k (ns_next_poll n) (world s))]\<rparr>"

text \<open>One round of the polling loop, from \<open>sleep_until\<close> to the assignment of \<open>next_poll\<close>; an error leaves
  the session as it was, \<open>next_poll\<close> included.\<close>

definition poll ::
  "('c, 'u, 'h, 'j, 'w) deps \<Rightarrow> ('c, 'u) client \<Rightarrow> NetworkTestResponse json_ops \<Rightarrow> 'w clock_ops
     \<Rightarrow> NetworkTestSession \<Rightarrow> ('u, 'h, 'j, 'w) session
     \<Rightarrow> (Error failure + NetworkTestSession) \<times> ('u, 'h, 'j, 'w) session" where
  "poll d c ops k n s =
     (let n = attempted k n s;
          s = s\<lparr>world := sleep_until k (ns_next_poll n) (world s)\<rparr>;
          (result, s) = send_json d c ops (prepare_rci_get d c (ns_endpoint n) None) s
      in case result of
           Inl e \<Rightarrow> (Inl e, s)
         | Inr response \<Rightarrow>
             let (pending, continued) = into_parts response in
             (Inr (n\<lparr>ns_pending := pending, ns_continued := continued,
                     ns_next_poll := now k (world s) + NETWORK_TEST_POLL_INTERVAL,
                     received := received n @ [response]\<rparr>), s))"

partial_function (option) next_chunk ::
  "('c, 'u, 'h, 'j, 'w) deps \<Rightarrow> ('c, 'u) client \<Rightarrow> NetworkTestResponse json_ops \<Rightarrow> 'w clock_ops
     \<Rightarrow> NetworkTestSession \<Rightarrow> ('u, 'h, 'j, 'w) session
     \<Rightarrow> ((Error failure + NetworkTestOutput option) \<times> NetworkTestSession \<times> ('u, 'h, 'j, 'w) session) option"
where
  "next_chunk d c ops k n s =
     (case ns_pending n of
        Some out \<Rightarrow> Some (Inr (Some out), n\<lparr>ns_pending := None\<rparr>, s)
      | None \<Rightarrow>
          if \<not> ns_continued n then Some (Inr None, n, s)
          else
            (case fst (poll d c ops k n s) of
               Inl e \<Rightarrow> Some (Inl e, attempted k n s, snd (poll d c ops k n s))
             | Inr n' \<Rightarrow> next_chunk d c ops k n' (snd (poll d c ops k n s))))"

partial_function (option) collect_loop ::
  "('c, 'u, 'h, 'j, 'w) deps \<Rightarrow> ('c, 'u) client \<Rightarrow> NetworkTestResponse json_ops \<Rightarrow> 'w clock_ops
     \<Rightarrow> NetworkTestSession \<Rightarrow> string list \<Rightarrow> ('u, 'h, 'j, 'w) session
     \<Rightarrow> ((Error failure + NetworkTestOutput) \<times> NetworkTestSession \<times> ('u, 'h, 'j, 'w) session) option"
where
  "collect_loop d c ops k n acc s =
     Option.bind (next_chunk d c ops k n s) (\<lambda>(result, n, s).
       case result of
         Inl e \<Rightarrow> Some (Inl e, n, s)
       | Inr None \<Rightarrow> Some (Inr \<lparr>lines = acc\<rparr>, n, s)
       | Inr (Some out) \<Rightarrow> collect_loop d c ops k n (append_to out acc) s)"

definition collect_output ::
  "('c, 'u, 'h, 'j, 'w) deps \<Rightarrow> ('c, 'u) client \<Rightarrow> NetworkTestResponse json_ops \<Rightarrow> 'w clock_ops
     \<Rightarrow> NetworkTestSession \<Rightarrow> ('u, 'h, 'j, 'w) session
     \<Rightarrow> ((Error failure + NetworkTestOutput) \<times> NetworkTestSession \<times> ('u, 'h, 'j, 'w) session) option"
where
  "collect_output d c ops k n s = collect_loop d c ops k n [] s"

definition cancel ::
  "('c, 'u, 'h, 'j, 'w) deps \<Rightarrow> ('c, 'u) client \<Rightarrow> NetworkTestResponse json_ops
     \<Rightarrow> NetworkTestSession \<Rightarrow> (('u, 'h, 'j, 'w) session, NetworkTestOutput) io" where
  "cancel d c ops n =
     (let acc = (case ns_pending n of None \<Rightarrow> [] | Some out \<Rightarrow> append_to out []) in
      if ns_continued n then
        bind_io (send_json d c ops (prepare_rci_delete d c (ns_endpoint n))) (\<lambda>response.
          let (pending, _) = into_parts response in
          return_io \<lparr>lines = (case pending of None \<Rightarrow> acc | Some out \<Rightarrow> append_to out acc)\<rparr>)
      else return_io \<lparr>lines = acc\<rparr>)"

section \<open>What the loops return\<close>

lemma attempted_simps [simp]:
  "ns_endpoint (attempted k n s) = ns_endpoint n" "ns_pending (attempted k n s) = ns_pending n"
  "ns_continued (attempted k n s) = ns_continued n" "ns_next_poll (attempted k n s) = ns_next_poll n"
  "received (attempted k n s) = received n"
  by (simp_all add: attempted_def)

definition unread :: "NetworkTestSession \<Rightarrow> string list" where
  "unread n = (case ns_pending n of None \<Rightarrow> [] | Some out \<Rightarrow> lines out)"

lemma poll_ok:
  assumes "poll d c ops k n s = (Inr n', t)"
  obtains r where "received n' = received n @ [r]" and "ns_continued n' = nr_continued r"
    and "unread n' = nr_message r" and "ns_endpoint n' = ns_endpoint n"
    and "ns_pending n' = None \<or> nr_message r \<noteq> []"
  using assms
  by (auto simp: poll_def attempted_def Let_def into_parts_def unread_def split: prod.splits sum.splits)

text \<open>What a run from \<open>n\<close> to \<open>n'\<close> has received, and that it stopped at the first response without the
  \<open>continued\<close> marker.\<close>

definition received_between :: "NetworkTestSession \<Rightarrow> NetworkTestSession \<Rightarrow> NetworkTestResponse list \<Rightarrow> bool" where
  "received_between n n' rs \<longleftrightarrow> received n' = received n @ rs
     \<and> list_all nr_continued (butlast rs)
     \<and> (if rs = [] then ns_continued n' = ns_continued n
        else ns_continued n \<and> ns_continued n' = nr_continued (last rs))"

definition messages :: "NetworkTestResponse list \<Rightarrow> string list" where
  "messages rs = concat (map nr_message rs)"

lemma messages_simps [simp]:
  "messages [] = []" "messages (r # rs) = nr_message r @ messages rs"
  "messages (rs @ qs) = messages rs @ messages qs"
  by (simp_all add: messages_def)

lemma received_refl: "received_between n n []" "received_between n (n\<lparr>ns_pending := p\<rparr>) []"
  "received_between n (attempted k n s) []"
  by (simp_all add: received_between_def attempted_def)

lemma received_trans:
  "received_between n m rs \<Longrightarrow> received_between m n' qs \<Longrightarrow> received_between n n' (rs @ qs)"
proof -
  assume a: "received_between n m rs" "received_between m n' qs"
  have "list_all nr_continued rs" if "qs \<noteq> []" "rs \<noteq> []"
  proof -
    have "list_all nr_continued (butlast rs @ [last rs])"
      using a that by (simp add: received_between_def del: append_butlast_last_id)
    with that show ?thesis by simp
  qed
  with a show ?thesis
    by (cases "rs = []"; cases "qs = []") (auto simp: received_between_def butlast_append)
qed

lemma received_poll:
  assumes "poll d c ops k n s = (Inr n', t)" and "ns_continued n"
  obtains r where "received_between n n' [r]" and "unread n' = nr_message r"
proof -
  obtain r where "received n' = received n @ [r]" "ns_continued n' = nr_continued r"
    "unread n' = nr_message r" by (rule poll_ok [OF assms(1)])
  with assms(2) show thesis by (intro that [of r]) (simp_all add: received_between_def)
qed

fun chunk_spec :: "NetworkTestSession \<Rightarrow> Error failure + NetworkTestOutput option \<Rightarrow> NetworkTestSession \<Rightarrow> bool" where
  "chunk_spec n (Inl e) n' \<longleftrightarrow> (\<exists>rs. received_between n n' rs)"
| "chunk_spec n (Inr None) n' \<longleftrightarrow> (\<exists>rs. received_between n n' rs \<and> unread n @ messages rs = []
     \<and> is_finished n')"
| "chunk_spec n (Inr (Some out)) n' \<longleftrightarrow> (\<exists>rs. received_between n n' rs
     \<and> lines out = unread n @ messages rs \<and> ns_pending n' = None)"

lemma chunk_spec_poll:
  assumes "poll d c ops k n s = (Inr m, t)" and "ns_continued n" and "ns_pending n = None"
    and "chunk_spec m r n'"
  shows "chunk_spec n r n'"
proof -
  obtain q where q: "received_between n m [q]" "unread m = nr_message q"
    by (rule received_poll [OF assms(1, 2)])
  have "unread n = []" using assms(3) by (simp add: unread_def)
  with q assms(4) received_trans [OF q(1)] show ?thesis
    by (cases "(n, r, n')" rule: chunk_spec.cases) fastforce+
qed

lemma next_chunk_spec:
  assumes "next_chunk d c ops k n s = Some y"
  shows "chunk_spec n (fst y) (fst (snd y))"
proof (rule next_chunk.raw_induct
    [OF _ assms, where P = "\<lambda>d c ops k n s y. chunk_spec n (fst y) (fst (snd y))"])
  fix f d c ops k n s y
  assume IH: "\<And>d c ops k n s y. f d c ops k n s = Some y \<Longrightarrow> chunk_spec n (fst y) (fst (snd y))"
    and run: "(case ns_pending n of
        Some out \<Rightarrow> Some (Inr (Some out), n\<lparr>ns_pending := None\<rparr>, s)
      | None \<Rightarrow>
          if \<not> ns_continued n then Some (Inr None, n, s)
          else
            (case fst (poll d c ops k n s) of
               Inl e \<Rightarrow> Some (Inl e, attempted k n s, snd (poll d c ops k n s))
             | Inr n' \<Rightarrow> f d c ops k n' (snd (poll d c ops k n s)))) = Some y"
  show "chunk_spec n (fst y) (fst (snd y))"
  proof (cases "ns_pending n")
    case (Some out)
    with run have y: "y = (Inr (Some out), n\<lparr>ns_pending := None\<rparr>, s)" by simp
    from Some received_refl(2) show ?thesis unfolding y by (auto simp: unread_def intro!: exI [of _ "[]"])
  next
    case None
    show ?thesis
    proof (cases "ns_continued n")
      case False
      with run None have y: "y = (Inr None, n, s)" by simp
      from None False received_refl(1) show ?thesis
        unfolding y by (auto simp: unread_def is_finished_def intro!: exI [of _ "[]"])
    next
      case True
      show ?thesis
      proof (cases "fst (poll d c ops k n s)")
        case (Inl e)
        with run None True have y: "y = (Inl e, attempted k n s, snd (poll d c ops k n s))" by simp
        from received_refl(3) [of n k s] show ?thesis unfolding y by auto
      next
        case (Inr m)
        with run None True have "f d c ops k m (snd (poll d c ops k n s)) = Some y" by simp
        from IH [OF this] have "chunk_spec m (fst y) (fst (snd y))" .
        moreover have "poll d c ops k n s = (Inr m, snd (poll d c ops k n s))"
          using Inr by (metis prod.collapse)
        ultimately show ?thesis using True None chunk_spec_poll by blast
      qed
    qed
  qed
qed

definition collect_spec ::
  "NetworkTestSession \<Rightarrow> string list \<Rightarrow> (Error failure + NetworkTestOutput) \<times> NetworkTestSession \<times> 's \<Rightarrow> bool"
where
  "collect_spec n acc y \<longleftrightarrow> (\<forall>out. fst y = Inr out \<longrightarrow> is_finished (fst (snd y)) \<and>
     (\<exists>rs. received_between n (fst (snd y)) rs \<and> lines out = acc @ unread n @ messages rs))"

lemma collect_loop_spec:
  assumes "collect_loop d c ops k n acc s = Some (Inr out, n', t)"
  shows "is_finished n' \<and> (\<exists>rs. received_between n n' rs \<and> lines out = acc @ unread n @ messages rs)"
proof -
  have "collect_spec n acc (Inr out, n', t)"
  proof (rule collect_loop.raw_induct [OF _ assms, where P = "\<lambda>d c ops k n acc s y. collect_spec n acc y"])
    fix f d c ops k n acc s y
    assume IH: "\<And>d c ops k n acc s y. f d c ops k n acc s = Some y \<Longrightarrow> collect_spec n acc y"
      and run: "Option.bind (next_chunk d c ops k n s) (\<lambda>(result, n, s).
         case result of
           Inl e \<Rightarrow> Some (Inl e, n, s)
         | Inr None \<Rightarrow> Some (Inr \<lparr>lines = acc\<rparr>, n, s)
         | Inr (Some out) \<Rightarrow> f d c ops k n (append_to out acc) s) = Some y"
    from run obtain r m u where chunk: "next_chunk d c ops k n s = Some (r, m, u)"
      by (auto simp: bind_eq_Some_conv)
    from next_chunk_spec [OF chunk] have spec: "chunk_spec n r m" by simp
    show "collect_spec n acc y"
    proof (cases r)
      case (Inl e)
      with run chunk have "y = (Inl e, m, u)" by simp
      then show ?thesis by (simp add: collect_spec_def)
    next
      case (Inr o')
      show ?thesis
      proof (cases o')
        case None
        with run chunk Inr have y: "y = (Inr \<lparr>lines = acc\<rparr>, m, u)" by simp
        from spec Inr None show ?thesis unfolding y by (auto simp: collect_spec_def)
      next
        case (Some out)
        with run chunk Inr have "f d c ops k m (append_to out acc) u = Some y" by simp
        from IH [OF this] have y: "collect_spec m (append_to out acc) y" .
        from spec Inr Some obtain rs where rs: "received_between n m rs"
          "lines out = unread n @ messages rs" "unread m = []"
          by (auto simp: unread_def)
        show ?thesis
          unfolding collect_spec_def
        proof (intro allI impI)
          fix out'
          assume "fst y = Inr out'"
          with y obtain qs where "is_finished (fst (snd y))" "received_between m (fst (snd y)) qs"
            "lines out' = append_to out acc @ unread m @ messages qs" unfolding collect_spec_def by blast
          with rs received_trans [OF rs(1)] show "is_finished (fst (snd y)) \<and>
             (\<exists>rs. received_between n (fst (snd y)) rs \<and> lines out' = acc @ unread n @ messages rs)"
            by (auto simp: append_to_def intro!: exI [of _ "rs @ qs"])
        qed
      qed
    qed
  qed
  then show ?thesis by (simp add: collect_spec_def)
qed

section \<open>When the loops return\<close>

text \<open>A run of \<open>m\<close> polls that all succeed and after which the router no longer continues.\<close>

fun completes_in ::
  "('c, 'u, 'h, 'j, 'w) deps \<Rightarrow> ('c, 'u) client \<Rightarrow> NetworkTestResponse json_ops \<Rightarrow> 'w clock_ops
     \<Rightarrow> nat \<Rightarrow> NetworkTestSession \<Rightarrow> ('u, 'h, 'j, 'w) session \<Rightarrow> bool" where
  "completes_in d c ops k 0 n s \<longleftrightarrow> \<not> ns_continued n"
| "completes_in d c ops k (Suc m) n s \<longleftrightarrow> ns_continued n \<and>
     (\<exists>n' t. poll d c ops k n s = (Inr n', t) \<and> completes_in d c ops k m n' t)"

lemma poll_pending:
  "poll d c ops k (n\<lparr>ns_pending := p\<rparr>) s = poll d c ops k n s"
  by (auto simp: poll_def attempted_def Let_def split: prod.splits sum.splits)

lemma collect_loop_pending:
  assumes "ns_pending n = Some out"
  shows "collect_loop d c ops k n acc s = collect_loop d c ops k (n\<lparr>ns_pending := None\<rparr>) (append_to out acc) s"
  using assms by (subst collect_loop.simps, subst next_chunk.simps) simp

lemma collect_loop_done:
  assumes "ns_pending n = None" and "\<not> ns_continued n"
  shows "collect_loop d c ops k n acc s = Some (Inr \<lparr>lines = acc\<rparr>, n, s)"
  using assms by (subst collect_loop.simps, subst next_chunk.simps) simp

lemma collect_loop_poll:
  assumes "ns_pending n = None" and "ns_continued n" and "poll d c ops k n s = (Inr n', t)"
  shows "collect_loop d c ops k n acc s = collect_loop d c ops k n' acc t"
proof -
  have "next_chunk d c ops k n s = next_chunk d c ops k n' t"
    using assms by (subst next_chunk.simps) simp
  then show ?thesis
    by (subst (1 2) collect_loop.simps) simp
qed

lemma collect_returns:
  "completes_in d c ops k m n s \<Longrightarrow> \<exists>out n' t. collect_loop d c ops k n acc s = Some (Inr out, n', t)"
proof (induction m arbitrary: n acc s)
  case 0
  show ?case
  proof (cases "ns_pending n")
    case None
    with 0 show ?thesis by (simp add: collect_loop_done)
  next
    case (Some out)
    with 0 show ?thesis by (simp add: collect_loop_pending collect_loop_done)
  qed
next
  case (Suc m)
  then obtain n' t where p: "ns_continued n" "poll d c ops k n s = (Inr n', t)"
    "completes_in d c ops k m n' t" by auto
  show ?case
  proof (cases "ns_pending n")
    case None
    with p Suc.IH show ?thesis by (simp add: collect_loop_poll)
  next
    case (Some out)
    have "collect_loop d c ops k n acc s
        = collect_loop d c ops k (n\<lparr>ns_pending := None\<rparr>) (append_to out acc) s"
      by (rule collect_loop_pending [OF Some])
    also have "\<dots> = collect_loop d c ops k n' (append_to out acc) t"
      by (rule collect_loop_poll) (simp_all add: p poll_pending)
    finally show ?thesis using Suc.IH [OF p(3)] by simp
  qed
qed

section \<open>Pacing of the polls\<close>

text \<open>Time does not run backwards, sleeping lasts until the deadline, and sending takes no negative
  time.\<close>

definition clock_ok :: "('c, 'u, 'h, 'j, 'w) deps \<Rightarrow> 'w clock_ops \<Rightarrow> bool" where
  "clock_ok d k \<longleftrightarrow>
     (\<forall>t w. t \<le> now k (sleep_until k t w) \<and> now k w \<le> now k (sleep_until k t w))
     \<and> (\<forall>c r w. now k w \<le> now k (snd (d_send d c r w)))"

definition forward :: "'w clock_ops \<Rightarrow> (('u, 'h, 'j, 'w) session, 'a) io \<Rightarrow> bool" where
  "forward k m \<longleftrightarrow> (\<forall>s. now k (world s) \<le> now k (world (snd (m s))))"

lemma forward_bind:
  fixes m :: "(('u, 'h, 'j, 'w) session, 'a) io"
  shows "forward k m \<Longrightarrow> (\<And>x. forward k (f x)) \<Longrightarrow> forward k (bind_io m f)"
  unfolding forward_def
proof
  fix s :: "('u, 'h, 'j, 'w) session"
  assume m: "\<forall>s. now k (world s) \<le> now k (world (snd (m s)))"
    and f: "\<And>x. \<forall>s. now k (world s) \<le> now k (world (snd (f x s)))"
  obtain r t where r: "m s = (r, t)" by (metis surj_pair)
  have 1: "now k (world s) \<le> now k (world t)" using m r by (metis snd_conv)
  show "now k (world s) \<le> now k (world (snd (bind_io m f s)))"
  proof (cases r)
    case (Inl e)
    with r 1 show ?thesis by (simp add: bind_io_def)
  next
    case (Inr x)
    with r 1 f [of x] show ?thesis by (auto simp: bind_io_def intro: order_trans)
  qed
qed

lemma forward_pure: "forward k (return_io x)" "forward k (fail_io e)" "forward k (lift_io r)"
  by (simp_all add: forward_def return_io_def fail_io_def lift_io_def)

lemma forward_send_once:
  fixes d :: "('c, 'u, 'h, 'j, 'w) deps"
  assumes ok: "clock_ok d k"
  shows "forward k (send_once d c req)"
  unfolding forward_def
proof
  fix s :: "('u, 'h, 'j, 'w) session"
  obtain r w where r: "d_send d (http c) (http_request d c (cookies s) req) (world s) = (r, w)"
    by (metis surj_pair)
  have "now k (world s) \<le> now k w" using ok r unfolding clock_ok_def by (metis snd_conv)
  then show "now k (world s) \<le> now k (world (snd (send_once d c req s)))"
    by (cases r) (simp_all add: send_once_def r Let_def)
qed

lemma forward_perform: "clock_ok d k \<Longrightarrow> forward k (perform_authentication d c)"
  unfolding perform_authentication_def Let_def
  by (cases "credentials c")
    (auto intro!: forward_bind forward_send_once forward_pure simp: forward_def [of k "\<lambda>s. (Inl Panic, s)"]
      split: prod.splits)

lemma forward_authenticate:
  fixes d :: "('c, 'u, 'h, 'j, 'w) deps"
  assumes ok: "clock_ok d k"
  shows "forward k (authenticate d c g)"
  unfolding forward_def
proof
  fix s :: "('u, 'h, 'j, 'w) session"
  obtain r t where r: "perform_authentication d c s = (r, t)" by (metis surj_pair)
  have "now k (world s) \<le> now k (world t)"
    using forward_perform [OF ok, of c] r unfolding forward_def by (metis snd_conv)
  then show "now k (world s) \<le> now k (world (snd (authenticate d c g s)))"
    by (cases "(r, t)" rule: finish_authentication.cases)
      (auto simp: authenticate_def r Let_def split: option.splits)
qed

lemma forward_send_json:
  fixes d :: "('c, 'u, 'h, 'j, 'w) deps"
  assumes ok: "clock_ok d k"
  shows "forward k (send_json d c ops req)"
proof -
  have "forward k (send_authenticated d c req)"
    unfolding forward_def
  proof
    fix s :: "('u, 'h, 'j, 'w) session"
    have "forward k (bind_io (send_once d c req) (\<lambda>response.
        if rs_status response \<noteq> 401 then return_io response
        else if credentials c = None then fail_io (Authentication Required)
        else
          bind_io (authenticate d c g) (\<lambda>_.
          bind_io (send_once d c req) (\<lambda>response.
            if rs_status response = 401 then fail_io (Authentication UnauthorizedAfterAuthentication)
            else return_io response))))" for g
      by (auto intro!: forward_bind forward_send_once [OF ok] forward_authenticate [OF ok] forward_pure)
    then show "now k (world s) \<le> now k (world (snd (send_authenticated d c req s)))"
      unfolding forward_def send_authenticated_def Let_def by blast
  qed
  then show ?thesis
    unfolding send_json_def send_successful_def by (auto intro!: forward_bind forward_pure)
qed

definition paced :: "duration \<Rightarrow> NetworkTestSession \<Rightarrow> bool" where
  "paced start n \<longleftrightarrow>
     successively (\<lambda>a b. a + NETWORK_TEST_POLL_INTERVAL \<le> b) (start # poll_times n)
     \<and> last (start # poll_times n) + NETWORK_TEST_POLL_INTERVAL \<le> ns_next_poll n"

text \<open>After a call: a failed poll is the last one of a paced run, but it does not move \<open>next_poll\<close>.\<close>

definition paced_after :: "duration \<Rightarrow> Error failure + 'a \<Rightarrow> NetworkTestSession \<Rightarrow> bool" where
  "paced_after start r n \<longleftrightarrow>
     (if is_ok r then paced start n
      else successively (\<lambda>a b. a + NETWORK_TEST_POLL_INTERVAL \<le> b) (start # poll_times n)
        \<and> poll_times n \<noteq> [] \<and> ns_next_poll n \<le> last (poll_times n))"

lemma attempted_paced:
  assumes "clock_ok d k" and "paced start n"
  shows "paced_after start (Inl e) (attempted k n s)"
proof -
  let ?at = "now k (sleep_until k (ns_next_poll n) (world s))"
  have at: "ns_next_poll n \<le> ?at" using assms(1) by (simp add: clock_ok_def)
  then have "last (start # poll_times n) + NETWORK_TEST_POLL_INTERVAL \<le> ?at"
    using assms(2) unfolding paced_def by linarith
  then have "successively (\<lambda>a b. a + NETWORK_TEST_POLL_INTERVAL \<le> b) ((start # poll_times n) @ [?at])"
    using assms(2) by (subst successively_append_iff) (simp add: paced_def)
  with at show ?thesis by (simp add: paced_after_def attempted_def)
qed

lemma paced_poll:
  assumes "clock_ok d k" and "paced start n" and "poll d c ops k n s = (Inr n', t)"
  shows "paced start n'"
proof -
  let ?s = "s\<lparr>world := sleep_until k (ns_next_poll n) (world s)\<rparr>"
  let ?at = "now k (world ?s)"
  obtain r u where run: "send_json d c ops (prepare_rci_get d c (ns_endpoint n) None) ?s = (r, u)"
    by (metis surj_pair)
  from assms(3) run have n': "poll_times n' = poll_times n @ [?at]" "u = t"
    "ns_next_poll n' = now k (world t) + NETWORK_TEST_POLL_INTERVAL"
    by (auto simp: poll_def attempted_def Let_def split: sum.splits prod.splits)
  have le: "?at \<le> now k (world t)"
    using forward_send_json [OF assms(1)] run n'(2) unfolding forward_def by (metis snd_conv)
  have "successively (\<lambda>a b. a + NETWORK_TEST_POLL_INTERVAL \<le> b) (start # poll_times n')"
    using attempted_paced [OF assms(1,2), of undefined s] n'(1) by (simp add: paced_after_def attempted_def)
  with n' le show ?thesis by (simp add: paced_def)
qed

lemma paced_pending [simp]: "paced start (n\<lparr>ns_pending := p\<rparr>) = paced start n"
  by (simp add: paced_def)

lemma paced_after_Inr [simp]: "paced_after start (Inr x) n = paced start n"
  by (simp add: paced_after_def)

lemma paced_next_chunk:
  fixes d :: "('c, 'u, 'h, 'j, 'w) deps"
  assumes "next_chunk d c ops k n s = Some y" and "clock_ok d k" and "paced start n"
  shows "paced_after start (fst y) (fst (snd y))"
proof -
  have "clock_ok d k \<longrightarrow> paced start n \<longrightarrow> paced_after start (fst y) (fst (snd y))"
  proof (rule next_chunk.raw_induct [OF _ assms(1), where P =
        "\<lambda>d c ops k n s y. clock_ok d k \<longrightarrow> paced start n \<longrightarrow> paced_after start (fst y) (fst (snd y))"])
    fix f and d :: "('c, 'u, 'h, 'j, 'w) deps" and c ops k n s y
    assume IH: "\<And>d c ops k n s y. f d c ops k n s = Some y \<Longrightarrow>
        clock_ok d k \<longrightarrow> paced start n \<longrightarrow> paced_after start (fst y) (fst (snd y))"
      and run: "(case ns_pending n of
        Some out \<Rightarrow> Some (Inr (Some out), n\<lparr>ns_pending := None\<rparr>, s)
      | None \<Rightarrow>
          if \<not> ns_continued n then Some (Inr None, n, s)
          else
            (case fst (poll d c ops k n s) of
               Inl e \<Rightarrow> Some (Inl e, attempted k n s, snd (poll d c ops k n s))
             | Inr n' \<Rightarrow> f d c ops k n' (snd (poll d c ops k n s)))) = Some y"
    show "clock_ok d k \<longrightarrow> paced start n \<longrightarrow> paced_after start (fst y) (fst (snd y))"
    proof (intro impI)
      assume ok: "clock_ok d k" and p: "paced start n"
      show "paced_after start (fst y) (fst (snd y))"
      proof (cases "ns_pending n = None \<and> ns_continued n")
        case True
        show ?thesis
        proof (cases "fst (poll d c ops k n s)")
          case (Inl e)
          with run True have "y = (Inl e, attempted k n s, snd (poll d c ops k n s))" by simp
          then show ?thesis using attempted_paced [OF ok p] by simp
        next
          case (Inr m)
          with run True have "f d c ops k m (snd (poll d c ops k n s)) = Some y" by simp
          moreover have "poll d c ops k n s = (Inr m, snd (poll d c ops k n s))"
            using Inr by (metis prod.collapse)
          ultimately show ?thesis using IH ok paced_poll [OF ok p] by blast
        qed
      qed (use run p in \<open>auto split: option.splits if_splits\<close>)
    qed
  qed
  with assms show ?thesis by blast
qed

text \<open>The sessions a caller can hold while every call so far has succeeded. Whatever else happens
  between the calls, the session of the client \<open>s\<close> may be any.\<close>

inductive chunks_read ::
  "('c, 'u, 'h, 'j, 'w) deps \<Rightarrow> ('c, 'u) client \<Rightarrow> NetworkTestResponse json_ops \<Rightarrow> 'w clock_ops
     \<Rightarrow> NetworkTestSession \<Rightarrow> NetworkTestSession \<Rightarrow> bool"
  for d :: "('c, 'u, 'h, 'j, 'w) deps" and c :: "('c, 'u) client" and ops and k :: "'w clock_ops" and n
where
  Chunks_none: "chunks_read d c ops k n n"
| Chunks_next: "chunks_read d c ops k n m \<Longrightarrow> next_chunk d c ops k m s = Some (Inr x, n', t) \<Longrightarrow>
    chunks_read d c ops k n n'"

lemma chunks_read_paced:
  assumes "chunks_read d c ops k n n'" and "clock_ok d k" and "paced start n"
  shows "paced start n'"
  using assms(1,3)
proof (induction rule: chunks_read.induct)
  case (Chunks_next m s x n' t)
  with paced_next_chunk [OF Chunks_next.hyps(2) assms(2)] show ?case by simp
qed

lemma chunks_read_trans: "chunks_read d c ops k m n' \<Longrightarrow> chunks_read d c ops k n m \<Longrightarrow> chunks_read d c ops k n n'"
  by (induction rule: chunks_read.induct) (auto intro: Chunks_next)

text \<open>\<open>collect\<close> makes such calls and one last one, which fails or finds the end.\<close>

lemma collect_loop_chunks:
  assumes "collect_loop d c ops k n acc s = Some y"
  shows "\<exists>m u r. chunks_read d c ops k n m \<and> next_chunk d c ops k m u = Some (r, snd y)"
proof (rule collect_loop.raw_induct [OF _ assms, where P = "\<lambda>d c ops k n acc s y.
      \<exists>m u r. chunks_read d c ops k n m \<and> next_chunk d c ops k m u = Some (r, snd y)"])
  fix f d c ops k n acc s y
  assume IH: "\<And>d c ops k n acc s y. f d c ops k n acc s = Some y \<Longrightarrow>
      \<exists>m u r. chunks_read d c ops k n m \<and> next_chunk d c ops k m u = Some (r, snd y)"
    and run: "Option.bind (next_chunk d c ops k n s) (\<lambda>(result, n, s).
       case result of
         Inl e \<Rightarrow> Some (Inl e, n, s)
       | Inr None \<Rightarrow> Some (Inr \<lparr>lines = acc\<rparr>, n, s)
       | Inr (Some out) \<Rightarrow> f d c ops k n (append_to out acc) s) = Some y"
  from run obtain r m u where chunk: "next_chunk d c ops k n s = Some (r, m, u)"
    by (auto simp: bind_eq_Some_conv)
  show "\<exists>m u r. chunks_read d c ops k n m \<and> next_chunk d c ops k m u = Some (r, snd y)"
  proof (cases "\<exists>out. r = Inr (Some out)")
    case True
    with run chunk obtain out where r: "r = Inr (Some out)" and "f d c ops k m (append_to out acc) u = Some y"
      by auto
    from IH [OF this(2)] obtain m' u' r' where "chunks_read d c ops k m m'" "next_chunk d c ops k m' u' = Some (r', snd y)"
      by blast
    moreover have "chunks_read d c ops k n m" using chunk r by (blast intro: chunks_read.intros)
    ultimately show ?thesis using chunks_read_trans by blast
  next
    case False
    with run chunk have "snd y = (m, u)" by (auto split: sum.splits option.splits)
    with chunk show ?thesis by (metis Chunks_none)
  qed
qed

lemma paced_new:
  "paced (now k (world s)) (NetworkTestSession_new k ep response s)"
  by (simp add: NetworkTestSession_new_def paced_def split: prod.split)

section \<open>A scripted test run\<close>

text \<open>The scripted router of theory \<open>Client\<close> with a clock that advances by 5 on every request; the two
  bodies it sends decode to a continued and to a final response.\<close>

type_synonym timed_world = "nat \<times> (reqwest_error + (string, headers) Response) list"

definition timed_deps :: "(unit, string, headers, string list, timed_world) deps" where
  "timed_deps = \<lparr>
     d_send = (\<lambda>c r (t, w). let (x, w') = d_send script_deps c r w in (x, (t + 5, w'))),
     d_set_path = d_set_path script_deps, d_set_query = d_set_query script_deps,
     d_append_pair = d_append_pair script_deps, d_cookies = d_cookies script_deps,
     d_set_cookies = d_set_cookies script_deps, d_header_get = d_header_get script_deps,
     d_header_get_all = d_header_get_all script_deps, d_header_contains = d_header_contains script_deps,
     d_to_str = d_to_str script_deps, d_is_success = d_is_success script_deps,
     d_md5 = d_md5 script_deps, d_sha256 = d_sha256 script_deps, d_auth_json = d_auth_json script_deps,
     d_memchr = d_memchr script_deps, d_memmem = d_memmem script_deps\<rparr>"

definition timed_clock :: "timed_world clock_ops" where
  "timed_clock = \<lparr>now = fst, sleep_until = (\<lambda>t (u, w). (max t u, w))\<rparr>"

definition test_ops :: "NetworkTestResponse json_ops" where
  "test_ops = \<lparr>
     from_slice = (\<lambda>_. Inr Null), de_value = (\<lambda>_. Inr \<lparr>nr_message = [], nr_continued = False\<rparr>),
     de_slice = (\<lambda>bytes. Inr (if bytes = ''more'' then \<lparr>nr_message = [''hop 1''], nr_continued = True\<rparr>
                           else \<lparr>nr_message = [''hop 2''], nr_continued = False\<rparr>, [])),
     de_end = (\<lambda>_. Inr ())\<rparr>"

definition test_response :: "string \<Rightarrow> (string, headers) Response" where
  "test_response body = (script_response 200 [])\<lparr>rs_bytes := Inr body\<rparr>"

definition test_session :: "(string, headers, string list, timed_world) session" where
  "test_session = \<lparr>cookies = [], auth_generation = 0, auth = \<lparr>generation = 0, last_result = None\<rparr>,
     world = (7, [Inr (test_response ''done'')]), log = []\<rparr>"

definition test_start :: NetworkTestSession where
  "test_start = NetworkTestSession_new timed_clock ''tools/ping''
     \<lparr>nr_message = [''start''], nr_continued = True\<rparr> test_session"

lemma timed_clock_ok: "clock_ok timed_deps timed_clock"
  by (auto simp: clock_ok_def timed_deps_def timed_clock_def split: prod.splits)

lemma test_start_facts:
  "ns_continued test_start" "unread test_start = [''start'']" "ns_endpoint test_start = ''tools/ping''"
  "ns_pending test_start = Some \<lparr>lines = [''start'']\<rparr>" "paced 7 test_start"
  by (simp_all add: test_start_def NetworkTestSession_new_def into_parts_def unread_def paced_def
      timed_clock_def test_session_def)

lemma test_send_json:
  "fst (send_json timed_deps script_client test_ops (prepare_rci_get timed_deps script_client ''tools/ping'' None)
     (test_session\<lparr>world := (time, [Inr (test_response ''done'')])\<rparr>))
   = Inr \<lparr>nr_message = [''hop 2''], nr_continued = False\<rparr>"
  by code_simp

lemma test_completes: "completes_in timed_deps script_client test_ops timed_clock (Suc 0) test_start test_session"
proof -
  obtain t where send: "send_json timed_deps script_client test_ops
      (prepare_rci_get timed_deps script_client ''tools/ping'' None)
      (test_session\<lparr>world := (max (ns_next_poll test_start) 7, [Inr (test_response ''done'')])\<rparr>)
    = (Inr \<lparr>nr_message = [''hop 2''], nr_continued = False\<rparr>, t)"
    using test_send_json by (metis prod.collapse)
  have w: "sleep_until timed_clock (ns_next_poll test_start) (world test_session)
      = (max (ns_next_poll test_start) 7, [Inr (test_response ''done'')])"
    by (simp add: timed_clock_def test_session_def)
  have "\<exists>n'. poll timed_deps script_client test_ops timed_clock test_start test_session = (Inr n', t)
      \<and> \<not> ns_continued n'"
    unfolding poll_def Let_def attempted_simps w test_start_facts(3) send by (simp add: into_parts_def)
  with test_start_facts(1) show ?thesis by auto
qed

section \<open>Properties\<close>

text \<open>\<open>collect\<close> returns the router's output in order and complete: the unread lines of the session
  followed by the messages of the responses received while polling, up to and including the first
  one without the \<open>continued\<close> marker; afterwards the session is finished.\<close>

theorem collect_complete:
  assumes "collect_output d c ops k n s = Some (Inr out, n', t)"
  shows "is_finished n' \<and> (\<exists>rs. received n' = received n @ rs
     \<and> list_all nr_continued (butlast rs) \<and> (rs \<noteq> [] \<longrightarrow> \<not> nr_continued (last rs))
     \<and> (rs = [] \<longleftrightarrow> \<not> ns_continued n)
     \<and> lines out = unread n @ concat (map nr_message rs))"
proof -
  from collect_loop_spec [OF assms [unfolded collect_output_def]] obtain rs where
    "is_finished n'" "received_between n n' rs" "lines out = unread n @ messages rs" by auto
  then show ?thesis
    by (intro conjI exI [of _ rs])
      (auto simp: received_between_def messages_def is_finished_def split: if_splits)
qed

theorem collect_complete_witness:
  "\<exists>out n' t. collect_output timed_deps script_client test_ops timed_clock test_start test_session
       = Some (Inr out, n', t)
     \<and> (\<exists>rest. lines out = ''start'' # rest) \<and> is_finished n'"
proof -
  obtain out n' t where run: "collect_output timed_deps script_client test_ops timed_clock test_start
      test_session = Some (Inr out, n', t)"
    using collect_returns [OF test_completes] unfolding collect_output_def by blast
  with collect_complete [OF run] test_start_facts(2) show ?thesis by auto
qed

text \<open>C16: \<open>collect\<close> returns whenever the router finishes: if the polls succeed and one of them, the
  \<open>m\<close>-th, has no \<open>continued\<close> marker, the loop ends with a result.\<close>

theorem collect_terminates:
  assumes "completes_in d c ops k m n s"
  shows "\<exists>out n' t. collect_output d c ops k n s = Some (Inr out, n', t)"
  unfolding collect_output_def by (rule collect_returns [OF assms])

theorem collect_terminates_witness:
  "\<exists>out n' t. collect_output timed_deps script_client test_ops timed_clock test_start test_session
     = Some (Inr out, n', t)"
  by (rule collect_terminates [OF test_completes])

text \<open>C39: polling is paced. Over the calls of \<open>next_chunk\<close> on a session, as long as none has failed, and
  over a whole \<open>collect\<close>, the start of the session and the polls that follow, a last one that fails
  included, are at least one polling interval apart, whatever the requests themselves take. A failed
  poll does not move the deadline: \<open>next_poll\<close> is then in the past, so that a caller who goes on
  after an error polls at once.\<close>

theorem polls_are_paced:
  assumes "clock_ok d k" and "n = NetworkTestSession_new k ep response s0"
  shows "(chunks_read d c ops k n m \<and> next_chunk d c ops k m s = Some (r, n', t) \<longrightarrow>
        successively (\<lambda>a b. a + NETWORK_TEST_POLL_INTERVAL \<le> b) (now k (world s0) # poll_times n')
        \<and> (if is_ok r then last (now k (world s0) # poll_times n') + NETWORK_TEST_POLL_INTERVAL \<le> ns_next_poll n'
           else poll_times n' \<noteq> [] \<and> ns_next_poll n' \<le> last (poll_times n')))
    \<and> (collect_output d c ops k n s = Some (q, n', t) \<longrightarrow>
        successively (\<lambda>a b. a + NETWORK_TEST_POLL_INTERVAL \<le> b) (now k (world s0) # poll_times n'))"
proof -
  let ?start = "now k (world s0)"
  have after: "paced_after ?start r n'"
    if "chunks_read d c ops k n m" and "next_chunk d c ops k m s = Some (r, n', t)" for m s r n' t
    using paced_next_chunk [OF that(2) assms(1) chunks_read_paced [OF that(1) assms(1)]]
      paced_new [of k s0 ep response] assms(2)
    by simp
  have spaced: "successively (\<lambda>a b. a + NETWORK_TEST_POLL_INTERVAL \<le> b) (?start # poll_times n')"
    if "paced_after ?start r n'" for r :: "Error failure + NetworkTestOutput option" and n'
    using that by (simp only: paced_after_def paced_def split: if_splits)
  have whole: "successively (\<lambda>a b. a + NETWORK_TEST_POLL_INTERVAL \<le> b) (?start # poll_times n')"
    if "collect_output d c ops k n s = Some (q, n', t)"
    using collect_loop_chunks [OF that [unfolded collect_output_def]] after spaced by fastforce
  show ?thesis
    using after [of m s r n' t] spaced [of r n'] whole unfolding paced_after_def paced_def by argo
qed

theorem polls_are_paced_witness:
  "\<exists>r n' t. collect_output timed_deps script_client test_ops timed_clock test_start test_session = Some (Inr r, n', t)
     \<and> successively (\<lambda>a b. a + NETWORK_TEST_POLL_INTERVAL \<le> b) (7 # poll_times n')"
proof -
  obtain out n' t where run: "collect_output timed_deps script_client test_ops timed_clock test_start
      test_session = Some (Inr out, n', t)"
    using collect_returns [OF test_completes] unfolding collect_output_def by blast
  have "now timed_clock (world test_session) = 7" by (simp add: timed_clock_def test_session_def)
  with polls_are_paced [OF timed_clock_ok test_start_def] run show ?thesis by metis
qed

text \<open>\<open>cancel\<close> never talks to a router that has already finished: without the \<open>continued\<close> marker it
  returns the unread output and leaves everything untouched; otherwise it appends the output of the
  DELETE it sends.\<close>

theorem cancel_only_if_continued:
  "(\<not> ns_continued n \<longrightarrow> cancel d c ops n s = (Inr \<lparr>lines = unread n\<rparr>, s))
   \<and> (ns_continued n \<longrightarrow> cancel d c ops n s
        = bind_io (send_json d c ops (prepare_rci_delete d c (ns_endpoint n)))
            (\<lambda>r. return_io \<lparr>lines = unread n @ nr_message r\<rparr>) s)"
  by (auto simp: cancel_def Let_def unread_def append_to_def into_parts_def return_io_def
      bind_io_def split: option.splits sum.splits prod.splits if_splits)

theorem cancel_only_if_continued_witness:
  "\<exists>s. cancel timed_deps script_client test_ops (test_start\<lparr>ns_continued := False\<rparr>) test_session
     = (Inr \<lparr>lines = [''start'']\<rparr>, s) \<and> log s = []"
proof -
  have "unread (test_start\<lparr>ns_continued := False\<rparr>) = [''start'']"
    using test_start_facts(2) by (simp add: unread_def)
  then show ?thesis
    using cancel_only_if_continued [of "test_start\<lparr>ns_continued := False\<rparr>" timed_deps script_client
        test_ops test_session]
    by (simp add: test_session_def)
qed

end
