(* ===== verification/Network_Test.thy ===== *)
theory Network_Test
  imports Network_Values
begin

text \<open>
  \<open>src/src/request/network_test.rs\<close>: the builders of the router's ping, traceroute and iPerf3
  requests and the JSON objects they serialize to. Each request is a record, each builder method a
  function into the error \<open>InvalidNetworkTestOption\<close> or the updated request. The inductive
  predicates \<open>ping_built\<close>, \<open>traceroute_built\<close> and \<open>iperf_built\<close> are the requests that a caller
  can reach with the public methods; they are characterized exactly.

  A \<open>NonZero\<close> integer is a word, that it is not zero is part of the invariants. The text form of
  an \<open>IpAddr\<close> is the interface \<open>ip_text\<close>.
\<close>

section \<open>Address families and sources\<close>

definition MIN_PACKET_SIZE :: u16 where "MIN_PACKET_SIZE = 28"
definition TCP_TRACEROUTE_PACKET_SIZE :: u16 where "TCP_TRACEROUTE_PACKET_SIZE = 52"
definition DEFAULT_PING_COUNT :: u16 where "DEFAULT_PING_COUNT = 5"
definition PING_ENDPOINT :: string where "PING_ENDPOINT = ''tools/ping''"
definition PING6_ENDPOINT :: string where "PING6_ENDPOINT = ''tools/ping6''"
definition TRACEROUTE_ENDPOINT :: string where "TRACEROUTE_ENDPOINT = ''tools/traceroute''"
definition IPERF3_ENDPOINT :: string where "IPERF3_ENDPOINT = ''tools/iperf3''"

datatype IpFamily = Ipv4 | Ipv6

datatype IperfIpVersion = IperfIpv4 | IperfIpv6

fun IpFamily_of :: "IpAddr \<Rightarrow> IpFamily" where
  "IpFamily_of (V4 _) = Ipv4"
| "IpFamily_of (V6 _) = Ipv6"

fun IpFamily_label :: "IpFamily \<Rightarrow> string" where
  "IpFamily_label Ipv4 = ''IPv4''"
| "IpFamily_label Ipv6 = ''IPv6''"

fun iperf_version :: "IpFamily \<Rightarrow> IperfIpVersion" where
  "iperf_version Ipv4 = IperfIpv4"
| "iperf_version Ipv6 = IperfIpv6"

fun version_family :: "IperfIpVersion \<Rightarrow> IpFamily" where
  "version_family IperfIpv4 = Ipv4"
| "version_family IperfIpv6 = Ipv6"

fun wire_keyword :: "IperfIpVersion \<Rightarrow> string" where
  "wire_keyword IperfIpv4 = ''ipv4''"
| "wire_keyword IperfIpv6 = ''ipv6''"

datatype NetworkTestSource = SourceAddress IpAddr | SourceInterface InterfaceId

definition NetworkTestSource_interface :: "string \<Rightarrow> InvalidInterfaceId + NetworkTestSource" where
  "NetworkTestSource_interface name = map_res SourceInterface (InterfaceId_try_from name)"

fun NetworkTestSource_display :: "(IpAddr \<Rightarrow> string) \<Rightarrow> NetworkTestSource \<Rightarrow> string" where
  "NetworkTestSource_display ip_show (SourceAddress address) = ip_show address"
| "NetworkTestSource_display ip_show (SourceInterface interface) = InterfaceId_as_str interface"

datatype InvalidNetworkTestOption =
    InvalidHost InvalidNetworkHost
  | AddressFamily string string string string
  | OutOfRange string u64 u64 u64
  | TcpTraceroutePacketSize u16

definition ensure_range :: "string \<Rightarrow> u64 \<Rightarrow> u64 \<Rightarrow> u64 \<Rightarrow> InvalidNetworkTestOption + unit" where
  "ensure_range option value low high =
     (if low \<le> value \<and> value \<le> high then Inr () else Inl (OutOfRange option low high value))"

definition ensure_target_family ::
  "NetworkHost \<Rightarrow> string \<Rightarrow> IpFamily \<Rightarrow> InvalidNetworkTestOption + unit" where
  "ensure_target_family host tool expected =
     (case map_option IpFamily_of (NetworkHost_address host) of
        Some actual \<Rightarrow>
          if expected \<noteq> actual
          then Inl (AddressFamily tool ''target'' (IpFamily_label expected) (IpFamily_label actual))
          else Inr ()
      | None \<Rightarrow> Inr ())"

definition ensure_source_family ::
  "NetworkTestSource \<Rightarrow> string \<Rightarrow> IpFamily \<Rightarrow> InvalidNetworkTestOption + unit" where
  "ensure_source_family source tool family =
     (case source of
        SourceInterface _ \<Rightarrow> Inr ()
      | SourceAddress address \<Rightarrow>
          let actual = IpFamily_of address in
          if actual = family then Inr ()
          else Inl (AddressFamily tool ''source address'' (IpFamily_label family) (IpFamily_label actual)))"

text \<open>\<open>NonZeroU8::new\<close> and its relatives with the error each caller builds.\<close>

definition nonzero :: "'a::len word \<Rightarrow> 'e \<Rightarrow> 'e + 'a word" where
  "nonzero value error = (if value \<noteq> 0 then Inr value else Inl error)"

definition nonzero_u16 :: "string \<Rightarrow> u16 \<Rightarrow> InvalidNetworkTestOption + u16" where
  "nonzero_u16 option value = nonzero value (OutOfRange option 1 65535 0)"

definition nonzero_u64 :: "string \<Rightarrow> u64 \<Rightarrow> InvalidNetworkTestOption + u64" where
  "nonzero_u64 option value = nonzero value (OutOfRange option 1 (- 1) 0)"

section \<open>Ping\<close>

record PingParameters =
  pg_host :: NetworkHost
  pg_count :: u16
  pg_packet_size :: "u16 option"
  pg_sequence_id :: "u16 option"
  pg_source :: "NetworkTestSource option"
  pg_tos :: "u8 option"
  pg_ttl :: "u8 option"

definition PingParameters_from_host ::
  "NetworkHost \<Rightarrow> string \<Rightarrow> IpFamily \<Rightarrow> InvalidNetworkTestOption + PingParameters" where
  "PingParameters_from_host host tool family =
     bind_res (ensure_target_family host tool family) (\<lambda>_.
       Inr \<lparr>pg_host = host, pg_count = DEFAULT_PING_COUNT, pg_packet_size = None,
            pg_sequence_id = None, pg_source = None, pg_tos = None, pg_ttl = None\<rparr>)"

definition PingParameters_new ::
  "(string \<Rightarrow> IpAddr option) \<Rightarrow> string \<Rightarrow> string \<Rightarrow> IpFamily \<Rightarrow> InvalidNetworkTestOption + PingParameters" where
  "PingParameters_new ip_parse host tool family =
     bind_res (map_err InvalidHost (NetworkHost_from_str ip_parse host)) (\<lambda>host.
       PingParameters_from_host host tool family)"

definition ping_count :: "u16 \<Rightarrow> PingParameters \<Rightarrow> InvalidNetworkTestOption + PingParameters" where
  "ping_count count p =
     map_res (\<lambda>n. p\<lparr>pg_count := n\<rparr>) (nonzero count (OutOfRange ''count'' 1 65535 0))"

definition ping_packet_size :: "u16 \<Rightarrow> PingParameters \<Rightarrow> InvalidNetworkTestOption + PingParameters" where
  "ping_packet_size packet_size p =
     map_res (\<lambda>_. p\<lparr>pg_packet_size := Some packet_size\<rparr>)
       (ensure_range ''packetsize'' (ucast packet_size) (ucast MIN_PACKET_SIZE) 65535)"

definition ping_sequence_id :: "u16 \<Rightarrow> PingParameters \<Rightarrow> PingParameters" where
  "ping_sequence_id sequence_id p = p\<lparr>pg_sequence_id := Some sequence_id\<rparr>"

definition ping_source ::
  "string \<Rightarrow> IpFamily \<Rightarrow> NetworkTestSource \<Rightarrow> PingParameters \<Rightarrow> InvalidNetworkTestOption + PingParameters" where
  "ping_source tool family source p =
     map_res (\<lambda>_. p\<lparr>pg_source := Some source\<rparr>) (ensure_source_family source tool family)"

definition ping_tos :: "u8 \<Rightarrow> PingParameters \<Rightarrow> InvalidNetworkTestOption + PingParameters" where
  "ping_tos tos p = map_res (\<lambda>_. p\<lparr>pg_tos := Some tos\<rparr>) (ensure_range ''tos'' (ucast tos) 0 63)"

definition ping_ttl :: "u8 \<Rightarrow> PingParameters \<Rightarrow> InvalidNetworkTestOption + PingParameters" where
  "ping_ttl ttl p = map_res (\<lambda>n. p\<lparr>pg_ttl := Some n\<rparr>) (nonzero ttl (OutOfRange ''ttl'' 1 255 0))"

text \<open>The macro \<open>ping_request\<close> is instantiated twice; its endpoint is also the tool name in
  errors.\<close>

definition Ping_new where "Ping_new ip_parse host = PingParameters_new ip_parse host PING_ENDPOINT Ipv4"
definition Ping_from_host where "Ping_from_host host = PingParameters_from_host host PING_ENDPOINT Ipv4"
definition PingIpv6_new where "PingIpv6_new ip_parse host = PingParameters_new ip_parse host PING6_ENDPOINT Ipv6"
definition PingIpv6_from_host where "PingIpv6_from_host host = PingParameters_from_host host PING6_ENDPOINT Ipv6"

section \<open>Traceroute\<close>

datatype TracerouteProtocol = TraceTcp | TraceUdp | TraceIcmp

fun TracerouteProtocol_wire :: "TracerouteProtocol \<Rightarrow> string" where
  "TracerouteProtocol_wire TraceTcp = ''tcp''"
| "TracerouteProtocol_wire TraceUdp = ''udp''"
| "TracerouteProtocol_wire TraceIcmp = ''icmp''"

record Traceroute =
  tr_host :: NetworkHost
  tr_count :: "u8 option"
  tr_interval :: "u8 option"
  tr_wait_time :: "u8 option"
  tr_packet_size :: "u16 option"
  tr_max_ttl :: "u8 option"
  tr_port :: "u16 option"
  tr_source :: "NetworkTestSource option"
  tr_protocol :: TracerouteProtocol
  tr_tos :: "u8 option"

definition Traceroute_from_host :: "NetworkHost \<Rightarrow> Traceroute" where
  "Traceroute_from_host host =
     \<lparr>tr_host = host, tr_count = None, tr_interval = None, tr_wait_time = None,
      tr_packet_size = None, tr_max_ttl = None, tr_port = None, tr_source = None,
      tr_protocol = TraceUdp, tr_tos = None\<rparr>"

definition Traceroute_new ::
  "(string \<Rightarrow> IpAddr option) \<Rightarrow> string \<Rightarrow> InvalidNetworkTestOption + Traceroute" where
  "Traceroute_new ip_parse host =
     map_res Traceroute_from_host (map_err InvalidHost (NetworkHost_from_str ip_parse host))"

definition trace_count :: "u8 \<Rightarrow> Traceroute \<Rightarrow> InvalidNetworkTestOption + Traceroute" where
  "trace_count count t = map_res (\<lambda>_. t\<lparr>tr_count := Some count\<rparr>) (ensure_range ''count'' (ucast count) 1 10)"

definition trace_interval :: "u8 \<Rightarrow> Traceroute \<Rightarrow> InvalidNetworkTestOption + Traceroute" where
  "trace_interval seconds t =
     map_res (\<lambda>_. t\<lparr>tr_interval := Some seconds\<rparr>) (ensure_range ''interval'' (ucast seconds) 0 15)"

definition trace_wait_time :: "u8 \<Rightarrow> Traceroute \<Rightarrow> InvalidNetworkTestOption + Traceroute" where
  "trace_wait_time seconds t =
     map_res (\<lambda>_. t\<lparr>tr_wait_time := Some seconds\<rparr>) (ensure_range ''wait-time'' (ucast seconds) 1 15)"

definition validate_traceroute_packet_size ::
  "TracerouteProtocol \<Rightarrow> u16 \<Rightarrow> InvalidNetworkTestOption + unit" where
  "validate_traceroute_packet_size protocol packet_size =
     (if protocol = TraceTcp then
        if packet_size = TCP_TRACEROUTE_PACKET_SIZE then Inr ()
        else Inl (TcpTraceroutePacketSize packet_size)
      else ensure_range ''packetsize'' (ucast packet_size) (ucast MIN_PACKET_SIZE) 65535)"

definition trace_packet_size :: "u16 \<Rightarrow> Traceroute \<Rightarrow> InvalidNetworkTestOption + Traceroute" where
  "trace_packet_size packet_size t =
     map_res (\<lambda>_. t\<lparr>tr_packet_size := Some packet_size\<rparr>)
       (validate_traceroute_packet_size (tr_protocol t) packet_size)"

definition trace_max_ttl :: "u8 \<Rightarrow> Traceroute \<Rightarrow> InvalidNetworkTestOption + Traceroute" where
  "trace_max_ttl max_ttl t =
     map_res (\<lambda>n. t\<lparr>tr_max_ttl := Some n\<rparr>) (nonzero max_ttl (OutOfRange ''max-ttl'' 1 255 0))"

definition trace_port :: "u16 \<Rightarrow> Traceroute \<Rightarrow> InvalidNetworkTestOption + Traceroute" where
  "trace_port port t = map_res (\<lambda>n. t\<lparr>tr_port := Some n\<rparr>) (nonzero_u16 ''port'' port)"

definition trace_source :: "NetworkTestSource \<Rightarrow> Traceroute \<Rightarrow> InvalidNetworkTestOption + Traceroute" where
  "trace_source source t =
     map_res (\<lambda>_. t\<lparr>tr_source := Some source\<rparr>)
       (case NetworkHost_address (tr_host t) of
          Some address \<Rightarrow> ensure_source_family source TRACEROUTE_ENDPOINT (IpFamily_of address)
        | None \<Rightarrow> Inr ())"

definition trace_protocol :: "TracerouteProtocol \<Rightarrow> Traceroute \<Rightarrow> InvalidNetworkTestOption + Traceroute" where
  "trace_protocol protocol t =
     map_res (\<lambda>_. t\<lparr>tr_protocol := protocol\<rparr>)
       (case tr_packet_size t of
          Some packet_size \<Rightarrow> validate_traceroute_packet_size protocol packet_size
        | None \<Rightarrow> Inr ())"

definition trace_tos :: "u8 \<Rightarrow> Traceroute \<Rightarrow> Traceroute" where
  "trace_tos tos t = t\<lparr>tr_tos := Some tos\<rparr>"

section \<open>iPerf3\<close>

datatype IperfProtocol = IperfTcp | IperfUdp

datatype IperfDirection = Upload | Download

datatype IperfLimit = LimitTime u32 | LimitBytes u64

definition IperfLimit_time :: "u32 \<Rightarrow> InvalidNetworkTestOption + IperfLimit" where
  "IperfLimit_time seconds = map_res LimitTime (nonzero seconds (OutOfRange ''time'' 1 4294967295 0))"

definition IperfLimit_bytes :: "u64 \<Rightarrow> InvalidNetworkTestOption + IperfLimit" where
  "IperfLimit_bytes bytes = map_res LimitBytes (nonzero bytes (OutOfRange ''bytes'' 1 (- 1) 0))"

record Iperf3 =
  pf_host :: NetworkHost
  pf_ip_version :: IperfIpVersion
  pf_protocol :: IperfProtocol
  pf_direction :: IperfDirection
  pf_port :: "u16 option"
  pf_bitrate :: "u64 option"
  pf_streams :: "u16 option"
  pf_limit :: IperfLimit
  pf_source :: "NetworkTestSource option"

definition Iperf3_from_host :: "NetworkHost \<Rightarrow> IperfLimit \<Rightarrow> Iperf3" where
  "Iperf3_from_host host limit =
     (let ip_version = (case NetworkHost_address host of
                          Some address \<Rightarrow> iperf_version (IpFamily_of address)
                        | None \<Rightarrow> IperfIpv4)
      in \<lparr>pf_host = host, pf_ip_version = ip_version, pf_protocol = IperfTcp, pf_direction = Upload,
          pf_port = None, pf_bitrate = None, pf_streams = None, pf_limit = limit, pf_source = None\<rparr>)"

definition Iperf3_new ::
  "(string \<Rightarrow> IpAddr option) \<Rightarrow> string \<Rightarrow> IperfLimit \<Rightarrow> InvalidNetworkTestOption + Iperf3" where
  "Iperf3_new ip_parse host limit =
     map_res (\<lambda>h. Iperf3_from_host h limit) (map_err InvalidHost (NetworkHost_from_str ip_parse host))"

definition iperf_ip_version :: "IperfIpVersion \<Rightarrow> Iperf3 \<Rightarrow> InvalidNetworkTestOption + Iperf3" where
  "iperf_ip_version ip_version q =
     (let expected = version_family ip_version in
      bind_res (ensure_target_family (pf_host q) IPERF3_ENDPOINT expected) (\<lambda>_.
      bind_res (case pf_source q of
                  Some source \<Rightarrow> ensure_source_family source IPERF3_ENDPOINT expected
                | None \<Rightarrow> Inr ()) (\<lambda>_.
      Inr (q\<lparr>pf_ip_version := ip_version\<rparr>))))"

definition iperf_protocol :: "IperfProtocol \<Rightarrow> Iperf3 \<Rightarrow> Iperf3" where
  "iperf_protocol protocol q = q\<lparr>pf_protocol := protocol\<rparr>"

definition iperf_direction :: "IperfDirection \<Rightarrow> Iperf3 \<Rightarrow> Iperf3" where
  "iperf_direction direction q = q\<lparr>pf_direction := direction\<rparr>"

definition iperf_port :: "u16 \<Rightarrow> Iperf3 \<Rightarrow> InvalidNetworkTestOption + Iperf3" where
  "iperf_port port q = map_res (\<lambda>n. q\<lparr>pf_port := Some n\<rparr>) (nonzero_u16 ''port'' port)"

definition iperf_bitrate :: "u64 \<Rightarrow> Iperf3 \<Rightarrow> InvalidNetworkTestOption + Iperf3" where
  "iperf_bitrate bitrate q = map_res (\<lambda>n. q\<lparr>pf_bitrate := Some n\<rparr>) (nonzero_u64 ''bitrate'' bitrate)"

definition iperf_streams :: "u16 \<Rightarrow> Iperf3 \<Rightarrow> InvalidNetworkTestOption + Iperf3" where
  "iperf_streams streams q = map_res (\<lambda>n. q\<lparr>pf_streams := Some n\<rparr>) (nonzero_u16 ''streams'' streams)"

definition iperf_source :: "NetworkTestSource \<Rightarrow> Iperf3 \<Rightarrow> InvalidNetworkTestOption + Iperf3" where
  "iperf_source source q =
     map_res (\<lambda>_. q\<lparr>pf_source := Some source\<rparr>)
       (ensure_source_family source IPERF3_ENDPOINT (version_family (pf_ip_version q)))"

section \<open>Serialization\<close>

text \<open>A serialized map is the list of its entries in order; \<open>serialize_option\<close> and
  \<open>serialize_source\<close> append theirs only when there is a value.\<close>

definition num_value :: "'a::len word \<Rightarrow> Value" where
  "num_value w = Number (show_nat (unat w))"

definition serialize_option :: "string \<Rightarrow> ('a \<Rightarrow> Value) \<Rightarrow> 'a option \<Rightarrow> (string \<times> Value) list" where
  "serialize_option key ser value = (case value of Some v \<Rightarrow> [(key, ser v)] | None \<Rightarrow> [])"

definition serialize_source :: "(IpAddr \<Rightarrow> string) \<Rightarrow> NetworkTestSource option \<Rightarrow> (string \<times> Value) list" where
  "serialize_source ip_show source =
     (case source of
        None \<Rightarrow> []
      | Some (SourceAddress address) \<Rightarrow> [(''source-address'', String (ip_show address))]
      | Some (SourceInterface interface) \<Rightarrow> [(''source-interface'', String (InterfaceId_as_str interface))])"

definition NetworkHost_serialize :: "(IpAddr \<Rightarrow> string) \<Rightarrow> NetworkHost \<Rightarrow> Value" where
  "NetworkHost_serialize ip_show host = String (NetworkHost_display ip_show host)"

definition NetworkTestSource_serialize :: "(IpAddr \<Rightarrow> string) \<Rightarrow> NetworkTestSource \<Rightarrow> Value" where
  "NetworkTestSource_serialize ip_show source = String (NetworkTestSource_display ip_show source)"

definition PingParameters_serialize :: "(IpAddr \<Rightarrow> string) \<Rightarrow> PingParameters \<Rightarrow> Value" where
  "PingParameters_serialize ip_show p = Object
     ([(''host'', NetworkHost_serialize ip_show (pg_host p)), (''count'', num_value (pg_count p))]
      @ serialize_option ''packetsize'' num_value (pg_packet_size p)
      @ serialize_option ''sequence-id'' num_value (pg_sequence_id p)
      @ serialize_option ''source'' (NetworkTestSource_serialize ip_show) (pg_source p)
      @ serialize_option ''tos'' num_value (pg_tos p)
      @ serialize_option ''ttl'' num_value (pg_ttl p))"

definition Traceroute_serialize :: "(IpAddr \<Rightarrow> string) \<Rightarrow> Traceroute \<Rightarrow> Value" where
  "Traceroute_serialize ip_show t = Object
     ([(''host'', NetworkHost_serialize ip_show (tr_host t))]
      @ serialize_option ''count'' num_value (tr_count t)
      @ serialize_option ''interval'' num_value (tr_interval t)
      @ serialize_option ''wait-time'' num_value (tr_wait_time t)
      @ serialize_option ''packetsize'' num_value (tr_packet_size t)
      @ serialize_option ''max-ttl'' num_value (tr_max_ttl t)
      @ serialize_option ''port'' num_value (tr_port t)
      @ serialize_source ip_show (tr_source t)
      @ [(''type'', String (TracerouteProtocol_wire (tr_protocol t)))]
      @ serialize_option ''tos'' num_value (tr_tos t))"

fun IperfProtocol_key :: "IperfProtocol \<Rightarrow> string" where
  "IperfProtocol_key IperfTcp = ''tcp''"
| "IperfProtocol_key IperfUdp = ''udp''"

fun IperfLimit_entry :: "IperfLimit \<Rightarrow> string \<times> Value" where
  "IperfLimit_entry (LimitTime v) = (''time'', num_value v)"
| "IperfLimit_entry (LimitBytes v) = (''bytes'', num_value v)"

definition Iperf3_serialize :: "(IpAddr \<Rightarrow> string) \<Rightarrow> Iperf3 \<Rightarrow> Value" where
  "Iperf3_serialize ip_show q = Object
     ([(''host'', NetworkHost_serialize ip_show (pf_host q)),
       (wire_keyword (pf_ip_version q), Bool True),
       (IperfProtocol_key (pf_protocol q), Bool True)]
      @ (if pf_direction q = Download then [(''reverse'', Bool True)] else [])
      @ serialize_option ''port'' num_value (pf_port q)
      @ serialize_option ''bitrate'' num_value (pf_bitrate q)
      @ serialize_option ''streams'' num_value (pf_streams q)
      @ [IperfLimit_entry (pf_limit q)]
      @ serialize_source ip_show (pf_source q))"

section \<open>Requests a caller can build\<close>

definition family_of_host :: "NetworkHost \<Rightarrow> IpFamily option" where
  "family_of_host h = map_option IpFamily_of (NetworkHost_address h)"

definition source_of_family :: "IpFamily \<Rightarrow> NetworkTestSource \<Rightarrow> bool" where
  "source_of_family f s \<longleftrightarrow> (case s of SourceAddress a \<Rightarrow> IpFamily_of a = f | SourceInterface _ \<Rightarrow> True)"

definition opt_all :: "('a \<Rightarrow> bool) \<Rightarrow> 'a option \<Rightarrow> bool" where
  "opt_all p x \<longleftrightarrow> (case x of None \<Rightarrow> True | Some v \<Rightarrow> p v)"

definition ping_ok :: "IpFamily \<Rightarrow> PingParameters \<Rightarrow> bool" where
  "ping_ok f p \<longleftrightarrow> opt_all (\<lambda>g. g = f) (family_of_host (pg_host p)) \<and> pg_count p \<noteq> 0
     \<and> opt_all (\<lambda>n. 28 \<le> unat n) (pg_packet_size p) \<and> opt_all (source_of_family f) (pg_source p)
     \<and> opt_all (\<lambda>n. unat n \<le> 63) (pg_tos p) \<and> opt_all (\<lambda>n. n \<noteq> 0) (pg_ttl p)"

definition packet_size_ok :: "TracerouteProtocol \<Rightarrow> u16 \<Rightarrow> bool" where
  "packet_size_ok protocol n \<longleftrightarrow> (if protocol = TraceTcp then unat n = 52 else 28 \<le> unat n)"

definition traceroute_ok :: "Traceroute \<Rightarrow> bool" where
  "traceroute_ok t \<longleftrightarrow> opt_all (\<lambda>n. 1 \<le> unat n \<and> unat n \<le> 10) (tr_count t)
     \<and> opt_all (\<lambda>n. unat n \<le> 15) (tr_interval t) \<and> opt_all (\<lambda>n. 1 \<le> unat n \<and> unat n \<le> 15) (tr_wait_time t)
     \<and> opt_all (packet_size_ok (tr_protocol t)) (tr_packet_size t)
     \<and> opt_all (\<lambda>n. n \<noteq> 0) (tr_max_ttl t) \<and> opt_all (\<lambda>n. n \<noteq> 0) (tr_port t)
     \<and> opt_all (\<lambda>f. opt_all (source_of_family f) (tr_source t)) (family_of_host (tr_host t))"

fun limit_ok :: "IperfLimit \<Rightarrow> bool" where
  "limit_ok (LimitTime n) \<longleftrightarrow> n \<noteq> 0"
| "limit_ok (LimitBytes n) \<longleftrightarrow> n \<noteq> 0"

definition iperf_ok :: "Iperf3 \<Rightarrow> bool" where
  "iperf_ok q \<longleftrightarrow> opt_all (\<lambda>f. f = version_family (pf_ip_version q)) (family_of_host (pf_host q))
     \<and> opt_all (source_of_family (version_family (pf_ip_version q))) (pf_source q)
     \<and> opt_all (\<lambda>n. n \<noteq> 0) (pf_port q) \<and> opt_all (\<lambda>n. n \<noteq> 0) (pf_bitrate q)
     \<and> opt_all (\<lambda>n. n \<noteq> 0) (pf_streams q) \<and> limit_ok (pf_limit q)"

inductive ping_built :: "string \<Rightarrow> IpFamily \<Rightarrow> PingParameters \<Rightarrow> bool" for tool f where
  Ping_from: "PingParameters_from_host host tool f = Inr p \<Longrightarrow> ping_built tool f p"
| Ping_parse: "PingParameters_new ip_parse text tool f = Inr p \<Longrightarrow> ping_built tool f p"
| Ping_count: "ping_built tool f p \<Longrightarrow> ping_count n p = Inr q \<Longrightarrow> ping_built tool f q"
| Ping_size: "ping_built tool f p \<Longrightarrow> ping_packet_size n p = Inr q \<Longrightarrow> ping_built tool f q"
| Ping_sequence: "ping_built tool f p \<Longrightarrow> ping_built tool f (ping_sequence_id n p)"
| Ping_source: "ping_built tool f p \<Longrightarrow> ping_source tool f src p = Inr q \<Longrightarrow> ping_built tool f q"
| Ping_tos: "ping_built tool f p \<Longrightarrow> ping_tos m p = Inr q \<Longrightarrow> ping_built tool f q"
| Ping_ttl: "ping_built tool f p \<Longrightarrow> ping_ttl m p = Inr q \<Longrightarrow> ping_built tool f q"

inductive traceroute_built :: "Traceroute \<Rightarrow> bool" where
  Trace_from: "traceroute_built (Traceroute_from_host host)"
| Trace_parse: "Traceroute_new ip_parse text = Inr t \<Longrightarrow> traceroute_built t"
| Trace_count: "traceroute_built t \<Longrightarrow> trace_count m t = Inr u \<Longrightarrow> traceroute_built u"
| Trace_interval: "traceroute_built t \<Longrightarrow> trace_interval m t = Inr u \<Longrightarrow> traceroute_built u"
| Trace_wait: "traceroute_built t \<Longrightarrow> trace_wait_time m t = Inr u \<Longrightarrow> traceroute_built u"
| Trace_size: "traceroute_built t \<Longrightarrow> trace_packet_size n t = Inr u \<Longrightarrow> traceroute_built u"
| Trace_ttl: "traceroute_built t \<Longrightarrow> trace_max_ttl m t = Inr u \<Longrightarrow> traceroute_built u"
| Trace_port: "traceroute_built t \<Longrightarrow> trace_port n t = Inr u \<Longrightarrow> traceroute_built u"
| Trace_source: "traceroute_built t \<Longrightarrow> trace_source src t = Inr u \<Longrightarrow> traceroute_built u"
| Trace_protocol: "traceroute_built t \<Longrightarrow> trace_protocol pr t = Inr u \<Longrightarrow> traceroute_built u"
| Trace_tos: "traceroute_built t \<Longrightarrow> traceroute_built (trace_tos m t)"

inductive iperf_built :: "Iperf3 \<Rightarrow> bool" where
  Iperf_from_time: "IperfLimit_time n = Inr l \<Longrightarrow> iperf_built (Iperf3_from_host host l)"
| Iperf_from_bytes: "IperfLimit_bytes b = Inr l \<Longrightarrow> iperf_built (Iperf3_from_host host l)"
| Iperf_parse_time: "IperfLimit_time n = Inr l \<Longrightarrow> Iperf3_new ip_parse text l = Inr q \<Longrightarrow> iperf_built q"
| Iperf_parse_bytes: "IperfLimit_bytes b = Inr l \<Longrightarrow> Iperf3_new ip_parse text l = Inr q \<Longrightarrow> iperf_built q"
| Iperf_version: "iperf_built q \<Longrightarrow> iperf_ip_version v q = Inr r \<Longrightarrow> iperf_built r"
| Iperf_protocol: "iperf_built q \<Longrightarrow> iperf_built (iperf_protocol pr q)"
| Iperf_direction: "iperf_built q \<Longrightarrow> iperf_built (iperf_direction dir q)"
| Iperf_port: "iperf_built q \<Longrightarrow> iperf_port p q = Inr r \<Longrightarrow> iperf_built r"
| Iperf_bitrate: "iperf_built q \<Longrightarrow> iperf_bitrate b q = Inr r \<Longrightarrow> iperf_built r"
| Iperf_streams: "iperf_built q \<Longrightarrow> iperf_streams p q = Inr r \<Longrightarrow> iperf_built r"
| Iperf_source: "iperf_built q \<Longrightarrow> iperf_source src q = Inr r \<Longrightarrow> iperf_built r"

section \<open>Lemmas\<close>

lemma opt_all_simps [simp]: "opt_all p None" "opt_all p (Some v) = p v"
    "opt_all (\<lambda>_. True) x" "opt_all p (map_option g x) = opt_all (\<lambda>v. p (g v)) x"
  by (simp_all add: opt_all_def split: option.splits)

lemma opt_all_case [simp]:
  "(case x of None \<Rightarrow> Inr () | Some v \<Rightarrow> f v) = Inr u \<longleftrightarrow> opt_all (\<lambda>v. f v = Inr ()) x"
  by (cases x) auto

lemma unat_u16_less: "unat (w :: u16) < 65536"
proof -
  have "unat w < 2 ^ LENGTH(16)" by (rule unsigned_less)
  then show ?thesis by simp
qed

lemma unat_u16_le [simp]: "unat (w :: u16) \<le> 65535"
  using unat_u16_less [of w] by simp

lemma unat_widen [simp]:
  "unat (ucast (w :: u8) :: u64) = unat w" "unat (ucast (v :: u16) :: u64) = unat v"
proof -
  have "unat w < 2 ^ 64" "unat v < 2 ^ 64"
    using unat_byte_less [of w] unat_u16_less [of v] by simp_all
  then show "unat (ucast w :: u64) = unat w" "unat (ucast v :: u64) = unat v"
    by (simp_all add: unsigned_ucast_eq take_bit_nat_eq_self)
qed

lemma ensure_range_iff [simp]:
  "ensure_range opt v low high = Inr u \<longleftrightarrow> unat low \<le> unat v \<and> unat v \<le> unat high"
  by (simp add: ensure_range_def word_le_nat_alt)

lemma target_family_iff [simp]:
  "ensure_target_family h tool f = Inr u \<longleftrightarrow> opt_all (\<lambda>g. g = f) (family_of_host h)"
  by (cases "NetworkHost_address h") (auto simp: ensure_target_family_def family_of_host_def)

lemma source_family_iff [simp]: "ensure_source_family s tool f = Inr u \<longleftrightarrow> source_of_family f s"
  by (auto simp: ensure_source_family_def source_of_family_def Let_def split: NetworkTestSource.splits)

lemma nonzero_iff [simp]: "nonzero n e = Inr k \<longleftrightarrow> k = n \<and> n \<noteq> 0"
  by (auto simp: nonzero_def)

lemma packet_size_iff [simp]:
  "validate_traceroute_packet_size pr n = Inr u \<longleftrightarrow> packet_size_ok pr n"
  using unat_u16_less [of n]
  by (auto simp: validate_traceroute_packet_size_def packet_size_ok_def TCP_TRACEROUTE_PACKET_SIZE_def
      MIN_PACKET_SIZE_def word_unat_eq_iff)

lemma version_of_family [simp]: "version_family (iperf_version f) = f"
  by (cases f) simp_all

lemmas ping_defs = PingParameters_from_host_def PingParameters_new_def ping_count_def
  ping_packet_size_def ping_sequence_id_def ping_source_def ping_tos_def ping_ttl_def

lemmas trace_defs = Traceroute_from_host_def Traceroute_new_def trace_count_def trace_interval_def
  trace_wait_time_def trace_packet_size_def trace_max_ttl_def trace_port_def trace_source_def
  trace_protocol_def trace_tos_def nonzero_u16_def

lemmas iperf_defs = Iperf3_new_def iperf_protocol_def
  iperf_direction_def iperf_port_def iperf_bitrate_def iperf_streams_def iperf_source_def
  nonzero_u16_def nonzero_u64_def IperfLimit_time_def IperfLimit_bytes_def

lemma Iperf3_from_host_ok: "iperf_ok (Iperf3_from_host h l) \<longleftrightarrow> limit_ok l"
  by (cases h) (simp_all add: Iperf3_from_host_def iperf_ok_def family_of_host_def)

lemma iperf_ip_version_Inr:
  "iperf_ip_version v q = Inr r \<longleftrightarrow> r = q\<lparr>pf_ip_version := v\<rparr>
     \<and> opt_all (\<lambda>f. f = version_family v) (family_of_host (pf_host q))
     \<and> opt_all (source_of_family (version_family v)) (pf_source q)"
  by (auto simp: iperf_ip_version_def Let_def res_simps)

text \<open>Each builder method keeps the invariant.\<close>

lemma ping_built_ok: "ping_built tool f p \<Longrightarrow> ping_ok f p"
  by (induction rule: ping_built.induct)
    (auto simp: ping_defs ping_ok_def res_simps MIN_PACKET_SIZE_def DEFAULT_PING_COUNT_def)

lemma traceroute_built_ok: "traceroute_built t \<Longrightarrow> traceroute_ok t"
  by (induction rule: traceroute_built.induct)
    (auto simp: trace_defs traceroute_ok_def res_simps family_of_host_def)

lemma iperf_built_ok: "iperf_built q \<Longrightarrow> iperf_ok q"
proof (induction rule: iperf_built.induct)
  case (Iperf_version q v r)
  then show ?case by (simp add: iperf_ip_version_Inr) (simp add: iperf_ok_def)
qed (auto simp: iperf_defs Iperf3_from_host_ok res_simps, auto simp: iperf_ok_def)

text \<open>Conversely every request that satisfies the invariant can be built.\<close>

lemma ping_ok_built: "ping_ok f p \<Longrightarrow> ping_built tool f p"
proof -
  assume ok: "ping_ok f p"
  obtain host count size sequence source tos ttl where p: "p = \<lparr>pg_host = host, pg_count = count,
      pg_packet_size = size, pg_sequence_id = sequence, pg_source = source, pg_tos = tos, pg_ttl = ttl\<rparr>"
    by (cases p)
  let ?p = "\<lambda>count size sequence source tos ttl. \<lparr>pg_host = host, pg_count = count,
      pg_packet_size = size, pg_sequence_id = sequence, pg_source = source, pg_tos = tos, pg_ttl = ttl\<rparr>"
  have "ping_built tool f (?p DEFAULT_PING_COUNT None None None None None)"
    using ok by (intro Ping_from [where host = host]) (simp add: ping_defs ping_ok_def p res_simps)
  then have "ping_built tool f (?p count None None None None None)"
    by (rule Ping_count [where n = count]) (use ok in \<open>simp add: ping_defs ping_ok_def p res_simps\<close>)
  then have "ping_built tool f (?p count size None None None None)"
    by - (cases size, simp, erule Ping_size [where n = "the size"], use ok in \<open>simp add: ping_defs ping_ok_def p res_simps MIN_PACKET_SIZE_def\<close>)
  then have "ping_built tool f (?p count size sequence None None None)"
    by - (cases sequence, simp, drule Ping_sequence [where n = "the sequence"], simp add: ping_defs)
  then have "ping_built tool f (?p count size sequence source None None)"
    by - (cases source, simp, erule Ping_source [where src = "the source"], use ok in \<open>simp add: ping_defs ping_ok_def p res_simps\<close>)
  then have "ping_built tool f (?p count size sequence source tos None)"
    by - (cases tos, simp, erule Ping_tos [where m = "the tos"], use ok in \<open>simp add: ping_defs ping_ok_def p res_simps\<close>)
  then have "ping_built tool f (?p count size sequence source tos ttl)"
    by - (cases ttl, simp, erule Ping_ttl [where m = "the ttl"], use ok in \<open>simp add: ping_defs ping_ok_def p res_simps\<close>)
  then show ?thesis by (simp add: p)
qed

lemma traceroute_ok_built: "traceroute_ok t \<Longrightarrow> traceroute_built t"
proof -
  assume ok: "traceroute_ok t"
  obtain host count interval wait size hops port source protocol tos where
    t: "t = \<lparr>tr_host = host, tr_count = count, tr_interval = interval, tr_wait_time = wait, tr_packet_size = size,
      tr_max_ttl = hops, tr_port = port, tr_source = source, tr_protocol = protocol, tr_tos = tos\<rparr>"
    by (cases t)
  let ?t = "\<lambda>count interval wait size hops port source protocol tos.
    \<lparr>tr_host = host, tr_count = count, tr_interval = interval, tr_wait_time = wait, tr_packet_size = size,
      tr_max_ttl = hops, tr_port = port, tr_source = source, tr_protocol = protocol, tr_tos = tos\<rparr>"
  note simps = trace_defs traceroute_ok_def t res_simps family_of_host_def
  have "traceroute_built (?t None None None None None None None TraceUdp None)"
    using Trace_from [of host] by (simp add: trace_defs)
  then have "traceroute_built (?t None None None None None None None protocol None)"
    by (rule Trace_protocol [where pr = protocol]) (simp add: simps)
  then have "traceroute_built (?t None None None size None None None protocol None)"
    by - (cases size, simp, erule Trace_size [where n = "the size"], use ok in \<open>simp add: simps\<close>)
  then have "traceroute_built (?t count None None size None None None protocol None)"
    by - (cases count, simp, erule Trace_count [where m = "the count"], use ok in \<open>simp add: simps\<close>)
  then have "traceroute_built (?t count interval None size None None None protocol None)"
    by - (cases interval, simp, erule Trace_interval [where m = "the interval"], use ok in \<open>simp add: simps\<close>)
  then have "traceroute_built (?t count interval wait size None None None protocol None)"
    by - (cases wait, simp, erule Trace_wait [where m = "the wait"], use ok in \<open>simp add: simps\<close>)
  then have "traceroute_built (?t count interval wait size hops None None protocol None)"
    by - (cases hops, simp, erule Trace_ttl [where m = "the hops"], use ok in \<open>simp add: simps\<close>)
  then have "traceroute_built (?t count interval wait size hops port None protocol None)"
    by - (cases port, simp, erule Trace_port [where n = "the port"], use ok in \<open>simp add: simps\<close>)
  then have "traceroute_built (?t count interval wait size hops port source protocol None)"
    by - (cases source, simp, erule Trace_source [where src = "the source"], use ok in \<open>simp add: simps\<close>)
  then have "traceroute_built (?t count interval wait size hops port source protocol tos)"
    by - (cases tos, simp, drule Trace_tos [where m = "the tos"], simp add: trace_defs)
  then show ?thesis by (simp add: t)
qed

lemma iperf_built_start: "limit_ok l \<Longrightarrow> iperf_built (Iperf3_from_host host l)"
  by (cases l) (auto intro: Iperf_from_time Iperf_from_bytes simp: iperf_defs res_simps)

lemma iperf_ok_built: "iperf_ok q \<Longrightarrow> iperf_built q"
proof -
  assume ok: "iperf_ok q"
  obtain host v protocol dir port bitrate streams limit source where
    q: "q = \<lparr>pf_host = host, pf_ip_version = v, pf_protocol = protocol, pf_direction = dir, pf_port = port,
      pf_bitrate = bitrate, pf_streams = streams, pf_limit = limit, pf_source = source\<rparr>"
    by (cases q)
  let ?q = "\<lambda>protocol dir port bitrate streams source.
    \<lparr>pf_host = host, pf_ip_version = v, pf_protocol = protocol, pf_direction = dir, pf_port = port,
      pf_bitrate = bitrate, pf_streams = streams, pf_limit = limit, pf_source = source\<rparr>"
  note simps = iperf_defs iperf_ok_def q res_simps
  have "iperf_built (Iperf3_from_host host limit)"
    using ok by (intro iperf_built_start) (simp add: simps)
  then have "iperf_built (?q IperfTcp Upload None None None None)"
    by (rule Iperf_version [where v = v])
      (use ok in \<open>simp add: iperf_ip_version_Inr Iperf3_from_host_def iperf_ok_def q\<close>)
  then have "iperf_built (?q protocol dir None None None None)"
    by - (drule Iperf_direction [where dir = dir], drule Iperf_protocol [where pr = protocol],
      simp add: iperf_defs)
  then have "iperf_built (?q protocol dir port None None None)"
    by - (cases port, simp, erule Iperf_port [where p = "the port"], use ok in \<open>simp add: simps\<close>)
  then have "iperf_built (?q protocol dir port bitrate None None)"
    by - (cases bitrate, simp, erule Iperf_bitrate [where b = "the bitrate"], use ok in \<open>simp add: simps\<close>)
  then have "iperf_built (?q protocol dir port bitrate streams None)"
    by - (cases streams, simp, erule Iperf_streams [where p = "the streams"], use ok in \<open>simp add: simps\<close>)
  then have "iperf_built (?q protocol dir port bitrate streams source)"
    by - (cases source, simp, erule Iperf_source [where src = "the source"], use ok in \<open>simp add: simps\<close>)
  then show ?thesis by (simp add: q)
qed

text \<open>What the entries of a serialized request say about it.\<close>

lemma show_nat_eq [simp]: "show_nat a = show_nat b \<longleftrightarrow> a = b"
  by (metis option.inject parse_nat_show)

lemma num_value_eq [simp]: "num_value a = num_value b \<longleftrightarrow> a = b" for a b :: "'a::len word"
  by (auto simp: num_value_def word_unat_eq_iff)

lemma map_num_eq [simp]: "map_option num_value x = map_option num_value y \<longleftrightarrow> x = y"
  for x y :: "'a::len word option"
  by (cases x; cases y) auto

lemma map_of_option:
  "x \<noteq> k \<Longrightarrow> map_of (serialize_option k f v @ r) x = map_of r x"
  "map_of r k = None \<Longrightarrow> map_of (serialize_option k f v @ r) k = map_option f v"
  "map_of (serialize_option k f v) x = (if x = k then map_option f v else None)"
  by (auto simp: serialize_option_def split: option.splits)

lemma map_of_source:
  assumes "x \<noteq> ''source-address''" and "x \<noteq> ''source-interface''"
  shows "map_of (serialize_source s v @ r) x = map_of r x"
    and "map_of (serialize_source s v) x = None"
  using assms by (auto simp: serialize_source_def split: option.splits NetworkTestSource.splits)

fun entries :: "Value \<Rightarrow> (string \<times> Value) list" where
  "entries (Object ms) = ms"
| "entries _ = []"

definition source_entry :: "NetworkTestSource option \<Rightarrow> (IpAddr \<Rightarrow> string) \<Rightarrow> Value option \<times> Value option" where
  "source_entry v s =
     (case v of None \<Rightarrow> (None, None) | Some (SourceAddress a) \<Rightarrow> (Some (String (s a)), None)
      | Some (SourceInterface i) \<Rightarrow> (None, Some (String (InterfaceId_as_str i))))"

lemma source_entry_lookup:
  assumes "map_of r ''source-address'' = None" and "map_of r ''source-interface'' = None"
  shows "(map_of (serialize_source s v @ r) ''source-address'', map_of (serialize_source s v @ r) ''source-interface'')
    = source_entry v s"
  using assms by (auto simp: serialize_source_def source_entry_def split: option.splits NetworkTestSource.splits)

lemmas map_of_entries = map_of_option map_of_source

lemma traceroute_lookup:
  fixes t ip_show
  defines "e \<equiv> map_of (entries (Traceroute_serialize ip_show t))"
  shows "e ''host'' = Some (NetworkHost_serialize ip_show (tr_host t))"
    "e ''count'' = map_option num_value (tr_count t)" "e ''interval'' = map_option num_value (tr_interval t)"
    "e ''wait-time'' = map_option num_value (tr_wait_time t)"
    "e ''packetsize'' = map_option num_value (tr_packet_size t)"
    "e ''max-ttl'' = map_option num_value (tr_max_ttl t)" "e ''port'' = map_option num_value (tr_port t)"
    "e ''type'' = Some (String (TracerouteProtocol_wire (tr_protocol t)))"
    "e ''tos'' = map_option num_value (tr_tos t)"
    "(e ''source-address'', e ''source-interface'') = source_entry (tr_source t) ip_show"
  unfolding e_def
  by (simp_all add: Traceroute_serialize_def map_of_entries source_entry_lookup del: map_of_append)

lemma map_of_keywords:
  "k \<notin> {''ipv4'', ''ipv6''} \<Longrightarrow> map_of ((wire_keyword v, x) # r) k = map_of r k"
  "k \<notin> {''tcp'', ''udp''} \<Longrightarrow> map_of ((IperfProtocol_key p, x) # r) k = map_of r k"
  "k \<notin> {''time'', ''bytes''} \<Longrightarrow> map_of (IperfLimit_entry l # r) k = map_of r k"
  "map_of ((if b then [(j, x)] else []) @ r) k = (if b \<and> j = k then Some x else map_of r k)"
  "map_of ((wire_keyword v, x) # r) ''ipv4'' = (if v = IperfIpv4 then Some x else map_of r ''ipv4'')"
  "map_of ((IperfProtocol_key p, x) # r) ''tcp'' = (if p = IperfTcp then Some x else map_of r ''tcp'')"
  "map_of (IperfLimit_entry l # r) ''time'' = (case l of LimitTime n \<Rightarrow> Some (num_value n) | _ \<Rightarrow> map_of r ''time'')"
  "map_of (IperfLimit_entry l # r) ''bytes'' = (case l of LimitBytes n \<Rightarrow> Some (num_value n) | _ \<Rightarrow> map_of r ''bytes'')"
  "map_of ((''host'', x) # r) k = (if k = ''host'' then Some x else map_of r k)"
  by (cases v; cases p; cases l; simp)+

lemma iperf_lookup:
  fixes q ip_show
  defines "e \<equiv> map_of (entries (Iperf3_serialize ip_show q))"
  shows "e ''host'' = Some (NetworkHost_serialize ip_show (pf_host q))"
    "e ''ipv4'' = (if pf_ip_version q = IperfIpv4 then Some (Bool True) else None)"
    "e ''tcp'' = (if pf_protocol q = IperfTcp then Some (Bool True) else None)"
    "e ''reverse'' = (if pf_direction q = Download then Some (Bool True) else None)"
    "e ''port'' = map_option num_value (pf_port q)" "e ''bitrate'' = map_option num_value (pf_bitrate q)"
    "e ''streams'' = map_option num_value (pf_streams q)"
    "e ''time'' = (case pf_limit q of LimitTime n \<Rightarrow> Some (num_value n) | LimitBytes _ \<Rightarrow> None)"
    "e ''bytes'' = (case pf_limit q of LimitTime _ \<Rightarrow> None | LimitBytes n \<Rightarrow> Some (num_value n))"
    "(e ''source-address'', e ''source-interface'') = source_entry (pf_source q) ip_show"
  unfolding e_def
  by (simp_all add: Iperf3_serialize_def map_of_entries map_of_keywords
      source_entry_lookup [where r = "[]", simplified] split: IperfLimit.split del: map_of_append map_of.simps(2))

context ip_text
begin

lemma ip_show_inj: "ip_show a = ip_show b \<longleftrightarrow> a = b"
  by (metis ip_parse_show option.inject)

lemma host_display_inj:
  assumes "host_ok ip_parse g" and "host_ok ip_parse h"
  shows "NetworkHost_display ip_show g = NetworkHost_display ip_show h \<longleftrightarrow> g = h"
  using wire_value.display_inj [OF host_wire assms] by blast

lemma source_entry_inj: "source_entry v ip_show = source_entry w ip_show \<Longrightarrow> v = w"
  by (auto simp: source_entry_def ip_show_inj InterfaceId.expand split: option.splits NetworkTestSource.splits)

lemma Traceroute_serialize_inj:
  assumes "Traceroute_serialize ip_show t = Traceroute_serialize ip_show u"
  shows "NetworkHost_display ip_show (tr_host t) = NetworkHost_display ip_show (tr_host u)"
    and "u = t\<lparr>tr_host := tr_host u\<rparr>"
proof -
  note look = traceroute_lookup [of ip_show t] traceroute_lookup [of ip_show u, folded assms]
  show "NetworkHost_display ip_show (tr_host t) = NetworkHost_display ip_show (tr_host u)"
    using look(1,11) by (simp add: NetworkHost_serialize_def)
  have "tr_protocol t = tr_protocol u"
    using look(8,18) by (cases "tr_protocol t"; cases "tr_protocol u") simp_all
  moreover have "tr_source t = tr_source u"
    using look(10,20) source_entry_inj by metis
  moreover have "tr_count t = tr_count u" "tr_interval t = tr_interval u" "tr_wait_time t = tr_wait_time u"
      "tr_packet_size t = tr_packet_size u" "tr_max_ttl t = tr_max_ttl u" "tr_port t = tr_port u" "tr_tos t = tr_tos u"
    using look(2-7,9,12-17,19) by simp_all
  ultimately show "u = t\<lparr>tr_host := tr_host u\<rparr>" by (intro Traceroute.equality) simp_all
qed

lemma Iperf3_serialize_inj:
  assumes "Iperf3_serialize ip_show t = Iperf3_serialize ip_show u"
  shows "NetworkHost_display ip_show (pf_host t) = NetworkHost_display ip_show (pf_host u)"
    and "u = t\<lparr>pf_host := pf_host u\<rparr>"
proof -
  note look = iperf_lookup [of ip_show t] iperf_lookup [of ip_show u, folded assms]
  show "NetworkHost_display ip_show (pf_host t) = NetworkHost_display ip_show (pf_host u)"
    using look(1,11) by (simp add: NetworkHost_serialize_def)
  have "pf_ip_version t = pf_ip_version u"
    using look(2,12) by (cases "pf_ip_version t"; cases "pf_ip_version u") simp_all
  moreover have "pf_protocol t = pf_protocol u"
    using look(3,13) by (cases "pf_protocol t"; cases "pf_protocol u") simp_all
  moreover have "pf_direction t = pf_direction u"
    using look(4,14) by (cases "pf_direction t"; cases "pf_direction u") simp_all
  moreover have "pf_limit t = pf_limit u"
    using look(8,9,18,19) by (cases "pf_limit t"; cases "pf_limit u") simp_all
  moreover have "pf_source t = pf_source u"
    using look(10,20) source_entry_inj by metis
  moreover have "pf_port t = pf_port u" "pf_bitrate t = pf_bitrate u" "pf_streams t = pf_streams u"
    using look(5-7,15-17) by simp_all
  ultimately show "u = t\<lparr>pf_host := pf_host u\<rparr>" by (intro Iperf3.equality) simp_all
qed

lemma Traceroute_serialize_iff:
  "Traceroute_serialize ip_show t = Traceroute_serialize ip_show u \<longleftrightarrow>
     NetworkHost_display ip_show (tr_host t) = NetworkHost_display ip_show (tr_host u) \<and> u = t\<lparr>tr_host := tr_host u\<rparr>"
proof (intro iffI conjI)
  assume "NetworkHost_display ip_show (tr_host t) = NetworkHost_display ip_show (tr_host u) \<and> u = t\<lparr>tr_host := tr_host u\<rparr>"
  then obtain h where "u = t\<lparr>tr_host := h\<rparr>" "NetworkHost_display ip_show (tr_host t) = NetworkHost_display ip_show h"
    by (metis Traceroute.select_convs(1) Traceroute.update_convs(1) Traceroute.surjective)
  then show "Traceroute_serialize ip_show t = Traceroute_serialize ip_show u"
    by (simp add: Traceroute_serialize_def NetworkHost_serialize_def)
qed (use Traceroute_serialize_inj in blast)+

lemma Iperf3_serialize_iff:
  "Iperf3_serialize ip_show t = Iperf3_serialize ip_show u \<longleftrightarrow>
     NetworkHost_display ip_show (pf_host t) = NetworkHost_display ip_show (pf_host u) \<and> u = t\<lparr>pf_host := pf_host u\<rparr>"
proof (intro iffI conjI)
  assume "NetworkHost_display ip_show (pf_host t) = NetworkHost_display ip_show (pf_host u) \<and> u = t\<lparr>pf_host := pf_host u\<rparr>"
  then obtain h where "u = t\<lparr>pf_host := h\<rparr>" "NetworkHost_display ip_show (pf_host t) = NetworkHost_display ip_show h"
    by (metis Iperf3.select_convs(1) Iperf3.update_convs(1) Iperf3.surjective)
  then show "Iperf3_serialize ip_show t = Iperf3_serialize ip_show u"
    by (simp add: Iperf3_serialize_def NetworkHost_serialize_def)
qed (use Iperf3_serialize_inj in blast)+

lemma parsed_display_inj:
  assumes "NetworkHost_from_str ip_parse a = Inr g" and "NetworkHost_from_str ip_parse b = Inr h"
  shows "NetworkHost_display ip_show g = NetworkHost_display ip_show h \<longleftrightarrow> g = h"
  using host_display_inj wire_value.parse_valid [OF host_wire] assms by metis

end

section \<open>Properties\<close>

text \<open>C30: the network test requests that the public constructors and setters can produce are exactly
  the ones whose addresses agree in family and whose options lie in the documented ranges.\<close>

theorem network_requests_exact:
  "(ping_built PING_ENDPOINT Ipv4 p \<longleftrightarrow> ping_ok Ipv4 p) \<and> (ping_built PING6_ENDPOINT Ipv6 p \<longleftrightarrow> ping_ok Ipv6 p)
   \<and> (traceroute_built t \<longleftrightarrow> traceroute_ok t) \<and> (iperf_built q \<longleftrightarrow> iperf_ok q)"
  using ping_built_ok ping_ok_built traceroute_built_ok traceroute_ok_built iperf_built_ok iperf_ok_built
  by blast

text \<open>C31: two traceroute requests, or two iPerf3 requests, have the same JSON body exactly when they
  agree in every option and their hosts print the same: no option is dropped, merged or overwritten
  on the wire. A host that was parsed from text is determined by what it prints, so that the body then
  determines the request; only hosts put together by hand can collide, as the name \<open>192.0.2.1\<close>
  and the address \<open>192.0.2.1\<close> do.\<close>

theorem request_bodies_injective:
  assumes "ip_text ip_parse ip_show"
  shows "(Traceroute_serialize ip_show t = Traceroute_serialize ip_show u \<longleftrightarrow>
        NetworkHost_display ip_show (tr_host t) = NetworkHost_display ip_show (tr_host u) \<and> u = t\<lparr>tr_host := tr_host u\<rparr>)
    \<and> (Iperf3_serialize ip_show q = Iperf3_serialize ip_show r \<longleftrightarrow>
        NetworkHost_display ip_show (pf_host q) = NetworkHost_display ip_show (pf_host r) \<and> r = q\<lparr>pf_host := pf_host r\<rparr>)
    \<and> (\<forall>a b g h. NetworkHost_from_str ip_parse a = Inr g \<and> NetworkHost_from_str ip_parse b = Inr h \<longrightarrow>
        (NetworkHost_display ip_show g = NetworkHost_display ip_show h \<longleftrightarrow> g = h))"
  using ip_text.Traceroute_serialize_iff [OF assms] ip_text.Iperf3_serialize_iff [OF assms]
    ip_text.parsed_display_inj [OF assms]
  by blast

theorem request_bodies_injective_witness:
  "Traceroute_serialize ref_ip_show (Traceroute_from_host (Address (V4 (Ipv4Addr 192 0 2 1))))
     \<noteq> Traceroute_serialize ref_ip_show (Traceroute_from_host (Address (V4 (Ipv4Addr 192 0 2 2))))
   \<and> Traceroute_serialize ref_ip_show (Traceroute_from_host (Address (V4 (Ipv4Addr 192 0 2 1))))
     = Traceroute_serialize ref_ip_show (Traceroute_from_host (Name (ref_ip_show (V4 (Ipv4Addr 192 0 2 1)))))"
proof -
  let ?t = "\<lambda>h. Traceroute_from_host h"
  have "ip_text ref_ip_parse ref_ip_show" by unfold_locales
  note bodies = request_bodies_injective [OF this, THEN conjunct1]
  have "ref_ip_show (V4 (Ipv4Addr 192 0 2 1)) \<noteq> ref_ip_show (V4 (Ipv4Addr 192 0 2 2))"
    using ip_text.ip_show_inj [OF \<open>ip_text ref_ip_parse ref_ip_show\<close>] by simp
  then show ?thesis unfolding bodies by (simp add: Traceroute_from_host_def)
qed

end
