(* ===== verification/Api.thy ===== *)
theory Api
  imports Network_Session Network_Test Path
begin

text \<open>
  The typed requests of \<open>src/src/request.rs\<close>, the CLI types of \<open>src/src/cli.rs\<close> and the public
  methods of \<open>KeeneticClient\<close> in \<open>src/src/client.rs\<close> that put them on the wire. Response types are
  the type parameter of \<open>json_ops\<close>, the deserializer of the response; \<open>serde_json::to_vec\<close> is
  the parameter \<open>to_vec\<close> and the result of \<open>serde_urlencoded::to_string\<close> an argument.
\<close>

section \<open>Command line\<close>

datatype InvalidCliCommand = CliEmpty | CliControlCharacter

datatype CliCommand = CliCommand (CliCommand_as_str: string)

definition CliCommand_try_from :: "string \<Rightarrow> InvalidCliCommand + CliCommand" where
  "CliCommand_try_from value =
     (if trim value = [] then Inl CliEmpty
      else if has_control value then Inl CliControlCharacter
      else Inr (CliCommand value))"

definition CliCommand_debug :: "CliCommand \<Rightarrow> debug_tree" where
  "CliCommand_debug command = Debug_tuple ''CliCommand'' [Debug_text ''[REDACTED]'']"

definition CliCommand_display :: "CliCommand \<Rightarrow> string" where
  "CliCommand_display command = CliCommand_as_str command"

definition CliCommand_serialize :: "CliCommand \<Rightarrow> Value" where
  "CliCommand_serialize command = String (CliCommand_as_str command)"

definition CliCommand_visit :: "(InvalidCliCommand, CliCommand) visitor" where
  "CliCommand_visit = str_visitor (\<lambda>s. map_err Custom (CliCommand_try_from s))"

lemma trim_Nil [simp]: "trim [] = []"
  by (simp add: trim_empty chars_ascii)

interpretation cli_command: string_value CliCommand_try_from CliCommand_as_str
  "\<lambda>c. trim (CliCommand_as_str c) \<noteq> [] \<and> \<not> has_control (CliCommand_as_str c)"
  by unfold_locales (auto simp: CliCommand_try_from_def split: if_splits)

datatype CliReply = CliReply (CliReply_raw: Value)

text \<open>\<open>Value::get\<close> with a string key.\<close>

fun value_get :: "Value \<Rightarrow> string \<Rightarrow> Value option" where
  "value_get (Object ms) k = map_of ms k"
| "value_get _ k = None"

fun as_array :: "Value \<Rightarrow> Value list option" where
  "as_array (Array vs) = Some vs"
| "as_array _ = None"

definition tty_output :: "CliReply \<Rightarrow> string list" where
  "tty_output reply =
     (case Option.bind (value_get (CliReply_raw reply) ''tty-out'') as_array of
        None \<Rightarrow> []
      | Some vs \<Rightarrow> List.map_filter as_str vs)"

definition prompt :: "CliReply \<Rightarrow> string option" where
  "prompt reply = Option.bind (value_get (CliReply_raw reply) ''prompt'') as_str"

section \<open>Typed requests\<close>

datatype Mode = Get | PostJson string

text \<open>The unit structs of the macro \<open>get_requests\<close>.\<close>

datatype get_request =
    ShowVersion | ShowSystem | ShowInternetStatus | ShowInterfaces | ShowAssociations
  | ShowIpHotspotHosts | ShowIdentification | ShowSystemMode | ShowIpArp | ShowIpDhcpBindings
  | ShowIpRoute | ShowIpv6Route | ShowPingCheck | ShowIpNameServers | ShowNtpStatus
  | ShowMwsStatus | ShowMwsMembers | ShowUsb | ShowMedia

fun get_endpoint :: "get_request \<Rightarrow> string" where
  "get_endpoint ShowVersion = ''show/version''"
| "get_endpoint ShowSystem = ''show/system''"
| "get_endpoint ShowInternetStatus = ''show/internet/status''"
| "get_endpoint ShowInterfaces = ''show/interface''"
| "get_endpoint ShowAssociations = ''show/associations''"
| "get_endpoint ShowIpHotspotHosts = ''show/ip/hotspot''"
| "get_endpoint ShowIdentification = ''show/identification''"
| "get_endpoint ShowSystemMode = ''show/system/mode''"
| "get_endpoint ShowIpArp = ''show/ip/arp''"
| "get_endpoint ShowIpDhcpBindings = ''show/ip/dhcp/bindings''"
| "get_endpoint ShowIpRoute = ''show/ip/route''"
| "get_endpoint ShowIpv6Route = ''show/ipv6/route''"
| "get_endpoint ShowPingCheck = ''show/ping-check''"
| "get_endpoint ShowIpNameServers = ''show/ip/name-server''"
| "get_endpoint ShowNtpStatus = ''show/ntp/status''"
| "get_endpoint ShowMwsStatus = ''show/mws/status''"
| "get_endpoint ShowMwsMembers = ''show/mws/member''"
| "get_endpoint ShowUsb = ''show/usb''"
| "get_endpoint ShowMedia = ''show/media''"

datatype ShowInterfaceStat = ShowInterfaceStat (stat_name: InterfaceId)

definition ShowInterfaceStat_new :: "string \<Rightarrow> InvalidInterfaceId + ShowInterfaceStat" where
  "ShowInterfaceStat_new name = map_res ShowInterfaceStat (InterfaceId_try_from name)"

definition stat_query :: "ShowInterfaceStat \<Rightarrow> (string \<times> string) option" where
  "stat_query r = Some (''name'', InterfaceId_as_str (stat_name r))"

text \<open>The body is serialized once, when the request is created; its \<open>expect\<close> is the \<open>Panic\<close>.\<close>

definition show_interface_body :: "(Value \<Rightarrow> json_error + string) \<Rightarrow> string \<Rightarrow> 'e failure + string" where
  "show_interface_body to_vec name =
     map_err (\<lambda>_. Panic)
       (to_vec (Object [(''show'', Object [(''interface'', Object [(''name'', String name)])])]))"

record InterfaceRequest =
  irq_name :: InterfaceId
  irq_body :: string

definition InterfaceRequest_from_id ::
  "(Value \<Rightarrow> json_error + string) \<Rightarrow> InterfaceId \<Rightarrow> InvalidInterfaceId failure + InterfaceRequest" where
  "InterfaceRequest_from_id to_vec name =
     map_res (\<lambda>body. \<lparr>irq_name = name, irq_body = body\<rparr>)
       (show_interface_body to_vec (InterfaceId_as_str name))"

definition InterfaceRequest_new ::
  "(Value \<Rightarrow> json_error + string) \<Rightarrow> string \<Rightarrow> InvalidInterfaceId failure + InterfaceRequest" where
  "InterfaceRequest_new to_vec name =
     bind_res (map_err Err (InterfaceId_try_from name)) (InterfaceRequest_from_id to_vec)"

text \<open>The implementors of the sealed trait; \<open>ShowInterface\<close> and \<open>ShowLteInterface\<close> differ in their
  response type only.\<close>

datatype rci_request =
    GetRequest get_request
  | StatRequest ShowInterfaceStat
  | ShowInterface InterfaceRequest
  | ShowLteInterface InterfaceRequest

fun request_endpoint :: "rci_request \<Rightarrow> string" where
  "request_endpoint (GetRequest r) = get_endpoint r"
| "request_endpoint (StatRequest r) = ''show/interface/stat''"
| "request_endpoint (ShowInterface r) = []"
| "request_endpoint (ShowLteInterface r) = []"

fun request_mode :: "rci_request \<Rightarrow> Mode" where
  "request_mode (GetRequest r) = Get"
| "request_mode (StatRequest r) = Get"
| "request_mode (ShowInterface r) = PostJson (irq_body r)"
| "request_mode (ShowLteInterface r) = PostJson (irq_body r)"

fun request_query :: "rci_request \<Rightarrow> (string \<times> string) option" where
  "request_query (StatRequest r) = stat_query r"
| "request_query _ = None"

section \<open>Client methods\<close>

definition prepare_request ::
  "('c, 'u, 'h, 'j, 'w) deps \<Rightarrow> ('c, 'u) client \<Rightarrow> rci_request \<Rightarrow> 'u PreparedRequest" where
  "prepare_request d c request =
     (case request_mode request of
        Get \<Rightarrow>
          (case request_query request of
             Some (key, v) \<Rightarrow> prepare_rci_get_pair d c (request_endpoint request) key v
           | None \<Rightarrow> prepare_rci_get d c (request_endpoint request) None)
      | PostJson body \<Rightarrow> prepare_rci_post d c body)"

definition execute ::
  "('c, 'u, 'h, 'j, 'w) deps \<Rightarrow> ('c, 'u) client \<Rightarrow> 't json_ops \<Rightarrow> rci_request
     \<Rightarrow> (('u, 'h, 'j, 'w) session, 't) io" where
  "execute d c ops request = send_json d c ops (prepare_request d c request)"

definition api_get ::
  "('c, 'u, 'h, 'j, 'w) deps \<Rightarrow> ('c, 'u) client \<Rightarrow> 't json_ops \<Rightarrow> RciPath
     \<Rightarrow> (('u, 'h, 'j, 'w) session, 't) io" where
  "api_get d c ops path = send_json d c ops (prepare_rci_get d c (RciPath_as_str path) None)"

definition get_raw ::
  "('c, 'u, 'h, 'j, 'w) deps \<Rightarrow> ('c, 'u) client \<Rightarrow> Value json_ops \<Rightarrow> RciPath
     \<Rightarrow> (('u, 'h, 'j, 'w) session, Value) io" where
  "get_raw d c ops path = api_get d c ops path"

definition get_with_query ::
  "('c, 'u, 'h, 'j, 'w) deps \<Rightarrow> ('c, 'u) client \<Rightarrow> 't json_ops \<Rightarrow> RciPath \<Rightarrow> string + string
     \<Rightarrow> (('u, 'h, 'j, 'w) session, 't) io" where
  "get_with_query d c ops path encoded =
     bind_io (lift_io (map_err (\<lambda>e. QuerySerialization
               \<lparr>qs_context = rci_context GET (RciPath_as_str path), qs_source = e\<rparr>) encoded)) (\<lambda>query.
     send_json d c ops (prepare_rci_get d c (RciPath_as_str path) (Some query)))"

definition get_text ::
  "('c, 'u, 'h, 'j, 'w) deps \<Rightarrow> ('c, 'u) client \<Rightarrow> RciPath \<Rightarrow> (('u, 'h, 'j, 'w) session, string) io" where
  "get_text d c path = send_text d c (prepare_rci_get d c (RciPath_as_str path) None)"

definition get_ci_text ::
  "('c, 'u, 'h, 'j, 'w) deps \<Rightarrow> ('c, 'u) client \<Rightarrow> CiPath \<Rightarrow> (('u, 'h, 'j, 'w) session, string) io" where
  "get_ci_text d c path = send_text d c (prepare_ci_get d c (CiPath_as_str path))"

definition post_at_path ::
  "('c, 'u, 'h, 'j, 'w) deps \<Rightarrow> ('c, 'u) client \<Rightarrow> 't json_ops \<Rightarrow> string \<Rightarrow> json_error + string
     \<Rightarrow> (('u, 'h, 'j, 'w) session, 't) io" where
  "post_at_path d c ops path body =
     bind_io (lift_io (map_err (\<lambda>e. JsonSerialization
               \<lparr>js_context = rci_context POST path, js_source = e\<rparr>) body)) (\<lambda>body.
     send_json d c ops (prepare_rci_post_at d c path body))"

definition post :: "('c, 'u, 'h, 'j, 'w) deps \<Rightarrow> ('c, 'u) client \<Rightarrow> 't json_ops \<Rightarrow> json_error + string
     \<Rightarrow> (('u, 'h, 'j, 'w) session, 't) io" where
  "post d c ops body = post_at_path d c ops [] body"

definition post_raw :: "('c, 'u, 'h, 'j, 'w) deps \<Rightarrow> ('c, 'u) client \<Rightarrow> Value json_ops \<Rightarrow> json_error + string
     \<Rightarrow> (('u, 'h, 'j, 'w) session, Value) io" where
  "post_raw d c ops body = post d c ops body"

definition post_at :: "('c, 'u, 'h, 'j, 'w) deps \<Rightarrow> ('c, 'u) client \<Rightarrow> 't json_ops \<Rightarrow> RciPath
     \<Rightarrow> json_error + string \<Rightarrow> (('u, 'h, 'j, 'w) session, 't) io" where
  "post_at d c ops path body = post_at_path d c ops (RciPath_as_str path) body"

definition post_at_raw :: "('c, 'u, 'h, 'j, 'w) deps \<Rightarrow> ('c, 'u) client \<Rightarrow> Value json_ops \<Rightarrow> RciPath
     \<Rightarrow> json_error + string \<Rightarrow> (('u, 'h, 'j, 'w) session, Value) io" where
  "post_at_raw d c ops path body = post_at d c ops path body"

definition execute_cli_as ::
  "('c, 'u, 'h, 'j, 'w) deps \<Rightarrow> ('c, 'u) client \<Rightarrow> (Value \<Rightarrow> json_error + string) \<Rightarrow> 't json_ops \<Rightarrow> CliCommand
     \<Rightarrow> (('u, 'h, 'j, 'w) session, 't) io" where
  "execute_cli_as d c to_vec ops command =
     post_at_path d c ops ''parse'' (to_vec (CliCommand_serialize command))"

definition execute_cli ::
  "('c, 'u, 'h, 'j, 'w) deps \<Rightarrow> ('c, 'u) client \<Rightarrow> (Value \<Rightarrow> json_error + string) \<Rightarrow> CliReply json_ops
     \<Rightarrow> CliCommand \<Rightarrow> (('u, 'h, 'j, 'w) session, CliReply) io" where
  "execute_cli d c to_vec ops command = execute_cli_as d c to_vec ops command"

section \<open>Network tests\<close>

datatype network_test_request =
    PingTest PingParameters
  | Ping6Test PingParameters
  | TracerouteTest Traceroute
  | IperfTest Iperf3

fun test_endpoint :: "network_test_request \<Rightarrow> string" where
  "test_endpoint (PingTest _) = PING_ENDPOINT"
| "test_endpoint (Ping6Test _) = PING6_ENDPOINT"
| "test_endpoint (TracerouteTest _) = TRACEROUTE_ENDPOINT"
| "test_endpoint (IperfTest _) = IPERF3_ENDPOINT"

fun test_value :: "(IpAddr \<Rightarrow> string) \<Rightarrow> network_test_request \<Rightarrow> Value" where
  "test_value ip_show (PingTest p) = PingParameters_serialize ip_show p"
| "test_value ip_show (Ping6Test p) = PingParameters_serialize ip_show p"
| "test_value ip_show (TracerouteTest t) = Traceroute_serialize ip_show t"
| "test_value ip_show (IperfTest q) = Iperf3_serialize ip_show q"

definition start_network_test ::
  "('c, 'u, 'h, 'j, 'w) deps \<Rightarrow> ('c, 'u) client \<Rightarrow> (Value \<Rightarrow> json_error + string) \<Rightarrow> (IpAddr \<Rightarrow> string)
     \<Rightarrow> NetworkTestResponse json_ops \<Rightarrow> 'w clock_ops \<Rightarrow> network_test_request
     \<Rightarrow> (('u, 'h, 'j, 'w) session, NetworkTestSession) io" where
  "start_network_test d c to_vec ip_show ops k request =
     (let ep = test_endpoint request in
      bind_io (lift_io (map_err (\<lambda>e. JsonSerialization \<lparr>js_context = rci_context POST ep, js_source = e\<rparr>)
                (to_vec (test_value ip_show request)))) (\<lambda>body.
      bind_io (send_json d c ops (prepare_rci_post_at d c ep body)) (\<lambda>response s.
      return_io (NetworkTestSession_new k ep response s) s)))"

definition run_network_test ::
  "('c, 'u, 'h, 'j, 'w) deps \<Rightarrow> ('c, 'u) client \<Rightarrow> (Value \<Rightarrow> json_error + string) \<Rightarrow> (IpAddr \<Rightarrow> string)
     \<Rightarrow> NetworkTestResponse json_ops \<Rightarrow> 'w clock_ops \<Rightarrow> network_test_request
     \<Rightarrow> ('u, 'h, 'j, 'w) session
     \<Rightarrow> ((Error failure + NetworkTestOutput) \<times> ('u, 'h, 'j, 'w) session) option" where
  "run_network_test d c to_vec ip_show ops k request s =
     (case start_network_test d c to_vec ip_show ops k request s of
        (Inl e, s) \<Rightarrow> Some (Inl e, s)
      | (Inr n, s) \<Rightarrow> map_option (\<lambda>(result, _, s). (result, s)) (collect_output d c ops k n s))"

section \<open>Lemmas\<close>

text \<open>Decoding the response does not touch the wire.\<close>

lemma send_successful_run:
  assumes "send_successful d c req s = (r, t)"
  shows "\<exists>r'. send_authenticated d c req s = (r', t)"
  using assms
  by (auto simp: send_successful_def bind_io_def fail_io_def return_io_def split: prod.splits sum.splits if_splits)

lemma send_json_run:
  assumes "send_json d c ops req s = (r, t)"
  shows "\<exists>r'. send_authenticated d c req s = (r', t)"
  using assms
  by (auto simp: send_json_def bind_io_def lift_io_def split: prod.splits sum.splits
      dest!: send_successful_run)

definition confined :: "'u PreparedRequest \<Rightarrow> ('u, 'h) event list \<Rightarrow> bool" where
  "confined req es \<longleftrightarrow> es \<noteq> [] \<and> fst (hd es) = req
     \<and> list_all (\<lambda>e. fst e = req \<or> rc_endpoint (pr_context (fst e)) = AUTH_ENDPOINT) es"

lemma login_dialogue_auth:
  "login_dialogue d c k es r \<Longrightarrow> list_all (\<lambda>e. rc_endpoint (pr_context (fst e)) = AUTH_ENDPOINT) es"
  by (drule login_dialogue_shape) (auto simp: prepare_auth_def prepare_def RequestContext_new_def Let_def)

lemma request_dialogue_confined:
  assumes "request_dialogue d c req es r"
  shows "confined req es"
proof -
  have login: "list_all (\<lambda>e. fst e = req \<or> rc_endpoint (pr_context (fst e)) = AUTH_ENDPOINT) ls"
    if "login_dialogue d c k ls out" for k ls out
    using login_dialogue_auth [OF that] by (rule list.pred_mono_strong) simp
  from assms show ?thesis
    by (cases rule: request_dialogue_shape) (auto simp: confined_def dest: login)
qed

lemma send_json_confined:
  assumes "auth_inv s" and "send_json d c ops req s = (r, t)"
  shows "\<exists>es. log t = log s @ es \<and> confined req es"
  using send_json_run [OF assms(2)] send_authenticated_dialogue [OF assms(1)] request_dialogue_confined by metis

text \<open>The prepared request spelled out.\<close>

definition wire_form ::
  "('c, 'u, 'h, 'j, 'w) deps \<Rightarrow> ('c, 'u) client \<Rightarrow> Method \<Rightarrow> string \<Rightarrow> (string \<times> string) option \<Rightarrow> string option
     \<Rightarrow> 'u PreparedRequest" where
  "wire_form d c verb ep query body =
     (let url = d_set_path d (base_url c) ep;
          url = (if verb = GET then d_set_query d url None else url);
          url = (case query of None \<Rightarrow> url | Some (k, v) \<Rightarrow> d_append_pair d url k v)
      in \<lparr>pr_context = \<lparr>rc_method = verb, rc_endpoint = ep\<rparr>, pr_url = url, pr_body = body\<rparr>)"

lemmas prepare_defs = prepare_rci_get_pair_def prepare_rci_get_def prepare_get_def prepare_rci_post_def
  prepare_rci_post_at_def prepare_def endpoint_def endpoint_url_def RequestContext_new_def

lemma prepare_request_wire:
  "prepare_request d c request =
     (case request of
        GetRequest g \<Rightarrow> wire_form d c GET (''/rci/'' @ get_endpoint g) None None
      | StatRequest r \<Rightarrow> wire_form d c GET ''/rci/show/interface/stat'' (Some (''name'', InterfaceId_as_str (stat_name r))) None
      | ShowInterface r \<Rightarrow> wire_form d c POST ''/rci/'' None (Some (irq_body r))
      | ShowLteInterface r \<Rightarrow> wire_form d c POST ''/rci/'' None (Some (irq_body r)))"
  by (cases request) (simp_all add: prepare_request_def prepare_defs wire_form_def Let_def stat_query_def)

text \<open>Every fixed endpoint is a canonical relative path.\<close>

lemma get_endpoint_canonical:
  "RciPath_from_str rfc_decode rfc_encode (get_endpoint g) = Inr (RciPath (get_endpoint g))"
  by (cases g; simp only:; code_simp)

lemma start_network_test_run:
  assumes "auth_inv s" and "start_network_test d c to_vec ip_show ops k request s = (Inr n, u)"
  obtains body first es where "to_vec (test_value ip_show request) = Inr body"
    and "log u = log s @ es" and "confined (prepare_rci_post_at d c (test_endpoint request) body) es"
    and "n = NetworkTestSession_new k (test_endpoint request) first u"
proof -
  from assms(2) obtain body first where body: "to_vec (test_value ip_show request) = Inr body"
    and send: "send_json d c ops (prepare_rci_post_at d c (test_endpoint request) body) s = (Inr first, u)"
    and n: "n = NetworkTestSession_new k (test_endpoint request) first u"
    by (auto simp: start_network_test_def Let_def bind_io_Inr lift_io_def return_io_def res_simps)
  obtain es where "log u = log s @ es" "confined (prepare_rci_post_at d c (test_endpoint request) body) es"
    using send_json_confined [OF assms(1) send] by blast
  with body n show thesis using that by blast
qed

section \<open>Properties\<close>

text \<open>C11: executing a typed request puts exactly its own request line on the wire first and nothing but
  it and the login exchange afterwards: the verb, the endpoint below \<open>/rci/\<close>, the interface name
  as the only query parameter, and a body only for the interface commands. Every fixed endpoint is a
  canonical path.\<close>

theorem execute_on_the_wire:
  assumes "auth_inv s" and "execute d c ops request s = (result, t)"
  shows "\<exists>es. log t = log s @ es \<and> confined
    (case request of
        GetRequest g \<Rightarrow> wire_form d c GET (''/rci/'' @ get_endpoint g) None None
      | StatRequest r \<Rightarrow> wire_form d c GET ''/rci/show/interface/stat'' (Some (''name'', InterfaceId_as_str (stat_name r))) None
      | ShowInterface r \<Rightarrow> wire_form d c POST ''/rci/'' None (Some (irq_body r))
      | ShowLteInterface r \<Rightarrow> wire_form d c POST ''/rci/'' None (Some (irq_body r))) es
    \<and> RciPath_from_str rfc_decode rfc_encode (get_endpoint g) = Inr (RciPath (get_endpoint g))"
  using send_json_confined [OF assms(1) assms(2) [unfolded execute_def]] get_endpoint_canonical [of g]
  by (simp add: prepare_request_wire)

theorem execute_on_the_wire_witness:
  "\<exists>t es. log t = es \<and> confined (wire_form script_deps script_client GET ''/rci/show/version'' None None) es
     \<and> execute script_deps script_client empty_object_ops (GetRequest ShowVersion) (script_session login_script) = (Inr (), t)"
proof -
  let ?run = "execute script_deps script_client empty_object_ops (GetRequest ShowVersion) (script_session login_script)"
  have "fst ?run = Inr ()" by code_simp
  then obtain t where t: "?run = (Inr (), t)" by (metis prod.collapse)
  have "auth_inv (script_session login_script)" by (simp add: auth_inv_def script_session_def)
  from execute_on_the_wire [OF this t, of ShowVersion] t show ?thesis
    by (auto simp: script_session_def)
qed

text \<open>A completed network test: the request body is posted to the endpoint of the tool, and the
  collected output is the messages of all the responses in order, from the reply to the POST to the
  first response without the \<open>continued\<close> marker.\<close>

theorem run_network_test_complete:
  assumes "auth_inv s" and "run_network_test d c to_vec ip_show ops k request s = Some (Inr out, t)"
  shows "\<exists>body es (first :: NetworkTestResponse) rs. to_vec (test_value ip_show request) = Inr body
    \<and> log (snd (start_network_test d c to_vec ip_show ops k request s)) = log s @ es \<and> confined (prepare_rci_post_at d c (test_endpoint request) body) es
    \<and> lines out = concat (map nr_message (first # rs))
    \<and> list_all nr_continued (butlast (first # rs)) \<and> \<not> nr_continued (last (first # rs))"
proof -
  from assms(2) obtain n u n' where start: "start_network_test d c to_vec ip_show ops k request s = (Inr n, u)"
    and collect: "collect_output d c ops k n u = Some (Inr out, n', t)"
    by (auto simp: run_network_test_def split: prod.splits sum.splits)
  obtain body first es where *: "to_vec (test_value ip_show request) = Inr body" "log u = log s @ es"
    "confined (prepare_rci_post_at d c (test_endpoint request) body) es"
    and n: "n = NetworkTestSession_new k (test_endpoint request) first u"
    using start_network_test_run [OF assms(1) start] by blast
  have fresh: "unread n = nr_message first" "ns_continued n = nr_continued first"
    by (auto simp: n NetworkTestSession_new_def into_parts_def unread_def)
  obtain rs where "is_finished n'" "received_between n n' rs" "lines out = unread n @ messages rs"
    using collect_loop_spec [OF collect [unfolded collect_output_def]] by auto
  then have "lines out = concat (map nr_message (first # rs))"
      "list_all nr_continued (butlast (first # rs))" "\<not> nr_continued (last (first # rs))"
    using fresh by (auto simp: messages_def received_between_def is_finished_def split: if_splits)
  with * show ?thesis unfolding start snd_conv
    by blast
qed

definition test_ping :: network_test_request where
  "test_ping = PingTest \<lparr>pg_host = Name ''router'', pg_count = 5, pg_packet_size = None,
     pg_sequence_id = None, pg_source = None, pg_tos = None, pg_ttl = None\<rparr>"

lemma test_ping_post:
  "fst (send_json timed_deps script_client test_ops
     (prepare_rci_post_at timed_deps script_client ''tools/ping'' ''{}'') test_session)
   = Inr \<lparr>nr_message = [''hop 2''], nr_continued = False\<rparr>"
  by code_simp

lemma test_ping_run:
  "\<exists>t. run_network_test timed_deps script_client (\<lambda>_. Inr ''{}'') ref_ip_show test_ops timed_clock test_ping test_session
     = Some (Inr \<lparr>lines = [''hop 2'']\<rparr>, t)"
proof -
  obtain u where send: "send_json timed_deps script_client test_ops
      (prepare_rci_post_at timed_deps script_client ''tools/ping'' ''{}'') test_session
      = (Inr \<lparr>nr_message = [''hop 2''], nr_continued = False\<rparr>, u)"
    using test_ping_post by (metis prod.collapse)
  let ?n = "NetworkTestSession_new timed_clock ''tools/ping'' \<lparr>nr_message = [''hop 2''], nr_continued = False\<rparr> u"
  have start: "start_network_test timed_deps script_client (\<lambda>_. Inr ''{}'') ref_ip_show test_ops timed_clock
      test_ping test_session = (Inr ?n, u)"
    by (simp add: start_network_test_def test_ping_def PING_ENDPOINT_def bind_io_def lift_io_def Let_def send return_io_def)
  have "collect_output timed_deps script_client test_ops timed_clock ?n u
      = Some (Inr \<lparr>lines = [''hop 2'']\<rparr>, ?n\<lparr>ns_pending := None\<rparr>, u)"
    unfolding collect_output_def
    by (subst collect_loop_pending [where out = "\<lparr>lines = [''hop 2'']\<rparr>"])
      (simp_all add: NetworkTestSession_new_def into_parts_def collect_loop_done append_to_def)
  then show ?thesis by (simp add: run_network_test_def start)
qed

theorem run_network_test_complete_witness:
  "\<exists>t (first :: NetworkTestResponse) rs. run_network_test timed_deps script_client (\<lambda>_. Inr ''{}'') ref_ip_show test_ops timed_clock test_ping test_session
     = Some (Inr \<lparr>lines = [''hop 2'']\<rparr>, t) \<and> [''hop 2''] = concat (map nr_message (first # rs))"
proof -
  obtain t where t: "run_network_test timed_deps script_client (\<lambda>_. Inr ''{}'') ref_ip_show test_ops timed_clock
      test_ping test_session = Some (Inr \<lparr>lines = [''hop 2'']\<rparr>, t)"
    using test_ping_run by blast
  have "auth_inv test_session" by (simp add: auth_inv_def test_session_def)
  from run_network_test_complete [OF this t] t show ?thesis by auto
qed

end
