(* ===== verification/Calls.thy ===== *)
theory Calls
  imports Wellformed Api
begin

text \<open>
  The typed calls end to end: which response type each request of \<open>src/src/request.rs\<close> has
  (\<open>RciRequest::Response\<close>), and what a caller of \<open>KeeneticClient::execute\<close> holds in its hands when the
  call returns. The associated type is the sum \<open>rci_response\<close> with one constructor per response
  type; \<open>response_deserialize\<close> is the deserializer \<open>execute\<close> is instantiated with.

  How \<open>serde_json\<close> drives a deserializer is the contract \<open>json_reader\<close>: a successful typed read, of
  the bytes or of a \<open>Value\<close>, is the deserializer's result on the tree the JSON text or the value
  denotes. \<open>text_tree\<close> gives the tree of the first JSON value of the bytes and the bytes left.
\<close>

section \<open>The response of each request\<close>

datatype 't rci_response =
    VersionResponse Version
  | SystemResponse System
  | InternetStatusResponse "'t InternetStatus"
  | InterfacesResponse Interfaces
  | AssociationsResponse Associations
  | HotspotResponse IpHotspotHosts
  | IdentificationResponse Identification
  | SystemModeResponse SystemModeStatus
  | ArpResponse IpArp
  | DhcpResponse IpDhcpBindings
  | RoutesResponse IpRoutes
  | Routes6Response Ipv6Routes
  | PingCheckResponse PingCheckProfiles
  | NameServersResponse IpNameServers
  | NtpResponse NtpStatus
  | MwsStatusResponse MwsStatus
  | MwsMembersResponse MwsMembers
  | UsbResponse UsbDevices
  | MediaResponse MediaInventory
  | StatResponse InterfaceStat
  | InterfaceResponse "Interface ShowInterfaceReply"
  | LteInterfaceResponse "MobileInterface ShowInterfaceReply"

fun get_response_deserialize :: "formats \<Rightarrow> 't decode \<Rightarrow> get_request \<Rightarrow> 't rci_response decode" where
  "get_response_deserialize fm dt ShowVersion = de_newtype VersionResponse (de_struct Version_fields 13 Version_visit_map)"
| "get_response_deserialize fm dt ShowSystem = de_newtype SystemResponse (de_struct System_fields 8 System_visit_map)"
| "get_response_deserialize fm dt ShowInternetStatus =
     de_newtype InternetStatusResponse (de_struct InternetStatus_fields 7 (InternetStatus_visit_map dt))"
| "get_response_deserialize fm dt ShowInterfaces = de_newtype InterfacesResponse Interfaces_deserialize"
| "get_response_deserialize fm dt ShowAssociations =
     de_newtype AssociationsResponse (de_struct [''station''] 1 Associations_visit_map)"
| "get_response_deserialize fm dt ShowIpHotspotHosts =
     de_newtype HotspotResponse (de_struct [''host''] 1 (IpHotspotHosts_visit_map fm))"
| "get_response_deserialize fm dt ShowIdentification =
     de_newtype IdentificationResponse (de_struct Identification_fields 5 Identification_visit_map)"
| "get_response_deserialize fm dt ShowSystemMode =
     de_newtype SystemModeResponse (de_struct SystemModeStatus_fields 5 SystemModeStatus_visit_map)"
| "get_response_deserialize fm dt ShowIpArp = de_newtype ArpResponse (IpArp_deserialize fm)"
| "get_response_deserialize fm dt ShowIpDhcpBindings =
     de_newtype DhcpResponse (de_struct [''lease''] 1 (IpDhcpBindings_visit_map fm))"
| "get_response_deserialize fm dt ShowIpRoute = de_newtype RoutesResponse (IpRoutes_deserialize fm)"
| "get_response_deserialize fm dt ShowIpv6Route =
     de_newtype Routes6Response (de_struct [''route6''] 0 (Ipv6Routes_visit_map fm))"
| "get_response_deserialize fm dt ShowPingCheck =
     de_newtype PingCheckResponse (de_struct [''pingcheck''] 0 (PingCheckProfiles_visit_map fm))"
| "get_response_deserialize fm dt ShowIpNameServers =
     de_newtype NameServersResponse (de_struct [''server''] 0 (IpNameServers_visit_map fm))"
| "get_response_deserialize fm dt ShowNtpStatus = de_newtype NtpResponse (de_struct NtpStatus_fields 6 (NtpStatus_visit_map fm))"
| "get_response_deserialize fm dt ShowMwsStatus = de_newtype MwsStatusResponse (de_struct MwsStatus_fields 2 MwsStatus_visit_map)"
| "get_response_deserialize fm dt ShowMwsMembers = de_newtype MwsMembersResponse (MwsMembers_deserialize fm)"
| "get_response_deserialize fm dt ShowUsb = de_newtype UsbResponse (de_struct [''device''] 0 UsbDevices_visit_map)"
| "get_response_deserialize fm dt ShowMedia = de_newtype MediaResponse MediaInventory_deserialize"

fun response_deserialize :: "formats \<Rightarrow> 't decode \<Rightarrow> rci_request \<Rightarrow> 't rci_response decode" where
  "response_deserialize fm dt (GetRequest g) = get_response_deserialize fm dt g"
| "response_deserialize fm dt (StatRequest r) = de_newtype StatResponse (de_struct InterfaceStat_fields 14 InterfaceStat_visit_map)"
| "response_deserialize fm dt (ShowInterface r) =
     de_newtype InterfaceResponse (de_struct [''show''] 1 (ShowInterfaceReply_visit_map (de_struct Interface_fields 11 Interface_visit_map)))"
| "response_deserialize fm dt (ShowLteInterface r) =
     de_newtype LteInterfaceResponse (de_struct [''show''] 1 (show_lte_interface fm))"

section \<open>Network test responses\<close>

text \<open>\<open>deserialize_presence\<close> ignores the value: the marker counts as soon as it is there.\<close>

definition deserialize_presence :: "bool decode" where
  "deserialize_presence w = Inr True"

definition NetworkTestResponse_fields :: "string list" where
  "NetworkTestResponse_fields = [''message'', ''continued'']"

definition NetworkTestResponse_visit_map :: "entries \<Rightarrow> NetworkTestResponse decoded" where
  "NetworkTestResponse_visit_map es =
     bind_res (defaulted [] (de_seq de_str) ''message'' es) (\<lambda>message'.
     bind_res (defaulted False deserialize_presence ''continued'' es) (\<lambda>continued'.
     Inr \<lparr>nr_message = message', nr_continued = continued'\<rparr>))"

interpretation NetworkTestResponse_entries: entry_decoder NetworkTestResponse_fields NetworkTestResponse_visit_map
  by unfold_locales (simp add: NetworkTestResponse_fields_def NetworkTestResponse_visit_map_def decoder_simps)

section \<open>What a response guarantees\<close>

fun response_ok :: "formats \<Rightarrow> 't rci_response \<Rightarrow> bool" where
  "response_ok fm (VersionResponse v) = version_ok v"
| "response_ok fm (SystemResponse s) = system_ok s"
| "response_ok fm (InternetStatusResponse s) = True"
| "response_ok fm (InterfacesResponse m) = map_ok id_ok interface_ok m"
| "response_ok fm (AssociationsResponse a) = associations_ok a"
| "response_ok fm (HotspotResponse h) = hotspot_ok h"
| "response_ok fm (IdentificationResponse i) = identification_ok i"
| "response_ok fm (SystemModeResponse s) = mode_status_ok s"
| "response_ok fm (ArpResponse a) = arp_ok a"
| "response_ok fm (DhcpResponse b) = bindings_ok b"
| "response_ok fm (RoutesResponse r) = routes4_ok r"
| "response_ok fm (Routes6Response r) = routes6_ok r"
| "response_ok fm (PingCheckResponse q) = profiles_ok fm q"
| "response_ok fm (NameServersResponse n) = name_servers_ok n"
| "response_ok fm (NtpResponse n) = ntp_ok fm n"
| "response_ok fm (MwsStatusResponse s) = True"
| "response_ok fm (MwsMembersResponse m) = members_ok m"
| "response_ok fm (UsbResponse u) = usb_devices_ok u"
| "response_ok fm (MediaResponse m) = media_ok m"
| "response_ok fm (StatResponse s) = stat_ok s"
| "response_ok fm (InterfaceResponse r) = interface_ok (reply_interface r)"
| "response_ok fm (LteInterfaceResponse r) = mobile_interface_ok (reply_interface r)"

lemmas response_rules = version_wf system_wf interfaces_wf associations_wf hotspot_wf identification_wf
  mode_status_wf arp_wf bindings_wf routes4_wf routes6_wf profiles_wf name_servers_wf ntp_wf members_wf
  usb_devices_wf media_wf stat_wf interface_wf mobile_interface_wf

lemma get_response_wf: "decodes (response_ok fm) (get_response_deserialize fm dt g)"
  by (cases g; simp only: get_response_deserialize.simps;
      rule decodes_newtype, (rule response_rules decodes_struct any_rules)+, simp)

lemma response_wf: "decodes (response_ok fm) (response_deserialize fm dt request)"
proof (cases request)
  case (GetRequest g)
  then show ?thesis using get_response_wf by simp
next
  case (StatRequest r)
  then show ?thesis
    using decodes_newtype [OF decodes_struct [OF stat_wf], of "response_ok fm" StatResponse] by simp
next
  case (ShowInterface r)
  then show ?thesis
    using decodes_newtype [OF decodes_struct [OF reply_wf [OF decodes_struct [OF interface_wf]]],
        of "response_ok fm" InterfaceResponse] by simp
next
  case (ShowLteInterface r)
  then show ?thesis
    using decodes_newtype [OF decodes_struct [OF reply_wf [OF mobile_interface_wf]],
        of "response_ok fm" LteInterfaceResponse] by (simp add: show_lte_interface_def)
qed

section \<open>Reading JSON\<close>

text \<open>Both paths of \<open>decode_json_response\<close> read one tree, that of the whole body: the direct path from
  the text, with nothing but white space after it, the inspected path from the value, which then
  contains no RCI error.\<close>

definition body_tree ::
  "'a json_ops \<Rightarrow> (string \<Rightarrow> (wire \<times> string) option) \<Rightarrow> (Value \<Rightarrow> wire) \<Rightarrow> string \<Rightarrow> wire \<Rightarrow> bool" where
  "body_tree ops text_tree value_tree bytes w \<longleftrightarrow>
     (\<exists>rest. text_tree bytes = Some (w, rest) \<and> de_end ops rest = Inr ())
     \<or> (\<exists>j. from_slice ops bytes = Inr j \<and> collect_rci_errors j [] = [] \<and> w = value_tree j)"

locale json_reader =
  fixes ops :: "'a json_ops"
    and de :: "'a decode"
    and text_tree :: "string \<Rightarrow> (wire \<times> string) option"
    and value_tree :: "Value \<Rightarrow> wire"
  assumes slice_reads: "de_slice ops bytes = Inr (v, rest) \<Longrightarrow> \<exists>w. text_tree bytes = Some (w, rest) \<and> de w = Inr v"
    and value_reads: "de_value ops j = Inr v \<Longrightarrow> de (value_tree j) = Inr v"
begin

lemma decoded_from_tree:
  assumes "decode_json_response memchr memmem ops bytes context = Inr v"
  shows "\<exists>w. body_tree ops text_tree value_tree bytes w \<and> de w = Inr v"
proof (cases "needs_rci_inspection memchr memmem bytes")
  case True
  with assms obtain j where "from_slice ops bytes = Inr j" "collect_rci_errors j [] = []" "de_value ops j = Inr v"
    by (auto simp: decode_json_response_def Let_def res_simps split: if_splits)
  then show ?thesis using value_reads unfolding body_tree_def by blast
next
  case False
  with assms obtain rest where "de_slice ops bytes = Inr (v, rest)" "de_end ops rest = Inr ()"
    by (auto simp: decode_json_response_def res_simps split: prod.splits)
  then show ?thesis using slice_reads unfolding body_tree_def by blast
qed

lemma decoded_satisfies:
  assumes "decodes P de" and "decode_json_response memchr memmem ops bytes context = Inr v"
  shows "P v"
  using decoded_from_tree [OF assms(2)] decodesD [OF assms(1)] by blast

end

text \<open>A reader that meets the contract for every deserializer: read the tree, then decode it.\<close>

definition tree_ops ::
  "(string \<Rightarrow> (wire \<times> string) option) \<Rightarrow> (Value \<Rightarrow> wire) \<Rightarrow> (string \<Rightarrow> json_error + Value)
     \<Rightarrow> (string \<Rightarrow> json_error + unit) \<Rightarrow> 'a decode \<Rightarrow> 'a json_ops" where
  "tree_ops text_tree value_tree parse end_of de =
     (let data = ([], \<lparr>je_category = Category_Data, je_message = []\<rparr>);
          syntax = ([], \<lparr>je_category = Category_Syntax, je_message = []\<rparr>) in
      \<lparr>from_slice = parse,
       de_value = (\<lambda>j. map_err (\<lambda>_. data) (de (value_tree j))),
       de_slice = (\<lambda>bytes. case text_tree bytes of None \<Rightarrow> Inl syntax
          | Some (w, rest) \<Rightarrow> map_err (\<lambda>_. data) (map_res (\<lambda>v. (v, rest)) (de w))),
       de_end = end_of\<rparr>)"

lemma tree_ops_reader: "json_reader (tree_ops text_tree value_tree parse end_of de) de text_tree value_tree"
  by unfold_locales (auto simp: tree_ops_def Let_def res_simps split: option.splits)

interpretation tree_reader:
  json_reader "tree_ops text_tree value_tree parse end_of (response_deserialize fm dt request)"
    "response_deserialize fm dt request" text_tree value_tree
  for text_tree value_tree parse end_of fm dt request
  by (rule tree_ops_reader)

section \<open>Errors\<close>

text \<open>The exchange that explains an error: the last one on the wire.\<close>

fun error_evidence ::
  "('c, 'u, 'h, 'j, 'w) deps \<Rightarrow> ('c, 'u) client \<Rightarrow> 't json_ops \<Rightarrow> 'u PreparedRequest
     \<Rightarrow> ('u, 'h) event \<Rightarrow> Error \<Rightarrow> bool" where
  "error_evidence d c ops req (q, res) (Transport e) \<longleftrightarrow>
     te_context e = pr_context q
     \<and> (res = Inl (te_source e)
        \<or> q = req \<and> (\<exists>r. res = Inr r \<and> d_is_success d (rs_status r) \<and> rs_bytes r = Inl (te_source e)))"
| "error_evidence d c ops req (q, res) (Http e) \<longleftrightarrow>
     (\<exists>r. res = Inr r \<and> e = \<lparr>he_context = pr_context q, he_status = rs_status r\<rparr> \<and> rs_status r \<noteq> 401
        \<and> (q = prepare_auth d c GET None \<and> rs_status r \<noteq> 200 \<or> \<not> d_is_success d (rs_status r)))"
| "error_evidence d c ops req (q, res) (Authentication e) \<longleftrightarrow>
     (\<exists>r. res = Inr r \<and> rs_status r = 401
        \<and> (e = Required \<and> q = req \<and> credentials c = None
           \<or> e = UnauthorizedAfterAuthentication \<and> q = req
           \<or> e = RejectedCredentials \<and> (\<exists>body. q = prepare_auth d c POST (Some body))
           \<or> parse_challenge d (rs_headers r) = Inl e \<and> q = prepare_auth d c GET None))"
| "error_evidence d c ops req (q, res) (JsonSerialization e) \<longleftrightarrow>
     js_context e = auth_context POST \<and> q = prepare_auth d c GET None
     \<and> (\<exists>p. d_auth_json d p = Inl (js_source e))"
| "error_evidence d c ops req (q, res) (RciErr e) \<longleftrightarrow>
     q = req \<and> re_context e = pr_context req
     \<and> (\<exists>r bytes v. res = Inr r \<and> d_is_success d (rs_status r) \<and> rs_bytes r = Inr bytes
          \<and> from_slice ops bytes = Inr v \<and> re_entries e = collect_rci_errors v [] \<and> re_entries e \<noteq> [])"
| "error_evidence d c ops req (q, res) (ResponseJson e) \<longleftrightarrow>
     q = req \<and> rj_context e = pr_context req \<and> (\<exists>r. res = Inr r \<and> d_is_success d (rs_status r))"
| "error_evidence d c ops req (q, res) (ResponseDeserialization e) \<longleftrightarrow>
     q = req \<and> rd_context e = pr_context req \<and> je_category (rd_source e) = Category_Data
     \<and> (\<exists>r. res = Inr r \<and> d_is_success d (rs_status r))"
| "error_evidence d c ops req (q, res) (QuerySerialization e) \<longleftrightarrow> False"

lemma login_evidence:
  assumes "login_dialogue d c k es (Inl f)"
  shows "\<exists>e. f = Err e \<and> es \<noteq> [] \<and> error_evidence d c ops req (last es) e"
  using assms
proof (cases rule: login_dialogue.cases)
  case (Post_sent get r realm challenge body post res)
  then show ?thesis
    by (auto simp: transport_failure_def http_failure_def split: sum.splits if_splits)
qed (auto simp: transport_failure_def http_failure_def)

lemma dialogue_evidence:
  assumes "request_dialogue d c req es (Inl f)"
  shows "\<exists>e. f = Err e \<and> es \<noteq> [] \<and> error_evidence d c ops req (last es) e"
  using assms
proof (cases rule: request_dialogue.cases)
  case (Req_login_failed r k ls)
  then show ?thesis using login_evidence [OF Req_login_failed(4)] by auto
qed (auto simp: transport_failure_def split: sum.splits if_splits)

lemma decode_evidence:
  assumes "decode_json_response memchr memmem ops bytes (pr_context req) = Inl e"
    and "d_is_success d (rs_status r)" and "rs_bytes r = Inr bytes"
  shows "error_evidence d c ops req (req, Inr r) e"
proof -
  have classified: "error_evidence d c ops req (req, Inr r) (classify_response_error (pr_context req) x)" for x
    using assms(2)
    by (cases "je_category (snd x)")
      (simp_all add: classify_response_error_def ResponseDeserializationError_new_def)
  from assms show ?thesis
    by (auto simp: decode_json_response_def Let_def res_simps classified split: if_splits prod.splits)
qed

lemma send_json_evidence:
  assumes "auth_inv s" and "send_json d c ops req s = (Inl f, t)"
  shows "\<exists>e. f = Err e \<and> error_evidence d c ops req (last (log t)) e"
proof -
  obtain result u where run: "send_authenticated d c req s = (result, u)" by (metis surj_pair)
  obtain es where es: "log u = log s @ es" "request_dialogue d c req es result"
    using send_authenticated_dialogue [OF assms(1) run] by blast
  show ?thesis
  proof (cases result)
    case (Inl g)
    then have "f = g" "t = u"
      using assms(2) by (auto simp: send_json_def send_successful_def bind_io_def run)
    with dialogue_evidence [of d c req es g ops] es Inl show ?thesis by (auto simp: last_append)
  next
    case (Inr r)
    have u: "t = u"
      using assms(2)
      by (auto simp: send_json_def send_successful_def bind_io_def run Inr return_io_def fail_io_def
          lift_io_def split: if_splits sum.splits)
    have last: "last (log t) = (req, Inr r)" and ok: "rs_status r \<noteq> 401"
      using request_dialogue_answer [OF es(2) [unfolded Inr]] es
      by (auto simp: u last_append Inr elim: request_dialogue_shape)
    show ?thesis
    proof (cases "d_is_success d (rs_status r)")
      case False
      then have "f = Err (Http \<lparr>he_context = pr_context req, he_status = rs_status r\<rparr>)"
        using assms(2) by (simp add: send_json_def send_successful_def bind_io_def run Inr fail_io_def)
      with last ok False show ?thesis by simp
    next
      case True
      note send = assms(2) [unfolded send_json_def send_successful_def bind_io_def run Inr prod.case sum.case]
      show ?thesis
      proof (cases "rs_bytes r")
        case (Inl e)
        with send True last show ?thesis by (auto simp: return_io_def lift_io_def)
      next
        case (Inr bytes)
        then obtain e where "decode_json_response (d_memchr d) (d_memmem d) ops bytes (pr_context req) = Inl e"
            "f = Err e"
          using send True by (auto simp: return_io_def lift_io_def res_simps)
        with decode_evidence [OF _ True Inr] last show ?thesis by auto
      qed
    qed
  qed
qed

section \<open>Properties\<close>

text \<open>C12: whatever a router sends, a response that decodes is well formed: every identifier, address
  text, percentage, measurement, duration, rate and classifier in it, at any depth, satisfies the
  invariant of its type; ordered maps are ordered; and the optional texts the code normalizes
  (\<open>optional_nonempty_string\<close>) are never empty. A field that is a plain number, flag or text, such as
  an interface's \<open>description\<close> or the \<open>DEVICE\<close>, \<open>DEVPATH\<close> and \<open>alias\<close> of a USB device, has no invariant
  and may hold any value of its type.\<close>

theorem responses_wellformed:
  assumes "response_deserialize fm dt request w = Inr v"
  shows "response_ok fm v"
  using decodesD [OF response_wf assms] .

definition no_formats :: formats where
  "no_formats = \<lparr>parse_ip = (\<lambda>_. None), parse_ipv4 = (\<lambda>_. None), parse_ipv6 = (\<lambda>_. None),
     parse_ipv4net = (\<lambda>_. None), parse_ipv6net = (\<lambda>_. None), key_event = Visit_str\<rparr>"

definition system_reply :: wire where
  "system_reply = Wire_map
     [(''hostname'', Scalar (Visit_str ''Keenetic'')), (''domainname'', Scalar (Visit_str ''WORKGROUP'')),
      (''uptime'', Scalar (Visit_u64 90123)), (''cpuload'', Scalar (Visit_u64 100)),
      (''memtotal'', Scalar (Visit_u64 524288)), (''memfree'', Scalar (Visit_u64 262144)),
      (''conntotal'', Scalar (Visit_u64 16384)), (''connfree'', Scalar (Visit_u64 16000))]"

theorem responses_wellformed_witness:
  "\<exists>v. response_deserialize no_formats (de_text (\<lambda>_. None :: nat option)) (GetRequest ShowSystem) system_reply = Inr v
     \<and> response_ok no_formats v"
proof -
  let ?de = "response_deserialize no_formats (de_text (\<lambda>_. None :: nat option)) (GetRequest ShowSystem)"
  have "is_ok (?de system_reply)"
    by (simp add: system_reply_def de_newtype_def System_visit_map_def field_defs occurrences_def visiting_def
        de_str_def string_visit_def de_uptime_def de_uint_def de_try_from_def CpuLoad_new_def)
  then obtain v where v: "?de system_reply = Inr v" by (metis is_ok_projr)
  with responses_wellformed [OF v] show ?thesis by blast
qed

text \<open>A typed call end to end: when \<open>execute\<close> returns a value, the last thing on the wire is
  its own request with a response of a successful status; the value is what the request's
  response type reads from the JSON tree of that body, which contains no RCI error; and the value is
  well formed.\<close>

theorem execute_typed:
  assumes "auth_inv s" and "byte_search (d_memchr d) (d_memmem d)" and "json_text (from_slice ops)"
    and "json_reader ops (response_deserialize fm dt request) text_tree value_tree"
    and "execute d c ops request s = (Inr v, t)"
  shows "\<exists>r bytes w. last (log t) = (prepare_request d c request, Inr r)
     \<and> d_is_success d (rs_status r) \<and> rs_bytes r = Inr bytes
     \<and> body_tree ops text_tree value_tree bytes w
     \<and> response_deserialize fm dt request w = Inr v \<and> response_ok fm v
     \<and> (\<forall>j e. from_slice ops bytes = Inr j \<longrightarrow> \<not> has_rci_error j e)"
proof -
  obtain r bytes where ok: "last (log t) = (prepare_request d c request, Inr r)" "d_is_success d (rs_status r)"
      "rs_status r \<noteq> 401" "rs_bytes r = Inr bytes"
    and dec: "decode_json_response (d_memchr d) (d_memmem d) ops bytes (pr_context (prepare_request d c request)) = Inr v"
    by (rule send_json_answer [OF assms(1) assms(5) [unfolded execute_def]])
  have "\<not> has_rci_error j e" if "from_slice ops bytes = Inr j" for j e
    using response_with_error [OF assms(2,3) that] dec by auto
  with ok json_reader.decoded_from_tree [OF assms(4) dec] decodesD [OF response_wf] show ?thesis by blast
qed

definition usb_ops :: "nat rci_response json_ops" where
  "usb_ops = tree_ops (\<lambda>bytes. if bytes = ''{}'' then Some (Wire_map [], []) else None) (\<lambda>_. Wire_map [])
     (from_slice empty_object_ops) (\<lambda>rest. Inr ())
     (response_deserialize no_formats (de_text (\<lambda>_. None)) (GetRequest ShowUsb))"

theorem execute_typed_witness:
  "\<exists>t r. execute script_deps script_client usb_ops (GetRequest ShowUsb) (script_session login_script)
       = (Inr (UsbResponse (UsbDevices [])), t)
     \<and> last (log t) = (prepare_request script_deps script_client (GetRequest ShowUsb), Inr r)
     \<and> response_ok no_formats (UsbResponse (UsbDevices []) :: nat rci_response)"
proof -
  let ?run = "execute script_deps script_client usb_ops (GetRequest ShowUsb) (script_session login_script)"
  have "fst ?run = Inr (UsbResponse (UsbDevices []))" by code_simp
  then obtain t where t: "?run = (Inr (UsbResponse (UsbDevices [])), t)" by (metis prod.collapse)
  have inv: "auth_inv (script_session login_script)" by (simp add: auth_inv_def script_session_def)
  have bs: "byte_search (d_memchr script_deps) (d_memmem script_deps)"
    using naive_search.byte_search_axioms by (simp add: script_deps_def)
  have jt: "json_text (from_slice usb_ops)"
    by (auto simp: usb_ops_def tree_ops_def Let_def json_text_def empty_object_ops_def value_strings_simps split: if_splits)
  have reader: "json_reader usb_ops (response_deserialize no_formats (de_text (\<lambda>_. None)) (GetRequest ShowUsb))
      (\<lambda>bytes. if bytes = ''{}'' then Some (Wire_map [], []) else None) (\<lambda>_. Wire_map [])"
    unfolding usb_ops_def by (rule tree_reader.json_reader_axioms)
  from execute_typed [OF inv bs jt reader t] t
  show ?thesis by blast
qed

text \<open>C7: every error of a JSON request is explained by the last exchange on the wire: a transport error
  by the failure of that request or of reading its body, an HTTP error by the status of that
  response, an authentication error by a 401 (missing credentials, a second refusal of the same
  request, a refused login, or a challenge that does not parse), an RCI error by the entries of
  that body, and a JSON error by a response of a successful status. An error
  that carries a request context names the request it is about, and there is no panic.\<close>

theorem json_errors_explained:
  assumes "auth_inv s" and "send_json d c ops req s = (Inl f, t)"
  shows "\<exists>e. f = Err e \<and> error_evidence d c ops req (last (log t)) e"
  by (rule send_json_evidence [OF assms])

theorem json_errors_explained_witness:
  "\<exists>t. execute script_deps (script_client\<lparr>credentials := None\<rparr>) usb_ops (GetRequest ShowUsb) (script_session login_script)
       = (Inl (Err (Authentication Required)), t)
     \<and> (\<exists>r. last (log t) = (prepare_request script_deps (script_client\<lparr>credentials := None\<rparr>) (GetRequest ShowUsb), Inr r)
          \<and> rs_status r = 401)"
proof -
  let ?c = "script_client\<lparr>credentials := None\<rparr>"
  let ?run = "execute script_deps ?c usb_ops (GetRequest ShowUsb) (script_session login_script)"
  have "fst ?run = Inl (Err (Authentication Required))" by code_simp
  then obtain t where t: "?run = (Inl (Err (Authentication Required)), t)" by (metis prod.collapse)
  have inv: "auth_inv (script_session login_script)" by (simp add: auth_inv_def script_session_def)
  from json_errors_explained [OF inv t [unfolded execute_def]]
  have "error_evidence script_deps ?c usb_ops (prepare_request script_deps ?c (GetRequest ShowUsb)) (last (log t))
      (Authentication Required)"
    by auto
  moreover obtain q res where "last (log t) = (q, res)" by (metis surj_pair)
  moreover have "parse_challenge script_deps h \<noteq> Inl Required" for h
    by (auto simp: parse_challenge_def script_deps_def split: option.splits if_splits)
  ultimately show ?thesis using t by auto
qed

end
