(* ===== verification/Test_Runs.thy ===== *)
theory Test_Runs
  imports Calls
begin

text \<open>
  A network test end to end (\<open>KeeneticClient::run_network_test\<close> in \<open>src/src/client.rs\<close>): the exchanges
  it puts on the wire and what its output has to do with them. \<open>polls\<close> is the run of the polling
  loop as a relation, without the buffering of \<open>next_chunk\<close>; \<open>answered_by\<close> ties a response to the
  body it was read from.
\<close>

section \<open>Runs of the polling loop\<close>

inductive polls ::
  "('c, 'u, 'h, 'j, 'w) deps \<Rightarrow> ('c, 'u) client \<Rightarrow> NetworkTestResponse json_ops \<Rightarrow> 'w clock_ops
     \<Rightarrow> NetworkTestSession \<Rightarrow> ('u, 'h, 'j, 'w) session \<Rightarrow> NetworkTestResponse list
     \<Rightarrow> NetworkTestSession \<Rightarrow> ('u, 'h, 'j, 'w) session \<Rightarrow> bool"
  for d :: "('c, 'u, 'h, 'j, 'w) deps" and c :: "('c, 'u) client" and ops and k :: "'w clock_ops"
where
  Polls_end: "polls d c ops k n s [] n s"
| Polls_take: "polls d c ops k (n\<lparr>ns_pending := None\<rparr>) s rs n' t \<Longrightarrow> polls d c ops k n s rs n' t"
| Polls_read: "poll d c ops k n s = (Inr m, u) \<Longrightarrow> received m = received n @ [r] \<Longrightarrow>
    polls d c ops k m u rs n' t \<Longrightarrow> polls d c ops k n s (r # rs) n' t"

lemma polls_trans: "polls d c ops k n s rs m u \<Longrightarrow> polls d c ops k m u qs n' t \<Longrightarrow> polls d c ops k n s (rs @ qs) n' t"
  by (induction rule: polls.induct) (auto intro: polls.intros)

lemma polls_received: "polls d c ops k n s rs n' t \<Longrightarrow> received n' = received n @ rs"
  by (induction rule: polls.induct) auto

text \<open>What a call that returned a value has done, for the fixed-point inductions over the two loops.\<close>

definition polled ::
  "('c, 'u, 'h, 'j, 'w) deps \<Rightarrow> ('c, 'u) client \<Rightarrow> NetworkTestResponse json_ops \<Rightarrow> 'w clock_ops
     \<Rightarrow> NetworkTestSession \<Rightarrow> ('u, 'h, 'j, 'w) session
     \<Rightarrow> (Error failure + 'a) \<times> NetworkTestSession \<times> ('u, 'h, 'j, 'w) session \<Rightarrow> bool"
where
  "polled d c ops k n s y \<longleftrightarrow>
     (\<forall>x n' t. y = (Inr x, n', t) \<longrightarrow> (\<exists>rs. polls d c ops k n s rs n' t))"

lemma next_chunk_polled:
  assumes "next_chunk d c ops k n s = Some y"
  shows "polled d c ops k n s y"
proof (rule next_chunk.raw_induct [OF _ assms, where P = polled])
  fix f d c ops k n s y
  assume IH: "\<And>d c ops k n s y. f d c ops k n s = Some y \<Longrightarrow> polled d c ops k n s y"
    and run: "(case ns_pending n of
        Some out \<Rightarrow> Some (Inr (Some out), n\<lparr>ns_pending := None\<rparr>, s)
      | None \<Rightarrow>
          if \<not> ns_continued n then Some (Inr None, n, s)
          else
            (case fst (poll d c ops k n s) of
               Inl e \<Rightarrow> Some (Inl e, attempted k n s, snd (poll d c ops k n s))
             | Inr n' \<Rightarrow> f d c ops k n' (snd (poll d c ops k n s)))) = Some y"
  have "polled d c ops k n s y"
    if "fst (poll d c ops k n s) = Inr m" and "f d c ops k m (snd (poll d c ops k n s)) = Some y" for m
  proof -
    have p: "poll d c ops k n s = (Inr m, snd (poll d c ops k n s))" using that(1) by (metis prod.collapse)
    obtain r where "received m = received n @ [r]" by (rule poll_ok [OF p])
    with IH [OF that(2)] p show ?thesis unfolding polled_def by (blast intro: Polls_read)
  qed
  then show "polled d c ops k n s y"
    using run by (auto simp: polled_def split: option.splits if_splits sum.splits
        intro: Polls_end Polls_take [OF Polls_end])
qed

lemma collect_loop_polled:
  assumes "collect_loop d c ops k n acc s = Some y"
  shows "polled d c ops k n s y"
proof (rule collect_loop.raw_induct [OF _ assms, where P = "\<lambda>d c ops k n acc s y. polled d c ops k n s y"])
  fix f d c ops k n acc s y
  assume IH: "\<And>d c ops k n acc s y. f d c ops k n acc s = Some y \<Longrightarrow> polled d c ops k n s y"
    and run: "Option.bind (next_chunk d c ops k n s) (\<lambda>(result, n, s).
       case result of
         Inl e \<Rightarrow> Some (Inl e, n, s)
       | Inr None \<Rightarrow> Some (Inr \<lparr>lines = acc\<rparr>, n, s)
       | Inr (Some out) \<Rightarrow> f d c ops k n (append_to out acc) s) = Some y"
  from run obtain r m u where chunk: "next_chunk d c ops k n s = Some (r, m, u)"
    by (auto simp: bind_eq_Some_conv)
  note first = next_chunk_polled [OF chunk, unfolded polled_def]
  show "polled d c ops k n s y"
    using run chunk first IH
    by (auto simp: polled_def split: sum.splits option.splits) (blast intro: polls_trans)+
qed

section \<open>What the responses were read from\<close>

definition NetworkTestResponse_deserialize :: "NetworkTestResponse decode" where
  "NetworkTestResponse_deserialize = de_struct NetworkTestResponse_fields 0 NetworkTestResponse_visit_map"

interpretation test_reader:
  json_reader "tree_ops text_tree value_tree parse end_of NetworkTestResponse_deserialize"
    NetworkTestResponse_deserialize text_tree value_tree
  for text_tree value_tree parse end_of
  by (rule tree_ops_reader)

definition answered_by ::
  "('c, 'u, 'h, 'j, 'w) deps \<Rightarrow> NetworkTestResponse json_ops \<Rightarrow> (string \<Rightarrow> (wire \<times> string) option)
     \<Rightarrow> (Value \<Rightarrow> wire) \<Rightarrow> 'u PreparedRequest \<Rightarrow> ('u, 'h) event list \<Rightarrow> NetworkTestResponse \<Rightarrow> bool"
where
  "answered_by d ops text_tree value_tree req es r \<longleftrightarrow> confined req es
     \<and> (\<exists>answer bytes w. last es = (req, Inr answer) \<and> d_is_success d (rs_status answer)
          \<and> rs_bytes answer = Inr bytes \<and> body_tree ops text_tree value_tree bytes w
          \<and> NetworkTestResponse_deserialize w = Inr r)"

lemma send_json_answered:
  assumes "auth_inv s" and "json_reader ops NetworkTestResponse_deserialize text_tree value_tree"
    and "send_json d c ops req s = (Inr r, t)"
  shows "auth_inv t \<and> (\<exists>es. log t = log s @ es \<and> answered_by d ops text_tree value_tree req es r)"
proof -
  obtain es where es: "log t = log s @ es" "confined req es"
    using send_json_confined [OF assms(1,3)] by blast
  obtain answer bytes where ok: "last (log t) = (req, Inr answer)" "d_is_success d (rs_status answer)"
      "rs_bytes answer = Inr bytes"
    and dec: "decode_json_response (d_memchr d) (d_memmem d) ops bytes (pr_context req) = Inr r"
    by (rule send_json_answer [OF assms(1,3)])
  from json_reader.decoded_from_tree [OF assms(2) dec] es ok
  have "answered_by d ops text_tree value_tree req es r"
    by (auto simp: answered_by_def confined_def)
  moreover have "auth_inv t" using send_json_run [OF assms(3)] send_authenticated_inv [OF assms(1)] by metis
  ultimately show ?thesis using es(1) by blast
qed

lemma polls_answered:
  assumes "polls d c ops k n s rs n' t" and "auth_inv s"
    and "json_reader ops NetworkTestResponse_deserialize text_tree value_tree"
  shows "\<exists>ess. log t = log s @ concat ess
    \<and> list_all2 (answered_by d ops text_tree value_tree (prepare_rci_get d c (ns_endpoint n) None)) ess rs"
  using assms(1,2)
proof (induction rule: polls.induct)
  case (Polls_end n s)
  show ?case by (rule exI [of _ "[]"]) simp
next
  case (Polls_take n s rs n' t)
  then show ?case by simp
next
  case (Polls_read n s m u r rs n' t)
  obtain q where q: "received m = received n @ [q]" "ns_endpoint m = ns_endpoint n"
    by (rule poll_ok [OF Polls_read.hyps(1)])
  let ?s = "s\<lparr>world := sleep_until k (ns_next_poll n) (world s)\<rparr>"
  let ?req = "prepare_rci_get d c (ns_endpoint n) None"
  from Polls_read.hyps(1,2) have send: "send_json d c ops ?req ?s = (Inr r, u)"
    by (auto simp: poll_def attempted_def Let_def split: prod.splits sum.splits)
  have "auth_inv ?s" using Polls_read.prems by (simp add: auth_inv_def)
  from send_json_answered [OF this assms(3) send] obtain es where
    es: "auth_inv u" "log u = log s @ es" "answered_by d ops text_tree value_tree ?req es r" by auto
  with Polls_read.IH q(2) obtain ess where "log t = log u @ concat ess"
      "list_all2 (answered_by d ops text_tree value_tree ?req) ess rs" by auto
  with es show ?case by (intro exI [of _ "es # ess"]) simp
qed

section \<open>Properties\<close>

text \<open>C14: a network test that completes, end to end: the serialized request is posted to the endpoint of
  its tool, then the same endpoint is polled, and nothing but these exchanges and logins is put on
  the wire; every response is what its type reads from the body of the successful answer to its
  own exchange; all but the last carry the \<open>continued\<close> marker, the last does not; and the output is
  their messages in that order.\<close>

theorem network_test_end_to_end:
  assumes "auth_inv s" and "json_reader ops NetworkTestResponse_deserialize text_tree value_tree"
    and "run_network_test d c to_vec ip_show ops k request s = Some (Inr out, t)"
  shows "\<exists>body es ess first rs. to_vec (test_value ip_show request) = Inr body
    \<and> log t = log s @ es @ concat ess
    \<and> answered_by d ops text_tree value_tree (prepare_rci_post_at d c (test_endpoint request) body) es first
    \<and> list_all2 (answered_by d ops text_tree value_tree (prepare_rci_get d c (test_endpoint request) None)) ess rs
    \<and> list_all nr_continued (butlast (first # rs)) \<and> \<not> nr_continued (last (first # rs))
    \<and> lines out = concat (map nr_message (first # rs))"
proof -
  from assms(3) obtain n u n' where start: "start_network_test d c to_vec ip_show ops k request s = (Inr n, u)"
    and collect: "collect_loop d c ops k n [] u = Some (Inr out, n', t)"
    by (auto simp: run_network_test_def collect_output_def split: prod.splits sum.splits)
  from start obtain body first where body: "to_vec (test_value ip_show request) = Inr body"
    and send: "send_json d c ops (prepare_rci_post_at d c (test_endpoint request) body) s = (Inr first, u)"
    and n: "n = NetworkTestSession_new k (test_endpoint request) first u"
    by (auto simp: start_network_test_def Let_def bind_io_Inr lift_io_def return_io_def res_simps)
  from send_json_answered [OF assms(1,2) send] obtain es where
    es: "auth_inv u" "log u = log s @ es"
      "answered_by d ops text_tree value_tree (prepare_rci_post_at d c (test_endpoint request) body) es first"
    by blast
  have fresh: "unread n = nr_message first" "ns_continued n = nr_continued first"
      "ns_endpoint n = test_endpoint request" "received n = []"
    by (auto simp: n NetworkTestSession_new_def into_parts_def unread_def)
  obtain rs where rs: "polls d c ops k n u rs n' t"
    using collect_loop_polled [OF collect] unfolding polled_def by blast
  from polls_answered [OF this es(1) assms(2)] fresh(3) obtain ess where
    ess: "log t = log u @ concat ess"
      "list_all2 (answered_by d ops text_tree value_tree (prepare_rci_get d c (test_endpoint request) None)) ess rs"
    by auto
  obtain qs where qs: "is_finished n'" "received_between n n' qs" "lines out = unread n @ messages qs"
    using collect_loop_spec [OF collect] by auto
  moreover have "qs = rs" using qs(2) polls_received [OF rs] by (simp add: received_between_def)
  ultimately have "lines out = concat (map nr_message (first # rs))"
      "list_all nr_continued (butlast (first # rs))" "\<not> nr_continued (last (first # rs))"
    using fresh by (auto simp: messages_def received_between_def is_finished_def split: if_splits)
  with body es ess show ?thesis
    by (intro exI [of _ body] exI [of _ es] exI [of _ ess] exI [of _ first] exI [of _ rs]) simp
qed

text \<open>A ping whose first answer says that there is more.\<close>

definition ping_reply :: "string \<Rightarrow> (string \<times> wire) list \<Rightarrow> wire" where
  "ping_reply line rest = Wire_map ((''message'', Wire_seq [Scalar (Visit_str line)]) # rest)"

definition ping_text :: "string \<Rightarrow> (wire \<times> string) option" where
  "ping_text bytes = Some
     (if bytes = ''more'' then ping_reply ''hop 1'' [(''continued'', Scalar (Visit_bool True))]
      else ping_reply ''hop 2'' [], [])"

definition ping_ops :: "NetworkTestResponse json_ops" where
  "ping_ops = tree_ops ping_text (\<lambda>_. Wire_map []) (from_slice test_ops) (\<lambda>_. Inr ()) NetworkTestResponse_deserialize"

definition ping_session :: "(string, headers, string list, timed_world) session" where
  "ping_session = test_session\<lparr>world := (7, [Inr (test_response ''more''), Inr (test_response ''done'')])\<rparr>"

lemma ping_post:
  "let (r, u) = send_json timed_deps script_client ping_ops
       (prepare_rci_post_at timed_deps script_client ''tools/ping'' ''{}'') ping_session
   in r = Inr \<lparr>nr_message = [''hop 1''], nr_continued = True\<rparr>
     \<and> cookies u = [] \<and> auth u = auth test_session \<and> auth_generation u = 0
     \<and> snd (world u) = [Inr (test_response ''done'')]"
  by code_simp

lemma ping_get:
  "fst (send_json timed_deps script_client ping_ops (prepare_rci_get timed_deps script_client ''tools/ping'' None)
     (test_session\<lparr>world := (time, [Inr (test_response ''done'')]), log := exchanges\<rparr>))
   = Inr \<lparr>nr_message = [''hop 2''], nr_continued = False\<rparr>"
  by code_simp

lemma ping_run:
  "\<exists>out t. run_network_test timed_deps script_client (\<lambda>_. Inr ''{}'') ref_ip_show ping_ops timed_clock test_ping ping_session
     = Some (Inr out, t)"
proof -
  obtain r u where post: "send_json timed_deps script_client ping_ops
      (prepare_rci_post_at timed_deps script_client ''tools/ping'' ''{}'') ping_session = (r, u)" by (metis surj_pair)
  from ping_post have r: "r = Inr \<lparr>nr_message = [''hop 1''], nr_continued = True\<rparr>"
    and u: "cookies u = []" "auth u = auth test_session" "auth_generation u = 0"
      "snd (world u) = [Inr (test_response ''done'')]"
    by (simp_all add: post)
  let ?n = "NetworkTestSession_new timed_clock ''tools/ping'' \<lparr>nr_message = [''hop 1''], nr_continued = True\<rparr> u"
  have start: "start_network_test timed_deps script_client (\<lambda>_. Inr ''{}'') ref_ip_show ping_ops timed_clock
      test_ping ping_session = (Inr ?n, u)"
    using post by (simp add: start_network_test_def test_ping_def PING_ENDPOINT_def bind_io_def lift_io_def Let_def
        return_io_def r)
  have n: "ns_continued ?n" "ns_endpoint ?n = ''tools/ping''"
    by (simp_all add: NetworkTestSession_new_def into_parts_def)
  have world: "u\<lparr>world := sleep_until timed_clock (ns_next_poll ?n) (world u)\<rparr> = test_session\<lparr>world :=
      (max (ns_next_poll ?n) (fst (world u)), [Inr (test_response ''done'')]), log := log u\<rparr>"
    using u by (cases u; cases "world u") (simp add: timed_clock_def test_session_def)
  obtain v where "send_json timed_deps script_client ping_ops (prepare_rci_get timed_deps script_client ''tools/ping'' None)
      (u\<lparr>world := sleep_until timed_clock (ns_next_poll ?n) (world u)\<rparr>)
      = (Inr \<lparr>nr_message = [''hop 2''], nr_continued = False\<rparr>, v)"
    using ping_get unfolding world by (metis prod.collapse)
  then obtain m where "poll timed_deps script_client ping_ops timed_clock ?n u = (Inr m, v)" "\<not> ns_continued m"
    by (simp add: poll_def n(2) into_parts_def)
  with n(1) have "completes_in timed_deps script_client ping_ops timed_clock (Suc 0) ?n u" by auto
  from collect_returns [OF this, of "[]"] start show ?thesis
    by (auto simp: run_network_test_def collect_output_def)
qed

theorem network_test_end_to_end_witness:
  "\<exists>out t (first :: NetworkTestResponse) rs. run_network_test timed_deps script_client (\<lambda>_. Inr ''{}'') ref_ip_show ping_ops timed_clock test_ping
       ping_session = Some (Inr out, t)
     \<and> lines out = concat (map nr_message (first # rs)) \<and> \<not> nr_continued (last (first # rs))"
proof -
  obtain out t where run: "run_network_test timed_deps script_client (\<lambda>_. Inr ''{}'') ref_ip_show ping_ops timed_clock
      test_ping ping_session = Some (Inr out, t)"
    using ping_run by blast
  have inv: "auth_inv ping_session" by (simp add: auth_inv_def ping_session_def test_session_def)
  have reader: "json_reader ping_ops NetworkTestResponse_deserialize ping_text (\<lambda>_. Wire_map [])"
    unfolding ping_ops_def by (rule tree_ops_reader)
  from network_test_end_to_end [OF inv reader run] run show ?thesis by blast
qed

end
