(* ===== verification/Serialized.thy ===== *)
theory Serialized
  imports Wellformed Api
begin

text \<open>
  \<open>Serialize\<close> for the value types of \<open>src/src/model\<close>, as the scalar the serializer is asked for:
  the macros \<open>open_string_enum\<close>, \<open>string_identifier\<close> and \<open>impl_string_value\<close> of \<open>model.rs\<close>, and the
  implementations of \<open>reported.rs\<close>, \<open>hardware_id.rs\<close>, \<open>network.rs\<close>, \<open>mesh.rs\<close> and \<open>routing.rs\<close>.
  \<open>reads_back\<close> is what a user who stores a response relies on: whatever was read once is read
  again, unchanged, from what it is written as.
\<close>

definition reads_back :: "'a decode \<Rightarrow> ('a \<Rightarrow> visit) \<Rightarrow> bool" where
  "reads_back de ser \<longleftrightarrow> (\<forall>w v. de w = Inr v \<longrightarrow> de (Scalar (ser v)) = Inr v)"

section \<open>Serializers\<close>

definition string_identifier_serialize :: "('a \<Rightarrow> string) \<Rightarrow> 'a \<Rightarrow> visit" where
  "string_identifier_serialize as_str' v = Visit_str (as_str' v)"

definition string_value_serialize :: "('a \<Rightarrow> string) \<Rightarrow> 'a \<Rightarrow> visit" where
  "string_value_serialize as_str' v = Visit_str (as_str' v)"

definition Reported_serialize :: "('t \<Rightarrow> string) \<Rightarrow> 't Reported \<Rightarrow> visit" where
  "Reported_serialize as_ref r = Visit_str (Reported_as_str as_ref r)"

definition HardwareVendor_serialize :: "HardwareVendor \<Rightarrow> visit" where
  "HardwareVendor_serialize v = Visit_str (HardwareVendor_as_str v)"

definition HardwareId_serialize :: "HardwareId \<Rightarrow> visit" where
  "HardwareId_serialize v = Visit_str (HardwareId_display v)"

definition MacAddress_serialize :: "MacAddress \<Rightarrow> visit" where
  "MacAddress_serialize m = Visit_str (MacAddress_display m)"

definition NetworkHost_write :: "(IpAddr \<Rightarrow> string) \<Rightarrow> NetworkHost \<Rightarrow> visit" where
  "NetworkHost_write ip_show h = Visit_str (NetworkHost_display ip_show h)"

definition CliCommand_write :: "CliCommand \<Rightarrow> visit" where
  "CliCommand_write command = Visit_str (CliCommand_as_str command)"

definition MwsMemoryUsage_serialize :: "MwsMemoryUsage \<Rightarrow> visit" where
  "MwsMemoryUsage_serialize m = Visit_str (MwsMemoryUsage_display m)"

definition RouteFlags_serialize :: "RouteFlags \<Rightarrow> visit" where
  "RouteFlags_serialize f = Visit_str (RouteFlags_as_str f)"

text \<open>The numeric newtypes are \<open>transparent\<close>; \<open>u8\<close> and \<open>u16\<close> are written as the \<open>u64\<close> they are read
  from.\<close>

definition uint_write :: "'a::len word \<Rightarrow> visit" where
  "uint_write v = Visit_u64 (ucast v)"

definition ByteCount_serialize :: "ByteCount \<Rightarrow> visit" where
  "ByteCount_serialize b = uint_write (ByteCount_get b)"

definition DataRate_serialize :: "DataRate \<Rightarrow> visit" where
  "DataRate_serialize r = uint_write (bits_per_second r)"

definition McsIndex_serialize :: "McsIndex \<Rightarrow> visit" where
  "McsIndex_serialize i = uint_write (McsIndex_get i)"

definition ChannelWidth_serialize :: "ChannelWidth \<Rightarrow> visit" where
  "ChannelWidth_serialize w = uint_write (megahertz w)"

definition GuardInterval_serialize :: "GuardInterval \<Rightarrow> visit" where
  "GuardInterval_serialize g = uint_write (nanoseconds g)"

definition SpatialStreams_serialize :: "SpatialStreams \<Rightarrow> visit" where
  "SpatialStreams_serialize s = uint_write (SpatialStreams_get s)"

section \<open>Lemmas\<close>

lemma reads_backI: "decodes P de \<Longrightarrow> (\<And>v. P v \<Longrightarrow> de (Scalar (ser v)) = Inr v) \<Longrightarrow> reads_back de ser"
  by (auto simp: reads_back_def dest: decodesD)

context open_enum
begin

lemma reads_back_enum: "reads_back (de_enum from) (open_enum_serialize as_str)"
  by (rule reads_backI [OF decodes_enum])
    (simp add: open_enum_serialize_def de_enum_def visiting_def open_enum_visit_def canonical_def)

end

context wire_value
begin

lemma reads_back_from_str: "reads_back (de_from_str parse) (string_value_serialize display)"
  by (rule reads_backI [OF decodes_from_str])
    (simp add: string_value_serialize_def de_from_str_def visiting_def deserialize_serialized)

lemma reads_back_identifier: "reads_back (de_identifier parse) (string_identifier_serialize display)"
  by (rule reads_backI [OF decodes_identifier])
    (simp add: string_identifier_serialize_def de_identifier_def visiting_def
      string_identifier_deserialize_def valid_parse)

end

context string_value
begin

lemma reads_back_reported: "reads_back (de_reported parse) (Reported_serialize display)"
  by (rule reads_backI [OF decodes_reported])
    (simp add: Reported_serialize_def de_reported_def visiting_def ReportedVisitor_visit_def reported_from_as_str)

end

lemma de_uint_write: "LENGTH('a) \<le> 64 \<Longrightarrow> de_uint (Scalar (uint_write v)) = Inr v" for v :: "'a::len word"
proof -
  assume len: "LENGTH('a) \<le> 64"
  have small: "unat v < 2 ^ LENGTH('a)" by (rule unsigned_less)
  also have "\<dots> \<le> 2 ^ 64" using len by (intro power_increasing) simp_all
  finally have "unat (ucast v :: u64) = unat v" by (simp add: unsigned_ucast_eq take_bit_nat_eq_self)
  moreover have "ucast (ucast v :: u64) = v"
    by (rule bit_word_eqI) (use len in \<open>simp add: bit_simps\<close>)
  ultimately show ?thesis using small by (simp add: uint_write_def de_uint_def visiting_def)
qed

lemma reads_back_newtype:
  assumes "\<And>v. con (dest v) = v" and "\<And>v. de (Scalar (ser (dest v))) = Inr (dest v)"
  shows "reads_back (de_newtype con de) (\<lambda>v. ser (dest v))"
  using assms by (simp add: reads_back_def de_newtype_def)

lemma reads_back_mac: "reads_back de_mac MacAddress_serialize"
  by (rule reads_backI [OF decodes_mac])
    (simp add: MacAddress_serialize_def de_mac_def visiting_def MacAddress_visit_def mac_address.valid_parse)

lemma reads_back_host: "ip_text (parse_ip fm) ip_show \<Longrightarrow> reads_back (de_host fm) (NetworkHost_write ip_show)"
  by (rule reads_backI [OF decodes_host])
    (simp add: NetworkHost_write_def de_host_def visiting_def wire_value.valid_parse [OF ip_text.host_wire])

lemma reads_back_command: "reads_back (visiting CliCommand_visit) CliCommand_write"
proof (rule reads_backI [where P = "\<lambda>c. CliCommand_try_from (CliCommand_as_str c) = Inr c"])
  show "decodes (\<lambda>c. CliCommand_try_from (CliCommand_as_str c) = Inr c) (visiting CliCommand_visit)"
    unfolding CliCommand_visit_def
    by (rule visitor_rules)+ (simp add: yields_def cli_command.reparse)
qed (simp add: CliCommand_write_def CliCommand_visit_def visiting_def)

lemma reads_back_lease: "reads_back de_lease LeaseExpiration_serialize"
proof (rule reads_backI [OF decodes_lease])
  show "de_lease (Scalar (LeaseExpiration_serialize e)) = Inr e" if "lease_ok e" for e
    using that by (cases e) (simp_all add: de_lease_def visiting_def lease_word_def seconds_ok_exact)
qed

lemma reads_back_uptime: "reads_back de_uptime Uptime_serialize"
  by (rule reads_backI [OF decodes_uptime])
    (simp add: de_uptime_def visiting_def Uptime_serialize_def Uptime_from_secs_def uptime_ok_def seconds_ok_exact)

lemma reads_back_flags: "reads_back (de_newtype RouteFlags de_str) RouteFlags_serialize"
  by (simp add: reads_back_def RouteFlags_serialize_def de_newtype_def de_str_def visiting_def string_visit_def)

lemma reads_back_numbers:
  "reads_back (de_newtype ByteCount de_uint) ByteCount_serialize"
  "reads_back (de_newtype DataRate de_uint) DataRate_serialize"
  "reads_back (de_newtype McsIndex de_uint) McsIndex_serialize"
  "reads_back (de_newtype ChannelWidth de_uint) ChannelWidth_serialize"
  "reads_back (de_newtype GuardInterval de_uint) GuardInterval_serialize"
  unfolding ByteCount_serialize_def DataRate_serialize_def McsIndex_serialize_def
    ChannelWidth_serialize_def GuardInterval_serialize_def
  by (rule reads_back_newtype; simp add: de_uint_write)+

lemma reads_back_streams: "reads_back (de_newtype SpatialStreams de_nonzero) SpatialStreams_serialize"
proof (rule reads_backI [OF decodes_streams])
  fix s
  assume "SpatialStreams_get s \<noteq> 0"
  moreover have "de_uint (Scalar (uint_write (SpatialStreams_get s))) = Inr (SpatialStreams_get s)"
    by (rule de_uint_write) simp
  ultimately show "de_newtype SpatialStreams de_nonzero (Scalar (SpatialStreams_serialize s)) = Inr s"
    by (simp add: de_newtype_def de_nonzero_def de_uint_def visiting_def nonzero_visit_def SpatialStreams_serialize_def)
qed

lemma reads_back_hardware:
  "reads_back (de_from_str HardwareVendor_from_str) HardwareVendor_serialize"
  "reads_back (de_from_str HardwareId_from_str) HardwareId_serialize"
  "reads_back (de_from_str MwsMemoryUsage_from_str) MwsMemoryUsage_serialize"
  using hardware_vendor.reads_back_from_str hardware_id.reads_back_from_str memory_usage.reads_back_from_str
  unfolding string_value_serialize_def [abs_def] HardwareVendor_serialize_def [abs_def]
    HardwareId_serialize_def [abs_def] MwsMemoryUsage_serialize_def [abs_def] .

lemmas reads_back_texts =
  LinkState_enum.reads_back_enum InterfaceState_enum.reads_back_enum
  InterfaceLayerState_enum.reads_back_enum InterfaceKind_enum.reads_back_enum
  InterfaceTrait_enum.reads_back_enum WifiMode_enum.reads_back_enum
  WifiSecurity_enum.reads_back_enum Architecture_enum.reads_back_enum
  FirmwareChannel_enum.reads_back_enum HardwareType_enum.reads_back_enum
  UsbSubsystem_enum.reads_back_enum UsbVersion_enum.reads_back_enum
  UsbPowerControl_enum.reads_back_enum MediaBus_enum.reads_back_enum
  MediaState_enum.reads_back_enum FileSystemType_enum.reads_back_enum
  PingCheckMode_enum.reads_back_enum PingCheckStatus_enum.reads_back_enum
  RadioAccessTechnology_enum.reads_back_enum SystemOperatingMode_enum.reads_back_enum
  ArpState_enum.reads_back_enum DhcpBindingMode_enum.reads_back_enum
  RouteProtocol_enum.reads_back_enum HotspotAccess_enum.reads_back_enum
  TrafficShapeMode_enum.reads_back_enum interface_id.reads_back_identifier
  usb_device_id.reads_back_identifier media_id.reads_back_identifier
  partition_id.reads_back_identifier volume_id.reads_back_identifier
  service_tag.reads_back_identifier serial_number.reads_back_identifier
  customer_id.reads_back_identifier imei.reads_back_from_str iccid.reads_back_from_str
  imsi.reads_back_from_str plmn.reads_back_from_str hardware_version.reads_back_from_str
  hardware_model.reads_back_from_str region_code.reads_back_from_str imei.reads_back_reported
  iccid.reads_back_reported imsi.reads_back_reported region_code.reads_back_reported
  hardware_id.reads_back_reported

lemmas reads_back_rules = reads_back_texts reads_back_hardware reads_back_mac reads_back_command reads_back_lease
  reads_back_uptime reads_back_flags reads_back_numbers reads_back_streams

section \<open>Properties\<close>

text \<open>C34: for every type that is both read and written as one JSON scalar, a value that was read is read
  again, unchanged, from what it is written as: classifiers, identifiers and validated texts,
  modem-reported values, addresses and hosts (when the text form of an IP address is read back as
  that address and is plain text), CLI commands, memory pairs, leases and uptimes, flags and numbers.
  Values that only a caller can put together are not meant: \<open>Other\<close> of a known spelling is read back
  as the known classifier, and a lease with a fraction of a second loses it.\<close>

theorem values_read_back:
  assumes "ip_text (parse_ip fm) ip_show"
  shows "reads_back (de_enum LinkState_from) (open_enum_serialize LinkState_as_str)
    \<and> reads_back (de_enum InterfaceState_from) (open_enum_serialize InterfaceState_as_str)
    \<and> reads_back (de_enum InterfaceLayerState_from) (open_enum_serialize InterfaceLayerState_as_str)
    \<and> reads_back (de_enum InterfaceKind_from) (open_enum_serialize InterfaceKind_as_str)
    \<and> reads_back (de_enum InterfaceTrait_from) (open_enum_serialize InterfaceTrait_as_str)
    \<and> reads_back (de_enum WifiMode_from) (open_enum_serialize WifiMode_as_str)
    \<and> reads_back (de_enum WifiSecurity_from) (open_enum_serialize WifiSecurity_as_str)
    \<and> reads_back (de_enum Architecture_from) (open_enum_serialize Architecture_as_str)
    \<and> reads_back (de_enum FirmwareChannel_from) (open_enum_serialize FirmwareChannel_as_str)
    \<and> reads_back (de_enum HardwareType_from) (open_enum_serialize HardwareType_as_str)
    \<and> reads_back (de_enum UsbSubsystem_from) (open_enum_serialize UsbSubsystem_as_str)
    \<and> reads_back (de_enum UsbVersion_from) (open_enum_serialize UsbVersion_as_str)
    \<and> reads_back (de_enum UsbPowerControl_from) (open_enum_serialize UsbPowerControl_as_str)
    \<and> reads_back (de_enum MediaBus_from) (open_enum_serialize MediaBus_as_str)
    \<and> reads_back (de_enum MediaState_from) (open_enum_serialize MediaState_as_str)
    \<and> reads_back (de_enum FileSystemType_from) (open_enum_serialize FileSystemType_as_str)
    \<and> reads_back (de_enum PingCheckMode_from) (open_enum_serialize PingCheckMode_as_str)
    \<and> reads_back (de_enum PingCheckStatus_from) (open_enum_serialize PingCheckStatus_as_str)
    \<and> reads_back (de_enum RadioAccessTechnology_from) (open_enum_serialize RadioAccessTechnology_as_str)
    \<and> reads_back (de_enum SystemOperatingMode_from) (open_enum_serialize SystemOperatingMode_as_str)
    \<and> reads_back (de_enum ArpState_from) (open_enum_serialize ArpState_as_str)
    \<and> reads_back (de_enum DhcpBindingMode_from) (open_enum_serialize DhcpBindingMode_as_str)
    \<and> reads_back (de_enum RouteProtocol_from) (open_enum_serialize RouteProtocol_as_str)
    \<and> reads_back (de_enum HotspotAccess_from) (open_enum_serialize HotspotAccess_as_str)
    \<and> reads_back (de_enum TrafficShapeMode_from) (open_enum_serialize TrafficShapeMode_as_str)
    \<and> reads_back (de_identifier InterfaceId_try_from) (string_identifier_serialize InterfaceId_as_str)
    \<and> reads_back (de_identifier UsbDeviceId_try_from) (string_identifier_serialize UsbDeviceId_as_str)
    \<and> reads_back (de_identifier MediaId_try_from) (string_identifier_serialize MediaId_as_str)
    \<and> reads_back (de_identifier PartitionId_try_from) (string_identifier_serialize PartitionId_as_str)
    \<and> reads_back (de_identifier VolumeId_try_from) (string_identifier_serialize VolumeId_as_str)
    \<and> reads_back (de_identifier ServiceTag_try_from) (string_identifier_serialize ServiceTag_as_str)
    \<and> reads_back (de_identifier SerialNumber_try_from) (string_identifier_serialize SerialNumber_as_str)
    \<and> reads_back (de_identifier CustomerId_try_from) (string_identifier_serialize CustomerId_as_str)
    \<and> reads_back (de_from_str Imei_from_str) (string_value_serialize Imei_as_str)
    \<and> reads_back (de_from_str Iccid_from_str) (string_value_serialize Iccid_as_str)
    \<and> reads_back (de_from_str Imsi_from_str) (string_value_serialize Imsi_as_str)
    \<and> reads_back (de_from_str Plmn_from_str) (string_value_serialize Plmn_as_str)
    \<and> reads_back (de_from_str HardwareVersion_from_str) (string_value_serialize HardwareVersion_as_str)
    \<and> reads_back (de_from_str HardwareModel_from_str) (string_value_serialize HardwareModel_as_str)
    \<and> reads_back (de_from_str RegionCode_from_str) (string_value_serialize RegionCode_as_str)
    \<and> reads_back (de_reported Imei_from_str) (Reported_serialize Imei_as_str)
    \<and> reads_back (de_reported Iccid_from_str) (Reported_serialize Iccid_as_str)
    \<and> reads_back (de_reported Imsi_from_str) (Reported_serialize Imsi_as_str)
    \<and> reads_back (de_reported RegionCode_from_str) (Reported_serialize RegionCode_as_str)
    \<and> reads_back (de_reported HardwareId_from_str) (Reported_serialize HardwareId_display)
    \<and> reads_back (de_from_str HardwareVendor_from_str) HardwareVendor_serialize
    \<and> reads_back (de_from_str HardwareId_from_str) HardwareId_serialize
    \<and> reads_back (de_from_str MwsMemoryUsage_from_str) MwsMemoryUsage_serialize
    \<and> reads_back de_mac MacAddress_serialize
    \<and> reads_back (visiting CliCommand_visit) CliCommand_write
    \<and> reads_back (de_host fm) (NetworkHost_write ip_show)
    \<and> reads_back de_lease LeaseExpiration_serialize
    \<and> reads_back de_uptime Uptime_serialize
    \<and> reads_back (de_newtype RouteFlags de_str) RouteFlags_serialize
    \<and> reads_back (de_newtype ByteCount de_uint) ByteCount_serialize
    \<and> reads_back (de_newtype DataRate de_uint) DataRate_serialize
    \<and> reads_back (de_newtype McsIndex de_uint) McsIndex_serialize
    \<and> reads_back (de_newtype ChannelWidth de_uint) ChannelWidth_serialize
    \<and> reads_back (de_newtype GuardInterval de_uint) GuardInterval_serialize
    \<and> reads_back (de_newtype SpatialStreams de_nonzero) SpatialStreams_serialize"
  by (intro conjI reads_back_rules reads_back_host [OF assms])

theorem values_read_back_witness:
  "de_host \<lparr>parse_ip = ref_ip_parse, parse_ipv4 = (\<lambda>_. None), parse_ipv6 = (\<lambda>_. None), parse_ipv4net = (\<lambda>_. None),
       parse_ipv6net = (\<lambda>_. None), key_event = Visit_str\<rparr>
     (Scalar (NetworkHost_write ref_ip_show (Address (V4 (Ipv4Addr 192 168 1 1))))) = Inr (Address (V4 (Ipv4Addr 192 168 1 1)))"
proof -
  let ?fm = "\<lparr>parse_ip = ref_ip_parse, parse_ipv4 = (\<lambda>_. None), parse_ipv6 = (\<lambda>_. None), parse_ipv4net = (\<lambda>_. None),
       parse_ipv6net = (\<lambda>_. None), key_event = Visit_str\<rparr>"
  let ?host = "Address (V4 (Ipv4Addr 192 168 1 1))" and ?s = "ref_ip_show (V4 (Ipv4Addr 192 168 1 1))"
  have ip: "ip_text (parse_ip ?fm) ref_ip_show" using ref_ip.ip_text_axioms by simp
  have "reads_back (de_host ?fm) (NetworkHost_write ref_ip_show)"
    using values_read_back [OF ip] by blast
  moreover have "de_host ?fm (Scalar (Visit_str ?s)) = Inr ?host"
    using ref_host.valid_parse [of ?host]
    by (simp add: de_host_def visiting_def host_ok_def del: ref_ip_show.simps)
  ultimately show ?thesis unfolding reads_back_def by blast
qed

end
