(* ===== verification/Messages.thy ===== *)
theory Messages
  imports Serialized Path Calls
begin

text \<open>
  What the errors of the crate print. The \<open>#[error(...)]\<close> attributes of \<open>thiserror\<close> are functions into
  strings, \<open>#[error(transparent)]\<close> prints the inner error, and the derived \<open>Debug\<close> of the errors
  without a hand-written one completes the \<open>debug_tree\<close> functions of theory \<open>Errors\<close>. The text of a
  status code (\<open>http\<close>) and the \<open>Debug\<close> output of a \<open>reqwest\<close> error are parameters.

  The first part is \<open>src/src/error.rs\<close>, the second the errors of the values in \<open>src/src/model\<close>,
  \<open>path.rs\<close>, \<open>cli.rs\<close> and \<open>request/network_test.rs\<close>.
\<close>

section \<open>Client errors\<close>

fun ConfigError_display :: "ConfigError \<Rightarrow> string" where
  "ConfigError_display MissingBaseUrl = ''a base URL is required''"
| "ConfigError_display (InvalidBaseUrl m) = ''invalid base URL: '' @ m"
| "ConfigError_display (UnsupportedScheme s) =
     ''unsupported base URL scheme `'' @ s @ ''`; only http and https are supported''"
| "ConfigError_display MissingHost = ''the base URL must contain a host''"
| "ConfigError_display EmbeddedCredentials = ''the base URL must not contain embedded credentials''"
| "ConfigError_display NotAnOrigin = ''the base URL must not contain a path, query, or fragment''"
| "ConfigError_display EmptyLogin = ''the login must not be empty''"
| "ConfigError_display ConnectTimeoutWithHttpClient =
     ''connect_timeout cannot be combined with an injected reqwest client''"
| "ConfigError_display (ZeroTimeout name) = name @ '' must be greater than zero''"
| "ConfigError_display (HttpClientError e) = ''failed to build the internal HTTP client''"

fun MalformedAuthReason_display :: "MalformedAuthReason \<Rightarrow> string" where
  "MalformedAuthReason_display IncompleteHeaders = ''the challenge headers are incomplete''"
| "MalformedAuthReason_display (InvalidHeader name) = ''header `'' @ name @ ''` is not valid text''"
| "MalformedAuthReason_display (EmptyHeader name) = ''header `'' @ name @ ''` is empty''"

fun AuthenticationError_display :: "AuthenticationError \<Rightarrow> string" where
  "AuthenticationError_display Required = ''authentication is required, but no credentials were configured''"
| "AuthenticationError_display Unsupported =
     ''the server did not provide a supported LAN authentication challenge; KeenDNS authentication is not supported''"
| "AuthenticationError_display (MalformedResponse reason) =
     ''the authentication challenge response is malformed: '' @ MalformedAuthReason_display reason"
| "AuthenticationError_display RejectedCredentials = ''the server rejected the supplied credentials''"
| "AuthenticationError_display UnauthorizedAfterAuthentication =
     ''the endpoint remained unauthorized after successful authentication''"

definition QuerySerializationError_display :: "QuerySerializationError \<Rightarrow> string" where
  "QuerySerializationError_display e = ''failed to serialize query for '' @ RequestContext_display (qs_context e)"

definition JsonSerializationError_display :: "JsonSerializationError \<Rightarrow> string" where
  "JsonSerializationError_display e = ''failed to serialize JSON body for '' @ RequestContext_display (js_context e)"

definition TransportError_display :: "TransportError \<Rightarrow> string" where
  "TransportError_display e = ''transport failure while sending '' @ RequestContext_display (te_context e)"

definition HttpError_display :: "(nat \<Rightarrow> string) \<Rightarrow> HttpError \<Rightarrow> string" where
  "HttpError_display status_text e =
     ''HTTP '' @ status_text (he_status e) @ '' from '' @ RequestContext_display (he_context e)"

definition RciError_display :: "RciError \<Rightarrow> string" where
  "RciError_display e =
     ''RCI returned '' @ show_nat (length (re_entries e)) @ '' error status entr''
     @ (if length (re_entries e) = 1 then ''y'' else ''ies'') @ '' for '' @ RequestContext_display (RciError.re_context e)"

definition ResponseJsonError_display :: "ResponseJsonError \<Rightarrow> string" where
  "ResponseJsonError_display e = ''invalid JSON response from '' @ RequestContext_display (rj_context e)"

definition ResponseDeserializationError_display :: "ResponseDeserializationError \<Rightarrow> string" where
  "ResponseDeserializationError_display e =
     ''JSON response from '' @ RequestContext_display (rd_context e)
     @ '' does not match the requested type at JSON path `'' @ rd_path e @ ''`''"

fun Error_display :: "(nat \<Rightarrow> string) \<Rightarrow> Error \<Rightarrow> string" where
  "Error_display status_text (QuerySerialization e) = QuerySerializationError_display e"
| "Error_display status_text (JsonSerialization e) = JsonSerializationError_display e"
| "Error_display status_text (Transport e) = TransportError_display e"
| "Error_display status_text (Authentication e) = AuthenticationError_display e"
| "Error_display status_text (Http e) = HttpError_display status_text e"
| "Error_display status_text (RciErr e) = RciError_display e"
| "Error_display status_text (ResponseJson e) = ResponseJsonError_display e"
| "Error_display status_text (ResponseDeserialization e) = ResponseDeserializationError_display e"

subsection \<open>Debug\<close>

fun ConfigError_debug :: "(reqwest_error \<Rightarrow> debug_tree) \<Rightarrow> ConfigError \<Rightarrow> debug_tree" where
  "ConfigError_debug dbg MissingBaseUrl = Debug_tuple ''MissingBaseUrl'' []"
| "ConfigError_debug dbg (InvalidBaseUrl m) = Debug_tuple ''InvalidBaseUrl'' [Debug_text m]"
| "ConfigError_debug dbg (UnsupportedScheme s) = Debug_tuple ''UnsupportedScheme'' [Debug_text s]"
| "ConfigError_debug dbg MissingHost = Debug_tuple ''MissingHost'' []"
| "ConfigError_debug dbg EmbeddedCredentials = Debug_tuple ''EmbeddedCredentials'' []"
| "ConfigError_debug dbg NotAnOrigin = Debug_tuple ''NotAnOrigin'' []"
| "ConfigError_debug dbg EmptyLogin = Debug_tuple ''EmptyLogin'' []"
| "ConfigError_debug dbg ConnectTimeoutWithHttpClient = Debug_tuple ''ConnectTimeoutWithHttpClient'' []"
| "ConfigError_debug dbg (ZeroTimeout name) = Debug_tuple ''ZeroTimeout'' [Debug_text name]"
| "ConfigError_debug dbg (HttpClientError e) = Debug_tuple ''HttpClient'' [dbg e]"

fun MalformedAuthReason_debug :: "MalformedAuthReason \<Rightarrow> debug_tree" where
  "MalformedAuthReason_debug IncompleteHeaders = Debug_tuple ''IncompleteHeaders'' []"
| "MalformedAuthReason_debug (InvalidHeader name) = Debug_tuple ''InvalidHeader'' [Debug_text name]"
| "MalformedAuthReason_debug (EmptyHeader name) = Debug_tuple ''EmptyHeader'' [Debug_text name]"

fun AuthenticationError_debug :: "AuthenticationError \<Rightarrow> debug_tree" where
  "AuthenticationError_debug Required = Debug_tuple ''Required'' []"
| "AuthenticationError_debug Unsupported = Debug_tuple ''Unsupported'' []"
| "AuthenticationError_debug (MalformedResponse reason) =
     Debug_tuple ''MalformedResponse'' [MalformedAuthReason_debug reason]"
| "AuthenticationError_debug RejectedCredentials = Debug_tuple ''RejectedCredentials'' []"
| "AuthenticationError_debug UnauthorizedAfterAuthentication =
     Debug_tuple ''UnauthorizedAfterAuthentication'' []"

definition HttpError_debug :: "HttpError \<Rightarrow> debug_tree" where
  "HttpError_debug e = Debug_struct ''HttpError''
     [(''context'', RequestContext_debug (he_context e)), (''status'', Debug_number (he_status e))] False"

definition RciStatusEntry_debug :: "RciStatusEntry \<Rightarrow> debug_tree" where
  "RciStatusEntry_debug e = Debug_struct ''RciStatusEntry''
     [(''code'', option_debug Debug_text (code e)), (''ident'', option_debug Debug_text (ident e)),
      (''message'', option_debug Debug_text (message e))] False"

fun Error_debug :: "Error \<Rightarrow> debug_tree" where
  "Error_debug (QuerySerialization e) = Debug_tuple ''QuerySerialization'' [QuerySerializationError_debug e]"
| "Error_debug (JsonSerialization e) = Debug_tuple ''JsonSerialization'' [JsonSerializationError_debug e]"
| "Error_debug (Transport e) = Debug_tuple ''Transport'' [TransportError_debug e]"
| "Error_debug (Authentication e) = Debug_tuple ''Authentication'' [AuthenticationError_debug e]"
| "Error_debug (Http e) = Debug_tuple ''Http'' [HttpError_debug e]"
| "Error_debug (RciErr e) = Debug_tuple ''Rci'' [RciError_debug e]"
| "Error_debug (ResponseJson e) = Debug_tuple ''ResponseJson'' [ResponseJsonError_debug e]"
| "Error_debug (ResponseDeserialization e) =
     Debug_tuple ''ResponseDeserialization'' [ResponseDeserializationError_debug e]"

definition NetworkTestSession_debug :: "NetworkTestSession \<Rightarrow> debug_tree" where
  "NetworkTestSession_debug n = Debug_struct ''NetworkTestSession''
     [(''endpoint'', Debug_text (ns_endpoint n)), (''has_pending_output'', Debug_bool (ns_pending n \<noteq> None)),
      (''continued'', Debug_bool (ns_continued n))] True"

subsection \<open>Sources and accessors\<close>

datatype foreign_error = Reqwest reqwest_error | Serde_json json_error | Serde_urlencoded string

fun ConfigError_source :: "ConfigError \<Rightarrow> foreign_error option" where
  "ConfigError_source (HttpClientError e) = Some (Reqwest e)"
| "ConfigError_source _ = None"

text \<open>A transparent variant has the source of the error it wraps; the other errors have none.\<close>

fun Error_source :: "Error \<Rightarrow> foreign_error option" where
  "Error_source (QuerySerialization e) = Some (Serde_urlencoded (qs_source e))"
| "Error_source (JsonSerialization e) = Some (Serde_json (js_source e))"
| "Error_source (Transport e) = Some (Reqwest (te_source e))"
| "Error_source (Authentication e) = None"
| "Error_source (Http e) = None"
| "Error_source (RciErr e) = None"
| "Error_source (ResponseJson e) = Some (Serde_json (rj_source e))"
| "Error_source (ResponseDeserialization e) = Some (Serde_json (rd_source e))"

text \<open>The \<open>context()\<close> accessors, as one function on the sum.\<close>

fun Error_context :: "Error \<Rightarrow> RequestContext option" where
  "Error_context (QuerySerialization e) = Some (qs_context e)"
| "Error_context (JsonSerialization e) = Some (js_context e)"
| "Error_context (Transport e) = Some (te_context e)"
| "Error_context (Authentication e) = None"
| "Error_context (Http e) = Some (he_context e)"
| "Error_context (RciErr e) = Some (RciError.re_context e)"
| "Error_context (ResponseJson e) = Some (rj_context e)"
| "Error_context (ResponseDeserialization e) = Some (rd_context e)"

section \<open>Value errors\<close>

fun ParseImeiError_display :: "ParseImeiError \<Rightarrow> string" where
  "ParseImeiError_display (ImeiInvalidLength actual) =
     ''an IMEI must contain exactly '' @ show_nat IMEI_LENGTH @ '' digits, got '' @ show_nat actual"
| "ParseImeiError_display (ImeiInvalidDigit index) =
     ''an IMEI contains a non-decimal digit at byte index '' @ show_nat index"
| "ParseImeiError_display ImeiInvalidChecksum = ''an IMEI has an invalid Luhn check digit''"

fun ParseImsiError_display :: "ParseImsiError \<Rightarrow> string" where
  "ParseImsiError_display (ImsiInvalidLength actual) =
     ''an IMSI must contain between 6 and 15 digits, got '' @ show_nat actual"
| "ParseImsiError_display (ImsiInvalidDigit index) =
     ''an IMSI contains a non-decimal digit at byte index '' @ show_nat index"

fun ParseIccidError_display :: "ParseIccidError \<Rightarrow> string" where
  "ParseIccidError_display (IccidInvalidLength actual) =
     ''an ICCID must contain 19 or 20 digits, got '' @ show_nat actual"
| "ParseIccidError_display (IccidInvalidDigit index) =
     ''an ICCID contains a non-decimal digit at byte index '' @ show_nat index"

fun ParsePlmnError_display :: "ParsePlmnError \<Rightarrow> string" where
  "ParsePlmnError_display (PlmnInvalidLength actual) =
     ''a PLMN must contain exactly 5 or 6 digits, got '' @ show_nat actual"
| "ParsePlmnError_display (PlmnInvalidDigit index) =
     ''a PLMN contains a non-decimal digit at byte index '' @ show_nat index"

fun ParseHardwareVersionError_display :: "ParseHardwareVersionError \<Rightarrow> string" where
  "ParseHardwareVersionError_display (HardwareVersionInvalidLength actual) =
     ''a hardware version must contain exactly '' @ show_nat HARDWARE_VERSION_LENGTH @ '' digits, got '' @ show_nat actual"
| "ParseHardwareVersionError_display (HardwareVersionInvalidDigit index) =
     ''a hardware version contains a non-decimal digit at byte index '' @ show_nat index"

fun ParseRegionCodeError_display :: "ParseRegionCodeError \<Rightarrow> string" where
  "ParseRegionCodeError_display (RegionCodeInvalidLength actual) =
     ''a region code must contain exactly '' @ show_nat REGION_CODE_LENGTH @ '' letters, got '' @ show_nat actual"
| "ParseRegionCodeError_display (RegionCodeInvalidCharacter index) =
     ''a region code contains a non-uppercase ASCII letter at byte index '' @ show_nat index"

fun ParseHardwareModelError_display :: "ParseHardwareModelError \<Rightarrow> string" where
  "ParseHardwareModelError_display (HardwareModelInvalidLength actual) =
     ''a hardware model must contain exactly '' @ show_nat HARDWARE_MODEL_LENGTH @ '' digits, got '' @ show_nat actual"
| "ParseHardwareModelError_display (HardwareModelInvalidDigit index) =
     ''a hardware model contains a non-decimal digit at byte index '' @ show_nat index"

definition ParseHardwareVendorError_display :: "ParseHardwareVendorError \<Rightarrow> string" where
  "ParseHardwareVendorError_display e = ''a hardware vendor must be KN or NC''"

fun ParseHardwareIdError_display :: "ParseHardwareIdError \<Rightarrow> string" where
  "ParseHardwareIdError_display (HwIdInvalidLength actual) =
     ''a hardware identifier must contain exactly 7 bytes, got '' @ show_nat actual"
| "ParseHardwareIdError_display HwIdInvalidSeparator =
     ''a hardware identifier must contain a hyphen at byte index 2''"
| "ParseHardwareIdError_display (HwIdInvalidVendor e) = ParseHardwareVendorError_display e"
| "ParseHardwareIdError_display (HwIdInvalidModel e) = ParseHardwareModelError_display e"

fun ParseMacAddressError_display :: "ParseMacAddressError \<Rightarrow> string" where
  "ParseMacAddressError_display (MacInvalidLength n) =
     ''a MAC address must contain 17 ASCII characters, got '' @ show_nat n"
| "ParseMacAddressError_display (MacInvalidSeparator n) =
     ''a MAC address must contain '' @ [CHR 0x27, CHR '':'', CHR 0x27] @ '' at byte '' @ show_nat n"
| "ParseMacAddressError_display (MacInvalidHexDigit n) =
     ''a MAC address contains an invalid hexadecimal digit at byte '' @ show_nat n"

fun InvalidInterfaceId_display :: "InvalidInterfaceId \<Rightarrow> string" where
  "InvalidInterfaceId_display InterfaceEmpty = ''an interface identifier must not be empty''"
| "InvalidInterfaceId_display InterfaceControlCharacter =
     ''an interface identifier must not contain control characters''"

fun InvalidNetworkHost_display :: "InvalidNetworkHost \<Rightarrow> string" where
  "InvalidNetworkHost_display HostEmpty = ''a network host must not be empty''"
| "InvalidNetworkHost_display HostControlCharacter = ''a network host must not contain control characters''"

fun InvalidInventoryId_display :: "InvalidInventoryId \<Rightarrow> string" where
  "InvalidInventoryId_display InventoryEmpty = ''an inventory identifier must not be empty''"
| "InvalidInventoryId_display InventoryControlCharacter =
     ''an inventory identifier must not contain control characters''"

fun InvalidVolumeId_display :: "InvalidVolumeId \<Rightarrow> string" where
  "InvalidVolumeId_display VolumeEmpty = ''a volume identifier must not be empty''"
| "InvalidVolumeId_display VolumeControlCharacter = ''a volume identifier must not contain control characters''"

fun InvalidServiceTag_display :: "InvalidServiceTag \<Rightarrow> string" where
  "InvalidServiceTag_display ServiceTagEmpty = ''the identifier must not be empty''"
| "InvalidServiceTag_display ServiceTagControlCharacter = ''the identifier must not contain control characters''"

fun InvalidSerialNumber_display :: "InvalidSerialNumber \<Rightarrow> string" where
  "InvalidSerialNumber_display SerialNumberEmpty = ''the identifier must not be empty''"
| "InvalidSerialNumber_display SerialNumberControlCharacter = ''the identifier must not contain control characters''"

fun InvalidCustomerId_display :: "InvalidCustomerId \<Rightarrow> string" where
  "InvalidCustomerId_display CustomerIdEmpty = ''the identifier must not be empty''"
| "InvalidCustomerId_display CustomerIdControlCharacter = ''the identifier must not contain control characters''"

definition InvalidMeasurement_display :: "InvalidMeasurement \<Rightarrow> string" where
  "InvalidMeasurement_display e = ''a measurement must be finite''"

definition InvalidCarrierBandwidth_display :: "InvalidCarrierBandwidth \<Rightarrow> string" where
  "InvalidCarrierBandwidth_display e = ''carrier bandwidth must be positive and finite''"

fun InvalidCpuLoad_display :: "InvalidCpuLoad \<Rightarrow> string" where
  "InvalidCpuLoad_display (InvalidCpuLoad v) =
     ''CPU load must be between 0 and 100 percent, got '' @ show_nat (unat v)"

fun InvalidMtu_display :: "InvalidMtu \<Rightarrow> string" where
  "InvalidMtu_display (InvalidMtu v) =
     ''MTU must be at least '' @ show_nat (unat Mtu_MIN) @ '' bytes, got '' @ show_nat (unat v)"

definition InvalidMwsMemoryUsage_display :: "InvalidMwsMemoryUsage \<Rightarrow> string" where
  "InvalidMwsMemoryUsage_display e =
     ''MWS memory usage must be a `free/total` pair with free not exceeding total''"

definition InvalidPath_display :: "InvalidPath \<Rightarrow> string" where
  "InvalidPath_display e = ''invalid '' @ PathKind_display (ip_kind e) @ '' path: '' @ ip_reason e"

fun InvalidCliCommand_display :: "InvalidCliCommand \<Rightarrow> string" where
  "InvalidCliCommand_display CliEmpty = ''a CLI command must contain a non-whitespace character''"
| "InvalidCliCommand_display CliControlCharacter = ''a CLI command must not contain control characters''"

fun InvalidNetworkTestOption_display :: "InvalidNetworkTestOption \<Rightarrow> string" where
  "InvalidNetworkTestOption_display (InvalidHost e) = InvalidNetworkHost_display e"
| "InvalidNetworkTestOption_display (AddressFamily tool option expected actual) =
     tool @ '' requires an '' @ expected @ '' '' @ option @ '', got '' @ actual"
| "InvalidNetworkTestOption_display (OutOfRange option low high value) =
     option @ '' must be in the range '' @ show_nat (unat low) @ ''..='' @ show_nat (unat high)
     @ '', got '' @ show_nat (unat value)"
| "InvalidNetworkTestOption_display (TcpTraceroutePacketSize n) =
     ''TCP traceroute packet size must be '' @ show_nat (unat TCP_TRACEROUTE_PACKET_SIZE)
     @ '', got '' @ show_nat (unat n)"

section \<open>What a refusal says\<close>

text \<open>What the buffer of \<open>model/text.rs\<close> promises of its two errors: a length is the length of the text and
  out of the range, an index is that of the first character that does not belong.\<close>

fun refused :: "nat \<Rightarrow> nat \<Rightarrow> (char \<Rightarrow> bool) \<Rightarrow> string \<Rightarrow> InvalidInlineAscii \<Rightarrow> bool" where
  "refused low high ok s (Length n) \<longleftrightarrow> n = length s \<and> \<not> (low \<le> n \<and> n \<le> high)"
| "refused low high ok s (Character i) \<longleftrightarrow> low \<le> length s \<and> length s \<le> high
     \<and> i < length s \<and> \<not> ok (s ! i) \<and> list_all ok (take i s)"

lemma list_all_take: "i \<le> length s \<Longrightarrow> list_all p (take i s) \<longleftrightarrow> (\<forall>j < i. p (s ! j))"
  by (auto simp: list_all_length)

lemma position_unique:
  "position p s = Some i \<longleftrightarrow> i < length s \<and> p (s ! i) \<and> list_all (\<lambda>b. \<not> p b) (take i s)" for s :: string
  by (auto simp: position_Some list_all_take)

lemma inline_refused: "InlineAscii_parse cap s low p = Inl e \<longleftrightarrow> refused low cap p s e"
proof (cases e)
  case (Character i)
  have "position (\<lambda>b. \<not> p b) s = Some i \<longleftrightarrow> i < length s \<and> \<not> p (s ! i) \<and> list_all p (take i s)"
    by (simp add: position_unique)
  then show ?thesis
    by (cases "position (\<lambda>b. \<not> p b) s") (auto simp: InlineAscii_parse_def Character)
qed (auto simp: InlineAscii_parse_def split: option.splits)

lemma inline_error:
  assumes "inj f"
  shows "map_err f (map_res g (InlineAscii_parse cap s low p)) = Inl (f e) \<longleftrightarrow> refused low cap p s e"
  using inline_refused [of cap s low p e] assms
  by (cases "InlineAscii_parse cap s low p") (auto simp: res_simps dest: injD)

lemma inline_error_inj:
  "inj imei_inline_error" "inj imsi_inline_error" "inj iccid_inline_error" "inj plmn_inline_error"
  "inj hardware_version_inline_error" "inj hardware_model_inline_error" "inj region_code_inline_error"
  by (rule injI, rename_tac x y, case_tac x; case_tac y; simp)+

lemma imei_errors:
  "Imei_from_str s = Inl (imei_inline_error e) \<longleftrightarrow> refused 15 15 is_ascii_digit s e"
  "Imei_from_str s = Inl ImeiInvalidChecksum
     \<longleftrightarrow> length s = 15 \<and> list_all is_ascii_digit s \<and> \<not> luhn_valid s"
proof -
  let ?parse = "InlineAscii_parse 15 s 15 is_ascii_digit"
  have e: "imei_inline_error x \<noteq> ImeiInvalidChecksum" for x by (cases x) simp_all
  show "Imei_from_str s = Inl (imei_inline_error e) \<longleftrightarrow> refused 15 15 is_ascii_digit s e"
    using inline_error [OF inline_error_inj(1), of Imei 15 s 15 is_ascii_digit e] e [symmetric]
    by (cases ?parse) (auto simp: imei_from_str_alt InlineAscii_digits_def IMEI_LENGTH_def res_simps)
  show "Imei_from_str s = Inl ImeiInvalidChecksum
     \<longleftrightarrow> length s = 15 \<and> list_all is_ascii_digit s \<and> \<not> luhn_valid s"
  proof (cases ?parse)
    case (Inl x)
    then have "refused 15 15 is_ascii_digit s x" by (simp add: inline_refused)
    then have "\<not> (length s = 15 \<and> list_all is_ascii_digit s)" by (cases x) (auto simp: list_all_length)
    with Inl e show ?thesis
      by (auto simp: imei_from_str_alt InlineAscii_digits_def IMEI_LENGTH_def)
  next
    case (Inr a)
    then have "length s = 15 \<and> list_all is_ascii_digit s" "InlineAscii_as_str a = s"
      using InlineAscii_parse_ok [OF _ Inr] InlineAscii_as_str_parse [OF _ Inr]
        inline_ascii_ok_length [OF InlineAscii_parse_ok [OF _ Inr]]
      by (auto simp: inline_ascii_ok_def InlineAscii_as_str_def)
    with Inr show ?thesis
      by (auto simp: imei_from_str_alt InlineAscii_digits_def IMEI_LENGTH_def Imei_as_str_def)
  qed
qed

lemma hardware_model_read:
  assumes "length t = 4"
  shows "HardwareModel_from_str t = Inl (HardwareModelInvalidDigit i) \<longleftrightarrow> refused 4 4 is_ascii_digit t (Character i)"
    and "HardwareModel_from_str t \<noteq> Inl (HardwareModelInvalidLength n)"
    and "is_ok (HardwareModel_from_str t) \<longleftrightarrow> list_all is_ascii_digit t"
proof -
  have model: "HardwareModel_from_str t
      = map_err hardware_model_inline_error (map_res HardwareModel (InlineAscii_parse 4 t 4 is_ascii_digit))"
    by (simp add: HardwareModel_from_str_def InlineAscii_digits_def HARDWARE_MODEL_LENGTH_def)
  note err = inline_error [OF inline_error_inj(6), of HardwareModel 4 t 4 is_ascii_digit]
  show "HardwareModel_from_str t = Inl (HardwareModelInvalidDigit i) \<longleftrightarrow> refused 4 4 is_ascii_digit t (Character i)"
      "HardwareModel_from_str t \<noteq> Inl (HardwareModelInvalidLength n)"
    using err [of "Character i"] err [of "Length n"] assms by (simp_all add: model)
  show "is_ok (HardwareModel_from_str t) \<longleftrightarrow> list_all is_ascii_digit t"
    using assms position_None [of "\<lambda>b. \<not> is_ascii_digit b" t] position_Some [of "\<lambda>b. \<not> is_ascii_digit b" t]
    by (auto simp: model InlineAscii_parse_def list_all_iff split: option.splits)
qed

section \<open>What an error shows\<close>

text \<open>\<open>redact\<close> blanks the parts of an error that came from outside the client: the sources, the entries of
  an RCI error and the JSON path of a data error; what stays is the request it is about, a status, the
  number of entries and the timeout flag. The path is the one of them that an error shows: the names of
  the entries of the response down to the one that did not read.\<close>

definition hidden :: json_error where
  "hidden = \<lparr>je_category = Category_Data, je_message = []\<rparr>"

fun redact :: "Error \<Rightarrow> Error" where
  "redact (QuerySerialization e) = QuerySerialization (e\<lparr>qs_source := []\<rparr>)"
| "redact (JsonSerialization e) = JsonSerialization (e\<lparr>js_source := hidden\<rparr>)"
| "redact (Transport e) = Transport (e\<lparr>te_source := \<lparr>re_timeout = re_timeout (te_source e), re_message = []\<rparr>\<rparr>)"
| "redact (Authentication e) = Authentication e"
| "redact (Http e) = Http e"
| "redact (RciErr e) =
     RciErr (e\<lparr>re_entries := map (\<lambda>_. \<lparr>code = None, ident = None, message = None\<rparr>) (re_entries e)\<rparr>)"
| "redact (ResponseJson e) = ResponseJson (e\<lparr>rj_source := hidden\<rparr>)"
| "redact (ResponseDeserialization e) = ResponseDeserialization (e\<lparr>rd_path := [], rd_source := hidden\<rparr>)"

fun json_path :: "Error \<Rightarrow> string" where
  "json_path (ResponseDeserialization e) = rd_path e"
| "json_path _ = []"

fun with_path :: "string \<Rightarrow> Error \<Rightarrow> Error" where
  "with_path p (ResponseDeserialization e) = ResponseDeserialization (e\<lparr>rd_path := p\<rparr>)"
| "with_path p e = e"

lemmas error_display_defs = QuerySerializationError_display_def JsonSerializationError_display_def
  TransportError_display_def HttpError_display_def RciError_display_def ResponseJsonError_display_def
  ResponseDeserializationError_display_def

text \<open>What an error shows is determined by its redacted form and the JSON path.\<close>

lemma prints_redacted:
  "Error_display status_text e = Error_display status_text (with_path (json_path e) (redact e))
   \<and> Error_debug e = Error_debug (with_path (json_path e) (redact e))"
  by (cases e) (simp_all add: error_display_defs error_debug_defs)

lemma evidence_context:
  assumes "error_evidence d c ops req event e" and "Error_context e = Some context"
  shows "context = pr_context req \<or> context = pr_context (fst event) \<or> context = auth_context POST"
  using assms by (cases e; cases event) auto

lemma send_json_context:
  assumes "auth_inv s" and "send_json d c ops req s = (Inl f, t)"
  shows "\<exists>e. f = Err e \<and> (\<forall>context. Error_context e = Some context \<longrightarrow>
     context = pr_context req \<or> rc_endpoint context = AUTH_ENDPOINT)"
proof -
  obtain e where e: "f = Err e" "error_evidence d c ops req (last (log t)) e"
    using send_json_evidence [OF assms] by blast
  obtain es where "log t = log s @ es" "confined req es"
    using send_json_confined [OF assms] by blast
  then have "pr_context (fst (last (log t))) = pr_context req
      \<or> rc_endpoint (pr_context (fst (last (log t)))) = AUTH_ENDPOINT"
    by (auto simp: confined_def list_all_iff last_append dest!: last_in_set)
  then show ?thesis
    using e evidence_context [OF e(2)] by (auto simp: auth_context_def RequestContext_new_def)
qed

section \<open>Properties\<close>

text \<open>C32: the error values of the fixed-alphabet parsers are exact: a length error carries the length of
  the text, which is out of range, a character error carries the index of the first character that
  does not belong, of a text of admissible length, and an IMEI is a checksum error exactly when it
  is 15 digits with a wrong Luhn sum.\<close>

theorem identifier_errors_exact:
  "(Imei_from_str s = Inl (imei_inline_error e) \<longleftrightarrow> refused 15 15 is_ascii_digit s e)
   \<and> (Imei_from_str s = Inl ImeiInvalidChecksum
        \<longleftrightarrow> length s = 15 \<and> list_all is_ascii_digit s \<and> \<not> luhn_valid s)
   \<and> (Imsi_from_str s = Inl (imsi_inline_error e) \<longleftrightarrow> refused 6 15 is_ascii_digit s e)
   \<and> (Iccid_from_str s = Inl (iccid_inline_error e) \<longleftrightarrow> refused 19 20 is_ascii_digit s e)
   \<and> (Plmn_from_str s = Inl (plmn_inline_error e) \<longleftrightarrow> refused 5 6 is_ascii_digit s e)
   \<and> (HardwareVersion_from_str s = Inl (hardware_version_inline_error e) \<longleftrightarrow> refused 8 8 is_ascii_digit s e)
   \<and> (HardwareModel_from_str s = Inl (hardware_model_inline_error e) \<longleftrightarrow> refused 4 4 is_ascii_digit s e)
   \<and> (RegionCode_from_str s = Inl (region_code_inline_error e) \<longleftrightarrow> refused 2 2 is_ascii_uppercase s e)"
  by (simp add: imei_errors inline_error inline_error_inj Imsi_from_str_def Iccid_from_str_def Plmn_from_str_def
      HardwareVersion_from_str_def HardwareModel_from_str_def RegionCode_from_str_def InlineAscii_digits_def
      InlineAscii_uppercase_def MIN_IMSI_LENGTH_def MAX_IMSI_LENGTH_def MIN_ICCID_LENGTH_def MAX_ICCID_LENGTH_def
      MIN_PLMN_LENGTH_def MAX_PLMN_LENGTH_def HARDWARE_VERSION_LENGTH_def HARDWARE_MODEL_LENGTH_def
      REGION_CODE_LENGTH_def)

text \<open>C35: a Rust string is read as a hardware identifier exactly when it is \<open>KN-\<close> or \<open>NC-\<close> with four
  digits, and the identifier prints that string; every refusal is one of four errors, each exactly
  when its check is the first to fail, with the length or the index it reports; there is no panic,
  although the code slices at byte 2 and byte 3 before it has looked at the bytes around them.\<close>

theorem hardware_id_exact:
  assumes "str_ok s"
  shows "((\<exists>h. HardwareId_from_str s = Inr h \<and> HardwareId_display h = s) \<longleftrightarrow>
        length s = 7 \<and> s ! 2 = CHR ''-'' \<and> take 2 s \<in> {''KN'', ''NC''} \<and> list_all is_ascii_digit (drop 3 s))
    \<and> (HardwareId_from_str s = Inl f \<longleftrightarrow>
        f = Err (HwIdInvalidLength (length s)) \<and> length s \<noteq> 7
        \<or> f = Err HwIdInvalidSeparator \<and> length s = 7 \<and> s ! 2 \<noteq> CHR ''-''
        \<or> f = Err (HwIdInvalidVendor ParseHardwareVendorError) \<and> length s = 7 \<and> s ! 2 = CHR ''-''
            \<and> take 2 s \<notin> {''KN'', ''NC''}
        \<or> (\<exists>i. f = Err (HwIdInvalidModel (HardwareModelInvalidDigit i)) \<and> length s = 7 \<and> s ! 2 = CHR ''-''
            \<and> take 2 s \<in> {''KN'', ''NC''} \<and> refused 4 4 is_ascii_digit (drop 3 s) (Character i)))"
proof (cases "length s = 7 \<and> s ! 2 = CHR ''-''")
  case True
  then have len: "length (drop 3 s) = 4" by simp
  have id: "HardwareId_from_str s =
      bind_res (map_err (\<lambda>e. Err (HwIdInvalidVendor e)) (HardwareVendor_from_str (take 2 s))) (\<lambda>vendor.
        map_err (\<lambda>e. Err (HwIdInvalidModel e))
          (map_res (\<lambda>model. \<lparr>hw_vendor = vendor, hw_model = model\<rparr>) (HardwareModel_from_str (drop 3 s))))"
    using True by (cases "HardwareVendor_from_str (take 2 s)"; cases "HardwareModel_from_str (drop 3 s)")
      (simp_all add: HardwareId_from_str_def hardware_id_slices [OF assms])
  have same: "(\<exists>h. HardwareId_from_str s = Inr h \<and> HardwareId_display h = s) \<longleftrightarrow> is_ok (HardwareId_from_str s)"
    using hardware_id.parse_display by (auto simp: is_ok_iff)
  have vendor: "HardwareVendor_from_str (take 2 s) = Inl ParseHardwareVendorError \<and> take 2 s \<notin> {''KN'', ''NC''}
      \<or> (\<exists>v. HardwareVendor_from_str (take 2 s) = Inr v \<and> take 2 s \<in> {''KN'', ''NC''})"
    by (simp add: HardwareVendor_from_str_def)
  note read = hardware_model_read [OF len]
  show ?thesis
  proof (cases "HardwareModel_from_str (drop 3 s)")
    case (Inl x)
    with read(2) obtain i where "x = HardwareModelInvalidDigit i" by (cases x) auto
    with Inl True vendor show ?thesis
      unfolding same read(1) [symmetric] read(3) [symmetric] by (auto simp: id)
  next
    case (Inr m)
    with True vendor show ?thesis
      unfolding same read(1) [symmetric] read(3) [symmetric] by (auto simp: id)
  qed
qed (auto simp: HardwareId_from_str_def)

text \<open>A two-byte character where the first digit belongs.\<close>

theorem hardware_id_exact_witness:
  "HardwareId_from_str [CHR ''K'', CHR ''N'', CHR ''-'', CHR 0xD0, CHR 0x96, CHR ''1'', CHR ''2'']
     = Inl (Err (HwIdInvalidModel (HardwareModelInvalidDigit 0)))"
proof -
  let ?s = "[CHR ''K'', CHR ''N'', CHR ''-'', CHR 0xD0, CHR 0x96, CHR ''1'', CHR ''2'']"
  have "str_ok ?s" by (simp add: str_ok_def utf8_decode.simps(2) is_cont_def cont_def)
  from hardware_id_exact [OF this, of "Err (HwIdInvalidModel (HardwareModelInvalidDigit 0))"]
  show ?thesis by (simp add: is_ascii_digit_def)
qed

text \<open>C9: an error keeps what it was told to itself: when a request with a confidential query or a
  confidential JSON body fails, the message and the \<open>Debug\<close> output of the error are those of the error
  with its sources, the router's messages and all values of the response blanked; the one thing of the
  response they show is the JSON path of a data error, which names the entry that did not read. The
  request the error names is the one of the path, the same for every query and body, or one of the
  login.\<close>

theorem errors_print_no_content:
  assumes "auth_inv s"
    and "run = get_with_query d c ops path query \<and> verb = GET \<or> run = post_at d c ops path body \<and> verb = POST"
    and "run s = (Inl f, t)"
  shows "\<exists>e. f = Err e
     \<and> Error_display status_text e = Error_display status_text (with_path (json_path e) (redact e))
     \<and> Error_debug e = Error_debug (with_path (json_path e) (redact e))
     \<and> (\<forall>context. Error_context e = Some context \<longrightarrow>
          context = rci_context verb (RciPath_as_str path) \<or> rc_endpoint context = AUTH_ENDPOINT)"
proof -
  have get: "pr_context (prepare_rci_get d c p q) = rci_context GET p"
    and post: "pr_context (prepare_rci_post_at d c p b) = rci_context POST p" for p q b
    by (simp_all add: prepare_defs rci_context_def Let_def)
  have "\<exists>e. f = Err e \<and> (\<forall>context. Error_context e = Some context \<longrightarrow>
      context = rci_context verb (RciPath_as_str path) \<or> rc_endpoint context = AUTH_ENDPOINT)"
    using assms(2,3)
    by (cases query; cases body)
      (auto simp: get_with_query_def post_at_def post_at_path_def bind_io_def lift_io_def get post
        dest!: send_json_context [OF assms(1)])
  then show ?thesis using prints_redacted by blast
qed

definition refused_script :: "(reqwest_error + (string, headers) Response) list" where
  "refused_script = [Inr ((script_response 200 [])\<lparr>rs_bytes := Inr escaped_error_text\<rparr>)]"

theorem errors_print_no_content_witness:
  "\<exists>e t. get_with_query script_deps script_client escaped_error_ops (RciPath ''show/log'') (Inr ''key=secret'')
       (script_session refused_script) = (Inl (Err (RciErr e)), t)
     \<and> Error_debug (RciErr e) = Error_debug (with_path [] (redact (RciErr e)))
     \<and> re_context e = rci_context GET ''show/log''"
proof -
  let ?run = "get_with_query script_deps script_client escaped_error_ops (RciPath ''show/log'') (Inr ''key=secret'')"
  have "fst (?run (script_session refused_script)) =
      Inl (Err (RciErr \<lparr>re_context = rci_context GET ''show/log'',
        re_entries = [\<lparr>code = None, ident = None, message = None\<rparr>]\<rparr>))"
    by code_simp
  then obtain t where t: "?run (script_session refused_script) =
      (Inl (Err (RciErr \<lparr>re_context = rci_context GET ''show/log'',
        re_entries = [\<lparr>code = None, ident = None, message = None\<rparr>]\<rparr>)), t)"
    by (metis prod.collapse)
  have inv: "auth_inv (script_session refused_script)" by (simp add: auth_inv_def script_session_def)
  from errors_print_no_content [OF inv disjI1 [OF conjI [OF refl refl]] t, where status_text = show_nat] t
  show ?thesis by auto
qed

end
