(* ===== verification/Collections.thy ===== *)
theory Collections
  imports Clients Mobile Inventory Topology
begin

text \<open>
  The collections of a response, and the conversions and accessors of the values in it: the macros
  \<open>impl_map_collection\<close> and \<open>impl_slice_collection\<close> of \<open>src/src/model.rs\<close>, and the constructors,
  \<open>TryFrom\<close>, \<open>From\<close>, \<open>Deref\<close> and getters of the newtypes. A shared reference to a part of a value is
  the part; an iterator is the list of what it yields.

  The locale \<open>keyed_collection\<close> is what a map keyed by router names relies on: \<open>Borrow<str>\<close> must order
  keys as their text, and a key that parses is its text. What a caller sees of the map, whichever way
  it was read, follows from it once for the three map collections.
\<close>

section \<open>Map collections\<close>

definition Interfaces_into_inner :: "Interfaces \<Rightarrow> (InterfaceId, Interface) btree" where
  "Interfaces_into_inner m = m"

definition UsbDevices_iter :: "UsbDevices \<Rightarrow> (UsbDeviceId \<times> UsbDevice) list" where
  "UsbDevices_iter u = devices u"

definition UsbDevices_into_inner :: "UsbDevices \<Rightarrow> (UsbDeviceId, UsbDevice) btree" where
  "UsbDevices_into_inner u = devices u"

definition MediaInventory_iter :: "MediaInventory \<Rightarrow> (MediaId \<times> MediaDevice) list" where
  "MediaInventory_iter m = media m"

definition MediaInventory_into_inner :: "MediaInventory \<Rightarrow> (MediaId, MediaDevice) btree" where
  "MediaInventory_into_inner m = media m"

text \<open>The macro: the wrapped map is the target of \<open>Deref\<close> and what both iterators run over.\<close>

definition map_collection_deref :: "('c \<Rightarrow> ('k, 'v) btree) \<Rightarrow> 'c \<Rightarrow> ('k, 'v) btree" where
  "map_collection_deref inner c = inner c"

definition map_collection_into_iter :: "('c \<Rightarrow> ('k, 'v) btree) \<Rightarrow> 'c \<Rightarrow> ('k \<times> 'v) list" where
  "map_collection_into_iter inner c = inner c"

definition map_collection_ref_iter :: "('c \<Rightarrow> ('k, 'v) btree) \<Rightarrow> 'c \<Rightarrow> ('k \<times> 'v) list" where
  "map_collection_ref_iter inner c = inner c"

subsection \<open>Their contract\<close>

lemma get_inserted:
  "bt_ok t \<Longrightarrow> bt_get (foldl (\<lambda>t (k, v). bt_insert k v t) t kvs) = bt_get t ++ map_of (rev kvs)"
  by (induction kvs arbitrary: t) (auto simp: bt_insert_ok bt_get_insert map_add_upd)

lemma bt_get_iff: "bt_ok t \<Longrightarrow> bt_get t k = Some v \<longleftrightarrow> (k, v) \<in> set t"
  by (simp add: bt_get_def map_of_eq_Some_iff bt_ok_distinct)

text \<open>What a map read from the entries \<open>es\<close> shows: names in lexical order, each once; the lookup finds
  what the iteration yields; and that is the last entry of the name.\<close>

definition keyed :: "entries \<Rightarrow> 'v decode \<Rightarrow> (string \<Rightarrow> 'v option) \<Rightarrow> (string \<times> 'v) list \<Rightarrow> bool" where
  "keyed es de get iter \<longleftrightarrow> sorted_wrt (<) (map fst iter)
     \<and> (\<forall>name v. get name = Some v \<longleftrightarrow> (name, v) \<in> set iter)
     \<and> (\<forall>name v. get name = Some v \<longleftrightarrow> (\<exists>w. map_of (rev es) name = Some w \<and> de w = Inr v))"

locale keyed_collection =
  fixes try_from :: "string \<Rightarrow> 'e + 'k::linorder" and con :: "string \<Rightarrow> 'k" and as_str :: "'k \<Rightarrow> string"
  assumes as_str_con: "as_str (con s) = s"
    and con_as_str: "con (as_str k) = k"
    and try_from_con: "try_from s = Inr k \<Longrightarrow> k = con s"
    and borrow_order: "k < l \<longleftrightarrow> as_str k < as_str l"
begin

lemma names_ascending: "bt_ok t \<Longrightarrow> sorted_wrt (<) (map fst (map (\<lambda>(k, v). (as_str k, v)) t))"
  by (simp add: bt_ok_def sorted_wrt_map case_prod_beta borrow_order [symmetric])

lemma get_listed:
  assumes "bt_ok t"
  shows "bt_get t (con name) = Some v \<longleftrightarrow> (name, v) \<in> set (map (\<lambda>(k, v). (as_str k, v)) t)"
  by (auto simp: bt_get_iff [OF assms] as_str_con con_as_str image_iff intro!: bexI [of _ "(con name, v)"])

lemma read_entries:
  assumes "traverse (\<lambda>(s, w). bind_res (de_key try_from s) (\<lambda>k. map_res (Pair k) (de w))) es = Inr kvs"
  shows "map_of kvs (con name) = Some v \<longleftrightarrow> (\<exists>w. map_of es name = Some w \<and> de w = Inr v)"
  using assms
proof (induction es arbitrary: kvs)
  case (Cons e es)
  obtain s w where e: "e = (s, w)" by (cases e)
  with Cons.prems obtain k u rest where "try_from s = Inr k" "de w = Inr u" "kvs = (k, u) # rest"
      "traverse (\<lambda>(s, w). bind_res (de_key try_from s) (\<lambda>k. map_res (Pair k) (de w))) es = Inr rest"
    by (auto simp: res_simps de_key_def)
  moreover from this(1) have "k = con s" by (rule try_from_con)
  moreover have "con name = con s \<longleftrightarrow> name = s" by (metis as_str_con)
  ultimately show ?case using Cons.IH e by auto
qed simp

lemma read_keyed:
  assumes "de_map (de_key try_from) de (Wire_map es) = Inr t"
  shows "keyed es de (\<lambda>name. bt_get t (con name)) (map (\<lambda>(k, v). (as_str k, v)) t)"
proof -
  let ?entry = "\<lambda>(s, w). bind_res (de_key try_from s) (\<lambda>k. map_res (Pair k) (de w))"
  from assms obtain kvs where kvs: "traverse ?entry es = Inr kvs"
      and t: "t = foldl (\<lambda>t (k, v). bt_insert k v t) [] kvs"
    by (auto simp: res_simps)
  have empty: "bt_ok ([] :: ('k \<times> 'x) list)" by (simp add: bt_ok_def)
  have ok: "bt_ok t" unfolding t by (rule foldl_insert_ok [OF empty])
  have "traverse ?entry (rev es) = Inr (rev kvs)"
    using kvs by (simp add: traverse_Inr list_all2_rev1)
  from read_entries [OF this]
  have "bt_get t (con name) = Some v \<longleftrightarrow> (\<exists>w. map_of (rev es) name = Some w \<and> de w = Inr v)" for name v
    unfolding t get_inserted [OF empty] by (simp add: bt_get_def [abs_def])
  then show ?thesis
    using names_ascending [OF ok] get_listed [OF ok] unfolding keyed_def by blast
qed

end

interpretation interface_map: keyed_collection InterfaceId_try_from InterfaceId InterfaceId_as_str
  by unfold_locales
    (auto simp: InterfaceId_try_from_def string_identifier_try_from_def less_InterfaceId_def split: if_splits)

interpretation usb_device_map: keyed_collection UsbDeviceId_try_from UsbDeviceId UsbDeviceId_as_str
  by unfold_locales
    (auto simp: UsbDeviceId_try_from_def string_identifier_try_from_def less_UsbDeviceId_def split: if_splits)

interpretation media_map: keyed_collection MediaId_try_from MediaId MediaId_as_str
  by unfold_locales
    (auto simp: MediaId_try_from_def string_identifier_try_from_def less_MediaId_def split: if_splits)

section \<open>Properties\<close>

text \<open>C23: the maps of a response show what the router sent: names come in lexical order, each once, the
  lookup by a string finds exactly what the iteration yields, and of a name the router repeats it is
  the last entry that is kept; this holds of \<open>show/interface\<close>, of \<open>show/media\<close>, and of
  \<open>show/usb\<close> when \<open>device\<close> is the only entry of the object (others would be ignored).\<close>

theorem response_maps_exact:
  assumes "Interfaces_deserialize (Wire_map ns) = Inr m"
    and "UsbDevices_visit_map [(''device'', Wire_map us)] = Inr u"
    and "MediaInventory_deserialize (Wire_map ds) = Inr d"
  shows "keyed ns (de_struct Interface_fields 11 Interface_visit_map) (Interfaces_get m) (Interfaces_iter m)
     \<and> keyed us (de_struct UsbDevice_fields 9 UsbDevice_visit_map) (UsbDevices_get u)
         (map (\<lambda>(k, v). (UsbDeviceId_as_str k, v)) (UsbDevices_iter u))
     \<and> keyed ds (de_struct MediaDevice_fields 10 MediaDevice_visit_map) (MediaInventory_get d)
         (map (\<lambda>(k, v). (MediaId_as_str k, v)) (MediaInventory_iter d))"
  using interface_map.read_keyed [of "de_struct Interface_fields 11 Interface_visit_map" ns m]
    usb_device_map.read_keyed [of "de_struct UsbDevice_fields 9 UsbDevice_visit_map" us "devices u"]
    media_map.read_keyed [of "de_struct MediaDevice_fields 10 MediaDevice_visit_map" ds "media d"] assms
  by (auto simp: Interfaces_deserialize_def UsbDevices_visit_map_def MediaInventory_deserialize_def
      Interfaces_get_def [abs_def] Interfaces_iter_def UsbDevices_get_def [abs_def] UsbDevices_iter_def
      MediaInventory_get_def [abs_def] MediaInventory_iter_def de_newtype_def field_defs occurrences_def res_simps
      simp del: de_map.simps)

text \<open>The router names \<open>Bridge0\<close> twice; the second entry is kept.\<close>

definition bridge_at :: "u64 \<Rightarrow> wire" where
  "bridge_at index = Wire_map
     [(''id'', Scalar (Visit_str ''Bridge0'')), (''index'', Scalar (Visit_u64 index)),
      (''interface-name'', Scalar (Visit_str ''Bridge0'')), (''type'', Scalar (Visit_str ''Bridge'')),
      (''traits'', Wire_seq []), (''link'', Scalar (Visit_str ''up'')), (''admin-only'', Scalar (Visit_bool False)),
      (''summary'', Wire_map [(''layer'', Wire_map [(''conf'', Scalar (Visit_str ''running''))])])]"

theorem response_maps_exact_witness:
  "\<exists>m i. Interfaces_deserialize (Wire_map [(''Bridge0'', bridge_at 1), (''Bridge0'', bridge_at 2)]) = Inr m
     \<and> Interfaces_get m ''Bridge0'' = Some i \<and> if_index i = 2 \<and> (''Bridge0'', i) \<in> set (Interfaces_iter m)"
proof -
  let ?de = "de_struct Interface_fields 11 Interface_visit_map" and ?es = "[(''Bridge0'', bridge_at 1), (''Bridge0'', bridge_at 2)]"
  have id: "InterfaceId_try_from ''Bridge0'' = Inr (InterfaceId ''Bridge0'')"
    by (simp add: interface_id.parse_iff plain_text_def) code_simp
  have "\<exists>i. ?de (bridge_at n) = Inr i \<and> if_index i = n" for n
    using unsigned_less [of n, where ?'a = nat]
    by (simp add: bridge_at_def Interface_visit_map_def field_defs occurrences_def de_identifier_def
        visiting_def string_identifier_deserialize_def id de_uint_def de_enum_def open_enum_visit_def
        de_bool_def de_opt_def de_try_from_def InterfaceSummary_visit_map_def InterfaceLayerSummary_visit_map_def)
  then obtain i j where i: "?de (bridge_at 1) = Inr j" "?de (bridge_at 2) = Inr i" "if_index i = 2" by metis
  then obtain m where m: "Interfaces_deserialize (Wire_map ?es) = Inr m"
    by (auto simp: Interfaces_deserialize_def de_key_def id simp del: de_struct.simps)
  have u: "UsbDevices_visit_map [(''device'', Wire_map [])] = Inr (UsbDevices [])"
    by (simp add: UsbDevices_visit_map_def field_defs occurrences_def)
  have d: "MediaInventory_deserialize (Wire_map []) = Inr (MediaInventory [])"
    by (simp add: MediaInventory_deserialize_def de_newtype_def)
  have k: "keyed ?es ?de (Interfaces_get m) (Interfaces_iter m)"
    using response_maps_exact [OF m u d] by blast
  have "map_of (rev ?es) ''Bridge0'' = Some (bridge_at 2)" by simp
  with k i(2) have "Interfaces_get m ''Bridge0'' = Some i" unfolding keyed_def by blast
  moreover from this k have "(''Bridge0'', i) \<in> set (Interfaces_iter m)" unfolding keyed_def by blast
  ultimately show ?thesis using m i(3) by blast
qed

end
