(* ===== verification/Conversions.thy ===== *)
theory Conversions
  imports Collections Api Config
begin

text \<open>
  The constructors, conversions and accessors that wrap a value, hand out a field or forward to the
  parser of a type. They have no logic of their own; they are here so that every public way into and
  out of a value is a definition, and \<open>doors_agree\<close> says that the ways into a value are one way.
\<close>

section \<open>Text values\<close>

text \<open>The macros of \<open>src/src/model.rs\<close>; the constructor, parser and text of the type are arguments.\<close>

definition open_enum_from_box :: "(string \<times> 'a) list \<Rightarrow> (string \<Rightarrow> 'a) \<Rightarrow> string \<Rightarrow> 'a" where
  "open_enum_from_box table other value = open_enum_from table other value"

definition open_enum_from_string :: "(string \<Rightarrow> 'a) \<Rightarrow> string \<Rightarrow> 'a" where
  "open_enum_from_string from_str value = from_str value"

definition open_enum_from_str :: "(string \<Rightarrow> 'a) \<Rightarrow> string \<Rightarrow> 'e + 'a" where
  "open_enum_from_str from_str value = Inr (from_str value)"

definition open_enum_display :: "('a \<Rightarrow> string) \<Rightarrow> 'a \<Rightarrow> string" where
  "open_enum_display text v = text v"

definition string_identifier_new :: "(string \<Rightarrow> 'e + 't) \<Rightarrow> string \<Rightarrow> 'e + 't" where
  "string_identifier_new try_from value = try_from value"

definition string_identifier_try_from_string :: "(string \<Rightarrow> 'e + 't) \<Rightarrow> string \<Rightarrow> 'e + 't" where
  "string_identifier_try_from_string try_from value = try_from value"

definition string_identifier_from_str :: "(string \<Rightarrow> 'e + 't) \<Rightarrow> string \<Rightarrow> 'e + 't" where
  "string_identifier_from_str try_from value = try_from value"

definition string_identifier_as_ref :: "('t \<Rightarrow> string) \<Rightarrow> 't \<Rightarrow> string" where
  "string_identifier_as_ref text v = text v"

definition string_identifier_borrow :: "('t \<Rightarrow> string) \<Rightarrow> 't \<Rightarrow> string" where
  "string_identifier_borrow text v = text v"

definition string_identifier_deref :: "('t \<Rightarrow> string) \<Rightarrow> 't \<Rightarrow> string" where
  "string_identifier_deref text v = text v"

definition string_identifier_display :: "('t \<Rightarrow> string) \<Rightarrow> 't \<Rightarrow> string" where
  "string_identifier_display text v = text v"

definition string_value_try_from :: "(string \<Rightarrow> 'e + 't) \<Rightarrow> string \<Rightarrow> 'e + 't" where
  "string_value_try_from parse value = parse value"

definition string_value_as_ref :: "('t \<Rightarrow> string) \<Rightarrow> 't \<Rightarrow> string" where
  "string_value_as_ref text v = text v"

definition string_value_deserialize :: "(string \<Rightarrow> 'e + 't) \<Rightarrow> ('e, 't) visitor" where
  "string_value_deserialize parse = FromStrVisitor_visit parse"

definition string_value_display :: "('t \<Rightarrow> string) \<Rightarrow> 't \<Rightarrow> string" where
  "string_value_display text v = text v"

definition string_value_debug :: "string \<Rightarrow> ('t \<Rightarrow> string) \<Rightarrow> 't \<Rightarrow> debug_tree" where
  "string_value_debug name text v = Debug_tuple name [Debug_text (text v)]"

definition Imei_parse :: "string \<Rightarrow> ParseImeiError + Imei" where
  "Imei_parse value = Imei_from_str value"

definition Iccid_parse :: "string \<Rightarrow> ParseIccidError + Iccid" where
  "Iccid_parse value = Iccid_from_str value"

definition Imsi_parse :: "string \<Rightarrow> ParseImsiError + Imsi" where
  "Imsi_parse value = Imsi_from_str value"

definition Plmn_parse :: "string \<Rightarrow> ParsePlmnError + Plmn" where
  "Plmn_parse value = Plmn_from_str value"

definition HardwareVersion_parse :: "string \<Rightarrow> ParseHardwareVersionError + HardwareVersion" where
  "HardwareVersion_parse value = HardwareVersion_from_str value"

definition RegionCode_parse :: "string \<Rightarrow> ParseRegionCodeError + RegionCode" where
  "RegionCode_parse value = RegionCode_from_str value"

definition HardwareModel_parse :: "string \<Rightarrow> ParseHardwareModelError + HardwareModel" where
  "HardwareModel_parse value = HardwareModel_from_str value"

definition Plmn_deserialize_optional :: "(ParsePlmnError, Plmn option) visitor" where
  "Plmn_deserialize_optional = OptionalFromStrVisitor_visit Plmn_from_str"

definition HardwareId_parse :: "string \<Rightarrow> ParseHardwareIdError failure + HardwareId" where
  "HardwareId_parse value = HardwareId_from_str value"

definition HardwareId_try_from :: "string \<Rightarrow> ParseHardwareIdError failure + HardwareId" where
  "HardwareId_try_from value = HardwareId_from_str value"

definition HardwareId_visit :: "(ParseHardwareIdError failure, HardwareId) visitor" where
  "HardwareId_visit = str_visitor (\<lambda>value. map_err Custom (HardwareId_from_str value))"

definition HardwareId_deserialize :: "HardwareId decode" where
  "HardwareId_deserialize = visiting HardwareId_visit"

definition HardwareVendor_display :: "HardwareVendor \<Rightarrow> string" where
  "HardwareVendor_display v = HardwareVendor_as_str v"

definition HardwareVendor_visit :: "(ParseHardwareVendorError, HardwareVendor) visitor" where
  "HardwareVendor_visit = str_visitor (\<lambda>value. map_err Custom (HardwareVendor_from_str value))"

definition HardwareVendor_deserialize :: "HardwareVendor decode" where
  "HardwareVendor_deserialize = visiting HardwareVendor_visit"

definition MwsMemoryUsage_deserialize :: "MwsMemoryUsage decode" where
  "MwsMemoryUsage_deserialize = visiting (str_visitor (\<lambda>value. map_err Custom (MwsMemoryUsage_from_str value)))"

definition RadioBand_deserialize :: "RadioBand decode" where
  "RadioBand_deserialize = visiting (FromStrVisitor_visit RadioBand_from_str)"

definition MobileConnectionState_display :: "MobileConnectionState \<Rightarrow> string" where
  "MobileConnectionState_display v = MobileConnectionState_as_str v"

definition SimState_display :: "SimState \<Rightarrow> string" where
  "SimState_display v = SimState_as_str v"

definition ComponentCarrierId_display :: "ComponentCarrierId \<Rightarrow> string" where
  "ComponentCarrierId_display v = show_nat (unat (ComponentCarrierId_get v))"

definition RouteFlags_as_ref :: "RouteFlags \<Rightarrow> string" where
  "RouteFlags_as_ref v = RouteFlags_as_str v"

definition RouteFlags_deref :: "RouteFlags \<Rightarrow> string" where
  "RouteFlags_deref v = RouteFlags_as_str v"

definition RouteFlags_display :: "RouteFlags \<Rightarrow> string" where
  "RouteFlags_display v = RouteFlags_as_str v"

section \<open>Numbers, addresses and hosts\<close>

text \<open>\<open>src/src/model/network.rs\<close>, \<open>system.rs\<close>, \<open>units.rs\<close>, \<open>mobile.rs\<close>.\<close>

definition NetworkHost_new :: "(string \<Rightarrow> IpAddr option) \<Rightarrow> string \<Rightarrow> InvalidNetworkHost + NetworkHost" where
  "NetworkHost_new ip_parse value = NetworkHost_from_str ip_parse value"

definition NetworkHost_from_address :: "IpAddr \<Rightarrow> NetworkHost" where
  "NetworkHost_from_address address = Address address"

definition NetworkHost_try_from_string :: "(string \<Rightarrow> IpAddr option) \<Rightarrow> string \<Rightarrow> InvalidNetworkHost + NetworkHost" where
  "NetworkHost_try_from_string ip_parse value = NetworkHost_try_from ip_parse value"

definition MacAddress_from_octets :: "u8 list \<Rightarrow> MacAddress" where
  "MacAddress_from_octets bytes = MacAddress bytes"

definition MacAddress_octets :: "MacAddress \<Rightarrow> u8 list" where
  "MacAddress_octets mac = octets mac"

definition MacAddress_from :: "u8 list \<Rightarrow> MacAddress" where
  "MacAddress_from bytes = MacAddress_from_octets bytes"

definition Uptime_get_duration :: "Uptime \<Rightarrow> duration" where
  "Uptime_get_duration u = Uptime_get u"

definition ByteCount_new :: "u64 \<Rightarrow> ByteCount" where
  "ByteCount_new value = ByteCount value"

definition ByteCount_value :: "ByteCount \<Rightarrow> u64" where
  "ByteCount_value b = ByteCount_get b"

definition ByteCount_from :: "u64 \<Rightarrow> ByteCount" where
  "ByteCount_from value = ByteCount_new value"

definition DataRate_from_bits_per_second :: "u64 \<Rightarrow> DataRate" where
  "DataRate_from_bits_per_second value = DataRate value"

definition DataRate_bits_per_second :: "DataRate \<Rightarrow> u64" where
  "DataRate_bits_per_second r = bits_per_second r"

definition McsIndex_new :: "u8 \<Rightarrow> McsIndex" where
  "McsIndex_new value = McsIndex value"

definition McsIndex_value :: "McsIndex \<Rightarrow> u8" where
  "McsIndex_value i = McsIndex_get i"

definition McsIndex_from :: "u8 \<Rightarrow> McsIndex" where
  "McsIndex_from value = McsIndex_new value"

definition ChannelWidth_from_megahertz :: "u16 \<Rightarrow> ChannelWidth" where
  "ChannelWidth_from_megahertz value = ChannelWidth value"

definition ChannelWidth_megahertz :: "ChannelWidth \<Rightarrow> u16" where
  "ChannelWidth_megahertz w = megahertz w"

definition GuardInterval_from_nanoseconds :: "u16 \<Rightarrow> GuardInterval" where
  "GuardInterval_from_nanoseconds value = GuardInterval value"

definition GuardInterval_nanoseconds :: "GuardInterval \<Rightarrow> u16" where
  "GuardInterval_nanoseconds g = nanoseconds g"

definition SpatialStreams_value :: "SpatialStreams \<Rightarrow> u8" where
  "SpatialStreams_value n = SpatialStreams_get n"

definition InterfaceId_into_box :: "InterfaceId \<Rightarrow> string" where
  "InterfaceId_into_box i = InterfaceId_as_str i"

definition CpuLoad_percent :: "CpuLoad \<Rightarrow> u8" where
  "CpuLoad_percent l = percent l"

definition CpuLoad_try_from :: "u8 \<Rightarrow> InvalidCpuLoad + CpuLoad" where
  "CpuLoad_try_from value = CpuLoad_new value"

definition Mtu_MAX :: "u16" where
  "Mtu_MAX = - 1"

definition Mtu_value :: "Mtu \<Rightarrow> u16" where
  "Mtu_value m = Mtu_get m"

definition Mtu_try_from :: "u16 \<Rightarrow> InvalidMtu + Mtu" where
  "Mtu_try_from value = Mtu_new value"

definition measurement_value :: "('m \<Rightarrow> f32) \<Rightarrow> 'm \<Rightarrow> f32" where
  "measurement_value inner v = inner v"

definition measurement_try_from :: "(f32 \<Rightarrow> InvalidMeasurement + 'm) \<Rightarrow> f32 \<Rightarrow> InvalidMeasurement + 'm" where
  "measurement_try_from new_value value = new_value value"

definition CarrierBandwidth_as_megahertz :: "CarrierBandwidth \<Rightarrow> f32" where
  "CarrierBandwidth_as_megahertz b = as_megahertz b"

definition CarrierBandwidth_try_from :: "f32 \<Rightarrow> InvalidCarrierBandwidth + CarrierBandwidth" where
  "CarrierBandwidth_try_from value = from_megahertz value"

definition ComponentCarrierId_value :: "ComponentCarrierId \<Rightarrow> u16" where
  "ComponentCarrierId_value i = ComponentCarrierId_get i"

definition MwsMemoryUsage_free_kib :: "MwsMemoryUsage \<Rightarrow> u64" where
  "MwsMemoryUsage_free_kib m = free_kib m"

definition MwsMemoryUsage_total_kib :: "MwsMemoryUsage \<Rightarrow> u64" where
  "MwsMemoryUsage_total_kib m = total_kib m"

section \<open>Parts of a response\<close>

text \<open>The sequences of a response (\<open>impl_slice_collection\<close>) and the parts a response gives out.\<close>

definition slice_collection_deref :: "('c \<Rightarrow> 'i list) \<Rightarrow> 'c \<Rightarrow> 'i list" where
  "slice_collection_deref accessor c = accessor c"

definition slice_collection_into_iter :: "('c \<Rightarrow> 'i list) \<Rightarrow> 'c \<Rightarrow> 'i list" where
  "slice_collection_into_iter inner c = inner c"

definition slice_collection_ref_iter :: "('c \<Rightarrow> 'i list) \<Rightarrow> 'c \<Rightarrow> 'i list" where
  "slice_collection_ref_iter inner c = inner c"

definition Associations_slice :: "Associations \<Rightarrow> Association list" where
  "Associations_slice c = stations c"

definition Associations_into_inner :: "Associations \<Rightarrow> Association list" where
  "Associations_into_inner c = stations c"

definition IpHotspotHosts_slice :: "IpHotspotHosts \<Rightarrow> HotspotHost list" where
  "IpHotspotHosts_slice c = hosts c"

definition IpHotspotHosts_into_inner :: "IpHotspotHosts \<Rightarrow> HotspotHost list" where
  "IpHotspotHosts_into_inner c = hosts c"

definition IpArp_slice :: "IpArp \<Rightarrow> ArpEntry list" where
  "IpArp_slice c = IpArp_entries c"

definition IpArp_into_inner :: "IpArp \<Rightarrow> ArpEntry list" where
  "IpArp_into_inner c = IpArp_entries c"

definition IpDhcpBindings_slice :: "IpDhcpBindings \<Rightarrow> DhcpBinding list" where
  "IpDhcpBindings_slice c = leases c"

definition IpDhcpBindings_into_inner :: "IpDhcpBindings \<Rightarrow> DhcpBinding list" where
  "IpDhcpBindings_into_inner c = leases c"

definition IpRoutes_slice :: "IpRoutes \<Rightarrow> Ipv4Route list" where
  "IpRoutes_slice c = IpRoutes_routes c"

definition IpRoutes_into_inner :: "IpRoutes \<Rightarrow> Ipv4Route list" where
  "IpRoutes_into_inner c = IpRoutes_routes c"

definition Ipv6Routes_slice :: "Ipv6Routes \<Rightarrow> Ipv6Route list" where
  "Ipv6Routes_slice c = Ipv6Routes_routes c"

definition Ipv6Routes_into_inner :: "Ipv6Routes \<Rightarrow> Ipv6Route list" where
  "Ipv6Routes_into_inner c = Ipv6Routes_routes c"

definition PingCheckProfiles_slice :: "PingCheckProfiles \<Rightarrow> PingCheckProfile list" where
  "PingCheckProfiles_slice c = profiles c"

definition PingCheckProfiles_into_inner :: "PingCheckProfiles \<Rightarrow> PingCheckProfile list" where
  "PingCheckProfiles_into_inner c = profiles c"

definition IpNameServers_slice :: "IpNameServers \<Rightarrow> IpNameServer list" where
  "IpNameServers_slice c = servers c"

definition IpNameServers_into_inner :: "IpNameServers \<Rightarrow> IpNameServer list" where
  "IpNameServers_into_inner c = servers c"

definition MwsMembers_slice :: "MwsMembers \<Rightarrow> MwsMember list" where
  "MwsMembers_slice c = members c"

definition MwsMembers_into_inner :: "MwsMembers \<Rightarrow> MwsMember list" where
  "MwsMembers_into_inner c = members c"

definition Association_deref :: "Association \<Rightarrow> WifiPeerLink" where
  "Association_deref a = as_link a"

definition MwsBackhaul_deref :: "MwsBackhaul \<Rightarrow> WifiPeerLink" where
  "MwsBackhaul_deref b = mbh_link b"

definition MobileInterface_interface :: "MobileInterface \<Rightarrow> Interface" where
  "MobileInterface_interface m = mi_interface m"

definition MobileInterface_status :: "MobileInterface \<Rightarrow> MobileStatus" where
  "MobileInterface_status m = mi_status m"

definition MobileInterface_deref :: "MobileInterface \<Rightarrow> Interface" where
  "MobileInterface_deref m = MobileInterface_interface m"

definition ShowInterfaceReply_into_interface :: "'a ShowInterfaceReply \<Rightarrow> 'a" where
  "ShowInterfaceReply_into_interface reply = result_interface (reply_show reply)"

definition ConnectedClient_mac :: "ConnectedClient \<Rightarrow> MacAddress" where
  "ConnectedClient_mac c = cl_mac c"

definition ConnectedClient_association :: "ConnectedClient \<Rightarrow> Association option" where
  "ConnectedClient_association c = cl_association c"

definition ConnectedClient_hotspot :: "ConnectedClient \<Rightarrow> HotspotHost option" where
  "ConnectedClient_hotspot c = cl_hotspot c"

definition ConnectedClient_arp :: "ConnectedClient \<Rightarrow> ArpEntry list" where
  "ConnectedClient_arp c = cl_arp c"

definition ConnectedClient_dhcp :: "ConnectedClient \<Rightarrow> DhcpBinding list" where
  "ConnectedClient_dhcp c = cl_dhcp c"

definition ClientIndex_ref_iter :: "ClientIndex \<Rightarrow> ConnectedClient list" where
  "ClientIndex_ref_iter index = map snd (clients index)"

definition NetworkTestOutput_new :: "string list \<Rightarrow> NetworkTestOutput" where
  "NetworkTestOutput_new ls = \<lparr>lines = ls\<rparr>"

definition NetworkTestOutput_lines :: "NetworkTestOutput \<Rightarrow> string list" where
  "NetworkTestOutput_lines out = lines out"

definition NetworkTestOutput_iter :: "NetworkTestOutput \<Rightarrow> string list" where
  "NetworkTestOutput_iter out = lines out"

definition NetworkTestOutput_into_iter :: "NetworkTestOutput \<Rightarrow> string list" where
  "NetworkTestOutput_into_iter out = lines out"

definition NetworkTestOutput_ref_iter :: "NetworkTestOutput \<Rightarrow> string list" where
  "NetworkTestOutput_ref_iter out = lines out"

section \<open>Requests and commands\<close>

text \<open>\<open>src/src/request.rs\<close>, \<open>cli.rs\<close>, \<open>path.rs\<close>, \<open>client.rs\<close>.\<close>

definition request_ref :: "rci_request \<Rightarrow> string \<times> Mode \<times> (string \<times> string) option" where
  "request_ref r = (request_endpoint r, request_mode r, request_query r)"

definition ShowInterfaceStat_from_id :: "InterfaceId \<Rightarrow> ShowInterfaceStat" where
  "ShowInterfaceStat_from_id name = ShowInterfaceStat name"

definition ShowInterfaceStat_name :: "ShowInterfaceStat \<Rightarrow> InterfaceId" where
  "ShowInterfaceStat_name r = stat_name r"

definition ShowInterfaceStat_from :: "InterfaceId \<Rightarrow> ShowInterfaceStat" where
  "ShowInterfaceStat_from name = ShowInterfaceStat_from_id name"

definition InterfaceRequest_name :: "InterfaceRequest \<Rightarrow> InterfaceId" where
  "InterfaceRequest_name r = irq_name r"

definition InterfaceRequest_from :: "(Value \<Rightarrow> json_error + string) \<Rightarrow> InterfaceId \<Rightarrow> InvalidInterfaceId failure + InterfaceRequest" where
  "InterfaceRequest_from to_vec name = InterfaceRequest_from_id to_vec name"

definition CliCommand_new :: "string \<Rightarrow> InvalidCliCommand + CliCommand" where
  "CliCommand_new value = CliCommand_try_from value"

definition CliCommand_from_str :: "string \<Rightarrow> InvalidCliCommand + CliCommand" where
  "CliCommand_from_str value = CliCommand_try_from value"

definition CliCommand_try_from_string :: "string \<Rightarrow> InvalidCliCommand + CliCommand" where
  "CliCommand_try_from_string value = CliCommand_try_from value"

definition CliCommand_try_from_str :: "string \<Rightarrow> InvalidCliCommand + CliCommand" where
  "CliCommand_try_from_str value = CliCommand_from_str value"

definition CliCommand_as_ref :: "CliCommand \<Rightarrow> string" where
  "CliCommand_as_ref c = CliCommand_as_str c"

definition CliCommand_borrow :: "CliCommand \<Rightarrow> string" where
  "CliCommand_borrow c = CliCommand_as_str c"

definition CliCommand_deref :: "CliCommand \<Rightarrow> string" where
  "CliCommand_deref c = CliCommand_as_str c"

definition CliReply_as_raw :: "CliReply \<Rightarrow> Value" where
  "CliReply_as_raw r = CliReply_raw r"

definition CliReply_into_raw :: "CliReply \<Rightarrow> Value" where
  "CliReply_into_raw r = CliReply_raw r"

definition CliReply_as_ref :: "CliReply \<Rightarrow> Value" where
  "CliReply_as_ref r = CliReply_as_raw r"

definition Value_from_CliReply :: "CliReply \<Rightarrow> Value" where
  "Value_from_CliReply r = CliReply_into_raw r"

definition InvalidPath_kind :: "InvalidPath \<Rightarrow> PathKind" where
  "InvalidPath_kind e = ip_kind e"

definition InvalidPath_reason :: "InvalidPath \<Rightarrow> string" where
  "InvalidPath_reason e = ip_reason e"

definition KeeneticClient_builder :: "'c KeeneticClientBuilder" where
  "KeeneticClient_builder = KeeneticClientBuilder_default"

definition Secret_new :: "string \<Rightarrow> Secret" where
  "Secret_new value = Secret value"

definition TransportError_new :: "RequestContext \<Rightarrow> reqwest_error \<Rightarrow> TransportError" where
  "TransportError_new context e = \<lparr>te_context = context, te_source = e\<rparr>"

definition QuerySerializationError_new :: "RequestContext \<Rightarrow> string \<Rightarrow> QuerySerializationError" where
  "QuerySerializationError_new context e = \<lparr>qs_context = context, qs_source = e\<rparr>"

definition JsonSerializationError_new :: "RequestContext \<Rightarrow> json_error \<Rightarrow> JsonSerializationError" where
  "JsonSerializationError_new context e = \<lparr>js_context = context, js_source = e\<rparr>"

definition ResponseJsonError_new :: "RequestContext \<Rightarrow> json_error \<Rightarrow> ResponseJsonError" where
  "ResponseJsonError_new context e = \<lparr>rj_context = context, rj_source = e\<rparr>"

definition HttpError_new :: "RequestContext \<Rightarrow> nat \<Rightarrow> HttpError" where
  "HttpError_new context status = \<lparr>he_context = context, he_status = status\<rparr>"

definition RciError_new :: "RequestContext \<Rightarrow> RciStatusEntry list \<Rightarrow> RciError" where
  "RciError_new context es = \<lparr>re_context = context, re_entries = es\<rparr>"

definition RequestContext_method :: "RequestContext \<Rightarrow> Method" where
  "RequestContext_method c = rc_method c"

definition RequestContext_endpoint :: "RequestContext \<Rightarrow> string" where
  "RequestContext_endpoint c = rc_endpoint c"

definition HttpError_status :: "HttpError \<Rightarrow> nat" where
  "HttpError_status e = he_status e"

definition RciError_entries :: "RciError \<Rightarrow> RciStatusEntry list" where
  "RciError_entries e = re_entries e"

definition ResponseDeserializationError_path :: "ResponseDeserializationError \<Rightarrow> string" where
  "ResponseDeserializationError_path e = rd_path e"

definition QuerySerializationError_context :: "QuerySerializationError \<Rightarrow> RequestContext" where
  "QuerySerializationError_context e = qs_context e"

definition JsonSerializationError_context :: "JsonSerializationError \<Rightarrow> RequestContext" where
  "JsonSerializationError_context e = js_context e"

definition TransportError_context :: "TransportError \<Rightarrow> RequestContext" where
  "TransportError_context e = te_context e"

definition HttpError_context :: "HttpError \<Rightarrow> RequestContext" where
  "HttpError_context e = he_context e"

definition RciError_context :: "RciError \<Rightarrow> RequestContext" where
  "RciError_context e = RciError.re_context e"

definition ResponseJsonError_context :: "ResponseJsonError \<Rightarrow> RequestContext" where
  "ResponseJsonError_context e = rj_context e"

definition ResponseDeserializationError_context :: "ResponseDeserializationError \<Rightarrow> RequestContext" where
  "ResponseDeserializationError_context e = rd_context e"

definition NetworkTestSource_from_address :: "IpAddr \<Rightarrow> NetworkTestSource" where
  "NetworkTestSource_from_address address = SourceAddress address"

definition NetworkTestSource_from_ipv4 :: "Ipv4Addr \<Rightarrow> NetworkTestSource" where
  "NetworkTestSource_from_ipv4 address = SourceAddress (V4 address)"

definition NetworkTestSource_from_ipv6 :: "Ipv6Addr \<Rightarrow> NetworkTestSource" where
  "NetworkTestSource_from_ipv6 address = SourceAddress (V6 address)"

definition NetworkTestSource_from_interface :: "InterfaceId \<Rightarrow> NetworkTestSource" where
  "NetworkTestSource_from_interface i = SourceInterface i"

definition Ping_host :: "PingParameters \<Rightarrow> NetworkHost" where
  "Ping_host p = pg_host p"

definition Traceroute_host :: "Traceroute \<Rightarrow> NetworkHost" where
  "Traceroute_host t = tr_host t"

definition Iperf3_host :: "Iperf3 \<Rightarrow> NetworkHost" where
  "Iperf3_host q = pf_host q"

definition CliCommand_text :: "CliCommand \<Rightarrow> string" where
  "CliCommand_text c = CliCommand_as_str c"

definition Reported_display :: "('a \<Rightarrow> string) \<Rightarrow> 'a Reported \<Rightarrow> string" where
  "Reported_display text r = Reported_as_str text r"

section \<open>The ways into a value\<close>

text \<open>A host has two: \<open>FromStr\<close> parses the text it borrows, \<open>TryFrom<Box<str>>\<close> keeps the box it is given.\<close>

lemma doors_agree:
  "NetworkHost_try_from_string ip_parse s = NetworkHost_from_str ip_parse s"
  "NetworkHost_new ip_parse s = NetworkHost_from_str ip_parse s"
  "CliCommand_try_from_str s = CliCommand_new s"
  "HardwareId_deserialize = de_from_str HardwareId_from_str"
  "HardwareVendor_deserialize = de_from_str HardwareVendor_from_str"
  "RadioBand_deserialize = de_from_str RadioBand_from_str"
  "map_res stat_name (ShowInterfaceStat_new s) = InterfaceId_try_from s"
  by (cases "InterfaceId_try_from s";
      simp add: NetworkHost_try_from_string_def NetworkHost_try_from_def NetworkHost_from_str_def
      NetworkHost_new_def CliCommand_try_from_str_def CliCommand_from_str_def CliCommand_new_def
      HardwareId_deserialize_def HardwareId_visit_def HardwareVendor_deserialize_def HardwareVendor_visit_def
      RadioBand_deserialize_def de_from_str_def FromStrVisitor_visit_def ShowInterfaceStat_new_def)+

end
