(* ===== verification/Liveness.thy ===== *)
theory Liveness
  imports Single_Flight
begin

text \<open>
  The calls of \<open>Single_Flight\<close> end. Every step of \<open>src/src/client.rs\<close> that \<open>step\<close> models brings its task
  closer to the end of its call, so a finite set of tasks makes a bounded number of steps; and as
  long as one of them has not ended, one of them can go on without being cancelled. Together: in
  every interleaving and for every router that answers or times out, all calls come to an end.
\<close>

section \<open>Moves of one task\<close>

fun remaining :: "pc \<Rightarrow> nat" where
  "remaining Start = 6"
| "remaining (First _) = 5"
| "remaining (Waiting _) = 4"
| "remaining (Holding _) = 3"
| "remaining (Publishing _) = 2"
| "remaining Second = 1"
| "remaining _ = 0"

fun ended :: "pc \<Rightarrow> bool" where
  "ended Finished = True"
| "ended (Failed _) = True"
| "ended Cancelled = True"
| "ended _ = False"

lemma ended_iff: "ended p \<longleftrightarrow> p \<in> {Finished, Cancelled} \<union> range Failed"
  by (cases p) auto

definition moves :: "nat \<Rightarrow> flight \<Rightarrow> flight \<Rightarrow> bool" where
  "moves i s t \<longleftrightarrow> step s t \<and> fl_pc t i \<noteq> fl_pc s i"

lemma remaining_login: "remaining (after_login r) \<le> 1"
  by (cases r) simp_all

lemma remaining_stale: "remaining (stale_result q) \<le> 1"
  by (cases q; simp; rule remaining_login [unfolded One_nat_def])

lemma step_moves:
  assumes "step s t"
  shows "\<exists>i. remaining (fl_pc t i) < remaining (fl_pc s i) \<and> (\<forall>j. j \<noteq> i \<longrightarrow> fl_pc t j = fl_pc s j)"
  using assms
proof cases
  case (Lock_stale i g)
  then show ?thesis using remaining_stale [of "last_result (fl_auth s)"] by (intro exI [of _ i]) auto
next
  case (Publish i r)
  then show ?thesis using remaining_login [of r] by (intro exI [of _ i]) auto
qed (auto simp: complete_login_def intro!: exI)

lemma moves_less:
  assumes "moves i s t"
  shows "remaining (fl_pc t i) < remaining (fl_pc s i)" and "j \<noteq> i \<Longrightarrow> fl_pc t j = fl_pc s j"
proof -
  obtain k where k: "remaining (fl_pc t k) < remaining (fl_pc s k)" "\<forall>j. j \<noteq> k \<longrightarrow> fl_pc t j = fl_pc s j"
    using step_moves assms unfolding moves_def by blast
  then have "k = i" using assms unfolding moves_def by metis
  with k show "remaining (fl_pc t i) < remaining (fl_pc s i)" "j \<noteq> i \<Longrightarrow> fl_pc t j = fl_pc s j" by auto
qed

section \<open>Runs of a finite set of tasks\<close>

inductive run :: "nat set \<Rightarrow> flight \<Rightarrow> nat \<Rightarrow> flight \<Rightarrow> bool" for I where
  Run_nil: "run I s 0 s"
| Run_step: "i \<in> I \<Longrightarrow> moves i s t \<Longrightarrow> run I t k u \<Longrightarrow> run I s (Suc k) u"

lemma run_bound:
  assumes "run I s k t" and "finite I"
  shows "k + (\<Sum>i \<in> I. remaining (fl_pc t i)) \<le> (\<Sum>i \<in> I. remaining (fl_pc s i))"
  using assms(1)
proof induction
  case (Run_step i s t k u)
  have "(\<Sum>i \<in> I. remaining (fl_pc t i)) < (\<Sum>i \<in> I. remaining (fl_pc s i))"
    using assms(2) Run_step.hyps moves_less [OF Run_step.hyps(2)]
    by (intro sum_strict_mono_ex1) (auto intro: order.strict_implies_order le_refl dest: le_less_trans, metis le_refl less_imp_le)
  with Run_step.IH show ?case by simp
qed simp

lemma run_reachable: "run I s k t \<Longrightarrow> reachable s \<Longrightarrow> reachable t"
  by (induction rule: run.induct) (auto simp: moves_def intro: reachable.Step)

lemma run_outside: "run I s k t \<Longrightarrow> j \<notin> I \<Longrightarrow> fl_pc t j = fl_pc s j"
proof (induction rule: run.induct)
  case (Run_step i s t k u)
  then have "j \<noteq> i" by blast
  then show ?case using Run_step moves_less(2) by metis
qed simp

lemma run_trans: "run I s k t \<Longrightarrow> run I t m u \<Longrightarrow> run I s (k + m) u"
  by (induction rule: run.induct) (auto intro: run.intros)

text \<open>The tasks outside have not started, so the holder of the mutex is inside.\<close>

lemma inside_can_move:
  assumes "run I init k s" and "i \<in> I" and "\<not> ended (fl_pc s i)"
  shows "\<exists>j \<in> I. can_move s j"
proof -
  have r: "reachable s" using run_reachable [OF assms(1) Init] .
  have "j \<in> I" if "fl_lock s = Some j" for j
  proof (rule ccontr)
    assume "j \<notin> I"
    then have "fl_pc s j = Start" using run_outside [OF assms(1)] by (simp add: init_def)
    moreover have "critical (fl_pc s j)" using reachable_inv [OF r] that by (simp add: flight_inv_def lock_inv_def)
    ultimately show False by simp
  qed
  then show ?thesis using progress [OF r, of i] assms(2,3) by (auto simp: ended_iff)
qed

text \<open>Left alone, the tasks come to their ends by themselves.\<close>

lemma run_to_end:
  assumes "run I init k s" and "finite I"
  shows "\<exists>m t. run I s m t \<and> (\<forall>i \<in> I. ended (fl_pc t i))
     \<and> (\<forall>i \<in> I. fl_pc t i = Cancelled \<longrightarrow> fl_pc s i = Cancelled)"
  using assms(1)
proof (induction "\<Sum>i \<in> I. remaining (fl_pc s i)" arbitrary: k s rule: less_induct)
  case less
  show ?case
  proof (cases "\<forall>i \<in> I. ended (fl_pc s i)")
    case True
    then show ?thesis using Run_nil by blast
  next
    case False
    then obtain j t where j: "j \<in> I" "step s t" "fl_pc t j \<noteq> fl_pc s j" "fl_pc t j \<noteq> Cancelled"
      using inside_can_move [OF less.prems] unfolding can_move_def by blast
    then have m: "moves j s t" by (simp add: moves_def)
    have one: "run I s (Suc 0) t" using Run_step [OF j(1) m Run_nil] .
    from run_bound [OF one assms(2)] run_trans [OF less.prems one] less.hyps [of t]
    obtain n u where u: "run I t n u" "\<forall>i \<in> I. ended (fl_pc u i)"
        "\<forall>i \<in> I. fl_pc u i = Cancelled \<longrightarrow> fl_pc t i = Cancelled"
      by force
    have "\<forall>i \<in> I. fl_pc t i = Cancelled \<longrightarrow> fl_pc s i = Cancelled" using moves_less(2) [OF m] j(4) by metis
    with u run_trans [OF one u(1)] show ?thesis by blast
  qed
qed

section \<open>Properties\<close>

text \<open>C20: every call ends: any run of \<open>n\<close> tasks, in any interleaving and whatever the router answers, has
  at most \<open>6 * n\<close> steps; a run that cannot go on has ended every one of them; and from every point
  of a run the tasks can all end without one more of them being cancelled.\<close>

theorem every_call_ends:
  assumes "run I init k s" and "finite I"
  shows "k \<le> 6 * card I
    \<and> ((\<forall>i \<in> I. \<forall>t. \<not> moves i s t) \<longrightarrow> (\<forall>i \<in> I. ended (fl_pc s i)))
    \<and> (\<exists>m t. run I s m t \<and> (\<forall>i \<in> I. ended (fl_pc t i) \<and> (fl_pc t i = Cancelled \<longrightarrow> fl_pc s i = Cancelled)))"
proof (intro conjI impI ballI)
  show "k \<le> 6 * card I" using run_bound [OF assms] by (simp add: init_def)
  show "\<exists>m t. run I s m t \<and> (\<forall>i \<in> I. ended (fl_pc t i) \<and> (fl_pc t i = Cancelled \<longrightarrow> fl_pc s i = Cancelled))"
    using run_to_end [OF assms] by blast
  show "ended (fl_pc s i)" if "\<forall>i \<in> I. \<forall>t. \<not> moves i s t" "i \<in> I" for i
    using inside_can_move [OF assms(1) that(2)] that(1) by (auto simp: can_move_def moves_def)
qed

text \<open>Of two tasks the first has loaded the generation.\<close>

theorem every_call_ends_witness:
  "\<exists>k s. run {0, 1} init k s \<and> fl_pc s 0 = First 0 \<and> k \<le> 12
     \<and> (\<exists>m t. run {0, 1} s m t \<and> ended (fl_pc t 0) \<and> ended (fl_pc t 1))"
proof -
  have "run {0, 1} init (Suc 0) (goto 0 (First 0) (init\<lparr>seen := (seen init)(0 := 0), done_before := (done_before init)(0 := 0)\<rparr>))" (is "run _ _ _ ?s")
    using Load [of init 0] by (intro Run_step [OF _ _ Run_nil]) (simp_all add: init_def moves_def)
  from every_call_ends [OF this] have "\<exists>m t. run {0, 1} ?s m t \<and> (\<forall>i \<in> {0, 1}. ended (fl_pc t i))" by blast
  with \<open>run {0, 1} init (Suc 0) ?s\<close> show ?thesis by (intro exI [of _ "Suc 0"] exI [of _ ?s]) auto
qed

end
