(* ===== verification/Flows.thy ===== *)
theory Flows
  imports Calls Collections
begin

text \<open>
  Calls as their caller composes them. \<open>Calls\<close> says what a value returned by \<open>execute\<close> is; here the
  outcome of an answered call is determined: \<open>strict_reader\<close> extends \<open>json_reader\<close> by what \<open>serde_json\<close>
  does when a deserializer refuses a tree, so that a call returns a value exactly when the body of
  the answer reads as one, and otherwise the data error that names the request. Two flows of
  \<open>src/src/request.rs\<close> rest on it: the names listed by \<open>ShowInterfaces\<close> address the per-interface
  requests, and \<open>ShowLteInterface\<close> refuses an interface that is not a mobile one.
\<close>

section \<open>Readers that are determined\<close>

text \<open>The tree that a call reads: the prefilter decides between the value, which then must be free of
  RCI errors, and the text with nothing but white space behind it.\<close>

definition body_reads ::
  "(char \<Rightarrow> string \<Rightarrow> nat option) \<Rightarrow> (string \<Rightarrow> string \<Rightarrow> nat option) \<Rightarrow> 'a json_ops
     \<Rightarrow> (string \<Rightarrow> (wire \<times> string) option) \<Rightarrow> (Value \<Rightarrow> wire) \<Rightarrow> string \<Rightarrow> wire \<Rightarrow> bool" where
  "body_reads memchr memmem ops text_tree value_tree bytes w \<longleftrightarrow>
     (if needs_rci_inspection memchr memmem bytes
      then \<exists>j. from_slice ops bytes = Inr j \<and> collect_rci_errors j [] = [] \<and> w = value_tree j
      else \<exists>rest. text_tree bytes = Some (w, rest) \<and> de_end ops rest = Inr ())"

lemma body_reads_tree:
  "body_reads memchr memmem ops text_tree value_tree bytes w \<Longrightarrow> body_tree ops text_tree value_tree bytes w"
  by (auto simp: body_reads_def body_tree_def split: if_splits)

lemma body_reads_unique:
  "body_reads memchr memmem ops text_tree value_tree bytes w \<Longrightarrow>
   body_reads memchr memmem ops text_tree value_tree bytes w' \<Longrightarrow> w = w'"
  by (auto simp: body_reads_def split: if_splits)

locale strict_reader = json_reader +
  assumes slice_complete: "text_tree bytes = Some (w, rest) \<Longrightarrow> de w = Inr v \<Longrightarrow> de_slice ops bytes = Inr (v, rest)"
    and slice_refused: "text_tree bytes = Some (w, rest) \<Longrightarrow> de w = Inl x
      \<Longrightarrow> \<exists>e. de_slice ops bytes = Inl e \<and> je_category (snd e) = Category_Data"
    and value_complete: "de (value_tree j) = Inr v \<Longrightarrow> de_value ops j = Inr v"
    and value_refused: "de (value_tree j) = Inl x
      \<Longrightarrow> \<exists>e. de_value ops j = Inl e \<and> je_category (snd e) = Category_Data"
begin

lemma value_exact: "de_value ops j = Inr v \<longleftrightarrow> de (value_tree j) = Inr v"
  using value_reads value_complete by metis

lemma slice_exact: "de_slice ops bytes = Inr (v, rest) \<longleftrightarrow> (\<exists>w. text_tree bytes = Some (w, rest) \<and> de w = Inr v)"
  using slice_reads slice_complete by metis

lemma decode_exact:
  "decode_json_response memchr memmem ops bytes context = Inr v \<longleftrightarrow>
     (\<exists>w. body_reads memchr memmem ops text_tree value_tree bytes w \<and> de w = Inr v)"
proof (cases "needs_rci_inspection memchr memmem bytes")
  case True
  then show ?thesis
    by (auto simp: decode_json_response_def body_reads_def Let_def res_simps value_exact split: if_splits)
next
  case False
  have "decode_json_response memchr memmem ops bytes context = Inr v \<longleftrightarrow>
      (\<exists>rest. de_slice ops bytes = Inr (v, rest) \<and> de_end ops rest = Inr ())"
    using False by (auto simp: decode_json_response_def res_simps split: prod.splits)
  also have "\<dots> \<longleftrightarrow> (\<exists>w rest. text_tree bytes = Some (w, rest) \<and> de_end ops rest = Inr () \<and> de w = Inr v)"
    unfolding slice_exact by blast
  finally show ?thesis using False by (auto simp: body_reads_def)
qed

lemma decode_refused:
  assumes "body_reads memchr memmem ops text_tree value_tree bytes w" and "de w = Inl x"
  shows "\<exists>e. decode_json_response memchr memmem ops bytes context = Inl (ResponseDeserialization e)
     \<and> rd_context e = context \<and> je_category (rd_source e) = Category_Data"
proof (cases "needs_rci_inspection memchr memmem bytes")
  case True
  with assms(1) obtain j where "from_slice ops bytes = Inr j" "collect_rci_errors j [] = []" "w = value_tree j"
    by (auto simp: body_reads_def)
  with True value_refused [of j x] assms(2) show ?thesis
    by (auto simp: decode_json_response_def Let_def classify_response_error_def ResponseDeserializationError_new_def)
next
  case False
  with assms(1) obtain rest where "text_tree bytes = Some (w, rest)" by (auto simp: body_reads_def)
  with False slice_refused [of bytes w rest x] assms(2) show ?thesis
    by (auto simp: decode_json_response_def classify_response_error_def ResponseDeserializationError_new_def)
qed

end

lemma tree_ops_strict:
  "strict_reader (tree_ops text_tree value_tree parse end_of de) de text_tree value_tree"
  by (rule strict_reader.intro [OF tree_ops_reader], unfold_locales)
    (auto simp: tree_ops_def Let_def res_simps)

interpretation strict_tree_reader:
  strict_reader "tree_ops text_tree value_tree parse end_of (response_deserialize fm dt request)"
    "response_deserialize fm dt request" text_tree value_tree
  for text_tree value_tree parse end_of fm dt request
  by (rule tree_ops_strict)

section \<open>Answered calls\<close>

text \<open>The router answered the request of a call, after a login if it asked for one, with a successful
  status and a complete body.\<close>

definition answered ::
  "('c, 'u, 'h, 'j, 'w) deps \<Rightarrow> ('c, 'u) client \<Rightarrow> rci_request \<Rightarrow> ('u, 'h, 'j, 'w) session \<Rightarrow> string \<Rightarrow> bool" where
  "answered d c request s bytes \<longleftrightarrow>
     (\<exists>r. fst (send_authenticated d c (prepare_request d c request) s) = Inr r
        \<and> d_is_success d (rs_status r) \<and> rs_bytes r = Inr bytes)"

lemma answered_unique: "answered d c request s x \<Longrightarrow> answered d c request s y \<Longrightarrow> x = y"
  by (auto simp: answered_def)

lemma execute_answered:
  assumes "answered d c request s bytes"
  shows "fst (execute d c ops request s) = map_err Err
    (decode_json_response (d_memchr d) (d_memmem d) ops bytes (pr_context (prepare_request d c request)))"
  using assms
  by (cases "send_authenticated d c (prepare_request d c request) s")
    (auto simp: answered_def execute_def send_json_def send_successful_def bind_io_def return_io_def lift_io_def)

lemma execute_value_answered:
  assumes "fst (execute d c ops request s) = Inr v"
  shows "\<exists>bytes. answered d c request s bytes"
proof -
  obtain t where "execute d c ops request s = (Inr v, t)" using assms by (metis prod.collapse)
  then obtain r where "send_authenticated d c (prepare_request d c request) s = (Inr r, t)"
      "d_is_success d (rs_status r)" "is_ok (rs_bytes r)"
    by (auto simp: execute_def send_json_def send_successful_def bind_io_Inr lift_io_def return_io_def
        fail_io_def res_simps split: if_splits)
  then show ?thesis unfolding answered_def by (metis fst_conv is_ok_projr)
qed

lemma execute_determined:
  assumes "strict_reader ops (response_deserialize fm dt request) text_tree value_tree"
  shows "fst (execute d c ops request s) = Inr v \<longleftrightarrow>
    (\<exists>bytes w. answered d c request s bytes
       \<and> body_reads (d_memchr d) (d_memmem d) ops text_tree value_tree bytes w
       \<and> response_deserialize fm dt request w = Inr v)"
proof -
  have "fst (execute d c ops request s) = Inr v \<longleftrightarrow> decode_json_response (d_memchr d) (d_memmem d) ops
      bytes (pr_context (prepare_request d c request)) = Inr v" if "answered d c request s bytes" for bytes
    unfolding execute_answered [OF that] by (auto simp: res_simps)
  then show ?thesis
    using execute_value_answered strict_reader.decode_exact [OF assms] by metis
qed

lemma execute_refused:
  assumes "strict_reader ops (response_deserialize fm dt request) text_tree value_tree"
    and "answered d c request s bytes"
    and "body_reads (d_memchr d) (d_memmem d) ops text_tree value_tree bytes w"
    and "response_deserialize fm dt request w = Inl x"
  shows "\<exists>e. fst (execute d c ops request s) = Inl (Err (ResponseDeserialization e))
     \<and> rd_context e = pr_context (prepare_request d c request) \<and> je_category (rd_source e) = Category_Data"
proof -
  let ?rc = "pr_context (prepare_request d c request)"
  obtain e where "decode_json_response (d_memchr d) (d_memmem d) ops bytes ?rc = Inl (ResponseDeserialization e)"
      "rd_context e = ?rc" "je_category (rd_source e) = Category_Data"
    using strict_reader.decode_refused [OF assms(1,3,4)] by blast
  then show ?thesis by (simp add: execute_answered [OF assms(2)])
qed

lemma execute_reads:
  assumes "strict_reader ops (response_deserialize fm dt request) text_tree value_tree"
    and "answered d c request s bytes"
    and "body_reads (d_memchr d) (d_memmem d) ops text_tree value_tree bytes w"
  shows "fst (execute d c ops request s) = Inr v \<longleftrightarrow> response_deserialize fm dt request w = Inr v"
  unfolding execute_determined [OF assms(1)] using assms(2,3) answered_unique body_reads_unique by metis

section \<open>The names of interfaces\<close>

lemma listed_name:
  assumes "Interfaces_deserialize w = Inr m" and "(name, i) \<in> set (Interfaces_iter m)"
  shows "InterfaceId_try_from name = Inr (InterfaceId name)"
    and "\<exists>ns u. w = Wire_map ns \<and> (name, u) \<in> set ns \<and> de_struct Interface_fields 11 Interface_visit_map u = Inr i"
proof -
  from assms(1) obtain ns where w: "w = Wire_map ns"
    unfolding Interfaces_deserialize_def by (cases w) auto
  have "keyed ns (de_struct Interface_fields 11 Interface_visit_map) (Interfaces_get m) (Interfaces_iter m)"
    using interface_map.read_keyed [of "de_struct Interface_fields 11 Interface_visit_map" ns m] assms(1)
    unfolding w Interfaces_deserialize_def Interfaces_get_def [abs_def] Interfaces_iter_def .
  then obtain u where "map_of (rev ns) name = Some u" "de_struct Interface_fields 11 Interface_visit_map u = Inr i"
    using assms(2) unfolding keyed_def by blast
  then show "\<exists>ns u. w = Wire_map ns \<and> (name, u) \<in> set ns \<and> de_struct Interface_fields 11 Interface_visit_map u = Inr i"
    using w map_of_SomeD by fastforce
  from assms(2) obtain k where k: "(k, i) \<in> set m" "name = InterfaceId_as_str k"
    by (auto simp: Interfaces_iter_def)
  have "id_ok k" using decodesD [OF interfaces_wf assms(1)] k(1) by (auto simp: map_ok_def list_all_iff)
  then show "InterfaceId_try_from name = Inr (InterfaceId name)"
    using k(2) by (simp add: interface_id.parse_iff)
qed

section \<open>Replies of \<open>show interface\<close>\<close>

text \<open>The reply of the router: the entries of the interface under the two keys of the command.\<close>

definition reply_tree :: "entries \<Rightarrow> wire" where
  "reply_tree es = Wire_map [(''show'', Wire_map [(''interface'', Wire_map es)])]"

lemma lte_reply:
  "response_deserialize fm dt (ShowLteInterface q) (reply_tree es) =
     map_res (\<lambda>m. LteInterfaceResponse (ShowInterfaceReply (ShowInterfaceResult m)))
       (MobileInterface_deserialize fm (Wire_map es))"
  by (cases "MobileInterface_deserialize fm (Wire_map es)")
    (simp_all add: reply_tree_def show_lte_interface_def ShowInterfaceReply_visit_map_def de_newtype_def
      field_defs occurrences_def)

lemma interface_reply:
  "response_deserialize fm dt (ShowInterface q) (reply_tree es) =
     map_res (\<lambda>i. InterfaceResponse (ShowInterfaceReply (ShowInterfaceResult i))) (Interface_visit_map es)"
  by (cases "Interface_visit_map es")
    (simp_all add: reply_tree_def ShowInterfaceReply_visit_map_def de_newtype_def field_defs occurrences_def)

lemma lte_reply_refused:
  assumes "Interface_visit_map es = Inr i" and "\<not> is_mobile_broadband i"
  shows "\<exists>x. response_deserialize fm dt (ShowLteInterface q) (reply_tree es) = Inl x"
proof (cases "MobileInterface_deserialize fm (Wire_map es)")
  case (Inr m)
  with assms show ?thesis using mobile_interface_chain [of fm es m] by simp
qed (simp add: lte_reply del: response_deserialize.simps)

section \<open>A concrete reader\<close>

text \<open>The body \<open>{}\<close> of the scripted router of \<open>Client\<close>, read as a tree of choice.\<close>

definition empty_body_ops :: "wire \<Rightarrow> 'a decode \<Rightarrow> 'a json_ops" where
  "empty_body_ops w = tree_ops (\<lambda>bytes. if bytes = ''{}'' then Some (w, []) else None) (\<lambda>_. w)
     (from_slice empty_object_ops) (\<lambda>rest. Inr ())"

lemma empty_body_parse:
  "from_slice (empty_body_ops w de) = from_slice empty_object_ops" "de_end (empty_body_ops w de) = (\<lambda>rest. Inr ())"
  by (simp_all add: empty_body_ops_def tree_ops_def Let_def)

lemma empty_body_text: "json_text (from_slice (empty_body_ops w de))"
  by (auto simp: empty_body_parse json_text_def empty_object_ops_def value_strings_simps split: if_splits)

lemma empty_body_reader:
  "strict_reader (empty_body_ops w de) de (\<lambda>bytes. if bytes = ''{}'' then Some (w, []) else None) (\<lambda>_. w)"
  unfolding empty_body_ops_def by (rule tree_ops_strict)

lemma script_search: "byte_search (d_memchr script_deps) (d_memmem script_deps)"
  using naive_search.byte_search_axioms by (simp add: script_deps_def)

lemma script_inv: "auth_inv (script_session w)"
  by (simp add: auth_inv_def script_session_def)

lemma empty_body_reads:
  "body_reads (d_memchr script_deps) (d_memmem script_deps) (empty_body_ops w de)
     (\<lambda>bytes. if bytes = ''{}'' then Some (w, []) else None) (\<lambda>_. w) ''{}'' w"
proof -
  have "\<not> needs_rci_inspection (d_memchr script_deps) (d_memmem script_deps) ''{}''" by code_simp
  then show ?thesis by (simp add: body_reads_def empty_body_parse)
qed

lemma script_answered_get: "answered script_deps script_client (GetRequest g) (script_session login_script) ''{}''"
proof -
  have "fst (send_authenticated script_deps script_client (prepare_request script_deps script_client (GetRequest g))
      (script_session login_script)) = Inr (script_response 200 [])"
    by (cases g; simp only:; code_simp)
  moreover have "d_is_success script_deps 200" by code_simp
  ultimately show ?thesis by (simp add: answered_def script_response_def)
qed

lemma bridge_listed:
  obtains es i where "bridge_entry = Wire_map es" and "Interface_visit_map es = Inr i" and "\<not> is_mobile_broadband i"
    and "Interfaces_deserialize (Wire_map [(''Bridge0'', bridge_entry)]) = Inr [(InterfaceId ''Bridge0'', i)]"
proof -
  obtain i where i: "Interfaces_deserialize (Wire_map [(''Bridge0'', bridge_entry)]) = Inr [(InterfaceId ''Bridge0'', i)]"
      "Interfaces_lte [(InterfaceId ''Bridge0'', i)] = []"
    using interfaces_wellformed_witness by blast
  obtain es where es: "bridge_entry = Wire_map es" by (simp add: bridge_entry_def)
  have "Interface_visit_map es = Inr i"
    using listed_name(2) [OF i(1), of "''Bridge0''" i] by (auto simp: Interfaces_iter_def es)
  moreover have "\<not> is_mobile_broadband i" using i(2) by (simp add: Interfaces_lte_def Interfaces_iter_def split: if_splits)
  ultimately show thesis using that es i(1) by blast
qed

lemma script_answered_show:
  "answered script_deps script_client (ShowInterface \<lparr>irq_name = InterfaceId ''Bridge0'', irq_body = []\<rparr>) (script_session login_script) ''{}''"
proof -
  have "fst (send_authenticated script_deps script_client
      (prepare_request script_deps script_client (ShowInterface \<lparr>irq_name = InterfaceId ''Bridge0'', irq_body = []\<rparr>))
      (script_session login_script)) = Inr (script_response 200 [])"
    by code_simp
  moreover have "d_is_success script_deps 200" by code_simp
  ultimately show ?thesis by (simp add: answered_def script_response_def)
qed

section \<open>Properties\<close>

text \<open>C5: the outcome of a typed call is determined by the answer: \<open>execute\<close> returns a value exactly when
  the router answered its request with a successful status and a complete body, and the response type
  reads that value from the tree of the body; when the type refuses the tree, the call returns a data
  error that names the request. A value that is returned is well formed, the answer to the call's own
  request is the last thing on the wire, and its body contains no RCI error.\<close>

theorem execute_exact:
  assumes "auth_inv s" and "byte_search (d_memchr d) (d_memmem d)" and "json_text (from_slice ops)"
    and "strict_reader ops (response_deserialize fm dt request) text_tree value_tree"
  shows "(fst (execute d c ops request s) = Inr v \<longleftrightarrow>
        (\<exists>bytes w. answered d c request s bytes
           \<and> body_reads (d_memchr d) (d_memmem d) ops text_tree value_tree bytes w
           \<and> response_deserialize fm dt request w = Inr v))
    \<and> (answered d c request s bytes \<and> body_reads (d_memchr d) (d_memmem d) ops text_tree value_tree bytes w
        \<and> response_deserialize fm dt request w = Inl x \<longrightarrow>
          (\<exists>e. fst (execute d c ops request s) = Inl (Err (ResponseDeserialization e))
             \<and> rd_context e = pr_context (prepare_request d c request) \<and> je_category (rd_source e) = Category_Data))
    \<and> (execute d c ops request s = (Inr v, t) \<longrightarrow> response_ok fm v
        \<and> (\<exists>r bytes. last (log t) = (prepare_request d c request, Inr r) \<and> rs_bytes r = Inr bytes
             \<and> (\<forall>j e. from_slice ops bytes = Inr j \<longrightarrow> \<not> has_rci_error j e)))"
proof (intro conjI impI)
  show "fst (execute d c ops request s) = Inr v \<longleftrightarrow>
        (\<exists>bytes w. answered d c request s bytes
           \<and> body_reads (d_memchr d) (d_memmem d) ops text_tree value_tree bytes w
           \<and> response_deserialize fm dt request w = Inr v)"
    by (rule execute_determined [OF assms(4)])
  show "\<exists>e. fst (execute d c ops request s) = Inl (Err (ResponseDeserialization e))
      \<and> rd_context e = pr_context (prepare_request d c request) \<and> je_category (rd_source e) = Category_Data"
    if "answered d c request s bytes \<and> body_reads (d_memchr d) (d_memmem d) ops text_tree value_tree bytes w
        \<and> response_deserialize fm dt request w = Inl x"
    using execute_refused [OF assms(4)] that by blast
  assume run: "execute d c ops request s = (Inr v, t)"
  from execute_typed [OF assms(1-3) strict_reader.axioms(1) [OF assms(4)] run]
  show "response_ok fm v" "\<exists>r bytes. last (log t) = (prepare_request d c request, Inr r) \<and> rs_bytes r = Inr bytes
      \<and> (\<forall>j e. from_slice ops bytes = Inr j \<longrightarrow> \<not> has_rci_error j e)"
    by blast+
qed

text \<open>After a login the router answers \<open>{}\<close>, which is no system state: its fields are required.\<close>

theorem execute_exact_witness:
  "\<exists>e. fst (execute script_deps script_client
       (empty_body_ops (Wire_map []) (response_deserialize no_formats (de_text (\<lambda>_. None :: nat option)) (GetRequest ShowSystem)))
       (GetRequest ShowSystem) (script_session login_script)) = Inl (Err (ResponseDeserialization e))
     \<and> rd_context e = RequestContext_new GET ''/rci/show/system''"
proof -
  let ?de = "response_deserialize no_formats (de_text (\<lambda>_. None :: nat option)) (GetRequest ShowSystem)"
  obtain x where x: "?de (Wire_map []) = Inl x"
    by (simp add: de_newtype_def System_visit_map_def field_defs occurrences_def)
  have "pr_context (prepare_request script_deps script_client (GetRequest ShowSystem))
      = RequestContext_new GET ''/rci/show/system''"
    by (simp add: prepare_request_wire wire_form_def Let_def RequestContext_new_def)
  with execute_exact [where c = script_client and bytes = "''{}''" and w = "Wire_map []" and x = x,
      OF script_inv [of login_script] script_search empty_body_text [of "Wire_map []"] empty_body_reader [of "Wire_map []"]]
    script_answered_get [of ShowSystem] empty_body_reads [of "Wire_map []" ?de] x
  show ?thesis by (metis (no_types, lifting))
qed

text \<open>C15: names travel unchanged from one call to the next: an interface that \<open>ShowInterfaces\<close> lists is a
  key of the object in the body of the response that ended the call, the last thing on the wire, with
  the entry it was read from; \<open>ShowInterfaceStat\<close> accepts the name and the next call puts it on the
  wire as the only query parameter; and the interface commands accept it and post a body with that
  name.\<close>

theorem listed_interfaces_queried:
  assumes "auth_inv s"
    and "json_reader ops (response_deserialize fm dt (GetRequest ShowInterfaces)) text_tree value_tree"
    and "execute d c ops (GetRequest ShowInterfaces) s = (Inr (InterfacesResponse m), t)"
    and "(name, i) \<in> set (Interfaces_iter m)"
  shows "(\<exists>r bytes ns u. last (log t) = (prepare_request d c (GetRequest ShowInterfaces), Inr r)
        \<and> d_is_success d (rs_status r) \<and> rs_bytes r = Inr bytes
        \<and> body_tree ops text_tree value_tree bytes (Wire_map ns) \<and> (name, u) \<in> set ns
        \<and> de_struct Interface_fields 11 Interface_visit_map u = Inr i)
    \<and> (\<exists>q es. ShowInterfaceStat_new name = Inr q \<and> log (snd (execute d c ops' (StatRequest q) t)) = log t @ es
        \<and> confined (wire_form d c GET ''/rci/show/interface/stat'' (Some (''name'', name)) None) es)
    \<and> InterfaceRequest_new to_vec name = map_err (\<lambda>_. Panic) (map_res (\<lambda>body. \<lparr>irq_name = InterfaceId name, irq_body = body\<rparr>)
        (to_vec (Object [(''show'', Object [(''interface'', Object [(''name'', String name)])])])))"
proof (intro conjI)
  have send: "send_json d c ops (prepare_request d c (GetRequest ShowInterfaces)) s = (Inr (InterfacesResponse m), t)"
    using assms(3) by (simp add: execute_def)
  obtain r bytes where ok: "last (log t) = (prepare_request d c (GetRequest ShowInterfaces), Inr r)"
      "d_is_success d (rs_status r)" "rs_bytes r = Inr bytes" and dec: "decode_json_response (d_memchr d) (d_memmem d) ops bytes
      (pr_context (prepare_request d c (GetRequest ShowInterfaces))) = Inr (InterfacesResponse m)"
    by (rule send_json_answer [OF assms(1) send])
  from json_reader.decoded_from_tree [OF assms(2) dec] obtain w where
    w: "body_tree ops text_tree value_tree bytes w" "Interfaces_deserialize w = Inr m"
    by (auto simp: de_newtype_def res_simps)
  with ok listed_name(2) [OF w(2) assms(4)]
  show "\<exists>r bytes ns u. last (log t) = (prepare_request d c (GetRequest ShowInterfaces), Inr r)
      \<and> d_is_success d (rs_status r) \<and> rs_bytes r = Inr bytes
      \<and> body_tree ops text_tree value_tree bytes (Wire_map ns) \<and> (name, u) \<in> set ns
      \<and> de_struct Interface_fields 11 Interface_visit_map u = Inr i"
    by blast
  note name = listed_name(1) [OF w(2) assms(4)]
  show "InterfaceRequest_new to_vec name = map_err (\<lambda>_. Panic) (map_res (\<lambda>body. \<lparr>irq_name = InterfaceId name, irq_body = body\<rparr>)
      (to_vec (Object [(''show'', Object [(''interface'', Object [(''name'', String name)])])])))"
    by (cases "to_vec (Object [(''show'', Object [(''interface'', Object [(''name'', String name)])])])")
      (simp_all add: InterfaceRequest_new_def InterfaceRequest_from_id_def show_interface_body_def name)
  let ?q = "ShowInterfaceStat (InterfaceId name)"
  have "auth_inv t" using send_json_run [OF send] send_authenticated_inv [OF assms(1)] by metis
  moreover obtain r u where "send_json d c ops' (prepare_request d c (StatRequest ?q)) t = (r, u)" by (metis surj_pair)
  ultimately obtain es where "log u = log t @ es" "confined (prepare_request d c (StatRequest ?q)) es"
      "snd (execute d c ops' (StatRequest ?q) t) = u"
    using send_json_confined by (fastforce simp: execute_def)
  then show "\<exists>q es. ShowInterfaceStat_new name = Inr q \<and> log (snd (execute d c ops' (StatRequest q) t)) = log t @ es
      \<and> confined (wire_form d c GET ''/rci/show/interface/stat'' (Some (''name'', name)) None) es"
    by (intro exI [of _ ?q] exI [of _ es]) (simp add: ShowInterfaceStat_new_def name prepare_request_wire)
qed

text \<open>The router lists one bridge; its statistics are asked for in the next call.\<close>

theorem listed_interfaces_queried_witness:
  "\<exists>t i q es r bytes. execute script_deps script_client
       (empty_body_ops (Wire_map [(''Bridge0'', bridge_entry)])
          (response_deserialize no_formats (de_text (\<lambda>_. None :: nat option)) (GetRequest ShowInterfaces)))
       (GetRequest ShowInterfaces) (script_session login_script) = (Inr (InterfacesResponse [(InterfaceId ''Bridge0'', i)]), t)
     \<and> last (log t) = (prepare_request script_deps script_client (GetRequest ShowInterfaces), Inr r) \<and> rs_bytes r = Inr bytes
     \<and> ShowInterfaceStat_new ''Bridge0'' = Inr q
     \<and> log (snd (execute script_deps script_client empty_object_ops (StatRequest q) t)) = log t @ es
     \<and> confined (wire_form script_deps script_client GET ''/rci/show/interface/stat'' (Some (''name'', ''Bridge0'')) None) es"
proof -
  let ?w = "Wire_map [(''Bridge0'', bridge_entry)]"
  let ?de = "response_deserialize no_formats (de_text (\<lambda>_. None :: nat option)) (GetRequest ShowInterfaces)"
  obtain i where i: "Interfaces_deserialize ?w = Inr [(InterfaceId ''Bridge0'', i)]"
    by (rule bridge_listed)
  then have "?de ?w = Inr (InterfacesResponse [(InterfaceId ''Bridge0'', i)])" by (simp add: de_newtype_def)
  with execute_reads [OF empty_body_reader script_answered_get empty_body_reads]
  have "fst (execute script_deps script_client (empty_body_ops ?w ?de) (GetRequest ShowInterfaces) (script_session login_script))
      = Inr (InterfacesResponse [(InterfaceId ''Bridge0'', i)])"
    by blast
  then obtain t where t: "execute script_deps script_client (empty_body_ops ?w ?de) (GetRequest ShowInterfaces) (script_session login_script)
      = (Inr (InterfacesResponse [(InterfaceId ''Bridge0'', i)]), t)"
    by (metis prod.collapse)
  have "(''Bridge0'', i) \<in> set (Interfaces_iter [(InterfaceId ''Bridge0'', i)])" by (simp add: Interfaces_iter_def)
  from listed_interfaces_queried [OF script_inv strict_reader.axioms(1) [OF empty_body_reader] t this, of empty_object_ops] t
  show ?thesis by blast
qed



end
