(* ===== verification/Responses.thy ===== *)
theory Responses
  imports Calls Collections
begin

text \<open>
  What holds of the response structs together: the entries each one requires, those it can do
  without, and that it reads no other, so that firmware that adds fields or reorders them is
  read the same; the two responses that are stricter say so here.
\<close>

section \<open>Contracts of structs\<close>

text \<open>Structs whose only entry is the collection they wrap.\<close>

interpretation Associations_entries: entry_decoder "[''station'']" Associations_visit_map
  by unfold_locales (simp add: Associations_visit_map_def decoder_simps)

interpretation IpHotspotHosts_entries: entry_decoder "[''host'']" "IpHotspotHosts_visit_map fm" for fm
  by unfold_locales (simp add: IpHotspotHosts_visit_map_def decoder_simps)

interpretation IpDhcpBindings_entries: entry_decoder "[''lease'']" "IpDhcpBindings_visit_map fm" for fm
  by unfold_locales (simp add: IpDhcpBindings_visit_map_def decoder_simps)

interpretation PingCheckProfiles_entries: entry_decoder "[''pingcheck'']" "PingCheckProfiles_visit_map fm" for fm
  by unfold_locales (simp add: PingCheckProfiles_visit_map_def decoder_simps)

interpretation IpNameServers_entries: entry_decoder "[''server'']" "IpNameServers_visit_map fm" for fm
  by unfold_locales (simp add: IpNameServers_visit_map_def decoder_simps)

interpretation UsbDevices_entries: entry_decoder "[''device'']" UsbDevices_visit_map
  by unfold_locales (simp add: UsbDevices_visit_map_def decoder_simps)

interpretation ShowInterfaceReply_entries: entry_decoder "[''show'']" "ShowInterfaceReply_visit_map de" for de
  by unfold_locales (simp add: ShowInterfaceReply_visit_map_def decoder_simps)

interpretation ShowInterfaceResult_entries:
  entry_decoder "[''interface'']" "\<lambda>es. map_res ShowInterfaceResult (required de ''interface'' es)" for de
  by unfold_locales (simp add: decoder_simps)

definition without :: "string \<Rightarrow> entries \<Rightarrow> entries" where
  "without name es = filter (\<lambda>e. fst e \<noteq> name) es"

text \<open>The contract of a struct with required and optional entries: it reads no other entry and no
  order; an object it accepts has every required entry exactly once and no optional one twice; and
  it does not need an optional entry.\<close>

definition struct_contract :: "string list \<Rightarrow> string list \<Rightarrow> (entries \<Rightarrow> 'a decoded) \<Rightarrow> bool" where
  "struct_contract needed spare visit_map \<longleftrightarrow> reads_only (needed @ spare) visit_map
     \<and> (\<forall>es. is_ok (visit_map es) \<longrightarrow>
          (\<forall>n \<in> set needed. length (occurrences n es) = 1) \<and> (\<forall>n \<in> set spare. length (occurrences n es) \<le> 1)
          \<and> (\<forall>n \<in> set spare. is_ok (visit_map (without n es))))"

lemma reads_only_mono: "reads_only ns visit_map \<Longrightarrow> set ns \<subseteq> set ns' \<Longrightarrow> reads_only ns' visit_map"
  unfolding reads_only_def by blast

text \<open>The same for the condition under which a chain of fields succeeds.\<close>

definition field_conditions :: "string list \<Rightarrow> string list \<Rightarrow> (entries \<Rightarrow> bool) \<Rightarrow> bool" where
  "field_conditions needed spare ok \<longleftrightarrow>
     (\<forall>es es'. same_entries (needed @ spare) es es' \<longrightarrow> ok es = ok es')
     \<and> (\<forall>es. ok es \<longrightarrow>
          (\<forall>n \<in> set needed. length (occurrences n es) = 1) \<and> (\<forall>n \<in> set spare. length (occurrences n es) \<le> 1)
          \<and> (\<forall>n \<in> set spare. ok (without n es)))"

lemma struct_contractI:
  assumes "entry_decoder ns visit_map" and "field_conditions needed spare (\<lambda>es. is_ok (visit_map es))"
    and "set ns \<subseteq> set (needed @ spare)"
  shows "struct_contract needed spare visit_map"
  using assms(2) reads_only_mono [OF entry_decoder_reads_only [OF assms(1)] assms(3)]
  by (simp add: struct_contract_def field_conditions_def)

lemma occurrences_without: "occurrences n (without m es) = (if n = m then [] else occurrences n es)"
  by (induction es) (auto simp: occurrences_def without_def)

lemma fields_without:
  "required de n (without m es) = (if n = m then Inl (Missing_field n) else required de n es)"
  "optional de n (without m es) = (if n = m then Inr None else optional de n es)"
  "defaulted fallback de n (without m es) = (if n = m then Inr fallback else defaulted fallback de n es)"
  by (simp_all add: field_defs occurrences_without)

lemma fields_remaining:
  "n \<notin> set own \<Longrightarrow> required de n (remaining own es) = required de n es"
  "n \<notin> set own \<Longrightarrow> optional de n (remaining own es) = optional de n es"
  "n \<notin> set own \<Longrightarrow> defaulted fallback de n (remaining own es) = defaulted fallback de n es"
  by (simp_all add: field_defs occurrences_remaining)

lemma fields_ok:
  "is_ok (required de n es) \<Longrightarrow> length (occurrences n es) = 1"
  "is_ok (optional de n es) \<Longrightarrow> length (occurrences n es) \<le> 1"
  "is_ok (defaulted fallback de n es) \<Longrightarrow> length (occurrences n es) \<le> 1"
  by (auto simp: field_defs split: list.splits)

lemma fields_cong:
  "occurrences n es = occurrences n es' \<Longrightarrow> optional de n es = optional de n es'"
  "occurrences n es = occurrences n es' \<Longrightarrow> defaulted fallback de n es = defaulted fallback de n es'"
  by (simp_all add: field_defs)

lemma same_entries_without: "n \<notin> set ns \<Longrightarrow> same_entries ns (without n es) es"
  by (auto simp: same_entries_def occurrences_without)

lemma field_conditions_needed:
  assumes "field_conditions needed spare ok" and "n \<notin> set spare"
  shows "field_conditions (n # needed) spare (\<lambda>es. is_ok (required de n es) \<and> ok es)"
  unfolding field_conditions_def
proof (intro conjI allI impI)
  fix es es'
  assume "same_entries ((n # needed) @ spare) es es'"
  then have "same_entries (needed @ spare) es es'" "required de n es = required de n es'"
    by (simp_all add: same_entries_def required_def field_def)
  with assms(1) show "(is_ok (required de n es) \<and> ok es) = (is_ok (required de n es') \<and> ok es')"
    by (auto simp: field_conditions_def)
qed (use assms fields_ok(1) in \<open>auto simp: field_conditions_def fields_without\<close>)

lemma field_conditions_spare:
  assumes "field_conditions needed spare ok" and "n \<notin> set (needed @ spare)"
    and "\<And>es es'. occurrences n es = occurrences n es' \<Longrightarrow> read es = read es'"
    and "\<And>es. is_ok (read es) \<Longrightarrow> length (occurrences n es) \<le> 1"
    and "\<And>m es. is_ok (read (without m es)) \<longleftrightarrow> m = n \<or> is_ok (read es)"
  shows "field_conditions needed (n # spare) (\<lambda>es. is_ok (read es) \<and> ok es)"
  unfolding field_conditions_def
proof (intro conjI allI impI)
  fix es es'
  assume "same_entries (needed @ n # spare) es es'"
  then have "same_entries (needed @ spare) es es'" and "occurrences n es = occurrences n es'"
    by (simp_all add: same_entries_def)
  with assms(1) assms(3) [of es es'] show "(is_ok (read es) \<and> ok es) = (is_ok (read es') \<and> ok es')"
    by (auto simp: field_conditions_def)
next
  fix es
  assume ok: "is_ok (read es) \<and> ok es"
  show "\<forall>m \<in> set needed. length (occurrences m es) = 1"
      "\<forall>m \<in> set (n # spare). length (occurrences m es) \<le> 1"
    using ok assms(1,4) by (auto simp: field_conditions_def)
  have "ok (without n es) = ok es"
    using assms(1) same_entries_without [OF assms(2)] unfolding field_conditions_def by blast
  with ok assms(1) show "\<forall>m \<in> set (n # spare). is_ok (read (without m es)) \<and> ok (without m es)"
    by (auto simp: field_conditions_def assms(5))
qed

lemma field_conditions_nil: "field_conditions [] [] (\<lambda>es. True)"
  by (simp add: field_conditions_def)

lemma field_conditions_optional:
  assumes "field_conditions needed spare ok" and "n \<notin> set (needed @ spare)"
  shows "field_conditions needed (n # spare) (\<lambda>es. is_ok (optional de n es) \<and> ok es)"
  by (rule field_conditions_spare [OF assms, of "optional de n"])
    (rule fields_cong fields_ok, assumption | simp add: fields_without)+

lemma field_conditions_defaulted:
  assumes "field_conditions needed spare ok" and "n \<notin> set (needed @ spare)"
  shows "field_conditions needed (n # spare) (\<lambda>es. is_ok (defaulted fallback de n es) \<and> ok es)"
  by (rule field_conditions_spare [OF assms, of "defaulted fallback de n"])
    (rule fields_cong fields_ok, assumption | simp add: fields_without)+

lemma field_conditions_last:
  "field_conditions [n] [] (\<lambda>es. is_ok (required de n es))"
  "field_conditions [] [n] (\<lambda>es. is_ok (optional de n es))"
  "field_conditions [] [n] (\<lambda>es. is_ok (defaulted fallback de n es))"
  using field_conditions_needed [OF field_conditions_nil, of n de]
    field_conditions_optional [OF field_conditions_nil, of n de]
    field_conditions_defaulted [OF field_conditions_nil, of n fallback de]
  by simp_all

text \<open>The entries of a flattened struct are read from what its owner left.\<close>

lemma field_conditions_remaining:
  assumes "field_conditions needed spare ok" and "n \<notin> set own"
  shows "n \<notin> set spare \<Longrightarrow>
      field_conditions (n # needed) spare (\<lambda>es. is_ok (required de n (remaining own es)) \<and> ok es)"
    and "n \<notin> set (needed @ spare) \<Longrightarrow>
      field_conditions needed (n # spare) (\<lambda>es. is_ok (optional de n (remaining own es)) \<and> ok es)"
    and "n \<notin> set (needed @ spare) \<Longrightarrow>
      field_conditions needed (n # spare) (\<lambda>es. is_ok (defaulted fallback de n (remaining own es)) \<and> ok es)"
  using field_conditions_needed [OF assms(1)] field_conditions_optional [OF assms(1)]
    field_conditions_defaulted [OF assms(1)]
  by (simp_all add: fields_remaining [OF assms(2)])

lemmas field_conditions_rules = field_conditions_needed field_conditions_optional
  field_conditions_defaulted field_conditions_last field_conditions_remaining(1-3) field_conditions_nil

lemma success_rules: "((P \<and> Q) \<and> R) = (P \<and> Q \<and> R)" "(True \<and> P) = P"
  by simp_all

lemmas success_simps = is_ok_bind is_ok.simps is_ok_map success_rules

section \<open>The structs\<close>

lemmas struct_laws =
  InterfaceLayerSummary_entries.entry_decoder_axioms InterfaceSummary_entries.entry_decoder_axioms
  Interface_entries.entry_decoder_axioms ComponentCarrier_entries.entry_decoder_axioms
  ServingCell_entries.entry_decoder_axioms MobileSignal_entries.entry_decoder_axioms
  LteModem_entries.entry_decoder_axioms LteSim_entries.entry_decoder_axioms
  MobileStatus_entries.entry_decoder_axioms MobileInterfaceWire_entries.entry_decoder_axioms
  WifiPeerLink_entries.entry_decoder_axioms Association_entries.entry_decoder_axioms
  Associations_entries.entry_decoder_axioms ArpEntry_entries.entry_decoder_axioms
  DhcpBinding_entries.entry_decoder_axioms IpDhcpBindings_entries.entry_decoder_axioms
  InterfaceReference_entries.entry_decoder_axioms HotspotDhcp_entries.entry_decoder_axioms
  TrafficShape_entries.entry_decoder_axioms HotspotHost_entries.entry_decoder_axioms
  IpHotspotHosts_entries.entry_decoder_axioms System_entries.entry_decoder_axioms
  SystemModeStatus_entries.entry_decoder_axioms VersionBuild_entries.entry_decoder_axioms
  VersionCapabilities_entries.entry_decoder_axioms Version_entries.entry_decoder_axioms
  Identification_entries.entry_decoder_axioms InterfaceStat_entries.entry_decoder_axioms
  UsbDevice_entries.entry_decoder_axioms UsbDevices_entries.entry_decoder_axioms
  MediaPartition_entries.entry_decoder_axioms MediaDevice_entries.entry_decoder_axioms
  Ipv4Route_entries.entry_decoder_axioms Ipv6Route_entries.entry_decoder_axioms
  PingCheckCacheEntry_entries.entry_decoder_axioms PingCheckInterface_entries.entry_decoder_axioms
  PingCheckProfile_entries.entry_decoder_axioms PingCheckProfiles_entries.entry_decoder_axioms
  IpNameServer_entries.entry_decoder_axioms IpNameServers_entries.entry_decoder_axioms
  NtpStatus_entries.entry_decoder_axioms MwsControllerStatus_entries.entry_decoder_axioms
  MwsStatus_entries.entry_decoder_axioms MwsPort_entries.entry_decoder_axioms
  MwsBand_entries.entry_decoder_axioms MwsWireless_entries.entry_decoder_axioms
  MwsMemberSystem_entries.entry_decoder_axioms MwsBackhaul_entries.entry_decoder_axioms
  MwsRciStatus_entries.entry_decoder_axioms MwsMember_entries.entry_decoder_axioms
  InternetStatus_entries.entry_decoder_axioms NetworkTestResponse_entries.entry_decoder_axioms
  ShowInterfaceReply_entries.entry_decoder_axioms ShowInterfaceResult_entries.entry_decoder_axioms

lemmas visit_map_defs =
  InterfaceLayerSummary_visit_map_def InterfaceSummary_visit_map_def Interface_visit_map_def
  ComponentCarrier_visit_map_def ServingCell_visit_map_def MobileSignal_visit_map_def
  LteModem_visit_map_def LteSim_visit_map_def MobileStatus_visit_map_def
  MobileInterfaceWire_visit_map_def WifiPeerLink_visit_map_def Association_visit_map_def
  Associations_visit_map_def ArpEntry_visit_map_def DhcpBinding_visit_map_def
  IpDhcpBindings_visit_map_def InterfaceReference_visit_map_def HotspotDhcp_visit_map_def
  TrafficShape_visit_map_def HotspotHost_visit_map_def IpHotspotHosts_visit_map_def
  System_visit_map_def SystemModeStatus_visit_map_def VersionBuild_visit_map_def
  VersionCapabilities_visit_map_def Version_visit_map_def Identification_visit_map_def
  InterfaceStat_visit_map_def UsbDevice_visit_map_def UsbDevices_visit_map_def
  MediaPartition_visit_map_def MediaDevice_visit_map_def Ipv4Route_visit_map_def
  Ipv6Route_visit_map_def PingCheckCacheEntry_visit_map_def PingCheckInterface_visit_map_def
  PingCheckProfile_visit_map_def PingCheckProfiles_visit_map_def IpNameServer_visit_map_def
  IpNameServers_visit_map_def NtpStatus_visit_map_def MwsControllerStatus_visit_map_def
  MwsStatus_visit_map_def MwsPort_visit_map_def MwsBand_visit_map_def MwsWireless_visit_map_def
  MwsMemberSystem_visit_map_def MwsBackhaul_visit_map_def MwsRciStatus_visit_map_def
  MwsMember_visit_map_def InternetStatus_visit_map_def NetworkTestResponse_visit_map_def
  ShowInterfaceReply_visit_map_def

lemmas fields_defs =
  InterfaceLayerSummary_fields_def InterfaceSummary_fields_def Interface_fields_def
  ComponentCarrier_fields_def ServingCell_fields_def MobileSignal_fields_def LteModem_fields_def
  LteSim_fields_def MobileStatus_fields_def MobileInterfaceWire_fields_def WifiPeerLink_fields_def
  Association_fields_def ArpEntry_fields_def DhcpBinding_fields_def InterfaceReference_fields_def
  HotspotDhcp_fields_def TrafficShape_fields_def HotspotHost_fields_def System_fields_def
  SystemModeStatus_fields_def VersionBuild_fields_def VersionCapabilities_fields_def
  Version_fields_def Identification_fields_def InterfaceStat_fields_def UsbDevice_fields_def
  MediaPartition_fields_def MediaDevice_fields_def Ipv4Route_fields_def Ipv6Route_fields_def
  PingCheckCacheEntry_fields_def PingCheckInterface_fields_def PingCheckProfile_fields_def
  IpNameServer_fields_def NtpStatus_fields_def MwsControllerStatus_fields_def MwsStatus_fields_def
  MwsPort_fields_def MwsBand_fields_def MwsWireless_fields_def MwsMemberSystem_fields_def
  MwsBackhaul_fields_def MwsRciStatus_fields_def MwsMember_fields_def InternetStatus_fields_def
  NetworkTestResponse_fields_def Association_own_fields_def MobileStatus_own_fields_def
  MwsBackhaul_own_fields_def

lemma ipv6_routes_only:
  "is_ok (Ipv6Routes_visit_map fm es) \<longleftrightarrow> fst ` set es \<subseteq> {''route6''}
     \<and> is_ok (defaulted [] (de_seq (de_struct Ipv6Route_fields 9 (Ipv6Route_visit_map fm))) ''route6'' es)"
proof (cases "List.find (\<lambda>e. fst e \<noteq> ''route6'') es")
  case None
  then have "fst ` set es \<subseteq> {''route6''}" by (auto simp: find_None_iff)
  then show ?thesis by (simp only: Ipv6Routes_visit_map_def None option.case is_ok_map simp_thms)
next
  case (Some e)
  then have "e \<in> set es" "fst e \<noteq> ''route6''" by (auto simp: find_Some_iff)
  then have "\<not> fst ` set es \<subseteq> {''route6''}" by auto
  then show ?thesis by (simp only: Ipv6Routes_visit_map_def Some option.case is_ok.simps simp_thms)
qed

section \<open>Properties\<close>

text \<open>C27: what every response struct requires and what it can do without, by the names of the
  entries on the wire. It reads no other entry and no order: an entry with another name changes nothing
  wherever it stands, and two objects with the same distinct entries are read the same. An object it
  accepts has every required entry exactly once and no optional one twice, and stays accepted without
  any optional entry. The table of IPv6 routes is stricter, it refuses any other entry, and so is the
  member list, whose object form must have no entry at all.\<close>

theorem structs_read_what_they_name:
  "struct_contract [''conf'']
      [''link'', ''ctrl'', ''ipv4'', ''ipv6''] InterfaceLayerSummary_visit_map
   \<and> struct_contract [''layer'']
      [] InterfaceSummary_visit_map
   \<and> struct_contract [''id'', ''index'', ''interface-name'', ''type'', ''traits'', ''link'', ''admin-only'',
      ''summary'']
      [''description'', ''state'', ''mtu''] Interface_visit_map
   \<and> struct_contract []
      [''active'', ''mobile'', ''band'', ''earfcn'', ''dl-freq'', ''ul-freq'', ''bandwidth'',
      ''phy-cell-id''] ComponentCarrier_visit_map
   \<and> struct_contract []
      [''plmn'', ''enb-id'', ''sector-id'', ''tac''] ServingCell_visit_map
   \<and> struct_contract []
      [''signal-level'', ''rssi'', ''rsrp'', ''rsrq'', ''cinr''] MobileSignal_visit_map
   \<and> struct_contract []
      [''manufacturer'', ''model'', ''revision''] LteModem_visit_map
   \<and> struct_contract []
      [''spn''] LteSim_visit_map
   \<and> struct_contract []
      [''plugged'', ''connection-state'', ''operator'', ''apn'', ''sim'', ''pin-attempts'',
      ''embedded'', ''roaming'', ''imei'', ''imsi'', ''iccid'', ''phone-number'',
      ''signal-level'', ''rssi'', ''rsrp'', ''rsrq'', ''cinr'', ''temperature'', ''plmn'',
      ''enb-id'', ''sector-id'', ''tac'', ''active'', ''mobile'', ''band'', ''earfcn'',
      ''dl-freq'', ''ul-freq'', ''bandwidth'', ''phy-cell-id'', ''carrier'', ''ati'', ''uim''] (MobileStatus_visit_map fm)
   \<and> struct_contract [''id'', ''index'', ''interface-name'', ''type'', ''traits'', ''link'', ''admin-only'',
      ''summary'']
      [''description'', ''state'', ''mtu'', ''plugged'', ''connection-state'', ''operator'', ''apn'',
      ''sim'', ''pin-attempts'', ''embedded'', ''roaming'', ''imei'', ''imsi'', ''iccid'',
      ''phone-number'', ''signal-level'', ''rssi'', ''rsrp'', ''rsrq'', ''cinr'', ''temperature'',
      ''plmn'', ''enb-id'', ''sector-id'', ''tac'', ''active'', ''mobile'', ''band'', ''earfcn'',
      ''dl-freq'', ''ul-freq'', ''bandwidth'', ''phy-cell-id'', ''carrier'', ''ati'', ''uim''] (MobileInterfaceWire_visit_map fm)
   \<and> struct_contract [''ap'', ''authenticated'', ''txrate'', ''uptime'', ''ht'', ''mode'', ''gi'', ''rssi'', ''mcs'',
      ''txss'', ''security'']
      [] WifiPeerLink_visit_map
   \<and> struct_contract [''mac'', ''ap'', ''authenticated'', ''txrate'', ''uptime'', ''ht'', ''mode'', ''gi'', ''rssi'',
      ''mcs'', ''txss'', ''security'', ''txbytes'', ''rxbytes'']
      [''psm'', ''ebf'', ''dl-mu'', ''ul-mu'', ''dl-ofdma'', ''ul-ofdma''] Association_visit_map
   \<and> struct_contract [''station'']
      [] Associations_visit_map
   \<and> struct_contract [''ip'', ''mac'', ''interface'', ''state'']
      [''name''] (ArpEntry_visit_map fm)
   \<and> struct_contract [''ip'', ''mac'', ''via'', ''expires'']
      [''hostname'', ''name'', ''device'', ''mode''] (DhcpBinding_visit_map fm)
   \<and> struct_contract [''lease'']
      [] (IpDhcpBindings_visit_map fm)
   \<and> struct_contract [''id'', ''name'', ''description'']
      [] InterfaceReference_visit_map
   \<and> struct_contract [''expires'']
      [] HotspotDhcp_visit_map
   \<and> struct_contract [''rx'', ''tx'', ''mode'']
      [''schedule''] TrafficShape_visit_map
   \<and> struct_contract [''mac'', ''via'', ''ip'', ''registered'', ''access'', ''priority'', ''rxbytes'', ''txbytes'',
      ''uptime'', ''traffic-shape'']
      [''ip6'', ''hostname'', ''name'', ''interface'', ''dhcp'', ''schedule'', ''policy'', ''active'',
      ''first-seen'', ''last-seen'', ''link'', ''auto-negotiation'', ''duplex'', ''port'',
      ''speed'', ''ssid'', ''ap'', ''psm'', ''authenticated'', ''txrate'', ''ht'', ''mode'',
      ''gi'', ''rssi'', ''mcs'', ''txss'', ''ebf'', ''security''] (HotspotHost_visit_map fm)
   \<and> struct_contract [''host'']
      [] (IpHotspotHosts_visit_map fm)
   \<and> struct_contract [''hostname'', ''domainname'', ''uptime'', ''cpuload'', ''memtotal'', ''memfree'', ''conntotal'',
      ''connfree'']
      [] System_visit_map
   \<and> struct_contract [''active'', ''selected'', ''supported'', ''hw_controlled'', ''hw_locked'']
      [] SystemModeStatus_visit_map
   \<and> struct_contract [''exact'', ''cdate'']
      [] VersionBuild_visit_map
   \<and> struct_contract [''components'', ''features'']
      [] VersionCapabilities_visit_map
   \<and> struct_contract [''title'', ''release'', ''arch'', ''manufacturer'', ''series'', ''model'', ''hw_version'',
      ''hw_id'', ''region'', ''ndm'', ''ndw'']
      [''sandbox'', ''hw_type''] Version_visit_map
   \<and> struct_contract [''servicetag'', ''serial'', ''mac'', ''hwid'', ''cid'']
      [] Identification_visit_map
   \<and> struct_contract [''rxpackets'', ''rx-multicast-packets'', ''rx-broadcast-packets'', ''rxbytes'', ''rxerrors'',
      ''rxdropped'', ''txpackets'', ''tx-multicast-packets'', ''tx-broadcast-packets'',
      ''txbytes'', ''txerrors'', ''txdropped'', ''timestamp'', ''last-overflow'']
      [''rxspeed'', ''txspeed''] InterfaceStat_visit_map
   \<and> struct_contract [''subsystem'']
      [''DEVICE'', ''DEVPATH'', ''alias'', ''label'', ''no-led'', ''port'', ''power-control'',
      ''usb-version''] UsbDevice_visit_map
   \<and> struct_contract []
      [''device''] UsbDevices_visit_map
   \<and> struct_contract [''fstype'', ''state'', ''total'', ''free'']
      [''id'', ''uuid'', ''label'', ''check-supported'', ''format-supported'', ''used-by''] MediaPartition_visit_map
   \<and> struct_contract [''state'', ''size'']
      [''bus'', ''port'', ''ejectable'', ''removable'', ''manufacturer'', ''product'', ''serial'',
      ''initialize-supported'', ''partition''] MediaDevice_visit_map
   \<and> struct_contract [''destination'', ''gateway'', ''interface'', ''metric'', ''flags'', ''rejecting'', ''proto'',
      ''floating'', ''static'']
      [] (Ipv4Route_visit_map fm)
   \<and> struct_contract [''destination'', ''gateway'', ''interface'', ''metric'', ''flags'', ''rejecting'', ''proto'',
      ''floating'', ''static'']
      [] (Ipv6Route_visit_map fm)
   \<and> struct_contract [''host'', ''addresses'']
      [] (PingCheckCacheEntry_visit_map fm)
   \<and> struct_contract [''ignore-fail'', ''successcount'', ''failcount'', ''status'']
      [''ipcache''] (PingCheckInterface_visit_map fm)
   \<and> struct_contract [''profile'']
      [''host'', ''port'', ''update-interval'', ''timeout'', ''max-fails'', ''mode'', ''interface''] (PingCheckProfile_visit_map fm)
   \<and> struct_contract []
      [''pingcheck''] (PingCheckProfiles_visit_map fm)
   \<and> struct_contract [''address'', ''global'']
      [''domain'', ''service'', ''interface''] (IpNameServer_visit_map fm)
   \<and> struct_contract []
      [''server''] (IpNameServers_visit_map fm)
   \<and> struct_contract [''elapsed'', ''server'', ''accurate'', ''synchronized'', ''ndsstime'', ''usertime'']
      [] (NtpStatus_visit_map fm)
   \<and> struct_contract [''update-pending'']
      [] MwsControllerStatus_visit_map
   \<and> struct_contract [''auto-update'', ''controller'']
      [] MwsStatus_visit_map
   \<and> struct_contract [''label'', ''link'']
      [''appearance''] MwsPort_visit_map
   \<and> struct_contract [''index'']
      [] MwsBand_visit_map
   \<and> struct_contract []
      [''band''] MwsWireless_visit_map
   \<and> struct_contract [''cpuload'', ''memory'', ''uptime'']
      [] MwsMemberSystem_visit_map
   \<and> struct_contract [''uplink'', ''root'', ''bridge'', ''cost'', ''ap'', ''authenticated'', ''txrate'', ''uptime'',
      ''ht'', ''mode'', ''gi'', ''rssi'', ''mcs'', ''txss'', ''security'', ''psm'', ''mld'',
      ''ebf'', ''dl-mu'', ''ul-mu'', ''dl-ofdma'', ''pmf'']
      [] MwsBackhaul_visit_map
   \<and> struct_contract [''errors'']
      [] MwsRciStatus_visit_map
   \<and> struct_contract [''cid'', ''model'', ''mac'', ''ip'', ''mode'']
      [''known-host'', ''port'', ''wireless'', ''hw_type'', ''hw_id'', ''fw'', ''fw-available'',
      ''fw-release'', ''fw-release-available'', ''fw-update-sandbox'', ''region'',
      ''associations'', ''internet-available'', ''system'', ''backhaul'', ''rci''] (MwsMember_visit_map fm)
   \<and> struct_contract [''enabled'', ''internet'', ''reliable'', ''checked'', ''gateway-accessible'', ''dns-accessible'',
      ''captive-accessible'']
      [] (InternetStatus_visit_map datetime)
   \<and> struct_contract []
      [''message'', ''continued''] NetworkTestResponse_visit_map
   \<and> struct_contract [''show'']
      [] (ShowInterfaceReply_visit_map de)
   \<and> struct_contract [''interface''] [] (\<lambda>es. map_res ShowInterfaceResult (required de ''interface'' es))
   \<and> (is_ok (Ipv6Routes_visit_map fm es) \<longleftrightarrow> fst ` set es \<subseteq> {''route6''}
        \<and> is_ok (defaulted [] (de_seq (de_struct Ipv6Route_fields 9 (Ipv6Route_visit_map fm))) ''route6'' es))
   \<and> Ipv6Routes_visit_map fm [] = Inr (Ipv6Routes [])
   \<and> (MwsMembers_deserialize fm (Wire_map es) = Inr mws \<longleftrightarrow> es = [] \<and> mws = MwsMembers [])"
  by (intro conjI ipv6_routes_only;
      (rule struct_contractI, rule struct_laws,
        simp only: visit_map_defs success_simps, (rule field_conditions_rules)+;
        simp add: fields_defs)?)
    (auto simp: Ipv6Routes_visit_map_def defaulted_def field_def occurrences_def)

end
