(* ===== verification/Fixtures.thy ===== *)
theory Fixtures
  imports Mobile Clients Inventory Topology "HOL-Library.Code_Target_Numeral"
begin

text \<open>
  The recorded responses of \<open>src/tests/fixtures\<close> as \<open>wire\<close> trees, and the tests of \<open>src/src/model.rs\<close>
  (\<open>deserializes_verified_fixtures\<close>, the LTE fixtures) and \<open>src/src/model/clients.rs\<close> that read them: the
  model's deserializers are run on what a router really sent. The texts of addresses and networks,
  whose grammars belong to other crates, are looked up in \<open>fixture_formats\<close>.
\<close>

section \<open>Running the readings\<close>

text \<open>The search for the unit in the last place starts at the smallest unit an \<open>f32\<close> has; a reading of
  at least one is found much higher.\<close>

definition unit_fits :: "nat \<Rightarrow> nat \<Rightarrow> int \<Rightarrow> bool" where
  "unit_fits p q e \<longleftrightarrow> (let (n, d) = f32_scaled p q e in n div d < 2 ^ 24)"

lemma unit_fits_mono:
  assumes "unit_fits p q e" and "e \<le> e'"
  shows "unit_fits p q e'"
proof -
  have "p * 2 ^ nat (- e') \<le> p * 2 ^ nat (- e)" using assms(2) by (intro mult_left_mono power_increasing) auto
  then have "p * 2 ^ nat (- e') div (q * 2 ^ nat e') \<le> p * 2 ^ nat (- e) div (q * 2 ^ nat e')" by (rule div_le_mono)
  also have "\<dots> \<le> p * 2 ^ nat (- e) div (q * 2 ^ nat e)"
  proof (cases "q = 0")
    case False
    then show ?thesis using assms(2) by (intro div_le_mono2 mult_left_mono power_increasing) auto
  qed simp
  finally show ?thesis using assms(1) by (simp add: unit_fits_def f32_scaled_def)
qed

lemma find_skip: "(\<forall>x \<in> set xs. \<not> P x) \<Longrightarrow> List.find P (xs @ ys) = List.find P ys"
  by (induction xs) auto

lemma find_unit_above:
  assumes "a \<le> b" and "b \<le> c" and "\<not> unit_fits p q b"
  shows "List.find (unit_fits p q) [a..c] = List.find (unit_fits p q) [b + 1..c]"
  unfolding upto_split2 [OF assms(1,2)] using assms(3) unit_fits_mono by (intro find_skip) auto

lemma f32_unit_code [code]:
  "f32_unit p q = List.find (unit_fits p q) (if unit_fits p q (- 26) then [- 149..104] else [- 25..104])"
proof -
  have "f32_unit p q = List.find (unit_fits p q) [- 149..104]"
    unfolding f32_unit_def f32_min_unit_def f32_max_unit_def unit_fits_def [abs_def] ..
  moreover have "(- 149 :: int) \<le> - 26" "(- 26 :: int) \<le> 104" "- 26 + 1 = (- 25 :: int)" by arith+
  ultimately show ?thesis using find_unit_above [of "- 149" "- 26" 104 p q] by metis
qed

section \<open>The fixtures\<close>

definition show_associations_json :: wire where
  "show_associations_json =
     Wire_map [(''station'', Wire_seq [Wire_map [(''mac'', Scalar (Visit_str ''02:11:22:33:44:55'')),
     (''ap'', Scalar (Visit_str ''WifiMaster0/AccessPoint0'')), (''psm'', Scalar (Visit_bool False)),
     (''authenticated'', Scalar (Visit_bool True)), (''txrate'', Scalar (Visit_u64 150)),
     (''uptime'', Scalar (Visit_u64 3600)), (''txbytes'', Scalar (Visit_u64 123456)),
     (''rxbytes'', Scalar (Visit_u64 654321)), (''ht'', Scalar (Visit_u64 40)),
     (''mode'', Scalar (Visit_str ''11n'')), (''gi'', Scalar (Visit_u64 400)), (''rssi'', Scalar (Visit_i64 (- 54))),
     (''mcs'', Scalar (Visit_u64 7)), (''txss'', Scalar (Visit_u64 1)), (''ebf'', Scalar (Visit_bool False)),
     (''security'', Scalar (Visit_str ''wpa2-psk''))], Wire_map [(''mac'', Scalar (Visit_str ''02:aa:bb:cc:dd:ee'')),
     (''ap'', Scalar (Visit_str ''WifiMaster1/AccessPoint0'')), (''authenticated'', Scalar (Visit_bool True)),
     (''txrate'', Scalar (Visit_u64 1201)), (''uptime'', Scalar (Visit_u64 12)), (''txbytes'', Scalar (Visit_u64 42)),
     (''rxbytes'', Scalar (Visit_u64 84)), (''ht'', Scalar (Visit_u64 80)), (''mode'', Scalar (Visit_str ''11ax'')),
     (''gi'', Scalar (Visit_u64 800)), (''rssi'', Scalar (Visit_i64 (- 38))), (''mcs'', Scalar (Visit_u64 5)),
     (''txss'', Scalar (Visit_u64 2)), (''dl-mu'', Scalar (Visit_bool True)),
     (''dl-ofdma'', Scalar (Visit_bool True)), (''security'', Scalar (Visit_str ''future-suite''))]])]"

definition show_identification_json :: wire where
  "show_identification_json =
     Wire_map [(''servicetag'', Scalar (Visit_str ''ABCD-EFGH-IJKL'')),
     (''serial'', Scalar (Visit_str ''SYNTHETIC0001'')), (''mac'', Scalar (Visit_str ''02:00:00:00:00:01'')),
     (''hwid'', Scalar (Visit_str ''KN-1810'')),
     (''cid'', Scalar (Visit_str ''00000000-0000-4000-8000-000000000001''))]"

definition show_interface_json :: wire where
  "show_interface_json =
     Wire_map [(''show'', Wire_map [(''interface'', Wire_map [(''id'', Scalar (Visit_str ''WifiMaster0/AccessPoint0'')),
     (''index'', Scalar (Visit_u64 2)), (''interface-name'', Scalar (Visit_str ''WifiMaster0/AccessPoint0'')),
     (''type'', Scalar (Visit_str ''AccessPoint'')), (''description'', Scalar (Visit_str ''Fixture Wi-Fi'')),
     (''traits'', Wire_seq [Scalar (Visit_str ''Wireless''), Scalar (Visit_str ''Ip'')]),
     (''link'', Scalar (Visit_str ''up'')), (''state'', Scalar (Visit_str ''up'')),
     (''mtu'', Scalar (Visit_u64 1500)), (''admin-only'', Scalar (Visit_bool False)),
     (''summary'', Wire_map [(''layer'', Wire_map [(''conf'', Scalar (Visit_str ''running'')),
     (''link'', Scalar (Visit_str ''running'')), (''ctrl'', Scalar (Visit_str ''running''))])])])])]"

definition show_interface_stat_json :: wire where
  "show_interface_stat_json =
     Wire_map [(''rxpackets'', Scalar (Visit_u64 100)), (''rx-multicast-packets'', Scalar (Visit_u64 2)),
     (''rx-broadcast-packets'', Scalar (Visit_u64 3)), (''rxbytes'', Scalar (Visit_u64 4096)),
     (''rxerrors'', Scalar (Visit_u64 1)), (''rxdropped'', Scalar (Visit_u64 4)),
     (''txpackets'', Scalar (Visit_u64 200)), (''tx-multicast-packets'', Scalar (Visit_u64 5)),
     (''tx-broadcast-packets'', Scalar (Visit_u64 6)), (''txbytes'', Scalar (Visit_u64 8192)),
     (''txerrors'', Scalar (Visit_u64 0)), (''txdropped'', Scalar (Visit_u64 7)),
     (''timestamp'', Scalar (Visit_str ''76863.625556'')), (''last-overflow'', Scalar (Visit_str ''0.000000'')),
     (''rxspeed'', Scalar (Visit_u64 7158920)), (''txspeed'', Scalar (Visit_u64 80949))]"

definition show_interfaces_json :: wire where
  "show_interfaces_json =
     Wire_map [(''Bridge0'', Wire_map [(''id'', Scalar (Visit_str ''Bridge0'')), (''index'', Scalar (Visit_u64 1)),
     (''interface-name'', Scalar (Visit_str ''Bridge0'')), (''type'', Scalar (Visit_str ''Bridge'')),
     (''description'', Scalar (Visit_str ''Fixture network'')),
     (''traits'', Wire_seq [Scalar (Visit_str ''Ethernet''), Scalar (Visit_str ''Ip'')]),
     (''link'', Scalar (Visit_str ''up'')), (''state'', Scalar (Visit_str ''up'')),
     (''mtu'', Scalar (Visit_u64 1500)), (''admin-only'', Scalar (Visit_bool False)),
     (''summary'', Wire_map [(''layer'', Wire_map [(''conf'', Scalar (Visit_str ''running'')),
     (''link'', Scalar (Visit_str ''running'')), (''ctrl'', Scalar (Visit_str ''running'')),
     (''ipv4'', Scalar (Visit_str ''running'')), (''ipv6'', Scalar (Visit_str ''running''))])]),
     (''unknown-field'', Scalar (Visit_str ''ignored''))]),
     (''WifiMaster0/AccessPoint0'', Wire_map [(''id'', Scalar (Visit_str ''WifiMaster0/AccessPoint0'')),
     (''index'', Scalar (Visit_u64 2)), (''interface-name'', Scalar (Visit_str ''WifiMaster0/AccessPoint0'')),
     (''type'', Scalar (Visit_str ''AccessPoint'')), (''description'', Scalar (Visit_str ''Fixture Wi-Fi'')),
     (''traits'', Wire_seq [Scalar (Visit_str ''Wireless''), Scalar (Visit_str ''Ip'')]),
     (''link'', Scalar (Visit_str ''up'')), (''state'', Scalar (Visit_str ''up'')),
     (''mtu'', Scalar (Visit_u64 1500)), (''admin-only'', Scalar (Visit_bool False)),
     (''summary'', Wire_map [(''layer'', Wire_map [(''conf'', Scalar (Visit_str ''running'')),
     (''link'', Scalar (Visit_str ''running'')), (''ctrl'', Scalar (Visit_str ''running''))])])])]"

definition show_internet_status_json :: wire where
  "show_internet_status_json =
     Wire_map [(''enabled'', Scalar (Visit_bool True)), (''internet'', Scalar (Visit_bool True)),
     (''reliable'', Scalar (Visit_bool True)), (''checked'', Scalar (Visit_str ''Thu Jan  1 00:00:00 2026'')),
     (''gateway-accessible'', Scalar (Visit_bool True)), (''dns-accessible'', Scalar (Visit_bool True)),
     (''captive-accessible'', Scalar (Visit_bool True)),
     (''gateway'', Wire_map [(''accessible'', Scalar (Visit_bool True)),
     (''address'', Scalar (Visit_str ''192.0.2.1'')), (''interface'', Scalar (Visit_str ''Fixture0''))]),
     (''captive'', Wire_map [(''resolved'', Scalar (Visit_bool True)),
     (''address'', Scalar (Visit_str ''192.0.2.2''))])]"

definition show_ip_arp_json :: wire where
  "show_ip_arp_json =
     Wire_seq [Wire_map [(''ip'', Scalar (Visit_str ''192.0.2.10'')),
     (''mac'', Scalar (Visit_str ''02:11:22:33:44:55'')), (''interface'', Scalar (Visit_str ''Bridge0'')),
     (''name'', Scalar (Visit_str ''Laptop'')),
     (''state'', Scalar (Visit_str ''REACHABLE''))], Wire_map [(''ip'', Scalar (Visit_str ''192.0.2.11'')),
     (''mac'', Scalar (Visit_str ''02:11:22:33:44:55'')), (''interface'', Scalar (Visit_str ''Bridge0'')),
     (''state'', Scalar (Visit_str ''STALE''))], Wire_map [(''ip'', Scalar (Visit_str ''192.0.2.30'')),
     (''mac'', Scalar (Visit_str ''02:00:00:00:00:30'')), (''interface'', Scalar (Visit_str ''Bridge0'')),
     (''state'', Scalar (Visit_str ''FUTURE''))]]"

definition show_ip_dhcp_bindings_json :: wire where
  "show_ip_dhcp_bindings_json =
     Wire_map [(''lease'', Wire_seq [Wire_map [(''ip'', Scalar (Visit_str ''192.0.2.10'')),
     (''mac'', Scalar (Visit_str ''02:11:22:33:44:55'')), (''via'', Scalar (Visit_str ''02:11:22:33:44:55'')),
     (''hostname'', Scalar (Visit_str ''wireless-client'')), (''name'', Scalar (Visit_str ''Laptop'')),
     (''expires'', Scalar (Visit_u64 1800))], Wire_map [(''ip'', Scalar (Visit_str ''192.0.2.12'')),
     (''mac'', Scalar (Visit_str ''02:11:22:33:44:55'')), (''via'', Scalar (Visit_str ''02:11:22:33:44:55'')),
     (''hostname'', Scalar (Visit_str [])), (''name'', Scalar (Visit_str ''Laptop old lease'')),
     (''expires'', Scalar (Visit_str ''infinity''))], Wire_map [(''ip'', Scalar (Visit_str ''192.0.2.40'')),
     (''mac'', Scalar (Visit_str ''02:00:00:00:00:40'')), (''via'', Scalar (Visit_str ''02:00:00:00:00:41'')),
     (''hostname'', Scalar (Visit_str ''extender'')), (''name'', Scalar (Visit_str ''Mesh extender'')),
     (''device'', Scalar (Visit_str ''Bridge0'')), (''mode'', Scalar (Visit_str ''extender'')),
     (''expires'', Scalar (Visit_u64 2400))]])]"

definition show_ip_hotspot_json :: wire where
  "show_ip_hotspot_json =
     Wire_map [(''host'', Wire_seq [Wire_map [(''mac'', Scalar (Visit_str ''02:11:22:33:44:55'')),
     (''via'', Scalar (Visit_str ''02:11:22:33:44:55'')), (''ip'', Scalar (Visit_str ''192.0.2.10'')),
     (''ip6'', Wire_seq [Scalar (Visit_str ''2001:db8::10'')]),
     (''hostname'', Scalar (Visit_str ''wireless-client'')), (''name'', Scalar (Visit_str ''Laptop'')),
     (''interface'', Wire_map [(''id'', Scalar (Visit_str ''Bridge0'')), (''name'', Scalar (Visit_str ''Home'')),
     (''description'', Scalar (Visit_str ''Home network''))]),
     (''dhcp'', Wire_map [(''expires'', Scalar (Visit_u64 1800))]), (''registered'', Scalar (Visit_bool True)),
     (''access'', Scalar (Visit_str ''permit'')), (''schedule'', Scalar (Visit_str [])),
     (''policy'', Scalar (Visit_str [])), (''priority'', Scalar (Visit_u64 6)),
     (''active'', Scalar (Visit_bool True)), (''rxbytes'', Scalar (Visit_u64 654321)),
     (''txbytes'', Scalar (Visit_u64 123456)), (''uptime'', Scalar (Visit_u64 3600)),
     (''first-seen'', Scalar (Visit_u64 7200)), (''last-seen'', Scalar (Visit_u64 2)),
     (''link'', Scalar (Visit_str ''up'')), (''ssid'', Scalar (Visit_str ''ExampleWiFi'')),
     (''ap'', Scalar (Visit_str ''WifiMaster0/AccessPoint0'')), (''psm'', Scalar (Visit_bool False)),
     (''authenticated'', Scalar (Visit_bool True)), (''txrate'', Scalar (Visit_u64 150)),
     (''ht'', Scalar (Visit_u64 40)), (''mode'', Scalar (Visit_str ''11n'')), (''gi'', Scalar (Visit_u64 400)),
     (''rssi'', Scalar (Visit_i64 (- 54))), (''mcs'', Scalar (Visit_u64 7)), (''txss'', Scalar (Visit_u64 1)),
     (''ebf'', Scalar (Visit_bool False)), (''security'', Scalar (Visit_str ''wpa2-psk'')),
     (''traffic-shape'', Wire_map [(''rx'', Scalar (Visit_u64 20000)), (''tx'', Scalar (Visit_u64 10000)),
     (''mode'', Scalar (Visit_str ''mac'')),
     (''schedule'', Scalar (Visit_str []))])], Wire_map [(''mac'', Scalar (Visit_str ''02:66:77:88:99:aa'')),
     (''via'', Scalar (Visit_str ''02:66:77:88:99:aa'')), (''ip'', Scalar (Visit_str ''192.0.2.20'')),
     (''ip6'', Wire_seq []), (''hostname'', Scalar (Visit_str ''wired-client'')),
     (''name'', Scalar (Visit_str ''Desktop'')), (''interface'', Wire_map [(''id'', Scalar (Visit_str ''Bridge0'')),
     (''name'', Scalar (Visit_str ''Home'')), (''description'', Scalar (Visit_str ''Home network''))]),
     (''dhcp'', Wire_map [(''expires'', Scalar (Visit_u64 2400))]), (''registered'', Scalar (Visit_bool True)),
     (''access'', Scalar (Visit_str ''permit'')), (''schedule'', Scalar (Visit_str ''work-hours'')),
     (''policy'', Scalar (Visit_str ''Policy0'')), (''priority'', Scalar (Visit_u64 3)),
     (''active'', Scalar (Visit_bool True)), (''rxbytes'', Scalar (Visit_u64 1000)),
     (''txbytes'', Scalar (Visit_u64 2000)), (''uptime'', Scalar (Visit_u64 300)),
     (''first-seen'', Scalar (Visit_u64 900)), (''last-seen'', Scalar (Visit_u64 0)),
     (''link'', Scalar (Visit_str ''up'')), (''auto-negotiation'', Scalar (Visit_bool True)),
     (''duplex'', Scalar (Visit_bool True)), (''port'', Scalar (Visit_str ''2'')),
     (''speed'', Scalar (Visit_u64 1000)), (''traffic-shape'', Wire_map [(''rx'', Scalar (Visit_u64 0)),
     (''tx'', Scalar (Visit_u64 0)), (''mode'', Scalar (Visit_str ''mac'')),
     (''schedule'', Scalar (Visit_str []))])], Wire_map [(''mac'', Scalar (Visit_str ''02:de:ad:be:ef:00'')),
     (''via'', Scalar (Visit_str ''02:de:ad:be:ef:00'')), (''ip'', Scalar (Visit_str ''0.0.0.0'')),
     (''ip6'', Wire_seq []), (''hostname'', Scalar (Visit_str [])), (''name'', Scalar (Visit_str ''Offline client'')),
     (''registered'', Scalar (Visit_bool True)), (''access'', Scalar (Visit_str ''deny'')),
     (''schedule'', Scalar (Visit_str [])), (''policy'', Scalar (Visit_str [])), (''priority'', Scalar (Visit_u64 1)),
     (''rxbytes'', Scalar (Visit_u64 0)), (''txbytes'', Scalar (Visit_u64 0)), (''uptime'', Scalar (Visit_u64 0)),
     (''link'', Scalar (Visit_str ''down'')), (''traffic-shape'', Wire_map [(''rx'', Scalar (Visit_u64 0)),
     (''tx'', Scalar (Visit_u64 0)), (''mode'', Scalar (Visit_str ''mac'')), (''schedule'', Scalar (Visit_str []))]),
     (''future-field'', Scalar (Visit_bool True))]])]"

definition show_ip_name_server_json :: wire where
  "show_ip_name_server_json =
     Wire_map [(''server'', Wire_seq [Wire_map [(''address'', Scalar (Visit_str ''192.0.2.53'')),
     (''domain'', Scalar (Visit_str [])), (''global'', Scalar (Visit_u64 0)), (''service'', Scalar (Visit_str [])),
     (''interface'', Scalar (Visit_str []))], Wire_map [(''address'', Scalar (Visit_str ''2001:db8::53'')),
     (''domain'', Scalar (Visit_str ''example.invalid'')), (''global'', Scalar (Visit_u64 61481)),
     (''service'', Scalar (Visit_str ''Dns::InterfaceSpecific-GigabitEthernet0/Vlan2'')),
     (''interface'', Scalar (Visit_str ''GigabitEthernet0/Vlan2''))]])]"

definition show_ip_route_json :: wire where
  "show_ip_route_json =
     Wire_seq [Wire_map [(''destination'', Scalar (Visit_str ''0.0.0.0/0'')),
     (''gateway'', Scalar (Visit_str ''192.0.2.1'')), (''interface'', Scalar (Visit_str ''GigabitEthernet0/Vlan2'')),
     (''metric'', Scalar (Visit_u64 1000)), (''flags'', Scalar (Visit_str ''UG'')),
     (''rejecting'', Scalar (Visit_bool False)), (''proto'', Scalar (Visit_str ''boot'')),
     (''floating'', Scalar (Visit_bool True)),
     (''static'', Scalar (Visit_bool False))], Wire_map [(''destination'', Scalar (Visit_str ''192.0.2.0/24'')),
     (''gateway'', Scalar (Visit_str ''0.0.0.0'')), (''interface'', Scalar (Visit_str ''Bridge0'')),
     (''metric'', Scalar (Visit_u64 0)), (''flags'', Scalar (Visit_str ''U'')),
     (''rejecting'', Scalar (Visit_bool False)), (''proto'', Scalar (Visit_str ''kernel'')),
     (''floating'', Scalar (Visit_bool False)),
     (''static'', Scalar (Visit_bool False))], Wire_map [(''destination'', Scalar (Visit_str ''198.51.100.0/24'')),
     (''gateway'', Scalar (Visit_str ''192.0.2.254'')), (''interface'', Scalar (Visit_str ''Wireguard0'')),
     (''metric'', Scalar (Visit_u64 10)), (''flags'', Scalar (Visit_str ''UX'')),
     (''rejecting'', Scalar (Visit_bool False)), (''proto'', Scalar (Visit_str ''future-protocol'')),
     (''floating'', Scalar (Visit_bool False)), (''static'', Scalar (Visit_bool True))]]"

definition show_ipv6_route_json :: wire where
  "show_ipv6_route_json =
     Wire_map [(''route6'', Wire_seq [Wire_map [(''destination'', Scalar (Visit_str ''2001:db8:1::/64'')),
     (''gateway'', Scalar (Visit_str ''::'')), (''interface'', Scalar (Visit_str ''Bridge0'')),
     (''metric'', Scalar (Visit_u64 256)), (''flags'', Scalar (Visit_str ''U'')),
     (''rejecting'', Scalar (Visit_bool False)), (''proto'', Scalar (Visit_str ''kernel'')),
     (''floating'', Scalar (Visit_bool False)),
     (''static'', Scalar (Visit_bool False))], Wire_map [(''destination'', Scalar (Visit_str ''::/0'')),
     (''gateway'', Scalar (Visit_str ''2001:db8:1::1'')),
     (''interface'', Scalar (Visit_str ''GigabitEthernet0/Vlan2'')), (''metric'', Scalar (Visit_u64 1024)),
     (''flags'', Scalar (Visit_str ''UG'')), (''rejecting'', Scalar (Visit_bool False)),
     (''proto'', Scalar (Visit_str ''boot'')), (''floating'', Scalar (Visit_bool False)),
     (''static'', Scalar (Visit_bool False))]])]"

definition show_lte_interface_json :: wire where
  "show_lte_interface_json =
     Wire_map [(''show'', Wire_map [(''interface'', Wire_map [(''id'', Scalar (Visit_str ''UsbLte1'')),
     (''index'', Scalar (Visit_u64 20)), (''interface-name'', Scalar (Visit_str ''UsbLte1'')),
     (''type'', Scalar (Visit_str ''UsbLte'')), (''description'', Scalar (Visit_str ''Fixture LTE modem'')),
     (''traits'', Wire_seq [Scalar (Visit_str ''Usb''), Scalar (Visit_str ''Mobile''), Scalar (Visit_str ''Ethernet''), Scalar (Visit_str ''Ip''), Scalar (Visit_str ''UsbLte'')]),
     (''link'', Scalar (Visit_str ''up'')), (''state'', Scalar (Visit_str ''up'')),
     (''mtu'', Scalar (Visit_u64 1500)), (''admin-only'', Scalar (Visit_bool False)),
     (''summary'', Wire_map [(''layer'', Wire_map [(''conf'', Scalar (Visit_str ''running'')),
     (''link'', Scalar (Visit_str ''running'')), (''ctrl'', Scalar (Visit_str ''running'')),
     (''ipv4'', Scalar (Visit_str ''running''))])]), (''plugged'', Scalar (Visit_str ''yes'')),
     (''connection-state'', Scalar (Visit_str ''connected'')), (''mobile'', Scalar (Visit_str ''4G'')),
     (''operator'', Scalar (Visit_str ''Fixture Mobile'')), (''apn'', Scalar (Visit_str ''fixture.invalid'')),
     (''sim'', Scalar (Visit_str ''ready'')), (''pin-attempts'', Scalar (Visit_u64 3)),
     (''embedded'', Scalar (Visit_bool False)), (''roaming'', Scalar (Visit_bool False)),
     (''signal-level'', Scalar (Visit_u64 4)), (''rssi'', Scalar (Visit_str ''-51'')),
     (''rsrp'', Scalar (Visit_str ''-79'')), (''rsrq'', Scalar (Visit_str ''-7'')),
     (''cinr'', Scalar (Visit_str ''21'')), (''temperature'', Scalar (Visit_str ''42'')),
     (''plmn'', Scalar (Visit_str ''00101'')), (''enb-id'', Scalar (Visit_str ''100001'')),
     (''sector-id'', Scalar (Visit_str ''1'')), (''phy-cell-id'', Scalar (Visit_str ''101'')),
     (''tac'', Scalar (Visit_str ''20001'')), (''band'', Scalar (Visit_str ''7'')),
     (''earfcn'', Scalar (Visit_u64 3100)), (''dl-freq'', Scalar (Visit_u64 2650)),
     (''ul-freq'', Scalar (Visit_u64 2530)),
     (''carrier'', Wire_map [(''1'', Wire_map [(''active'', Scalar (Visit_bool True)),
     (''mobile'', Scalar (Visit_str ''4G'')), (''phy-cell-id'', Scalar (Visit_str ''101'')),
     (''earfcn'', Scalar (Visit_u64 3100)), (''band'', Scalar (Visit_str ''7'')),
     (''dl-freq'', Scalar (Visit_u64 2650)), (''ul-freq'', Scalar (Visit_u64 2530)),
     (''bandwidth'', Scalar (Visit_str ''20''))]), (''2'', Wire_map [(''active'', Scalar (Visit_bool True)),
     (''mobile'', Scalar (Visit_str ''4G'')), (''phy-cell-id'', Scalar (Visit_str ''102'')),
     (''earfcn'', Scalar (Visit_u64 1650)), (''band'', Scalar (Visit_str ''3'')),
     (''dl-freq'', Scalar (Visit_u64 1845)), (''ul-freq'', Scalar (Visit_u64 1750)),
     (''bandwidth'', Scalar (Visit_str ''20''))])]),
     (''ati'', Wire_map [(''manufacturer'', Scalar (Visit_str ''Fixture Modems'')),
     (''model'', Scalar (Visit_str ''FM-1000'')), (''revision'', Scalar (Visit_str ''1.0''))]),
     (''uim'', Wire_map [(''spn'', Scalar (Visit_str ''Fixture Mobile''))]),
     (''imei'', Scalar (Visit_str ''000000000000000'')), (''imsi'', Scalar (Visit_str ''001010000000001'')),
     (''iccid'', Scalar (Visit_str ''8901000000000000001'')),
     (''phone-number'', Scalar (Visit_str ''+10000000000''))])])]"

definition show_lte_interface_disconnected_json :: wire where
  "show_lte_interface_disconnected_json =
     Wire_map [(''show'', Wire_map [(''interface'', Wire_map [(''id'', Scalar (Visit_str ''UsbLte0'')),
     (''index'', Scalar (Visit_u64 19)), (''interface-name'', Scalar (Visit_str ''UsbLte0'')),
     (''type'', Scalar (Visit_str ''UsbLte'')),
     (''traits'', Wire_seq [Scalar (Visit_str ''Usb''), Scalar (Visit_str ''Mobile''), Scalar (Visit_str ''Ethernet''), Scalar (Visit_str ''Ip''), Scalar (Visit_str ''UsbLte'')]),
     (''link'', Scalar (Visit_str ''down'')), (''admin-only'', Scalar (Visit_bool False)),
     (''summary'', Wire_map [(''layer'', Wire_map [(''conf'', Scalar (Visit_str ''running'')),
     (''link'', Scalar (Visit_str ''pending''))])]), (''plugged'', Scalar (Visit_str ''yes'')),
     (''connection-state'', Scalar (Visit_str [])), (''operator'', Scalar (Visit_str [])),
     (''apn'', Scalar (Visit_str [])), (''mobile'', Scalar (Visit_str [])), (''band'', Scalar (Visit_str [])),
     (''rssi'', Scalar (Visit_str [])), (''imei'', Scalar (Visit_str [])), (''imsi'', Scalar (Visit_str [])),
     (''iccid'', Scalar (Visit_str [])), (''phone-number'', Scalar (Visit_str [])),
     (''ati'', Wire_map [(''manufacturer'', Scalar (Visit_str ''Fixture Modems'')),
     (''model'', Scalar (Visit_str ''FM-2000'')), (''revision'', Scalar (Visit_str ''2.0''))]),
     (''uim'', Wire_map [(''spn'', Scalar (Visit_str []))])])])]"

definition show_media_json :: wire where
  "show_media_json =
     Wire_map [(''Media0'', Wire_map [(''bus'', Scalar (Visit_str ''usb'')), (''port'', Scalar (Visit_str ''1'')),
     (''ejectable'', Scalar (Visit_bool True)), (''removable'', Scalar (Visit_bool True)),
     (''state'', Scalar (Visit_str ''ACTIVE'')), (''manufacturer'', Scalar (Visit_str ''Fixture Storage'')),
     (''product'', Scalar (Visit_str ''Example Disk'')), (''serial'', Scalar (Visit_str ''FIXTURE0001'')),
     (''initialize-supported'', Wire_seq [Scalar (Visit_str ''ext4''), Scalar (Visit_str ''future-fs'')]),
     (''size'', Scalar (Visit_str ''1000202043392'')),
     (''partition'', Wire_map [(''Partition1'', Wire_map [(''id'', Scalar (Visit_str ''Partition1'')),
     (''uuid'', Scalar (Visit_str ''11111111-2222-3333-4444-555555555555'')),
     (''label'', Scalar (Visit_str ''FixtureData'')), (''fstype'', Scalar (Visit_str ''ext4'')),
     (''check-supported'', Scalar (Visit_bool True)), (''format-supported'', Wire_seq [Scalar (Visit_str ''ext4'')]),
     (''state'', Scalar (Visit_str ''MOUNTED'')), (''total'', Scalar (Visit_str ''982291312640'')),
     (''free'', Scalar (Visit_str ''285839884288'')), (''used-by'', Wire_seq [Scalar (Visit_str ''cifs'')])]),
     (''Partition2'', Wire_map [(''id'', Scalar (Visit_str ''Partition2'')), (''uuid'', Scalar (Visit_str [])),
     (''label'', Scalar (Visit_str [])), (''fstype'', Scalar (Visit_str ''swap'')),
     (''check-supported'', Scalar (Visit_bool False)), (''format-supported'', Wire_seq []),
     (''state'', Scalar (Visit_str ''UNMOUNTED'')), (''total'', Scalar (Visit_u64 1081077760)),
     (''free'', Scalar (Visit_u64 1081077760)), (''used-by'', Wire_seq [])])])]),
     (''FlashStorage'', Wire_map [(''bus'', Scalar (Visit_str ''mtd'')), (''ejectable'', Scalar (Visit_bool False)),
     (''removable'', Scalar (Visit_bool False)), (''state'', Scalar (Visit_str ''ACTIVE'')),
     (''manufacturer'', Scalar (Visit_str ''Fixture'')), (''product'', Scalar (Visit_str ''KN-0000'')),
     (''serial'', Scalar (Visit_str ''INTERNAL'')), (''initialize-supported'', Wire_seq []),
     (''size'', Scalar (Visit_str ''58458112'')), (''partition'', Wire_map [])])]"

definition show_mws_member_json :: wire where
  "show_mws_member_json =
     Wire_seq [Wire_map [(''cid'', Scalar (Visit_str ''11111111-2222-4333-8444-555555555555'')),
     (''model'', Scalar (Visit_str ''Fixture Extender'')), (''mac'', Scalar (Visit_str ''02:00:00:00:00:62'')),
     (''known-host'', Scalar (Visit_str ''fixture-extender'')),
     (''port'', Wire_seq [Wire_map [(''label'', Scalar (Visit_str ''1'')),
     (''appearance'', Scalar (Visit_str ''gray-rj45'')), (''link'', Scalar (Visit_str ''down''))]]),
     (''wireless'', Wire_map [(''band'', Wire_seq [Wire_map [(''index'', Scalar (Visit_str ''0''))], Wire_map [(''index'', Scalar (Visit_str ''1''))]])]),
     (''ip'', Scalar (Visit_str ''192.0.2.62'')), (''mode'', Scalar (Visit_str ''extender'')),
     (''hw_type'', Scalar (Visit_str ''extender'')), (''hw_id'', Scalar (Visit_str ''KN-3411'')),
     (''internet-available'', Scalar (Visit_bool True)), (''fw'', Scalar (Visit_str ''5.1.3'')),
     (''fw-available'', Scalar (Visit_str ''5.1.3'')), (''fw-release'', Scalar (Visit_str ''5.01.C.3.0-1'')),
     (''fw-release-available'', Scalar (Visit_str ''5.01.C.3.0-1'')),
     (''fw-update-sandbox'', Scalar (Visit_str ''stable'')), (''region'', Scalar (Visit_str ''EA'')),
     (''associations'', Scalar (Visit_u64 1)), (''system'', Wire_map [(''cpuload'', Scalar (Visit_u64 1)),
     (''memory'', Scalar (Visit_str ''170136/262144'')), (''uptime'', Scalar (Visit_str ''829958''))]),
     (''backhaul'', Wire_map [(''uplink'', Scalar (Visit_str ''WifiMaster1/WifiStation0'')),
     (''root'', Scalar (Visit_str ''8000.02:00:00:00:00:01'')),
     (''bridge'', Scalar (Visit_str ''8000.02:00:00:00:00:01'')), (''cost'', Scalar (Visit_u64 50)),
     (''ap'', Scalar (Visit_str ''WifiMaster1/Backhaul0'')), (''psm'', Scalar (Visit_bool False)),
     (''mld'', Scalar (Visit_bool False)), (''authenticated'', Scalar (Visit_bool True)),
     (''txrate'', Scalar (Visit_u64 288)), (''uptime'', Scalar (Visit_u64 396348)), (''ht'', Scalar (Visit_u64 80)),
     (''mode'', Scalar (Visit_str ''11ax'')), (''gi'', Scalar (Visit_u64 800)), (''rssi'', Scalar (Visit_i64 (- 70))),
     (''mcs'', Scalar (Visit_u64 3)), (''txss'', Scalar (Visit_u64 2)), (''ebf'', Scalar (Visit_bool True)),
     (''dl-mu'', Scalar (Visit_bool True)), (''ul-mu'', Scalar (Visit_bool True)),
     (''dl-ofdma'', Scalar (Visit_bool True)), (''pmf'', Scalar (Visit_bool True)),
     (''security'', Scalar (Visit_str ''wpa3-psk''))]), (''rci'', Wire_map [(''errors'', Scalar (Visit_u64 0))])]]"

definition show_mws_status_json :: wire where
  "show_mws_status_json =
     Wire_map [(''auto-update'', Scalar (Visit_bool False)),
     (''controller'', Wire_map [(''update-pending'', Scalar (Visit_bool False))])]"

definition show_ntp_status_json :: wire where
  "show_ntp_status_json =
     Wire_map [(''elapsed'', Scalar (Visit_u64 240849)), (''server'', Scalar (Visit_str ''time.example.invalid'')),
     (''accurate'', Scalar (Visit_bool True)), (''synchronized'', Scalar (Visit_bool True)),
     (''ndsstime'', Scalar (Visit_bool False)), (''usertime'', Scalar (Visit_bool False))]"

definition show_ping_check_json :: wire where
  "show_ping_check_json =
     Wire_map [(''pingcheck'', Wire_seq [Wire_map [(''profile'', Scalar (Visit_str ''default'')),
     (''interface'', Wire_map [(''UsbLte0'', Wire_map [(''ignore-fail'', Scalar (Visit_bool False)),
     (''successcount'', Scalar (Visit_u64 0)), (''failcount'', Scalar (Visit_u64 0)),
     (''status'', Scalar (Visit_str ''not ready''))])])], Wire_map [(''profile'', Scalar (Visit_str ''icmp-uplink'')),
     (''host'', Wire_seq [Scalar (Visit_str ''resolver.example'')]), (''update-interval'', Scalar (Visit_u64 10)),
     (''max-fails'', Scalar (Visit_u64 5)), (''mode'', Scalar (Visit_str ''icmp'')),
     (''interface'', Wire_map [(''GigabitEthernet0/Vlan2'', Wire_map [(''ignore-fail'', Scalar (Visit_bool False)),
     (''successcount'', Scalar (Visit_u64 56)), (''failcount'', Scalar (Visit_u64 0)),
     (''status'', Scalar (Visit_str ''pass'')),
     (''ipcache'', Wire_seq [Wire_map [(''host'', Scalar (Visit_str ''resolver.example'')),
     (''addresses'', Wire_seq [Scalar (Visit_str ''192.0.2.53''), Scalar (Visit_str ''2001:db8::53'')])]])])])], Wire_map [(''profile'', Scalar (Visit_str ''tcp-uplink'')),
     (''host'', Wire_seq [Scalar (Visit_str ''198.51.100.10'')]), (''port'', Scalar (Visit_u64 443)),
     (''timeout'', Scalar (Visit_u64 2)), (''max-fails'', Scalar (Visit_u64 7)),
     (''mode'', Scalar (Visit_str ''connect'')), (''interface'', Wire_map [])]])]"

definition show_system_json :: wire where
  "show_system_json =
     Wire_map [(''hostname'', Scalar (Visit_str ''fixture-router'')),
     (''domainname'', Scalar (Visit_str ''fixture.invalid'')), (''uptime'', Scalar (Visit_str ''0 days, 01:02:03'')),
     (''cpuload'', Scalar (Visit_u64 7)), (''memtotal'', Scalar (Visit_u64 268435456)),
     (''memfree'', Scalar (Visit_u64 134217728)), (''conntotal'', Scalar (Visit_u64 32768)),
     (''connfree'', Scalar (Visit_u64 32000)), (''memory'', Scalar (Visit_str ''128/256 Mbytes'')),
     (''swap'', Scalar (Visit_str ''0/0 Mbytes''))]"

definition show_system_mode_json :: wire where
  "show_system_mode_json =
     Wire_map [(''active'', Scalar (Visit_str ''router'')), (''selected'', Scalar (Visit_str ''router'')),
     (''supported'', Scalar (Visit_str ''router, extender, future-mode'')),
     (''hw_controlled'', Scalar (Visit_bool False)), (''hw_locked'', Scalar (Visit_bool False))]"

definition show_usb_json :: wire where
  "show_usb_json =
     Wire_map [(''device'', Wire_map [(''UsbLte0'', Wire_map [(''DEVICE'', Scalar (Visit_str ''/devices/platform/usb/1-1:1.0'')),
     (''DEVPATH'', Scalar (Visit_str ''/devices/platform/usb/1-1:1.0/ttyUSB0'')), (''alias'', Scalar (Visit_str [])),
     (''no-led'', Scalar (Visit_str [])), (''port'', Scalar (Visit_str ''1'')),
     (''power-control'', Scalar (Visit_str ''yes'')), (''subsystem'', Scalar (Visit_str ''network'')),
     (''usb-version'', Scalar (Visit_str ''3.00''))]),
     (''FixtureVolume'', Wire_map [(''label'', Scalar (Visit_str ''FIXTURE'')), (''port'', Scalar (Visit_u64 2)),
     (''power-control'', Scalar (Visit_str ''no'')), (''subsystem'', Scalar (Visit_str ''storage'')),
     (''usb-version'', Scalar (Visit_str ''2.00''))])])]"

definition show_version_json :: wire where
  "show_version_json =
     Wire_map [(''title'', Scalar (Visit_str ''5.x'')), (''model'', Scalar (Visit_str ''Fixture Router (KN-0000)'')),
     (''hw_id'', Scalar (Visit_str ''KN-0000'')), (''arch'', Scalar (Visit_str ''mips'')),
     (''release'', Scalar (Visit_str ''5.x'')), (''sandbox'', Scalar (Visit_str ''stable'')),
     (''ndm'', Wire_map [(''exact'', Scalar (Visit_str ''0-00000000'')),
     (''cdate'', Scalar (Visit_str ''1 Jan 2026''))]),
     (''ndw'', Wire_map [(''components'', Scalar (Visit_str ''base,cloudcontrol,wireguard'')),
     (''features'', Scalar (Visit_str ''wifi5ghz,wpa3''))]),
     (''manufacturer'', Scalar (Visit_str ''Fixture Networks'')), (''series'', Scalar (Visit_str ''KN'')),
     (''hw_version'', Scalar (Visit_str ''10000000'')), (''hw_type'', Scalar (Visit_str ''router'')),
     (''region'', Scalar (Visit_str ''EA'')), (''future-field'', Scalar (Visit_bool True))]"

definition fixture_formats :: formats where
  "fixture_formats =
     (let v4 = map_of
            [(''0.0.0.0'', Ipv4Addr 0 0 0 0), (''192.0.2.1'', Ipv4Addr 192 0 2 1),
            (''192.0.2.10'', Ipv4Addr 192 0 2 10), (''192.0.2.11'', Ipv4Addr 192 0 2 11),
            (''192.0.2.12'', Ipv4Addr 192 0 2 12), (''192.0.2.2'', Ipv4Addr 192 0 2 2),
            (''192.0.2.20'', Ipv4Addr 192 0 2 20), (''192.0.2.254'', Ipv4Addr 192 0 2 254),
            (''192.0.2.30'', Ipv4Addr 192 0 2 30), (''192.0.2.40'', Ipv4Addr 192 0 2 40),
            (''192.0.2.53'', Ipv4Addr 192 0 2 53), (''192.0.2.62'', Ipv4Addr 192 0 2 62),
            (''198.51.100.10'', Ipv4Addr 198 51 100 10)];
          v6 = map_of
            [(''2001:db8:1::1'', Ipv6Addr 0x2001 0xdb8 0x1 0 0 0 0 0x1),
            (''2001:db8::10'', Ipv6Addr 0x2001 0xdb8 0 0 0 0 0 0x10),
            (''2001:db8::53'', Ipv6Addr 0x2001 0xdb8 0 0 0 0 0 0x53), (''::'', Ipv6Addr 0 0 0 0 0 0 0 0)]
      in \<lparr>parse_ip = (\<lambda>s. case v4 s of Some a \<Rightarrow> Some (V4 a) | None \<Rightarrow> map_option V6 (v6 s)),
        parse_ipv4 = v4, parse_ipv6 = v6,
        parse_ipv4net = map_of
            [(''0.0.0.0/0'', (Ipv4Addr 0 0 0 0, 0)), (''192.0.2.0/24'', (Ipv4Addr 192 0 2 0, 24)),
            (''198.51.100.0/24'', (Ipv4Addr 198 51 100 0, 24))],
        parse_ipv6net = map_of
            [(''2001:db8:1::/64'', (Ipv6Addr 0x2001 0xdb8 0x1 0 0 0 0 0, 64)), (''::/0'',
            (Ipv6Addr 0 0 0 0 0 0 0 0, 0))],
        key_event = (\<lambda>s. case parse_u64 s of Some n \<Rightarrow> Visit_u64 n | None \<Rightarrow> Visit_str s)\<rparr>)"

section \<open>The tests\<close>

text \<open>\<open>deserializes_verified_fixtures\<close>; the four responses of the client index are read in the last test.\<close>

lemma deserializes_version_fixture:
  "is_ok (de_struct Version_fields 13 Version_visit_map show_version_json)"
  by code_simp

lemma deserializes_system_fixture:
  "is_ok (de_struct System_fields 8 System_visit_map show_system_json)"
  by code_simp

lemma deserializes_internet_status_fixture:
  "is_ok (de_struct InternetStatus_fields 7
       (InternetStatus_visit_map (de_text (map_of [(''Thu Jan  1 00:00:00 2026'', 1767225600 :: nat)])))
       show_internet_status_json)"
  by code_simp

lemma deserializes_interfaces_fixture:
  "is_ok (Interfaces_deserialize show_interfaces_json)"
  by code_simp

lemma deserializes_interface_fixture:
  "is_ok (de_struct [''show''] 1 (ShowInterfaceReply_visit_map (de_struct Interface_fields 11 Interface_visit_map))
       show_interface_json)"
  by code_simp

lemma deserializes_interface_stat_fixture:
  "is_ok (de_struct InterfaceStat_fields 14 InterfaceStat_visit_map show_interface_stat_json)"
  by code_simp

lemma deserializes_identification_fixture:
  "is_ok (de_struct Identification_fields 5 Identification_visit_map show_identification_json)"
  by code_simp

lemma deserializes_system_mode_fixture:
  "is_ok (de_struct SystemModeStatus_fields 5 SystemModeStatus_visit_map show_system_mode_json)"
  by code_simp

lemma deserializes_route_fixture:
  "is_ok (IpRoutes_deserialize fixture_formats show_ip_route_json)"
  by code_simp

lemma deserializes_route6_fixture:
  "is_ok (de_struct [''route6''] 0 (Ipv6Routes_visit_map fixture_formats) show_ipv6_route_json)"
  by code_simp

lemma deserializes_ping_check_fixture:
  "is_ok (de_struct [''pingcheck''] 0 (PingCheckProfiles_visit_map fixture_formats) show_ping_check_json)"
  by code_simp

lemma deserializes_name_server_fixture:
  "is_ok (de_struct [''server''] 0 (IpNameServers_visit_map fixture_formats) show_ip_name_server_json)"
  by code_simp

lemma deserializes_ntp_fixture:
  "is_ok (de_struct NtpStatus_fields 6 (NtpStatus_visit_map fixture_formats) show_ntp_status_json)"
  by code_simp

lemma deserializes_mws_status_fixture:
  "is_ok (de_struct MwsStatus_fields 2 MwsStatus_visit_map show_mws_status_json)"
  by code_simp

lemma deserializes_mws_member_fixture:
  "is_ok (MwsMembers_deserialize fixture_formats show_mws_member_json)"
  by code_simp

lemma deserializes_usb_fixture:
  "is_ok (de_struct [''device''] 0 UsbDevices_visit_map show_usb_json)"
  by code_simp

lemma deserializes_media_fixture:
  "is_ok (MediaInventory_deserialize show_media_json)"
  by code_simp

lemma deserializes_disconnected_lte_fixture:
  "is_ok (de_struct [''show''] 1 (show_lte_interface fixture_formats) show_lte_interface_disconnected_json)"
  by code_simp

text \<open>\<open>lte_response_rejects_a_non_mobile_interface\<close>\<close>

lemma lte_response_rejects_a_non_mobile_interface:
  "\<not> is_ok (de_struct [''show''] 1 (show_lte_interface fixture_formats) show_interface_json)"
  by code_simp

text \<open>\<open>deserializes_active_and_disconnected_lte_fixtures\<close>: the level \<open>-79.0\<close> dBm and \<open>42.0\<close> degrees as
  the bits of their \<open>f32\<close>.\<close>

lemma deserializes_active_lte_fixture:
  "map_res (\<lambda>reply. let m = reply_interface reply; s = mi_status m in
       (InterfaceId_as_str (if_interface_name (mi_interface m)),
        map_option Dbm_get (msg_rsrp (ms_signal s)), map_option Celsius_get (ms_modem_temperature s),
        cc_band (ms_primary_carrier s), sc_enb_id (ms_cell s), sc_sector_id (ms_cell s)))
     (de_struct [''show''] 1 (show_lte_interface fixture_formats) show_lte_interface_json)
   = Inr (''UsbLte1'', Some 0xC29E0000, Some 0x42280000, Some (RadioBand_Number 7), Some 100001, Some 1)"
  by code_simp

text \<open>\<open>joins_union_without_losing_multiple_records\<close>\<close>

definition fixture_index :: "ClientIndex decoded" where
  "fixture_index =
     map_res (\<lambda>(associations, hotspot, arp, dhcp). ClientIndex_new associations hotspot arp dhcp)
       (bind_res (de_struct [''station''] 1 Associations_visit_map show_associations_json) (\<lambda>associations.
        bind_res (de_struct [''host''] 1 (IpHotspotHosts_visit_map fixture_formats) show_ip_hotspot_json) (\<lambda>hotspot.
        bind_res (IpArp_deserialize fixture_formats show_ip_arp_json) (\<lambda>arp.
        map_res (\<lambda>dhcp. (associations, hotspot, arp, dhcp))
          (de_struct [''lease''] 1 (IpDhcpBindings_visit_map fixture_formats) show_ip_dhcp_bindings_json)))))"

lemma joins_union_without_losing_multiple_records:
  "map_res (\<lambda>index. (ClientIndex_len index,
       map_option (\<lambda>c. (activity c, length (cl_arp c), length (cl_dhcp c),
           List.member (ipv4_addresses c) (Ipv4Addr 192 0 2 11), length (interface_ids c)))
         (ClientIndex_get index (MacAddress [2, 0x11, 0x22, 0x33, 0x44, 0x55])),
       map_option activity (ClientIndex_get index (MacAddress [2, 0xDE, 0xAD, 0xBE, 0xEF, 0])),
       map_option activity (ClientIndex_get index (MacAddress [2, 0, 0, 0, 0, 0x40])))) fixture_index
   = Inr (6, Some (Active, 2, 2, True, 5), Some Inactive, Some Unknown)"
  by code_simp

end
