(* ===== verification/Test_Vectors.thy ===== *)
theory Test_Vectors
  imports Api Mobile "HOL-Library.Code_Target_Numeral"
begin

text \<open>
  The unit tests of the repository, run on the model: each lemma is named after the test function
  whose assertions it states and is proved by evaluation. They check the definitions against the
  values the authors of the code expect of it.
\<close>

text \<open>\<open>src/src/path.rs\<close>; the percent coding is the reference implementation of \<open>Path\<close>.\<close>

lemma canonicalizes_safe_percent_encoding:
  "map_res RciPath_as_str (RciPath_from_str rfc_decode rfc_encode ''show/%69nterface-name'') = Inr ''show/interface-name''"
  by code_simp

lemma rejects_ambiguous_paths:
  "list_all (\<lambda>p. \<not> is_ok (RciPath_from_str rfc_decode rfc_encode p))
     [[], ''/show'', ''show//version'', ''show/.'', ''show/..'', ''show/%2e'', ''show/%2E%2e'', ''show/%2fversion'',
      ''show/%5Cversion'', ''show/%00version'', ''show/%'', ''show/%2'', ''show/%2g'', ''show/%g2'', ''show/%20%'',
      ''show/%ff'', ''show'' @ [CHR 0x5C] @ ''version'', ''show?x=1'', ''show#x'', ''http://router/rci/show'',
      ''rci/show/version'', ''r%63i/show/version'']"
  by code_simp

text \<open>\<open>src/src/model/imei.rs\<close>, \<open>iccid.rs\<close>, \<open>plmn.rs\<close>, \<open>hardware_id.rs\<close>, \<open>version.rs\<close>\<close>

lemma imei_rejects_invalid_length_digit_and_checksum:
  "map_res Imei_as_str (Imei_from_str ''000000000000000'') = Inr ''000000000000000''"
  "Imei_from_str ''49015420323751'' = Inl (ImeiInvalidLength 14)"
  "Imei_from_str ''49015420323751x'' = Inl (ImeiInvalidDigit 14)"
  "Imei_from_str ''490154203237519'' = Inl ImeiInvalidChecksum"
  by code_simp+

lemma iccid_rejects_invalid_length_and_non_ascii_digits:
  "Iccid_from_str ''890100000000000001'' = Inl (IccidInvalidLength 18)"
  "Iccid_from_str ''8901000000000000000x'' = Inl (IccidInvalidDigit 19)"
  by code_simp+

lemma plmn_parses_both_mnc_lengths:
  "map_res (\<lambda>p. (Plmn_mcc p, Plmn_mnc p)) (Plmn_from_str ''00101'') = Inr (''001'', ''01'')"
  "map_res (\<lambda>p. (Plmn_mcc p, Plmn_mnc p)) (Plmn_from_str ''001001'') = Inr (''001'', ''001'')"
  by code_simp+

lemma plmn_rejects_invalid_length_and_non_ascii_digits:
  "Plmn_from_str ''2501'' = Inl (PlmnInvalidLength 4)"
  "Plmn_from_str ''2501234'' = Inl (PlmnInvalidLength 7)"
  "Plmn_from_str ''250x1'' = Inl (PlmnInvalidDigit 3)"
  "Plmn_from_str (''25'' @ [CHR 0xC3, CHR 0xA9] @ ''1'') = Inl (PlmnInvalidDigit 2)"
  by code_simp+

lemma hardware_id_rejects_values_outside_the_current_format:
  "HardwareId_from_str ''KN-381'' = Inl (Err (HwIdInvalidLength 6))"
  "HardwareId_from_str ''KN_3811'' = Inl (Err HwIdInvalidSeparator)"
  "\<not> is_ok (HardwareId_from_str ''ZY-3811'')"
  "\<not> is_ok (HardwareId_from_str ''NC-18x2'')"
  "map_res HardwareId_display (HardwareId_from_str ''NC-0012'') = Inr ''NC-0012''"
  by code_simp+

lemma version_rejects_malformed_fixed_size_values:
  "is_ok (HardwareVersion_from_str ''10388000'')" "is_ok (RegionCode_from_str ''EA'')"
  "HardwareVersion_from_str ''1038800'' = Inl (HardwareVersionInvalidLength 7)"
  "HardwareVersion_from_str ''10388x00'' = Inl (HardwareVersionInvalidDigit 5)"
  "RegionCode_from_str ''EAA'' = Inl (RegionCodeInvalidLength 3)"
  "RegionCode_from_str ''Ea'' = Inl (RegionCodeInvalidCharacter 1)"
  by code_simp+

text \<open>\<open>src/src/model/network.rs\<close>\<close>

lemma parses_and_normalizes_mac_addresses:
  "MacAddress_from_str ''AA:BB:0C:0D:EE:FF'' = MacAddress_from_str ''aa:bb:0c:0d:ee:ff''"
  "map_res MacAddress_display (MacAddress_from_str ''AA:BB:0C:0D:EE:FF'') = Inr ''aa:bb:0c:0d:ee:ff''"
  "\<not> is_ok (MacAddress_from_str ''aa-bb-cc-dd-ee-ff'')"
  by code_simp+

lemma validates_interface_identifiers:
  "is_ok (InterfaceId_try_from ''Bridge0'')" "\<not> is_ok (InterfaceId_try_from [])"
  "\<not> is_ok (InterfaceId_try_from (''Bridge'' @ [CHR 0x0A] @ ''0''))"
  by code_simp+

lemma rejects_values_out_of_range:
  "map_option SpatialStreams_get (SpatialStreams_new 1) = Some 1" "SpatialStreams_new 0 = None"
  "is_ok (CpuLoad_new 100)" "\<not> is_ok (CpuLoad_new 101)" "is_ok (Mtu_new Mtu_MIN)" "\<not> is_ok (Mtu_new (Mtu_MIN - 1))"
  by code_simp+

lemma uptime_accepts_both_wire_forms:
  "Uptime_visit (Visit_u64 3723) = Uptime_visit (Visit_str ''0 days, 01:02:03'')"
  "Uptime_visit (Visit_u64 3723) = Uptime_visit (Visit_str ''3723'')"
  "map_res Uptime_get (Uptime_visit (Visit_u64 3723)) = Inr (3723 * 10 ^ 9)"
  "map_res Uptime_get (Uptime_visit (Visit_str ''1 day, 01:02:03'')) = Inr (90123 * 10 ^ 9)"
  "map_res Uptime_serialize (Uptime_visit (Visit_str ''3723'')) = Inr (Visit_u64 3723)"
  by code_simp+

lemma rates_normalize_and_check_overflow:
  "map_res bits_per_second (from_megabits_per_second 150) = Inr 150000000"
  "\<not> is_ok (from_megabits_per_second (- 1))"
  by code_simp+

lemma lease_expiry_accepts_seconds_and_infinity:
  "LeaseExpiration_visit (Visit_u64 60) = Inr (Finite (60 * 10 ^ 9))"
  "LeaseExpiration_visit (Visit_str ''infinity'') = Inr Infinite"
  "LeaseExpiration_serialize (Finite (60 * 10 ^ 9)) = Visit_u64 60"
  "LeaseExpiration_serialize Infinite = Visit_str ''infinity''"
  by code_simp+

lemma decimal_values_reject_invalid_input:
  "parse_decimal_duration ''1.25'' = Inr 1250000000"
  "\<not> is_ok (parse_decimal_duration ''1.1234567890'')" "\<not> is_ok (parse_decimal_duration ''-1'')"
  by code_simp+

text \<open>\<open>src/src/model/mobile.rs\<close>\<close>

definition numeric_key_formats :: formats where
  "numeric_key_formats =
     \<lparr>parse_ip = (\<lambda>_. None), parse_ipv4 = (\<lambda>_. None), parse_ipv6 = (\<lambda>_. None),
      parse_ipv4net = (\<lambda>_. None), parse_ipv6net = (\<lambda>_. None),
      key_event = (\<lambda>s. case parse_u64 s of Some n \<Rightarrow> Visit_u64 n | None \<Rightarrow> Visit_str s)\<rparr>"

lemma component_carrier_ids_parse_as_ordered_positive_numbers:
  "map_res (\<lambda>s. map (ComponentCarrierId_get \<circ> fst) (ms_reported_carriers s)) (MobileStatus_visit_map numeric_key_formats
     [(''carrier'', Wire_map
        [(''10'', Wire_map [(''band'', Scalar (Visit_str ''10''))]), (''2'', Wire_map [(''band'', Scalar (Visit_str ''2''))]),
         (''1'', Wire_map [(''band'', Scalar (Visit_str ''1''))])])]) = Inr [1, 2, 10]"
  "\<not> is_ok (MobileStatus_visit_map numeric_key_formats [(''carrier'', Wire_map [(''0'', Wire_map [])])])"
  by code_simp+

lemma cell_identifiers_parse_as_numbers:
  "map_res (\<lambda>s. (sc_enb_id (ms_cell s), sc_sector_id (ms_cell s), sc_tac (ms_cell s), cc_physical_cell_id (ms_primary_carrier s)))
     (MobileStatus_visit_map numeric_key_formats
       [(''enb-id'', Scalar (Visit_str ''100001'')), (''sector-id'', Scalar (Visit_str ''1'')),
        (''tac'', Scalar (Visit_str ''20001'')), (''phy-cell-id'', Scalar (Visit_str ''101''))])
   = Inr (Some 100001, Some 1, Some 20001, Some 101)"
  by code_simp

lemma cell_identifiers_reject_malformed_and_oversized_numbers:
  "list_all (\<lambda>(name, value). \<not> is_ok (MobileStatus_visit_map numeric_key_formats [(name, Scalar (Visit_str value))]))
     [(''tac'', ''4294967296''), (''enb-id'', ''4294967296''), (''sector-id'', ''65536''), (''phy-cell-id'', ''65536''),
      (''tac'', ''not-a-number'')]"
  "map_res (\<lambda>s. (sc_enb_id (ms_cell s), sc_sector_id (ms_cell s), sc_tac (ms_cell s), cc_physical_cell_id (ms_primary_carrier s)))
     (MobileStatus_visit_map numeric_key_formats
       [(''enb-id'', Scalar (Visit_str [])), (''sector-id'', Scalar (Visit_str [])), (''tac'', Scalar (Visit_str [])),
        (''phy-cell-id'', Scalar (Visit_str []))])
   = Inr (None, None, None, None)"
  by code_simp+

lemma component_carrier_detects_only_shared_identity_conflicts:
  "map_res (\<lambda>p. list_all (\<lambda>(conflict, es). map_res (has_radio_identity_conflict p) (ComponentCarrier_visit_map es) = Inr conflict)
     [(False, [(''band'', Scalar (Visit_str ''7'')), (''earfcn'', Scalar (Visit_u64 3048)), (''phy-cell-id'', Scalar (Visit_str ''56''))]),
      (False, [(''band'', Scalar (Visit_str ''7''))]),
      (True, [(''band'', Scalar (Visit_str ''3'')), (''earfcn'', Scalar (Visit_u64 3048)), (''phy-cell-id'', Scalar (Visit_str ''56''))]),
      (True, [(''band'', Scalar (Visit_str ''7'')), (''earfcn'', Scalar (Visit_u64 3050)), (''phy-cell-id'', Scalar (Visit_str ''56''))]),
      (True, [(''band'', Scalar (Visit_str ''7'')), (''earfcn'', Scalar (Visit_u64 3048)), (''phy-cell-id'', Scalar (Visit_str ''57''))])])
     (ComponentCarrier_visit_map
       [(''band'', Scalar (Visit_str ''7'')), (''earfcn'', Scalar (Visit_u64 3048)), (''phy-cell-id'', Scalar (Visit_str ''56''))])
   = Inr True"
  by code_simp

lemma calculates_eutran_cell_identity:
  "ServingCell_eci \<lparr>sc_plmn = None, sc_enb_id = Some 780614, sc_sector_id = Some 101, sc_tac = None\<rparr> = Some 199837285"
  "ServingCell_eci \<lparr>sc_plmn = None, sc_enb_id = Some 780614, sc_sector_id = None, sc_tac = None\<rparr> = None"
  "ServingCell_eci \<lparr>sc_plmn = None, sc_enb_id = Some 780614, sc_sector_id = Some 256, sc_tac = None\<rparr> = None"
  "ServingCell_eci \<lparr>sc_plmn = None, sc_enb_id = Some 0x00100000, sc_sector_id = Some 101, sc_tac = None\<rparr> = None"
  by code_simp+

text \<open>\<open>src/src/client.rs\<close> and \<open>src/src/cli.rs\<close>\<close>

lemma rci_prefilter_detects_literal_and_potentially_escaped_errors:
  "needs_rci_inspection memchr_ref memmem_ref
     (''{'' @ q @ ''status'' @ q @ '':[{'' @ q @ ''status'' @ q @ '':'' @ q @ ''error'' @ q @ ''}]}'')"
  "needs_rci_inspection memchr_ref memmem_ref
     (''{'' @ q @ ''sta'' @ b @ ''u0074us'' @ q @ '':[{'' @ q @ ''status'' @ q @ '':'' @ q @ b @ ''u0065rror'' @ q @ ''}]}'')"
  "\<not> needs_rci_inspection memchr_ref memmem_ref (''{'' @ q @ ''result'' @ q @ '':'' @ q @ ''error'' @ q @ ''}'')"
  "\<not> needs_rci_inspection memchr_ref memmem_ref
     (''{'' @ q @ ''message'' @ q @ '':'' @ q @ ''no error was reported'' @ q @ ''}'')"
  "\<not> needs_rci_inspection memchr_ref memmem_ref
     (''{'' @ q @ ''revision'' @ q @ '':'' @ q @ ''first'' @ b @ ''r'' @ b @ ''nsecond'' @ q @ '','' @ q @ ''status'' @ q
        @ '':'' @ q @ ''message'' @ q @ ''}'')"
  "\<not> needs_rci_inspection memchr_ref memmem_ref (''{'' @ q @ ''status'' @ q @ '':'' @ q @ ''errorish'' @ q @ ''}'')"
  if "q = [CHR 0x22]" "b = [CHR 0x5C]"
  unfolding that by code_simp+

lemma command_rejects_empty_and_multiline_input:
  "CliCommand_try_from [] = Inl CliEmpty" "CliCommand_try_from ''   '' = Inl CliEmpty"
  "CliCommand_try_from (''show version'' @ [CHR 0x0A] @ ''system reboot'') = Inl CliControlCharacter"
  "is_ok (CliCommand_try_from ''interface UsbLte1 tty send AT+GTCAINFO?'')"
  by code_simp+

lemma reply_exposes_console_output:
  "tty_output (CliReply (Object [(''tty-out'', Array [String ''PCC: 103,489,1275'', String ''OK'', Number n]),
      (''prompt'', String ''(config)''), (''future-field'', Object [(''nested'', Bool True)])]))
   = [''PCC: 103,489,1275'', ''OK'']"
  "prompt (CliReply (Object [(''tty-out'', Array []), (''prompt'', String ''(config)'')])) = Some ''(config)''"
  by code_simp+

end
