(* ===== verification/Spec2Isabelle.thy ===== *)
theory Spec2Isabelle
  imports String_Identifiers Path Sequential Secrecy Network_Values Test_Runs Serialized Messages Conversions
    Liveness Flows Responses Fixtures Test_Vectors
begin

text \<open>
  A model of \<open>keenetic-rci\<close>, an asynchronous client for the HTTP API (RCI) of Keenetic routers, and
  the theorems that make it correct. The crate turns a typed request into an HTTP request, logs in
  by challenge and response when the router asks for it, checks the JSON reply for errors the
  router reports inside a successful response, and reads it into typed records whose fields are
  validated. The library follows that order; every definition carries the name of the function or
  type it models.

  \<^bold>\<open>Values.\<close>
  \<^item> \<open>Prelude\<close>, \<open>Utf8\<close>, \<open>Serde\<close>: machine integers, results, strings as UTF-8 bytes, the calls a
    deserializer makes on a visitor.
  \<^item> \<open>Text_Value\<close> (\<open>model/text.rs\<close>), \<open>Reported\<close> (\<open>model/reported.rs\<close>), \<open>Identifiers\<close> (\<open>imei.rs\<close>,
    \<open>iccid.rs\<close>, \<open>imsi.rs\<close>, \<open>plmn.rs\<close>, \<open>hardware_id.rs\<close>, parts of \<open>version.rs\<close>), \<open>String_Identifiers\<close> (the
    macro \<open>string_identifier\<close> of \<open>model.rs\<close>), \<open>Network_Values\<close> (\<open>model/network.rs\<close>), \<open>Open_Enums\<close> (the
    macro \<open>open_string_enum\<close> and its 25 classifiers), \<open>Units\<close> (\<open>model/units.rs\<close> and the \<open>f32\<close> visitor):
    parsers, printers and visitors of each value type, shown to meet the contracts \<open>wire_value\<close>,
    \<open>string_value\<close> or \<open>open_enum\<close>: what parses is valid, what is valid is read back, nothing the router
    said is lost. \<open>Serialized\<close> has their serializers and the round trip, \<open>Conversions\<close> the constructors,
    conversions and accessors around them.
  \<^item> \<open>Path\<close> (\<open>path.rs\<close>): relative paths are checked and brought to canonical form, so that a path
    cannot leave its namespace.

  \<^bold>\<open>Responses.\<close>
  \<^item> \<open>Wire\<close>, \<open>Wire_Types\<close>: trees of JSON values and the field semantics the derived deserializers
    have, from an object by name and from an array by position; the contract \<open>entry_decoder\<close>.
  \<^item> \<open>Interfaces\<close> (\<open>model.rs\<close>, \<open>system.rs\<close>), \<open>Mobile\<close> (\<open>mobile.rs\<close>), \<open>Stations\<close> (\<open>wifi.rs\<close>, \<open>ip.rs\<close>,
    \<open>hotspot.rs\<close>), \<open>Inventory\<close> (\<open>system.rs\<close>, \<open>system_mode.rs\<close>, \<open>version.rs\<close>, \<open>identification.rs\<close>,
    \<open>interface_stat.rs\<close>, \<open>storage.rs\<close>), \<open>Topology\<close> (\<open>routing.rs\<close>, \<open>connectivity.rs\<close>, \<open>mesh.rs\<close>): one record
    per struct, the entries it names and the function that reads it.
  \<^item> \<open>Clients\<close> (\<open>clients.rs\<close>): the index that joins four responses by MAC address, refined from the
    contract \<open>ordered_map\<close>.
  \<^item> \<open>Collections\<close>: what a caller sees of the maps of a response, from the contract \<open>keyed_collection\<close>.
  \<^item> \<open>Wellformed\<close>: rules, one per combinator and leaf type, from which the invariant of every struct
    follows. \<open>Responses\<close>: the contract of every struct, the entries it requires, those it can do
    without, and that it reads no other.

  \<^bold>\<open>The client.\<close>
  \<^item> \<open>Errors\<close> (\<open>error.rs\<close>), \<open>Auth\<close> (\<open>auth.rs\<close>), \<open>Config\<close> (the builder in \<open>client.rs\<close>).
  \<^item> \<open>Json\<close>: the byte-level prefilter, the collection of RCI errors and \<open>decode_json_response\<close>.
  \<^item> \<open>Client\<close>: sending, the login, one call of \<open>send_authenticated\<close> as a refinement of the protocol
    \<open>request_dialogue\<close>. \<open>Single_Flight\<close>: the same login run by any number of tasks, as a step relation
    over the shared generation counter and mutex, with cancellation. \<open>Liveness\<close>: every such run ends,
    each task after at most six steps. \<open>Sequential\<close>: the first model
    refines the second. \<open>Secrecy\<close>: two clients that differ in the password, run side by side.
  \<^item> \<open>Network_Test\<close> (\<open>request/network_test.rs\<close>): the builders of ping, traceroute and iPerf3 requests,
    the requests they can produce, and their JSON. \<open>Network_Session\<close>: polling a running test. \<open>Test_Runs\<close>: a test
    from its request to its output.
  \<^item> \<open>Api\<close> (\<open>request.rs\<close>, \<open>cli.rs\<close>, the methods of \<open>KeeneticClient\<close>): from a typed request to the wire.
    \<open>Calls\<close>: from the wire to a typed response, and what an error means. \<open>Flows\<close>: the outcome of an
    answered call is determined, and calls in sequence: listed interfaces and the calls about one of
    them. \<open>Messages\<close>: what every error
    prints, its source, and what it keeps to itself.
  \<^item> \<open>Fixtures\<close>, \<open>Test_Vectors\<close>: the recorded responses of \<open>src/tests/fixtures\<close> and the unit tests of the
    crate, run on the definitions above.

  \<^bold>\<open>What the theorems show.\<close> Safety of the protocol: a call reports an RCI error exactly when
  its response contains one, however it is escaped; nothing is retried blindly; credentials go to \<open>/auth\<close> only, and
  nothing else depends on the password but through the router's answers; errors print no
  content of a response but the JSON path of a data error; there
  is one login at a time; a task that waited uses the latest login, which had not been published when
  the task loaded the generation, before its request (\<open>waiting_task_gets_fresh_result\<close>: as a rule it
  completed after that load, but it may be the one that had just completed); and all calls come to an
  end (\<open>every_call_ends\<close>); neither \<open>expect\<close> of the login can fire. Exactness of the values: parsers accept what their
  specification says (Luhn sums, MAC addresses, uptimes, decimal durations, cell identities,
  readings rounded to the nearest \<open>f32\<close>) without wrapping or panicking. End to end: \<open>execute_exact\<close> and
  \<open>responses_wellformed\<close> say what a caller of \<open>execute\<close> gets, \<open>json_errors_explained\<close> what an error
  tells.

  \<^bold>\<open>What is assumed.\<close> Code outside the repository is a parameter. The record \<open>deps\<close> holds the HTTP
  transport, URL, cookie, header and digest functions; nothing is assumed of them, and the tasks of
  \<open>Single_Flight\<close> let the environment choose every outcome; \<open>Secrecy\<close> compares runs in which the router
  answers two login bodies alike (\<open>answers_alike\<close>). \<open>byte_search\<close> is the documentation of
  \<open>memchr\<close>, \<open>json_text\<close> and \<open>json_reader\<close> that of \<open>serde_json\<close> (the strings of a value come from string
  tokens of its text; a typed read decodes the tree of the text, and \<open>strict_reader\<close>: it fails with a data
  error when the type refuses the tree), \<open>percent_codec\<close> that of
  \<open>percent_encoding\<close>, \<open>ip_text\<close> that of \<open>std::net::IpAddr\<close>; each is interpreted on a reference
  implementation. The text forms of IP addresses, of networks (\<open>ipnet\<close>) and of dates (\<open>time\<close>), and what
  \<open>serde_json\<close> makes of a map key read as a number, are functions without hypotheses.

  \<^bold>\<open>Bounds and loops.\<close> Integers keep their width. \<open>Duration\<close> is a natural number of nanoseconds; that
  every duration a response carries fits is part of \<open>responses_wellformed\<close>. The scan for quotes in
  \<open>contains_json_string\<close> has fuel, the length of the body plus one, which is enough because every
  round consumes a byte (\<open>quote_scan_fuel_complete\<close>). \<open>next_chunk\<close> and \<open>collect\<close> poll until the router
  ends the test, which it need not do: they are partial functions, and \<open>collect_terminates\<close> states
  when they return.

  \<^bold>\<open>Not modelled.\<close> Which of several errors of one response is reported and its JSON path; the texts
  \<open>serde\<close> makes of a failed visitor (\<open>expecting\<close>); the grammars of other crates named above; sending itself,
  TLS, redirects and timeouts (\<open>reqwest\<close>); \<open>Hash\<close> and the derived \<open>Debug\<close> of the response records;
  re-exports, benches and the tests that need a server.
\<close>

end
